(* ===== verification/Ship_Prelude.thy ===== *)
theory Ship_Prelude
  imports Main "HOL-Library.Word" "HOL-Library.Char_ord" "HOL-Library.List_Lexorder"
    "HOL-Library.Code_Target_Numeral"
begin

text \<open>
  Shared vocabulary of the development.

  \<^item> Go's \<open>string\<close> and \<open>[]byte\<close> are byte sequences, so both are HOL \<open>string\<close>
    (a \<open>char\<close> is one byte); \<open><\<close> and \<open>\<le>\<close> on them are Go's bytewise lexicographic
    comparison (HOL-Library.List_Lexorder over HOL-Library.Char_ord).
  \<^item> \<open>uint64\<close> is a 64-bit word. \<open>time.Duration\<close> is the signed reading of such a word, in
    nanoseconds, kept as \<open>int\<close>; where the code's arithmetic can wrap, the wrap is written out.
  \<^item> The functions of Go's \<open>strings\<close> and \<open>bytes\<close> packages that the repository calls.
  \<^item> The epoch counter idiom (\<open>n++; if n == 0 \{ n++ \}\<close>) that five counters share.
  \<^item> The interface of a serialised work queue with one drain owner, the idiom of
    \<open>enqueuePairingEffect\<close>, \<open>enqueueSpineDispatchLocked\<close>,
    \<open>enqueuePairingDetailLocked\<close> and \<open>enqueueMdnsSnapshot\<close>.
\<close>

section \<open>Types and collections of facts\<close>

type_synonym bytes = string
type_synonym uint64 = "64 word"
type_synonym duration = int

named_theorems frame_simps \<open>fields an operation leaves unchanged\<close>
named_theorems inv_rules \<open>operations that keep a component invariant\<close>

section \<open>Go's strings and bytes\<close>

definition byteVal :: "char \<Rightarrow> nat" where
  "byteVal c = of_char c"

definition hasPrefix :: "bytes \<Rightarrow> bytes \<Rightarrow> bool" where
  "hasPrefix s p = (take (length p) s = p)"

definition hasSuffix :: "bytes \<Rightarrow> bytes \<Rightarrow> bool" where
  "hasSuffix s p = (length p \<le> length s \<and> drop (length s - length p) s = p)"

definition trimPrefix :: "bytes \<Rightarrow> bytes \<Rightarrow> bytes" where
  "trimPrefix s p = (if hasPrefix s p then drop (length p) s else s)"

definition trimSuffix :: "bytes \<Rightarrow> bytes \<Rightarrow> bytes" where
  "trimSuffix s p = (if hasSuffix s p then take (length s - length p) s else s)"

fun containsBytes :: "bytes \<Rightarrow> bytes \<Rightarrow> bool" where
  "containsBytes [] p = (p = [])"
| "containsBytes (c # cs) p = (hasPrefix (c # cs) p \<or> containsBytes cs p)"

text \<open>\<open>ReplaceAll\<close> for a non-empty pattern: leftmost, non-overlapping occurrences. The first
  argument counts the bytes of a match still to be skipped.\<close>

fun replaceFrom :: "nat \<Rightarrow> bytes \<Rightarrow> bytes \<Rightarrow> bytes \<Rightarrow> bytes" where
  "replaceFrom n old new [] = []"
| "replaceFrom (Suc n) old new (c # cs) = replaceFrom n old new cs"
| "replaceFrom 0 old new (c # cs) =
     (if hasPrefix (c # cs) old then new @ replaceFrom (length old - 1) old new cs
      else c # replaceFrom 0 old new cs)"

definition replaceAll :: "bytes \<Rightarrow> bytes \<Rightarrow> bytes \<Rightarrow> bytes" where
  "replaceAll s old new = replaceFrom 0 old new s"

definition asciiLower :: "char \<Rightarrow> char" where
  "asciiLower c = (let n = byteVal c in if 65 \<le> n \<and> n \<le> 90 then char_of (n + 32) else c)"

lemma containsBytes_iff: "containsBytes s p \<longleftrightarrow> (\<exists>u v. s = u @ p @ v)"
proof (induction s)
  case Nil
  show ?case by auto
next
  case (Cons c cs)
  show ?case
  proof
    assume "containsBytes (c # cs) p"
    then consider "hasPrefix (c # cs) p" | "containsBytes cs p" by auto
    then show "\<exists>u v. c # cs = u @ p @ v"
    proof cases
      case 1
      then have "c # cs = [] @ p @ drop (length p) (c # cs)"
        unfolding hasPrefix_def by (metis append_Nil append_take_drop_id)
      then show ?thesis by blast
    next
      case 2
      with Cons.IH obtain u v where "cs = u @ p @ v" by blast
      then have "c # cs = (c # u) @ p @ v" by simp
      then show ?thesis by blast
    qed
  next
    assume "\<exists>u v. c # cs = u @ p @ v"
    then obtain u v where eq: "c # cs = u @ p @ v" by blast
    show "containsBytes (c # cs) p"
    proof (cases u)
      case Nil
      with eq have "hasPrefix (c # cs) p" by (simp add: hasPrefix_def)
      then show ?thesis by simp
    next
      case (Cons d us)
      with eq have "cs = us @ p @ v" by simp
      then have "containsBytes cs p" using Cons.IH by blast
      then show ?thesis by simp
    qed
  qed
qed


lemma replaceFrom_no_match:
  "\<not> containsBytes s old \<Longrightarrow> replaceFrom 0 old new s = s"
  by (induction s) auto

lemma replaceAll_no_match: "\<not> containsBytes s old \<Longrightarrow> replaceAll s old new = s"
  by (simp add: replaceAll_def replaceFrom_no_match)

lemma asciiLower_idem [simp]: "asciiLower (asciiLower c) = asciiLower c"
proof (cases "65 \<le> byteVal c \<and> byteVal c \<le> 90")
  case True
  define n where "n = byteVal c"
  have "asciiLower c = char_of (n + 32)" using True by (simp add: asciiLower_def n_def)
  moreover have "byteVal (char_of (n + 32) :: char) = n + 32"
    using True by (simp add: byteVal_def n_def of_char_of)
  ultimately show ?thesis using True by (simp add: asciiLower_def n_def)
next
  case False
  then show ?thesis by (auto simp: asciiLower_def Let_def)
qed

lemma asciiLower_neq:
  assumes "\<not> (97 \<le> byteVal d \<and> byteVal d \<le> 122)" "c \<noteq> d"
  shows "asciiLower c \<noteq> d"
proof (cases "65 \<le> byteVal c \<and> byteVal c \<le> 90")
  case True
  define n where "n = byteVal c"
  have "asciiLower c = char_of (n + 32)" using True by (simp add: asciiLower_def n_def)
  moreover have "byteVal (char_of (n + 32) :: char) = n + 32"
    using True by (simp add: byteVal_def n_def of_char_of)
  ultimately have "byteVal (asciiLower c) = n + 32" by simp
  with assms(1) True show ?thesis by (auto simp: n_def)
next
  case False
  with assms(2) show ?thesis by (auto simp: asciiLower_def Let_def)
qed

section \<open>Epoch counters\<close>

text \<open>\<open>counter++; if counter == 0 \{ counter++ \}\<close> on a \<open>uint64\<close>: a wrap skips 0, which
  the code uses as "no epoch".\<close>

definition nextEpoch :: "uint64 \<Rightarrow> uint64" where
  "nextEpoch e = (if e + 1 = 0 then e + 1 + 1 else e + 1)"

lemma nextEpoch_nonzero: "nextEpoch e \<noteq> 0"
  by (auto simp: nextEpoch_def)

lemma nextEpoch_neq: "nextEpoch e \<noteq> e"
proof (cases "e + 1 = 0")
  case True
  then have "nextEpoch e = 1" by (simp add: nextEpoch_def)
  moreover from True have "e \<noteq> 1" by auto
  ultimately show ?thesis by simp
qed (simp add: nextEpoch_def)

lemma nextEpoch_unat: "unat e + 1 < 2 ^ 64 \<Longrightarrow> unat (nextEpoch e) = unat e + 1"
proof -
  assume b: "unat e + 1 < 2 ^ 64"
  then have u: "unat (e + 1) = unat e + 1"
    by (simp add: unat_word_ariths)
  then have "e + 1 \<noteq> 0" by auto
  with u show ?thesis by (simp add: nextEpoch_def)
qed

section \<open>Serialised work queues\<close>

text \<open>
  The repository runs external callbacks through work queues with one drain owner: a caller
  appends its task and becomes the owner exactly when nobody is draining; later callers only
  append. \<open>queue\<close> and \<open>draining\<close> read the two fields, \<open>enqueue\<close> is the locked append, whose
  result says whether the caller has to drain, and \<open>take_task\<close> is one locked turn of the
  drain loop: the next task, or \<open>None\<close> when the loop gives up ownership.
\<close>

locale serial_queue =
  fixes queue :: "'s \<Rightarrow> 'a list"
    and draining :: "'s \<Rightarrow> bool"
    and enqueue :: "'a list \<Rightarrow> 's \<Rightarrow> bool \<times> 's"
    and take_task :: "'s \<Rightarrow> 'a option \<times> 's"
  assumes enq_queue: "queue (snd (enqueue xs s)) = queue s @ xs"
    and enq_draining: "draining (snd (enqueue xs s))"
    and enq_owner: "fst (enqueue xs s) \<longleftrightarrow> \<not> draining s"
    and take_empty: "queue s = [] \<Longrightarrow> fst (take_task s) = None"
    and take_empty_draining: "queue s = [] \<Longrightarrow> \<not> draining (snd (take_task s))"
    and take_empty_queue: "queue s = [] \<Longrightarrow> queue (snd (take_task s)) = []"
    and take_cons: "queue s = x # xs \<Longrightarrow> fst (take_task s) = Some x"
    and take_cons_queue: "queue s = x # xs \<Longrightarrow> queue (snd (take_task s)) = xs"
    and take_cons_draining: "queue s = x # xs \<Longrightarrow> draining (snd (take_task s)) = draining s"
begin

fun enqueue_all :: "'a list list \<Rightarrow> 's \<Rightarrow> bool list \<times> 's" where
  "enqueue_all [] s = ([], s)"
| "enqueue_all (xs # xss) s =
     (let (b, s1) = enqueue xs s; (bs, s2) = enqueue_all xss s1 in (b # bs, s2))"

lemma enqueue_all_queue: "queue (snd (enqueue_all xss s)) = queue s @ concat xss"
  by (induction xss arbitrary: s) (auto simp: enq_queue split_beta)

lemma enqueue_all_no_owner:
  "draining s \<Longrightarrow> fst (enqueue_all xss s) = replicate (length xss) False"
  by (induction xss arbitrary: s) (auto simp: enq_owner enq_draining split_beta)

lemma enqueue_all_one_owner:
  "\<not> draining s \<Longrightarrow> xss \<noteq> [] \<Longrightarrow>
     fst (enqueue_all xss s) = True # replicate (length xss - 1) False"
  by (cases xss) (auto simp: enq_owner enq_draining enqueue_all_no_owner split_beta)

text \<open>The drain loop alone: the tasks come out in the order they went in.\<close>

fun take_n :: "nat \<Rightarrow> 's \<Rightarrow> 'a list \<times> 's" where
  "take_n 0 s = ([], s)"
| "take_n (Suc n) s =
     (case take_task s of
        (None, s') \<Rightarrow> ([], s')
      | (Some x, s') \<Rightarrow> (let (xs, s'') = take_n n s' in (x # xs, s'')))"

lemma take_n_fifo:
  "length (queue s) < n \<Longrightarrow>
     fst (take_n n s) = queue s \<and> queue (snd (take_n n s)) = [] \<and> \<not> draining (snd (take_n n s))"
proof (induction n arbitrary: s)
  case 0
  then show ?case by simp
next
  case (Suc n)
  obtain r s' where t: "take_task s = (r, s')" by fastforce
  show ?case
  proof (cases "queue s")
    case Nil
    then show ?thesis
      using take_empty [OF Nil] take_empty_draining [OF Nil] take_empty_queue [OF Nil] t by simp
  next
    case (Cons x xs)
    then have "r = Some x" "queue s' = xs"
      using take_cons [OF Cons] take_cons_queue [OF Cons] t by simp_all
    moreover from this Suc.prems Cons have "length (queue s') < n" by simp
    ultimately show ?thesis using Suc.IH [of s'] t Cons by (simp add: split_beta)
  qed
qed

end

end
