(* ===== verification/Go_Json.thy ===== *)
theory Go_Json
  imports Ship_Prelude
begin

text \<open>
  What the repository uses of Go's \<open>encoding/json\<close> and \<open>unicode/utf8\<close>: the syntax check and
  value tree of \<open>json.Unmarshal\<close> (a lexer and a pushdown parser, both structural on their
  input, so no fuel is needed), string unquoting with UTF-8 coercion, the rules by which
  struct fields are matched and decoded, and the string quoting of \<open>json.Marshal\<close>.
  An object member keeps the raw text of its value, which is what a \<open>json.RawMessage\<close> field
  receives.
\<close>

section \<open>UTF-8\<close>

definition isCont :: "nat \<Rightarrow> nat \<Rightarrow> char \<Rightarrow> bool" where
  "isCont lo hi c = (lo \<le> byteVal c \<and> byteVal c \<le> hi)"

text \<open>\<open>utf8.DecodeRune\<close> on a non-empty input: the rune and its width; an invalid encoding is
  U+FFFD of width 1.\<close>

definition decodeRune :: "bytes \<Rightarrow> nat \<times> nat" where
  "decodeRune s =
    (case s of
       [] \<Rightarrow> (65533, 0)
     | c0 # r0 \<Rightarrow>
       (let b0 = byteVal c0 in
        if b0 < 128 then (b0, 1)
        else if 194 \<le> b0 \<and> b0 \<le> 223 then
          (case r0 of
             c1 # _ \<Rightarrow> if isCont 128 191 c1 then ((b0 - 192) * 64 + (byteVal c1 - 128), 2) else (65533, 1)
           | [] \<Rightarrow> (65533, 1))
        else if 224 \<le> b0 \<and> b0 \<le> 239 then
          (let lo = (if b0 = 224 then 160 else 128); hi = (if b0 = 237 then 159 else 191) in
           case r0 of
             c1 # c2 # _ \<Rightarrow>
               if isCont lo hi c1 \<and> isCont 128 191 c2
               then ((b0 - 224) * 4096 + (byteVal c1 - 128) * 64 + (byteVal c2 - 128), 3)
               else (65533, 1)
           | _ \<Rightarrow> (65533, 1))
        else if 240 \<le> b0 \<and> b0 \<le> 244 then
          (let lo = (if b0 = 240 then 144 else 128); hi = (if b0 = 244 then 143 else 191) in
           case r0 of
             c1 # c2 # c3 # _ \<Rightarrow>
               if isCont lo hi c1 \<and> isCont 128 191 c2 \<and> isCont 128 191 c3
               then ((b0 - 240) * 262144 + (byteVal c1 - 128) * 4096
                      + (byteVal c2 - 128) * 64 + (byteVal c3 - 128), 4)
               else (65533, 1)
           | _ \<Rightarrow> (65533, 1))
        else (65533, 1)))"

definition encodeRune :: "nat \<Rightarrow> bytes" where
  "encodeRune r =
    (if r < 128 then [char_of r]
     else if r < 2048 then [char_of (192 + r div 64), char_of (128 + r mod 64)]
     else if 55296 \<le> r \<and> r < 57344 \<or> 1114111 < r then [char_of (239::nat), char_of (191::nat), char_of (189::nat)]
     else if r < 65536 then
       [char_of (224 + r div 4096), char_of (128 + (r div 64) mod 64), char_of (128 + r mod 64)]
     else
       [char_of (240 + r div 262144), char_of (128 + (r div 4096) mod 64),
        char_of (128 + (r div 64) mod 64), char_of (128 + r mod 64)])"

definition replacementRune :: bytes where
  "replacementRune = encodeRune 65533"

section \<open>Hexadecimal digits\<close>

definition hexVal :: "char \<Rightarrow> nat option" where
  "hexVal c = (let n = byteVal c in
     if 48 \<le> n \<and> n \<le> 57 then Some (n - 48)
     else if 97 \<le> n \<and> n \<le> 102 then Some (n - 87)
     else if 65 \<le> n \<and> n \<le> 70 then Some (n - 55)
     else None)"

definition hex4 :: "bytes \<Rightarrow> nat option" where
  "hex4 s = (case s of
     a # b # c # d # _ \<Rightarrow>
       (case (hexVal a, hexVal b, hexVal c, hexVal d) of
          (Some x, Some y, Some z, Some w) \<Rightarrow> Some (x * 4096 + y * 256 + z * 16 + w)
        | _ \<Rightarrow> None)
   | _ \<Rightarrow> None)"

section \<open>Lexical syntax\<close>

datatype jtok = TLBrace | TRBrace | TLBrack | TRBrack | TColon | TComma | TLit bytes | TStr bytes

definition isSpaceJ :: "char \<Rightarrow> bool" where
  "isSpaceJ c = (c = CHR '' '' \<or> c = CHR 0x09 \<or> c = CHR 0x0A \<or> c = CHR 0x0D)"

definition isDigit :: "char \<Rightarrow> bool" where
  "isDigit c = (48 \<le> byteVal c \<and> byteVal c \<le> 57)"

definition isLitChar :: "char \<Rightarrow> bool" where
  "isLitChar c = (isDigit c \<or> c = CHR ''-'' \<or> c = CHR ''+'' \<or> c = CHR ''.'' \<or> c = CHR ''E''
     \<or> (97 \<le> byteVal c \<and> byteVal c \<le> 122))"

text \<open>The string scanner, after the opening quote: the raw content and what follows the
  closing quote. Control bytes and unknown escapes are syntax errors.\<close>

fun scanStr :: "bytes \<Rightarrow> (bytes \<times> bytes) option" where
  "scanStr [] = None"
| "scanStr (c # cs) =
    (if c = CHR 0x22 then Some ([], cs)
     else if c = CHR 0x5C then
       (case cs of
          [] \<Rightarrow> None
        | d # ds \<Rightarrow>
          (if d \<in> {CHR ''b'', CHR ''f'', CHR ''n'', CHR ''r'', CHR ''t'', CHR 0x5C, CHR ''/'', CHR 0x22}
           then map_option (\<lambda>(a, r). (c # d # a, r)) (scanStr ds)
           else if d = CHR ''u'' then
             (case ds of
                h1 # h2 # h3 # h4 # es \<Rightarrow>
                  (if hex4 [h1, h2, h3, h4] = None then None
                   else map_option (\<lambda>(a, r). (c # d # h1 # h2 # h3 # h4 # a, r)) (scanStr es))
              | _ \<Rightarrow> None)
           else None))
     else if byteVal c < 32 then None
     else map_option (\<lambda>(a, r). (c # a, r)) (scanStr cs))"

lemma scanStr_shorter: "scanStr s = Some (a, r) \<Longrightarrow> length r < length s"
proof (induction s arbitrary: a r rule: scanStr.induct)
  case 1
  then show ?case by simp
next
  case (2 c cs)
  from "2.prems" "2.IH" show ?case
    by (fastforce split: if_splits list.splits option.splits)
qed

text \<open>A token carries how many bytes of the input were left where it begins and ends.\<close>

definition punct :: "char \<Rightarrow> jtok option" where
  "punct c =
    (if c = CHR ''{'' then Some TLBrace else if c = CHR ''}'' then Some TRBrace
     else if c = CHR ''['' then Some TLBrack else if c = CHR '']'' then Some TRBrack
     else if c = CHR '':'' then Some TColon else if c = CHR '','' then Some TComma else None)"

function lexJ :: "bytes \<Rightarrow> (jtok \<times> nat \<times> nat) list option" where
  "lexJ [] = Some []"
| "lexJ (c # cs) =
    (if isSpaceJ c then lexJ cs
     else case punct c of
       Some t \<Rightarrow> map_option (\<lambda>ts. (t, Suc (length cs), length cs) # ts) (lexJ cs)
     | None \<Rightarrow>
       (if c = CHR 0x22 then
          (case scanStr cs of
             None \<Rightarrow> None
           | Some (raw, r) \<Rightarrow> map_option (\<lambda>ts. (TStr raw, Suc (length cs), length r) # ts) (lexJ r))
        else if isLitChar c then
          map_option (\<lambda>ts. (TLit (c # takeWhile isLitChar cs), Suc (length cs),
                            length (dropWhile isLitChar cs)) # ts)
            (lexJ (dropWhile isLitChar cs))
        else None))"
  by pat_completeness auto
termination
  by (relation "measure length") (auto dest: scanStr_shorter simp: length_dropWhile_le le_imp_less_Suc)

section \<open>Values\<close>

datatype json =
    JNull
  | JBool bool
  | JNum bytes
  | JStr bytes
  | JArr "json list"
  | JObj "(bytes \<times> json \<times> bytes) list" \<comment> \<open>key, value, raw text of the value\<close>

text \<open>Number syntax: \<open>-?(0|[1-9][0-9]*)(\.[0-9]+)?([eE][+-]?[0-9]+)?\<close>.\<close>

definition skipSign :: "char set \<Rightarrow> bytes \<Rightarrow> bytes" where
  "skipSign cs s = (case s of c # r \<Rightarrow> if c \<in> cs then r else s | [] \<Rightarrow> [])"

definition validExp :: "bytes \<Rightarrow> bool" where
  "validExp s = (case s of
     [] \<Rightarrow> True
   | c # r \<Rightarrow> (c = CHR ''e'' \<or> c = CHR ''E'') \<and>
       (let d = skipSign {CHR ''+'', CHR ''-''} r in d \<noteq> [] \<and> list_all isDigit d))"

definition validFrac :: "bytes \<Rightarrow> bool" where
  "validFrac s = (case s of
     c # r \<Rightarrow> if c = CHR ''.''
       then takeWhile isDigit r \<noteq> [] \<and> validExp (dropWhile isDigit r) else validExp s
   | [] \<Rightarrow> True)"

definition validNumber :: "bytes \<Rightarrow> bool" where
  "validNumber s =
    (case skipSign {CHR ''-''} s of
       [] \<Rightarrow> False
     | c # r \<Rightarrow>
         if c = CHR ''0'' then validFrac r
         else isDigit c \<and> validFrac (dropWhile isDigit r))"

definition literalValue :: "bytes \<Rightarrow> json option" where
  "literalValue s =
    (if s = ''true'' then Some (JBool True) else if s = ''false'' then Some (JBool False)
     else if s = ''null'' then Some JNull else if validNumber s then Some (JNum s) else None)"

text \<open>\<open>unquote\<close>: escapes resolved, unpaired surrogates and invalid UTF-8 replaced. The first
  argument counts the bytes of the current escape or rune still to be skipped.\<close>

definition unescape :: "char \<Rightarrow> char" where
  "unescape d =
    (if d = CHR ''b'' then CHR 0x08 else if d = CHR ''f'' then CHR 0x0C
     else if d = CHR ''n'' then CHR 0x0A else if d = CHR ''r'' then CHR 0x0D
     else if d = CHR ''t'' then CHR 0x09 else d)"

text \<open>The text of a \<open>\uXXXX\<close> escape whose digits start the argument, and how many bytes after the
  backslash belong to it.\<close>

definition unquoteU :: "bytes \<Rightarrow> bytes \<times> nat" where
  "unquoteU ds =
    (case hex4 ds of
       None \<Rightarrow> ([], 5)
     | Some r \<Rightarrow>
       (if 55296 \<le> r \<and> r < 57344 then
          (case drop 4 ds of
             e # f # gs \<Rightarrow>
               (case hex4 gs of
                  Some r2 \<Rightarrow>
                    if e = CHR 0x5C \<and> f = CHR ''u'' \<and> r < 56320 \<and> 56320 \<le> r2 \<and> r2 < 57344
                    then (encodeRune ((r - 55296) * 1024 + (r2 - 56320) + 65536), 11)
                    else (replacementRune, 5)
                | None \<Rightarrow> (replacementRune, 5))
           | _ \<Rightarrow> (replacementRune, 5))
        else (encodeRune r, 5)))"

fun unquoteFrom :: "nat \<Rightarrow> bytes \<Rightarrow> bytes" where
  "unquoteFrom n [] = []"
| "unquoteFrom (Suc n) (c # cs) = unquoteFrom n cs"
| "unquoteFrom 0 (c # cs) =
    (if c = CHR 0x5C then
       (case cs of
          [] \<Rightarrow> []
        | d # ds \<Rightarrow>
          (if d = CHR ''u'' then (let (t, n) = unquoteU ds in t @ unquoteFrom n cs)
           else unescape d # unquoteFrom 1 cs))
     else if byteVal c < 128 then c # unquoteFrom 0 cs
     else let (r, n) = decodeRune (c # cs) in encodeRune r @ unquoteFrom (n - 1) cs)"

definition unquote :: "bytes \<Rightarrow> bytes" where
  "unquote s = unquoteFrom 0 s"

section \<open>The parser\<close>

datatype expect = EValue | EValueOrEnd | EKey | EKeyOrEnd | EColon | EAfter | EDone json

datatype jframe =
    FArr "json list"                                   \<comment> \<open>elements so far, newest first\<close>
  | FObj "(bytes \<times> json \<times> bytes) list" bytes nat    \<comment> \<open>members, pending key, start of its value\<close>

definition rawText :: "bytes \<Rightarrow> nat \<Rightarrow> nat \<Rightarrow> bytes" where
  "rawText inp s e = take (s - e) (drop (length inp - s) inp)"

definition finishValue :: "bytes \<Rightarrow> json \<Rightarrow> nat \<Rightarrow> jframe list \<Rightarrow> expect \<times> jframe list" where
  "finishValue inp v e st =
    (case st of
       [] \<Rightarrow> (EDone v, [])
     | FArr vs # st' \<Rightarrow> (EAfter, FArr (v # vs) # st')
     | FObj ms k s # st' \<Rightarrow> (EAfter, FObj ((k, v, rawText inp s e) # ms) k s # st'))"

definition startValue :: "bytes \<Rightarrow> jtok \<Rightarrow> nat \<Rightarrow> nat \<Rightarrow> jframe list \<Rightarrow> (expect \<times> jframe list) option" where
  "startValue inp t s e st =
    (let st1 = (case st of FObj ms k _ # st' \<Rightarrow> FObj ms k s # st' | _ \<Rightarrow> st) in
     case t of
       TLit l \<Rightarrow> map_option (\<lambda>v. finishValue inp v e st1) (literalValue l)
     | TStr raw \<Rightarrow> Some (finishValue inp (JStr (unquote raw)) e st1)
     | TLBrace \<Rightarrow> if length st1 < 10000 then Some (EKeyOrEnd, FObj [] [] 0 # st1) else None
     | TLBrack \<Rightarrow> if length st1 < 10000 then Some (EValueOrEnd, FArr [] # st1) else None
     | _ \<Rightarrow> None)"

definition parseTok :: "bytes \<Rightarrow> jtok \<times> nat \<times> nat \<Rightarrow> expect \<times> jframe list \<Rightarrow> (expect \<times> jframe list) option" where
  "parseTok inp tse est =
    (let (t, s, e) = tse; (ex, st) = est in
     case ex of
       EDone _ \<Rightarrow> None
     | EValue \<Rightarrow> startValue inp t s e st
     | EValueOrEnd \<Rightarrow>
         (if t = TRBrack then
            (case st of FArr [] # st' \<Rightarrow> Some (finishValue inp (JArr []) e st') | _ \<Rightarrow> None)
          else startValue inp t s e st)
     | EKeyOrEnd \<Rightarrow>
         (case (t, st) of
            (TRBrace, FObj ms _ _ # st') \<Rightarrow> Some (finishValue inp (JObj (rev ms)) e st')
          | (TStr raw, FObj ms _ z # st') \<Rightarrow> Some (EColon, FObj ms (unquote raw) z # st')
          | _ \<Rightarrow> None)
     | EKey \<Rightarrow>
         (case (t, st) of
            (TStr raw, FObj ms _ z # st') \<Rightarrow> Some (EColon, FObj ms (unquote raw) z # st')
          | _ \<Rightarrow> None)
     | EColon \<Rightarrow> if t = TColon then Some (EValue, st) else None
     | EAfter \<Rightarrow>
         (case (t, st) of
            (TComma, FArr vs # st') \<Rightarrow> Some (EValue, st)
          | (TRBrack, FArr vs # st') \<Rightarrow> Some (finishValue inp (JArr (rev vs)) e st')
          | (TComma, FObj ms k z # st') \<Rightarrow> Some (EKey, st)
          | (TRBrace, FObj ms k z # st') \<Rightarrow> Some (finishValue inp (JObj (rev ms)) e st')
          | _ \<Rightarrow> None))"

fun parseToks :: "bytes \<Rightarrow> (jtok \<times> nat \<times> nat) list \<Rightarrow> expect \<times> jframe list \<Rightarrow> json option" where
  "parseToks inp [] est = (case est of (EDone v, []) \<Rightarrow> Some v | _ \<Rightarrow> None)"
| "parseToks inp (t # ts) est =
     (case parseTok inp t est of None \<Rightarrow> None | Some est' \<Rightarrow> parseToks inp ts est')"

text \<open>The value tree of a document, \<open>None\<close> for a syntax error (the empty document is one).\<close>

definition parseJson :: "bytes \<Rightarrow> json option" where
  "parseJson inp = (case lexJ inp of None \<Rightarrow> None | Some ts \<Rightarrow> parseToks inp ts (EValue, []))"

section \<open>Decoding into struct fields\<close>

text \<open>\<open>foldName\<close>: field names match case-insensitively; the Kelvin sign and the long s fold
  to K and S.\<close>

definition asciiUpper :: "char \<Rightarrow> char" where
  "asciiUpper c = (let n = byteVal c in if 97 \<le> n \<and> n \<le> 122 then char_of (n - 32) else c)"

fun foldFrom :: "nat \<Rightarrow> bytes \<Rightarrow> bytes" where
  "foldFrom n [] = []"
| "foldFrom (Suc n) (c # cs) = foldFrom n cs"
| "foldFrom 0 (c # cs) =
    (if c = CHR 0xE2 \<and> take 2 cs = [CHR 0x84, CHR 0xAA] then CHR ''K'' # foldFrom 2 cs
     else if c = CHR 0xC5 \<and> take 1 cs = [CHR 0xBF] then CHR ''S'' # foldFrom 1 cs
     else asciiUpper c # foldFrom 0 cs)"

definition foldName :: "bytes \<Rightarrow> bytes" where
  "foldName s = foldFrom 0 s"

definition matchField :: "bytes list \<Rightarrow> bytes \<Rightarrow> bytes option" where
  "matchField names key =
    (if key \<in> set names then Some key else find (\<lambda>n. foldName n = foldName key) names)"

text \<open>A decoder updates the value it is given and says whether a type mismatch was met; a
  mismatch makes \<open>Unmarshal\<close> return an error after the rest has been decoded. Members come in
  document order, so a repeated key decodes into the earlier result.\<close>

type_synonym 'a decoder = "json \<Rightarrow> 'a \<Rightarrow> bool \<times> 'a"

fun decodeMembers :: "bytes list \<Rightarrow> (bytes \<Rightarrow> json \<Rightarrow> bytes \<Rightarrow> 'a \<Rightarrow> bool \<times> 'a) \<Rightarrow>
    (bytes \<times> json \<times> bytes) list \<Rightarrow> 'a \<Rightarrow> bool \<times> 'a" where
  "decodeMembers names f [] x = (False, x)"
| "decodeMembers names f ((k, v, raw) # ms) x =
    (case matchField names k of
       None \<Rightarrow> decodeMembers names f ms x
     | Some n \<Rightarrow> (let (e1, x1) = f n v raw x; (e2, x2) = decodeMembers names f ms x1 in (e1 \<or> e2, x2)))"

definition decodeStruct :: "bytes list \<Rightarrow> (bytes \<Rightarrow> json \<Rightarrow> bytes \<Rightarrow> 'a \<Rightarrow> bool \<times> 'a) \<Rightarrow> 'a decoder" where
  "decodeStruct names f v x =
    (case v of JObj ms \<Rightarrow> decodeMembers names f ms x | JNull \<Rightarrow> (False, x) | _ \<Rightarrow> (True, x))"

definition decodeString :: "bytes decoder" where
  "decodeString v x = (case v of JStr s \<Rightarrow> (False, s) | JNull \<Rightarrow> (False, x) | _ \<Rightarrow> (True, x))"

definition decodeBool :: "bool decoder" where
  "decodeBool v x = (case v of JBool b \<Rightarrow> (False, b) | JNull \<Rightarrow> (False, x) | _ \<Rightarrow> (True, x))"

definition digitsVal :: "bytes \<Rightarrow> int" where
  "digitsVal s = foldl (\<lambda>n c. 10 * n + (int (byteVal c) - 48)) 0 s"

text \<open>An unsigned field of the given width: \<open>strconv.ParseUint\<close> accepts digits only, and a
  value that does not fit is a mismatch.\<close>

definition decodeUint :: "nat \<Rightarrow> int decoder" where
  "decodeUint w v x =
    (case v of
       JNum s \<Rightarrow> if list_all isDigit s \<and> digitsVal s < 2 ^ w then (False, digitsVal s) else (True, x)
     | JNull \<Rightarrow> (False, x)
     | _ \<Rightarrow> (True, x))"

definition decodePtr :: "'a \<Rightarrow> 'a decoder \<Rightarrow> 'a option decoder" where
  "decodePtr zero d v x =
    (if v = JNull then (False, None)
     else let (e, y) = d v (case x of None \<Rightarrow> zero | Some z \<Rightarrow> z) in (e, Some y))"

fun decodeElems :: "'a \<Rightarrow> 'a decoder \<Rightarrow> json list \<Rightarrow> bool \<times> 'a list" where
  "decodeElems zero d [] = (False, [])"
| "decodeElems zero d (v # vs) =
     (let (e1, y) = d v zero; (e2, ys) = decodeElems zero d vs in (e1 \<or> e2, y # ys))"

text \<open>A slice: \<open>nil\<close> is \<open>None\<close>; the JSON array \<open>[ ]\<close> gives a non-nil empty slice.\<close>

definition decodeSlice :: "'a \<Rightarrow> 'a decoder \<Rightarrow> 'a list option decoder" where
  "decodeSlice zero d v x =
    (case v of
       JArr vs \<Rightarrow> (let (e, ys) = decodeElems zero d vs in (e, Some ys))
     | JNull \<Rightarrow> (False, None)
     | _ \<Rightarrow> (True, x))"

text \<open>\<open>json.Unmarshal\<close>: \<open>None\<close> is a returned error.\<close>

definition unmarshal :: "'a decoder \<Rightarrow> 'a \<Rightarrow> bytes \<Rightarrow> 'a option" where
  "unmarshal d zero inp =
    (case parseJson inp of
       None \<Rightarrow> None
     | Some v \<Rightarrow> (let (e, x) = d v zero in if e then None else Some x))"

section \<open>Printing\<close>

definition hexDigit :: "nat \<Rightarrow> char" where
  "hexDigit n = (if n < 10 then char_of (48 + n) else char_of (87 + n))"

definition uEscape :: "nat \<Rightarrow> bytes" where
  "uEscape r = [CHR 0x5C, CHR ''u'', hexDigit (r div 4096 mod 16), hexDigit (r div 256 mod 16),
     hexDigit (r div 16 mod 16), hexDigit (r mod 16)]"

definition quoteAscii :: "char \<Rightarrow> bytes" where
  "quoteAscii c =
    (if c = CHR 0x5C \<or> c = CHR 0x22 then [CHR 0x5C, c]
     else if c = CHR 0x08 then [CHR 0x5C, CHR ''b''] else if c = CHR 0x0C then [CHR 0x5C, CHR ''f'']
     else if c = CHR 0x0A then [CHR 0x5C, CHR ''n''] else if c = CHR 0x0D then [CHR 0x5C, CHR ''r'']
     else if c = CHR 0x09 then [CHR 0x5C, CHR ''t'']
     else if byteVal c < 32 \<or> c = CHR ''<'' \<or> c = CHR ''>'' \<or> c = CHR ''&'' then uEscape (byteVal c)
     else [c])"

fun quoteFrom :: "nat \<Rightarrow> bytes \<Rightarrow> bytes" where
  "quoteFrom n [] = []"
| "quoteFrom (Suc n) (c # cs) = quoteFrom n cs"
| "quoteFrom 0 (c # cs) =
    (if byteVal c < 128 then quoteAscii c @ quoteFrom 0 cs
     else let (r, n) = decodeRune (c # cs) in
       (if r = 65533 \<and> n = 1 then uEscape 65533 @ quoteFrom 0 cs
        else if r = 8232 \<or> r = 8233 then uEscape r @ quoteFrom (n - 1) cs
        else take n (c # cs) @ quoteFrom (n - 1) cs))"

definition quoteJson :: "bytes \<Rightarrow> bytes" where
  "quoteJson s = CHR 0x22 # quoteFrom 0 s @ [CHR 0x22]"

text \<open>Decimal printing (\<open>strconv.Itoa\<close>, \<open>%d\<close>) and reading.\<close>

fun decDigits :: "nat \<Rightarrow> bytes" where
  "decDigits n = (if n < 10 then [char_of (48 + n)] else decDigits (n div 10) @ [char_of (48 + n mod 10)])"

declare decDigits.simps [simp del]

definition itoa :: "int \<Rightarrow> bytes" where
  "itoa n = (if n < 0 then CHR ''-'' # decDigits (nat (- n)) else decDigits (nat n))"

definition decValue :: "bytes \<Rightarrow> nat" where
  "decValue s = foldl (\<lambda>a c. a * 10 + (byteVal c - 48)) 0 s"

lemma byteVal_char_of: "n < 256 \<Longrightarrow> byteVal (char_of n) = n"
  by (simp add: byteVal_def of_char_of)

lemma decValue_decDigits [simp]: "decValue (decDigits n) = n"
proof (induction n rule: decDigits.induct)
  case (1 n)
  then show ?case
    by (cases "n < 10") (simp_all add: decDigits.simps [of n] decValue_def byteVal_char_of)
qed

lemma decDigits_digits: "c \<in> set (decDigits n) \<Longrightarrow> 48 \<le> byteVal c \<and> byteVal c \<le> 57"
proof (induction n rule: decDigits.induct)
  case (1 n)
  then show ?case
    by (cases "n < 10") (auto simp: decDigits.simps [of n] byteVal_char_of)
qed

lemma decDigits_inj: "decDigits m = decDigits n \<longleftrightarrow> m = n"
  by (metis decValue_decDigits)

end
