(* ===== verification/Ship_Model.thy ===== *)
theory Ship_Model
  imports Go_Json
begin

text \<open>
  The data of \<open>src/model\<close>, \<open>src/ship/types.go\<close>, \<open>src/util\<close> and the error values of
  \<open>src/api/pin.go\<close>: handshake states, PIN outcomes, the SHIP messages with their
  \<open>encoding/json\<close> decoding and printing, and SKI normalisation.
\<close>

section \<open>Handshake states (src/model/types.go)\<close>

datatype ShipMessageExchangeState =
    CmiStateInitStart | CmiStateClientSend | CmiStateClientWait | CmiStateClientEvaluate
  | CmiStateServerWait | CmiStateServerEvaluate
  | SmeHelloState | SmeHelloStateReadyInit | SmeHelloStateReadyListen | SmeHelloStateReadyTimeout
  | SmeHelloStatePendingInit | SmeHelloStatePendingListen | SmeHelloStatePendingTimeout
  | SmeHelloStateOk | SmeHelloStateAbort | SmeHelloStateAbortDone | SmeHelloStateRemoteAbortDone
  | SmeHelloStateRejected
  | SmeProtHStateServerInit | SmeProtHStateClientInit | SmeProtHStateServerListenProposal
  | SmeProtHStateServerListenConfirm | SmeProtHStateClientListenChoice | SmeProtHStateTimeout
  | SmeProtHStateClientOk | SmeProtHStateServerOk
  | SmePinStateCheckInit | SmePinStateCheckListen | SmePinStateCheckError
  | SmePinStateCheckBusyInit | SmePinStateCheckBusyWait | SmePinStateCheckOk
  | SmePinStateAskInit | SmePinStateAskProcess | SmePinStateAskRestricted | SmePinStateAskOk
  | SmeAccessMethodsRequest | SmeStateApproved | SmeStateComplete | SmeStateError

text \<open>The \<open>uint\<close> behind a state, which the code compares with \<open>>=\<close> and \<open><=\<close>.\<close>

primrec stateValue :: "ShipMessageExchangeState \<Rightarrow> nat" where
  "stateValue CmiStateInitStart = 0" | "stateValue CmiStateClientSend = 1"
| "stateValue CmiStateClientWait = 2" | "stateValue CmiStateClientEvaluate = 3"
| "stateValue CmiStateServerWait = 4" | "stateValue CmiStateServerEvaluate = 5"
| "stateValue SmeHelloState = 6" | "stateValue SmeHelloStateReadyInit = 7"
| "stateValue SmeHelloStateReadyListen = 8" | "stateValue SmeHelloStateReadyTimeout = 9"
| "stateValue SmeHelloStatePendingInit = 10" | "stateValue SmeHelloStatePendingListen = 11"
| "stateValue SmeHelloStatePendingTimeout = 12" | "stateValue SmeHelloStateOk = 13"
| "stateValue SmeHelloStateAbort = 14" | "stateValue SmeHelloStateAbortDone = 15"
| "stateValue SmeHelloStateRemoteAbortDone = 16" | "stateValue SmeHelloStateRejected = 17"
| "stateValue SmeProtHStateServerInit = 18" | "stateValue SmeProtHStateClientInit = 19"
| "stateValue SmeProtHStateServerListenProposal = 20"
| "stateValue SmeProtHStateServerListenConfirm = 21"
| "stateValue SmeProtHStateClientListenChoice = 22" | "stateValue SmeProtHStateTimeout = 23"
| "stateValue SmeProtHStateClientOk = 24" | "stateValue SmeProtHStateServerOk = 25"
| "stateValue SmePinStateCheckInit = 26" | "stateValue SmePinStateCheckListen = 27"
| "stateValue SmePinStateCheckError = 28" | "stateValue SmePinStateCheckBusyInit = 29"
| "stateValue SmePinStateCheckBusyWait = 30" | "stateValue SmePinStateCheckOk = 31"
| "stateValue SmePinStateAskInit = 32" | "stateValue SmePinStateAskProcess = 33"
| "stateValue SmePinStateAskRestricted = 34" | "stateValue SmePinStateAskOk = 35"
| "stateValue SmeAccessMethodsRequest = 36" | "stateValue SmeStateApproved = 37"
| "stateValue SmeStateComplete = 38" | "stateValue SmeStateError = 39"

lemma stateValue_inj: "stateValue s = stateValue t \<longleftrightarrow> s = t"
  by (cases s; cases t) simp_all

section \<open>PIN outcomes (src/model/types.go)\<close>

datatype PINRequirement = PINRequirementUnknown | PINRequirementNone | PINRequirementRequired
  | PINRequirementOptional

datatype PINPhase = PINPhaseNotRequired | PINPhaseWaitingPeer | PINPhaseSubmitted
  | PINPhaseAccepted | PINPhaseRestricted | PINPhaseFailed

datatype PINCategory = PINCategoryRequired | PINCategoryOptional | PINCategoryBusy
  | PINCategoryRejected | PINCategoryUnavailable | PINCategoryProtocol

record PINHandshakeDetail =
  Requirement :: PINRequirement
  Phase :: PINPhase
  Category :: "PINCategory option"
  Retryable :: bool

text \<open>A detail is a pointer that may be nil. Values are immutable here, so a clone is the
  value itself; \<open>pinEqual\<close> follows the code's field-by-field comparison.\<close>

definition pinClone :: "PINHandshakeDetail option \<Rightarrow> PINHandshakeDetail option" where
  "pinClone d =
    (case d of
       None \<Rightarrow> None
     | Some x \<Rightarrow> Some (x\<lparr>Category := (case Category x of None \<Rightarrow> None | Some k \<Rightarrow> Some k)\<rparr>))"

definition pinEqual :: "PINHandshakeDetail option \<Rightarrow> PINHandshakeDetail option \<Rightarrow> bool" where
  "pinEqual d e =
    (case (d, e) of
       (Some x, Some y) \<Rightarrow>
         if Requirement x \<noteq> Requirement y \<or> Phase x \<noteq> Phase y \<or> Retryable x \<noteq> Retryable y
         then False
         else (case (Category x, Category y) of
                 (Some k, Some l) \<Rightarrow> k = l
               | (None, None) \<Rightarrow> True
               | _ \<Rightarrow> False)
     | (None, None) \<Rightarrow> True
     | _ \<Rightarrow> False)"

lemma pinClone_id [simp]: "pinClone d = d"
  by (auto simp: pinClone_def split: option.splits)

lemma pinEqual_iff: "pinEqual d e \<longleftrightarrow> d = e"
  by (auto simp: pinEqual_def split: option.splits)

section \<open>Errors\<close>

text \<open>Error values the handshake distinguishes: the sentinels of \<open>src/api/pin.go\<close>, the
  sentinel of \<open>writeShipMessage\<close>, and errors that only carry a text: those made with
  \<open>errors.New\<close> or \<open>fmt.Errorf\<close>, those of \<open>encoding/json\<close>, and those of the data connection
  or a provider.\<close>

datatype goError =
    ErrPINUnavailable | ErrPINRejected | ErrPINInvalid | ErrPINProtocol
  | ErrConnectionClosing
  | ErrNew bytes
  | ErrJson bytes
  | ErrExternal bytes

text \<open>\<open>err.Error()\<close>.\<close>

primrec errorText :: "goError \<Rightarrow> bytes" where
  "errorText ErrPINUnavailable = ''SHIP PIN unavailable''"
| "errorText ErrPINRejected = ''SHIP PIN rejected''"
| "errorText ErrPINInvalid = ''SHIP PIN invalid''"
| "errorText ErrPINProtocol = ''SHIP PIN protocol error''"
| "errorText ErrConnectionClosing = ''connection is closing''"
| "errorText (ErrNew t) = t"
| "errorText (ErrJson t) = t"
| "errorText (ErrExternal t) = t"

text \<open>The immutable snapshot of a handshake that callbacks receive.\<close>

record ShipState =
  State :: ShipMessageExchangeState
  Error :: "goError option"
  PIN :: "PINHandshakeDetail option"

section \<open>Identity of an outgoing attempt (src/api/outgoingattempt.go)\<close>

record OutgoingAttemptMetadata =
  AttemptID :: bytes
  Scope :: bytes
  ControlEpoch :: uint64

definition zeroMetadata :: OutgoingAttemptMetadata where
  "zeroMetadata = \<lparr>AttemptID = [], Scope = [], ControlEpoch = 0\<rparr>"

section \<open>Roles, timers and timeouts (src/ship/types.go)\<close>

datatype shipRole = ShipRoleServer | ShipRoleClient

definition second :: duration where "second = 1000000000"
definition millisecond :: duration where "millisecond = 1000000"

definition cmiTimeout :: duration where "cmiTimeout = 10 * second"
definition tHelloInit :: duration where "tHelloInit = 60 * second"
definition tHelloProlongThrInc :: duration where "tHelloProlongThrInc = 30 * second"
definition tHelloProlongMin :: duration where "tHelloProlongMin = 1 * second"
definition pinResponseTimeout :: duration where "pinResponseTimeout = 30 * second"
definition pinBusyTimeout :: duration where "pinBusyTimeout = 90 * second"

lemmas timeout_defs = second_def millisecond_def cmiTimeout_def tHelloInit_def
  tHelloProlongThrInc_def tHelloProlongMin_def pinResponseTimeout_def pinBusyTimeout_def

datatype timeoutTimerType = timeoutTimerTypeWaitForReady | timeoutTimerTypeSendProlongationRequest
  | timeoutTimerTypeProlongRequestReply

text \<open>Conversion to a signed 64-bit integer, and \<open>time.Duration(w) * time.Millisecond\<close>, both of
  which wrap.\<close>

definition toInt64 :: "int \<Rightarrow> int" where
  "toInt64 x = (x + 2 ^ 63) mod 2 ^ 64 - 2 ^ 63"

definition durationOfMillis :: "int \<Rightarrow> duration" where
  "durationOfMillis w = toInt64 (toInt64 w * millisecond)"

section \<open>SKI normalisation (src/util/helper.go)\<close>

definition NormalizeSKI :: "bytes \<Rightarrow> bytes" where
  "NormalizeSKI ski =
    (let s1 = replaceAll ski '' '' [];
         s2 = replaceAll s1 ''-'' []
     in map asciiLower s2)"

lemma replaceAll_single: "replaceAll s [c] [] = filter (\<lambda>x. x \<noteq> c) s"
proof -
  have "replaceFrom 0 [c] [] s = filter (\<lambda>x. x \<noteq> c) s"
    by (induction s) (auto simp: hasPrefix_def)
  then show ?thesis by (simp add: replaceAll_def)
qed

lemma NormalizeSKI_eq:
  "NormalizeSKI s = map asciiLower (filter (\<lambda>x. x \<noteq> CHR '' '' \<and> x \<noteq> CHR ''-'') s)"
  by (simp add: NormalizeSKI_def replaceAll_single conj_commute)

lemma NormalizeSKI_no_separator:
  "x \<in> set (NormalizeSKI s) \<Longrightarrow> x \<noteq> CHR '' '' \<and> x \<noteq> CHR ''-''"
  by (auto simp: NormalizeSKI_eq byteVal_def dest: sym
      dest!: asciiLower_neq [THEN notE, rotated 2, of _ "CHR '' ''"]
             asciiLower_neq [THEN notE, rotated 2, of _ "CHR ''-''"])

lemma NormalizeSKI_idem: "NormalizeSKI (NormalizeSKI s) = NormalizeSKI s"
proof -
  have keep: "filter (\<lambda>x. x \<noteq> CHR '' '' \<and> x \<noteq> CHR ''-'') (NormalizeSKI s) = NormalizeSKI s"
    using NormalizeSKI_no_separator [of _ s] by (auto simp: filter_id_conv)
  have "NormalizeSKI (NormalizeSKI s) = map asciiLower (NormalizeSKI s)"
    by (subst NormalizeSKI_eq) (simp only: keep)
  also have "\<dots> = NormalizeSKI s" by (simp add: NormalizeSKI_eq)
  finally show ?thesis .
qed

text \<open>Normalising an SKI twice is normalising it once, so a lookup under a normalised SKI
  and one under the raw SKI reach the same entry; a normalised SKI has no separator left.
  The statement is for ASCII text: Go's \<open>ToLower\<close> maps a string with other bytes through
  Unicode tables that are not modelled.\<close>

theorem NormalizeSKI_idempotent:
  assumes "list_all (\<lambda>c. byteVal c < 128) s"
  shows "NormalizeSKI (NormalizeSKI s) = NormalizeSKI s
    \<and> CHR '' '' \<notin> set (NormalizeSKI s) \<and> CHR ''-'' \<notin> set (NormalizeSKI s)"
  using NormalizeSKI_no_separator [of _ s] by (simp add: NormalizeSKI_idem) blast

theorem NormalizeSKI_idempotent_witness:
  "NormalizeSKI ''1A-2b 3C'' = ''1a2b3c'' \<and> NormalizeSKI (NormalizeSKI ''1A-2b 3C'') = NormalizeSKI ''1A-2b 3C''"
proof -
  have "NormalizeSKI ''1A-2b 3C'' = ''1a2b3c''" by code_simp
  moreover have "list_all (\<lambda>c. byteVal c < 128) ''1A-2b 3C''" by code_simp
  ultimately show ?thesis using NormalizeSKI_idempotent [of "''1A-2b 3C''"] by simp
qed

end
