(* ===== verification/Ship_Messages.thy ===== *)
theory Ship_Messages
  imports Ship_Model
begin

text \<open>
  The SHIP messages of \<open>src/model/model.go\<close> and the EEBUS JSON conversion of
  \<open>src/ship/helper.go\<close>. Each struct is a record; its decoder follows the \<open>json\<close> tags, with the
  struct's zero value as the start. Messages the program sends are values of \<open>ShipModel\<close>,
  printed by \<open>marshalModel\<close> as \<open>json.Marshal\<close> prints the struct.
\<close>

section \<open>Message types (src/model/model.go)\<close>

definition MsgTypeInit :: nat where "MsgTypeInit = 0"
definition MsgTypeControl :: nat where "MsgTypeControl = 1"
definition MsgTypeData :: nat where "MsgTypeData = 2"
definition MsgTypeEnd :: nat where "MsgTypeEnd = 3"

lemmas msgtype_defs = MsgTypeInit_def MsgTypeControl_def MsgTypeData_def MsgTypeEnd_def

definition typeByte :: "nat \<Rightarrow> char" where
  "typeByte t = char_of t"

definition ShipInit :: bytes where
  "ShipInit = [typeByte MsgTypeInit, CHR 0x00]"

definition ShipProtocolId :: bytes where "ShipProtocolId = ''ee1.0''"

definition ConnectionHelloPhaseTypePending :: bytes where "ConnectionHelloPhaseTypePending = ''pending''"
definition ConnectionHelloPhaseTypeReady :: bytes where "ConnectionHelloPhaseTypeReady = ''ready''"
definition ConnectionHelloPhaseTypeAborted :: bytes where "ConnectionHelloPhaseTypeAborted = ''aborted''"

definition MessageProtocolFormatTypeUTF8 :: bytes where "MessageProtocolFormatTypeUTF8 = ''JSON-UTF8''"

definition ProtocolHandshakeTypeTypeAnnounceMax :: bytes where
  "ProtocolHandshakeTypeTypeAnnounceMax = ''announceMax''"
definition ProtocolHandshakeTypeTypeSelect :: bytes where
  "ProtocolHandshakeTypeTypeSelect = ''select''"

definition MessageProtocolHandshakeErrorErrorTypeUnexpectedMessage :: int where
  "MessageProtocolHandshakeErrorErrorTypeUnexpectedMessage = 2"
definition MessageProtocolHandshakeErrorErrorTypeSelectionMismatch :: int where
  "MessageProtocolHandshakeErrorErrorTypeSelectionMismatch = 3"

definition PinStateTypeRequired :: bytes where "PinStateTypeRequired = ''required''"
definition PinStateTypeOptional :: bytes where "PinStateTypeOptional = ''optional''"
definition PinStateTypePinOk :: bytes where "PinStateTypePinOk = ''pinOk''"
definition PinStateTypeNone :: bytes where "PinStateTypeNone = ''none''"
definition PinInputPermissionTypeBusy :: bytes where "PinInputPermissionTypeBusy = ''busy''"
definition PinInputPermissionTypeOk :: bytes where "PinInputPermissionTypeOk = ''ok''"
definition ConnectionPinErrorErrorTypeWrongPIN :: int where "ConnectionPinErrorErrorTypeWrongPIN = 1"

definition ConnectionClosePhaseTypeAnnounce :: bytes where "ConnectionClosePhaseTypeAnnounce = ''announce''"
definition ConnectionClosePhaseTypeConfirm :: bytes where "ConnectionClosePhaseTypeConfirm = ''confirm''"

lemmas phase_defs = ConnectionHelloPhaseTypePending_def ConnectionHelloPhaseTypeReady_def
  ConnectionHelloPhaseTypeAborted_def ConnectionClosePhaseTypeAnnounce_def
  ConnectionClosePhaseTypeConfirm_def ProtocolHandshakeTypeTypeAnnounceMax_def
  ProtocolHandshakeTypeTypeSelect_def PinStateTypeRequired_def PinStateTypeOptional_def
  PinStateTypePinOk_def PinStateTypeNone_def PinInputPermissionTypeBusy_def
  PinInputPermissionTypeOk_def

subsection \<open>Received messages\<close>

record ConnectionHelloType =
  helloPhase :: bytes
  helloWaiting :: "int option"
  helloProlongationRequest :: "bool option"

record ConnectionCloseType =
  closePhase :: bytes
  closeMaxTime :: "int option"
  closeReason :: "bytes option"

record MessageProtocolHandshakeType =
  handshakeType :: bytes
  versionMajor :: int
  versionMinor :: int
  formatsFormat :: "bytes list option"

record ConnectionPinStateType =
  pinState :: bytes
  inputPermission :: "bytes option"

record ConnectionPinErrorType =
  pinErrorError :: int

record pinEnvelope =
  envPinState :: "ConnectionPinStateType option"
  envPinError :: "ConnectionPinErrorType option"

record AccessMethodsType =
  accessId :: "bytes option"
  accessDnsSdMDns :: "unit option"
  accessDns :: "bytes option"

record ExtensionType =
  extensionId :: "bytes option"
  extensionBinary :: "int option"
  extensionString :: "bytes option"

record ShipData =
  headerProtocolId :: bytes
  dataPayload :: "bytes option"
  dataExtension :: "ExtensionType option"

definition zeroHello :: ConnectionHelloType where
  "zeroHello = \<lparr>helloPhase = [], helloWaiting = None, helloProlongationRequest = None\<rparr>"

definition decodeHelloType :: "ConnectionHelloType decoder" where
  "decodeHelloType = decodeStruct [''phase'', ''waiting'', ''prolongationRequest'']
    (\<lambda>n v raw x.
      if n = ''phase'' then (let (e, y) = decodeString v (helloPhase x) in (e, x\<lparr>helloPhase := y\<rparr>))
      else if n = ''waiting'' then
        (let (e, y) = decodePtr 0 (decodeUint 64) v (helloWaiting x) in (e, x\<lparr>helloWaiting := y\<rparr>))
      else (let (e, y) = decodePtr False decodeBool v (helloProlongationRequest x)
            in (e, x\<lparr>helloProlongationRequest := y\<rparr>)))"

definition decodeConnectionHello :: "ConnectionHelloType decoder" where
  "decodeConnectionHello = decodeStruct [''connectionHello''] (\<lambda>n v raw x. decodeHelloType v x)"

definition zeroClose :: ConnectionCloseType where
  "zeroClose = \<lparr>closePhase = [], closeMaxTime = None, closeReason = None\<rparr>"

definition decodeConnectionClose :: "ConnectionCloseType decoder" where
  "decodeConnectionClose = decodeStruct [''connectionClose'']
    (\<lambda>n v raw x. decodeStruct [''phase'', ''maxTime'', ''reason'']
      (\<lambda>n v raw x.
        if n = ''phase'' then (let (e, y) = decodeString v (closePhase x) in (e, x\<lparr>closePhase := y\<rparr>))
        else if n = ''maxTime'' then
          (let (e, y) = decodePtr 0 (decodeUint 64) v (closeMaxTime x) in (e, x\<lparr>closeMaxTime := y\<rparr>))
        else (let (e, y) = decodePtr [] decodeString v (closeReason x) in (e, x\<lparr>closeReason := y\<rparr>)))
      v x)"

definition zeroProtocolHandshake :: MessageProtocolHandshakeType where
  "zeroProtocolHandshake = \<lparr>handshakeType = [], versionMajor = 0, versionMinor = 0, formatsFormat = None\<rparr>"

definition decodeVersion :: "MessageProtocolHandshakeType decoder" where
  "decodeVersion = decodeStruct [''major'', ''minor'']
    (\<lambda>n v raw x.
      if n = ''major'' then (let (e, y) = decodeUint 8 v (versionMajor x) in (e, x\<lparr>versionMajor := y\<rparr>))
      else (let (e, y) = decodeUint 8 v (versionMinor x) in (e, x\<lparr>versionMinor := y\<rparr>)))"

definition decodeFormats :: "MessageProtocolHandshakeType decoder" where
  "decodeFormats = decodeStruct [''format'']
    (\<lambda>n v raw x. let (e, y) = decodeSlice [] decodeString v (formatsFormat x) in (e, x\<lparr>formatsFormat := y\<rparr>))"

definition decodeMessageProtocolHandshake :: "MessageProtocolHandshakeType decoder" where
  "decodeMessageProtocolHandshake = decodeStruct [''messageProtocolHandshake'']
    (\<lambda>n v raw x. decodeStruct [''handshakeType'', ''version'', ''formats'']
      (\<lambda>n v raw x.
        if n = ''handshakeType'' then
          (let (e, y) = decodeString v (handshakeType x) in (e, x\<lparr>handshakeType := y\<rparr>))
        else if n = ''version'' then decodeVersion v x
        else decodeFormats v x) v x)"

definition zeroPinState :: ConnectionPinStateType where
  "zeroPinState = \<lparr>pinState = [], inputPermission = None\<rparr>"

definition decodePinStateType :: "ConnectionPinStateType decoder" where
  "decodePinStateType = decodeStruct [''pinState'', ''inputPermission'']
    (\<lambda>n v raw x.
      if n = ''pinState'' then (let (e, y) = decodeString v (pinState x) in (e, x\<lparr>pinState := y\<rparr>))
      else (let (e, y) = decodePtr [] decodeString v (inputPermission x) in (e, x\<lparr>inputPermission := y\<rparr>)))"

definition decodePinErrorType :: "ConnectionPinErrorType decoder" where
  "decodePinErrorType = decodeStruct [''error'']
    (\<lambda>n v raw x. let (e, y) = decodeUint 8 v (pinErrorError x) in (e, x\<lparr>pinErrorError := y\<rparr>))"

definition zeroPinEnvelope :: pinEnvelope where
  "zeroPinEnvelope = \<lparr>envPinState = None, envPinError = None\<rparr>"

definition decodePinEnvelope :: "pinEnvelope decoder" where
  "decodePinEnvelope = decodeStruct [''connectionPinState'', ''connectionPinError'']
    (\<lambda>n v raw x.
      if n = ''connectionPinState'' then
        (let (e, y) = decodePtr zeroPinState decodePinStateType v (envPinState x) in (e, x\<lparr>envPinState := y\<rparr>))
      else
        (let (e, y) = decodePtr \<lparr>pinErrorError = 0\<rparr> decodePinErrorType v (envPinError x)
         in (e, x\<lparr>envPinError := y\<rparr>)))"

definition zeroAccessMethods :: AccessMethodsType where
  "zeroAccessMethods = \<lparr>accessId = None, accessDnsSdMDns = None, accessDns = None\<rparr>"

definition decodeAccessMethods :: "AccessMethodsType decoder" where
  "decodeAccessMethods = decodeStruct [''accessMethods'']
    (\<lambda>n v raw x. decodeStruct [''id'', ''dnsSd_mDns'', ''dns'']
      (\<lambda>n v raw x.
        if n = ''id'' then
          (let (e, y) = decodePtr [] decodeString v (accessId x) in (e, x\<lparr>accessId := y\<rparr>))
        else if n = ''dnsSd_mDns'' then
          (let (e, y) = decodePtr () (decodeStruct [] (\<lambda>n v raw x. (False, x))) v (accessDnsSdMDns x)
           in (e, x\<lparr>accessDnsSdMDns := y\<rparr>))
        else (let (e, y) = decodePtr [] decodeString v (accessDns x) in (e, x\<lparr>accessDns := y\<rparr>)))
      v x)"

definition zeroExtension :: ExtensionType where
  "zeroExtension = \<lparr>extensionId = None, extensionBinary = None, extensionString = None\<rparr>"

definition decodeExtension :: "ExtensionType decoder" where
  "decodeExtension = decodeStruct [''extensionId'', ''binary'', ''string'']
    (\<lambda>n v raw x.
      if n = ''extensionId'' then
        (let (e, y) = decodePtr [] decodeString v (extensionId x) in (e, x\<lparr>extensionId := y\<rparr>))
      else if n = ''binary'' then
        (let (e, y) = decodePtr 0 (decodeUint 8) v (extensionBinary x) in (e, x\<lparr>extensionBinary := y\<rparr>))
      else (let (e, y) = decodePtr [] decodeString v (extensionString x) in (e, x\<lparr>extensionString := y\<rparr>)))"

definition zeroShipData :: ShipData where
  "zeroShipData = \<lparr>headerProtocolId = [], dataPayload = None, dataExtension = None\<rparr>"

definition decodeShipData :: "ShipData decoder" where
  "decodeShipData = decodeStruct [''data'']
    (\<lambda>n v raw x. decodeStruct [''header'', ''payload'', ''extension'']
      (\<lambda>n v raw x.
        if n = ''header'' then
          decodeStruct [''protocolId'']
            (\<lambda>n v raw x. let (e, y) = decodeString v (headerProtocolId x) in (e, x\<lparr>headerProtocolId := y\<rparr>)) v x
        else if n = ''payload'' then (False, x\<lparr>dataPayload := Some raw\<rparr>)
        else (let (e, y) = decodePtr zeroExtension decodeExtension v (dataExtension x)
              in (e, x\<lparr>dataExtension := y\<rparr>))) v x)"

subsection \<open>Sent messages\<close>

datatype ShipModel =
    ConnectionHello bytes "int option" "bool option"        \<comment> \<open>phase, waiting, prolongationRequest\<close>
  | MessageProtocolHandshake bytes                          \<comment> \<open>handshakeType; version 1.0, JSON-UTF8\<close>
  | MessageProtocolHandshakeError int
  | ConnectionPinState bytes
  | AccessMethodsRequest
  | AccessMethods bytes                                     \<comment> \<open>id\<close>
  | ConnectionClose bytes "int option" "bytes option"       \<comment> \<open>phase, maxTime, reason\<close>

definition jsonField :: "bytes \<Rightarrow> bytes \<Rightarrow> bytes" where
  "jsonField k v = quoteJson k @ '':'' @ v"

fun joinComma :: "bytes list \<Rightarrow> bytes" where
  "joinComma [] = []"
| "joinComma [x] = x"
| "joinComma (x # xs) = x @ '','' @ joinComma xs"

definition jsonObject :: "bytes list \<Rightarrow> bytes" where
  "jsonObject fs = ''{'' @ joinComma fs @ ''}''"

definition jsonBool :: "bool \<Rightarrow> bytes" where
  "jsonBool b = (if b then ''true'' else ''false'')"

definition optField :: "bytes \<Rightarrow> ('a \<Rightarrow> bytes) \<Rightarrow> 'a option \<Rightarrow> bytes list" where
  "optField k f v = (case v of None \<Rightarrow> [] | Some x \<Rightarrow> [jsonField k (f x)])"

fun marshalModel :: "ShipModel \<Rightarrow> bytes" where
  "marshalModel (ConnectionHello p w b) =
     jsonObject [jsonField ''connectionHello''
       (jsonObject (jsonField ''phase'' (quoteJson p) # optField ''waiting'' itoa w
         @ optField ''prolongationRequest'' jsonBool b))]"
| "marshalModel (MessageProtocolHandshake t) =
     jsonObject [jsonField ''messageProtocolHandshake''
       (jsonObject [jsonField ''handshakeType'' (quoteJson t),
          jsonField ''version'' (jsonObject [jsonField ''major'' (itoa 1), jsonField ''minor'' (itoa 0)]),
          jsonField ''formats'' (jsonObject [jsonField ''format''
            (''['' @ quoteJson MessageProtocolFormatTypeUTF8 @ '']'')])])]"
| "marshalModel (MessageProtocolHandshakeError e) = jsonObject [jsonField ''error'' (itoa e)]"
| "marshalModel (ConnectionPinState p) =
     jsonObject [jsonField ''connectionPinState'' (jsonObject [jsonField ''pinState'' (quoteJson p)])]"
| "marshalModel AccessMethodsRequest = jsonObject [jsonField ''accessMethodsRequest'' (jsonObject [])]"
| "marshalModel (AccessMethods i) =
     jsonObject [jsonField ''accessMethods'' (jsonObject [jsonField ''id'' (quoteJson i)])]"
| "marshalModel (ConnectionClose p m r) =
     jsonObject [jsonField ''connectionClose''
       (jsonObject (jsonField ''phase'' (quoteJson p) # optField ''maxTime'' itoa m
         @ optField ''reason'' quoteJson r))]"

section \<open>EEBUS JSON (src/ship/helper.go)\<close>

text \<open>A decoded document as \<open>interface\{\}\<close> values. The ordered map type and its
  \<open>UnmarshalJSON\<close> are those of the third-party package \<open>go-ordered-json\<close>: decoding is the
  parameter \<open>ordered\<close> of the functions below, \<open>None\<close> for a returned error.\<close>

datatype gvalue =
    GNull | GBool bool | GNum bytes | GStr bytes
  | GArr "gvalue list"
  | GMap "(bytes \<times> gvalue) list"

type_synonym ordered_unmarshal = "bytes \<Rightarrow> (bytes \<times> gvalue) list option"

definition trimNul :: "bytes \<Rightarrow> bytes" where
  "trimNul s = rev (dropWhile (\<lambda>c. c = CHR 0x00) (rev (dropWhile (\<lambda>c. c = CHR 0x00) s)))"

definition JsonFromEEBUSJson :: "bytes \<Rightarrow> bytes" where
  "JsonFromEEBUSJson json =
    (let result = replaceAll json ''[{'' ''{'';
         result = replaceAll result ''},{'' '','';
         result = replaceAll result ''}]'' ''}'';
         result = replaceAll result ''[]'' ''{}''
     in trimNul result)"

fun process_eebus_json_hierarchie_level :: "gvalue \<Rightarrow> gvalue" where
  "process_eebus_json_hierarchie_level (GMap kvs) =
     GArr (map (\<lambda>(k, v). GMap [(k, process_eebus_json_hierarchie_level v)]) kvs)"
| "process_eebus_json_hierarchie_level (GArr vs) = GArr (map process_eebus_json_hierarchie_level vs)"
| "process_eebus_json_hierarchie_level v = v"

fun marshalValue :: "gvalue \<Rightarrow> bytes" where
  "marshalValue GNull = ''null''"
| "marshalValue (GBool b) = jsonBool b"
| "marshalValue (GNum n) = n"
| "marshalValue (GStr s) = quoteJson s"
| "marshalValue (GArr vs) = ''['' @ joinComma (map marshalValue vs) @ '']''"
| "marshalValue (GMap kvs) = jsonObject (map (\<lambda>(k, v). jsonField k (marshalValue v)) kvs)"

definition JsonIntoEEBUSJson :: "ordered_unmarshal \<Rightarrow> bytes \<Rightarrow> bytes option" where
  "JsonIntoEEBUSJson ordered data =
    (case ordered data of
       None \<Rightarrow> None
     | Some temp \<Rightarrow>
         (let b = marshalValue (process_eebus_json_hierarchie_level (GMap temp))
          in Some (trimSuffix (trimPrefix b ''['') '']'')))"

text \<open>An instance of the parameter: the value tree of the document, members in order.\<close>

fun gvalueOf :: "json \<Rightarrow> gvalue" where
  "gvalueOf JNull = GNull"
| "gvalueOf (JBool b) = GBool b"
| "gvalueOf (JNum n) = GNum n"
| "gvalueOf (JStr s) = GStr s"
| "gvalueOf (JArr vs) = GArr (map gvalueOf vs)"
| "gvalueOf (JObj ms) = GMap (map (\<lambda>(k, v, raw). (k, gvalueOf v)) ms)"

definition orderedStd :: ordered_unmarshal where
  "orderedStd data =
    (case parseJson data of
       Some (JObj ms) \<Rightarrow> Some (map (\<lambda>(k, v, raw). (k, gvalueOf v)) ms)
     | _ \<Rightarrow> None)"

end
