(* ===== verification/Ship_Connection.thy ===== *)
theory Ship_Connection
  imports Ship_Messages
begin

text \<open>
  The SHIP connection object of \<open>src/ship/connection.go\<close> and the parts of
  \<open>src/ship/handshake.go\<close> every handshake phase uses: the state fields, the handshake timer,
  \<open>setState\<close>, the serialised pairing effects, closing, sending, and the SPINE buffer and
  dispatch queue.

  \<^item> \<open>ship_conn\<close> has one field per field of the Go struct, without the mutexes: a definition
    whose Go counterpart holds a lock for its whole body is one atomic update.
  \<^item> Closures that the code queues are data: \<open>pairingEffect\<close> for \<open>pairingEffectTask\<close> and
    \<open>spineTask\<close> for the SPINE dispatch queue. The local variables such a closure writes
    (\<open>reported\<close>, \<open>published\<close>, \<open>reader\<close>) are the cells \<open>effReported\<close>, \<open>effPublished\<close>,
    \<open>effReader\<close>.
  \<^item> Goroutines started with \<open>go\<close> or left sleeping are listed in \<open>spawned\<close> and run by
    operations of their own.
  \<^item> The info provider, the web socket and the PIN provider are other components. Their answers
    are the record \<open>ship_env\<close>, a parameter of every operation, indexed by how many external
    calls the connection has made. \<open>reaction\<close> lists what a callback (or another goroutine
    running meanwhile) does to the connection before the call returns: close it, or request
    pairing approval.
  \<^item> \<open>trace\<close> records the calls to other components, in order.

  \<open>drainPairingEffects\<close> ends: \<open>effectMeasure\<close> decreases with every task although tasks queue
  further tasks.
\<close>

section \<open>State\<close>

datatype pairingEffect =
    EffReport ShipState
  | EffReportShipID
  | EffPublishApproved
  | EffSetup
  | EffClose bool int bytes
  | EffFinish bool int bytes bool ShipMessageExchangeState

datatype spineTask = SpComplete | SpPayload nat bytes

datatype goroutine =
    GoDelayedAbortClose                                    \<comment> \<open>handleState, abort done: close in 1 s\<close>
  | GoFinishAfterTimers bool int bytes bool ShipMessageExchangeState
  | GoSafeClose bool                                       \<comment> \<open>finishCloseConnection: 500 ms later\<close>

datatype event =
    EvInitData
  | EvWrite bytes bool
  | EvSensitiveWrite bytes bool
  | EvStateReport ShipState
  | EvShipID bytes bytes
  | EvSetup
  | EvPayload nat bytes
  | EvCloseData int bytes
  | EvClosed bool bool                                     \<comment> \<open>with attempt, handshake completed\<close>
  | EvDiscardPIN

datatype reaction = RClose bool int bytes | RApprovalRequest

record ship_conn =
  role :: shipRole
  remoteSKI :: bytes
  remoteShipID :: bytes
  localShipID :: bytes
  outgoingAttemptMetadata :: OutgoingAttemptMetadata
  hasOutgoingAttempt :: bool
  requirePairingApproval :: bool
  pairingApprovalRequested :: bool
  pairingApprovalReleased :: bool
  pairingCommitStarted :: bool
  pairingCommitCallbackDone :: bool
  pairingClosing :: bool
  pairingTerminal :: bool
  spineSetupStarted :: bool
  pinInputSent :: bool
  dataReader :: "nat option"
  smeState :: ShipMessageExchangeState
  smeError :: "goError option"
  pinHandshakeDetail :: "PINHandshakeDetail option"
  handshakeTimerRunning :: bool
  handshakeTimerType :: timeoutTimerType
  handshakeTimerDuration :: duration
  handshakeTimerActive :: nat
  lastReceivedWaitingValue :: duration
  shutdownClosed :: bool
  dataHandlerInitDone :: bool
  outgoingAttemptTerminal :: bool
  attemptCancellationArmed :: bool
  initializeDataHandlerOnRun :: bool
  spineBuffer :: "bytes list"
  spineBufferBytes :: int
  spineDispatching :: bool
  spineDispatchQueue :: "spineTask list"
  pairingEffectQueue :: "pairingEffect list"
  pairingEffectDraining :: bool
  effReported :: bool
  effPublished :: bool
  effReader :: "nat option"
  spawned :: "goroutine list"
  calls :: nat
  panicked :: bool
  trace :: "event list"

record ship_env =
  isRemoteServicePaired :: "nat \<Rightarrow> bool"
  isAutoAcceptEnabled :: "nat \<Rightarrow> bool"
  allowWaitingForTrust :: "nat \<Rightarrow> bool"
  isDataConnectionClosed :: "nat \<Rightarrow> bool \<times> goError option"
  writeResult :: "nat \<Rightarrow> goError option"
  sensitiveWriter :: "(nat \<Rightarrow> goError option) option"      \<comment> \<open>whether the writer has the sensitive path\<close>
  setupRemoteDevice :: "nat \<Rightarrow> nat option"
  attemptProvider :: bool                                  \<comment> \<open>attempt-aware info provider\<close>
  pinProvider :: "(nat \<Rightarrow> bytes list \<times> (goError option list \<Rightarrow> bool \<times> goError option)) option"
  pinDiscarder :: bool
  attemptContextErr :: "nat \<Rightarrow> bool"
  reactions :: "nat \<Rightarrow> reaction list"
  orderedUnmarshal :: ordered_unmarshal
  jsonErrorText :: "bytes \<Rightarrow> bytes"

definition newConnectionHandler :: "shipRole \<Rightarrow> bytes \<Rightarrow> bytes \<Rightarrow> bytes \<Rightarrow> ship_conn" where
  "newConnectionHandler r localId ski shipId =
    \<lparr>role = r, remoteSKI = ski, remoteShipID = shipId, localShipID = localId,
     outgoingAttemptMetadata = zeroMetadata, hasOutgoingAttempt = False,
     requirePairingApproval = False, pairingApprovalRequested = False,
     pairingApprovalReleased = False, pairingCommitStarted = False,
     pairingCommitCallbackDone = False, pairingClosing = False, pairingTerminal = False,
     spineSetupStarted = False, pinInputSent = False, dataReader = None,
     smeState = CmiStateInitStart, smeError = None, pinHandshakeDetail = None,
     handshakeTimerRunning = False, handshakeTimerType = timeoutTimerTypeWaitForReady,
     handshakeTimerDuration = 0, handshakeTimerActive = 0, lastReceivedWaitingValue = 0,
     shutdownClosed = False, dataHandlerInitDone = False, outgoingAttemptTerminal = False,
     attemptCancellationArmed = False, initializeDataHandlerOnRun = False, spineBuffer = [],
     spineBufferBytes = 0, spineDispatching = False, spineDispatchQueue = [],
     pairingEffectQueue = [], pairingEffectDraining = False, effReported = False,
     effPublished = False, effReader = None, spawned = [], calls = 0, panicked = False,
     trace = []\<rparr>"

definition NewConnectionHandler :: "shipRole \<Rightarrow> bytes \<Rightarrow> bytes \<Rightarrow> bytes \<Rightarrow> ship_conn" where
  "NewConnectionHandler r localId ski shipId =
    (newConnectionHandler r localId ski shipId)\<lparr>initializeDataHandlerOnRun := True\<rparr>"

definition errInvalidConfiguration :: goError where
  "errInvalidConfiguration = ErrNew ''invalid outgoing attempt connection configuration''"

text \<open>The context is present or nil; \<open>context.AfterFunc\<close> arms the cancellation callback.\<close>

definition NewOutgoingConnectionHandler ::
    "shipRole \<Rightarrow> bytes \<Rightarrow> bytes \<Rightarrow> bytes \<Rightarrow> OutgoingAttemptMetadata \<Rightarrow> bool \<Rightarrow> bool \<Rightarrow> goError + ship_conn" where
  "NewOutgoingConnectionHandler r localId ski shipId meta hasContext approval =
    (if AttemptID meta = [] \<or> Scope meta = [] \<or> \<not> hasContext then Inl errInvalidConfiguration
     else Inr ((newConnectionHandler r localId ski shipId)
       \<lparr>outgoingAttemptMetadata := meta, hasOutgoingAttempt := True,
        requirePairingApproval := approval, initializeDataHandlerOnRun := True,
        attemptCancellationArmed := True\<rparr>))"

section \<open>External calls\<close>

definition emit :: "event \<Rightarrow> ship_conn \<Rightarrow> ship_conn" where
  "emit e c = c\<lparr>trace := trace c @ [e]\<rparr>"

definition bumpCall :: "ship_conn \<Rightarrow> ship_conn" where
  "bumpCall c = c\<lparr>calls := Suc (calls c)\<rparr>"

section \<open>The handshake timer (src/ship/handshake.go)\<close>

text \<open>\<open>handshakeTimerActive\<close> counts timer goroutines. Stopping a running timer waits for its
  goroutine to exit, so the count drops; a timer whose callback is executing is not running any
  more and stays counted until the callback returns.\<close>

definition shutdownRequested :: "ship_conn \<Rightarrow> bool" where
  "shutdownRequested c = shutdownClosed c"

definition stopHandshakeTimer :: "ship_conn \<Rightarrow> ship_conn" where
  "stopHandshakeTimer c =
    c\<lparr>handshakeTimerActive := (if handshakeTimerRunning c then handshakeTimerActive c - 1
                               else handshakeTimerActive c),
      handshakeTimerRunning := False\<rparr>"

definition setHandshakeTimer :: "timeoutTimerType \<Rightarrow> duration \<Rightarrow> ship_conn \<Rightarrow> ship_conn" where
  "setHandshakeTimer t d c =
    (let c1 = stopHandshakeTimer c in
     if shutdownRequested c1 then c1
     else c1\<lparr>handshakeTimerRunning := True, handshakeTimerType := t, handshakeTimerDuration := d,
             handshakeTimerActive := Suc (handshakeTimerActive c1)\<rparr>)"

definition finishHandshakeTimer :: "ship_conn \<Rightarrow> ship_conn" where
  "finishHandshakeTimer c = c\<lparr>handshakeTimerActive := handshakeTimerActive c - 1\<rparr>"

definition handshakeTimerCallbacksActive :: "ship_conn \<Rightarrow> bool" where
  "handshakeTimerCallbacksActive c = (0 < handshakeTimerActive c)"

text \<open>The timer operations change the timer's fields only.\<close>

lemma stopHandshakeTimer_frame [frame_simps]:
  "role (stopHandshakeTimer c) = role c"
  "remoteSKI (stopHandshakeTimer c) = remoteSKI c"
  "remoteShipID (stopHandshakeTimer c) = remoteShipID c"
  "localShipID (stopHandshakeTimer c) = localShipID c"
  "outgoingAttemptMetadata (stopHandshakeTimer c) = outgoingAttemptMetadata c"
  "hasOutgoingAttempt (stopHandshakeTimer c) = hasOutgoingAttempt c"
  "requirePairingApproval (stopHandshakeTimer c) = requirePairingApproval c"
  "pairingApprovalRequested (stopHandshakeTimer c) = pairingApprovalRequested c"
  "pairingApprovalReleased (stopHandshakeTimer c) = pairingApprovalReleased c"
  "pairingCommitStarted (stopHandshakeTimer c) = pairingCommitStarted c"
  "pairingCommitCallbackDone (stopHandshakeTimer c) = pairingCommitCallbackDone c"
  "pairingClosing (stopHandshakeTimer c) = pairingClosing c"
  "pairingTerminal (stopHandshakeTimer c) = pairingTerminal c"
  "spineSetupStarted (stopHandshakeTimer c) = spineSetupStarted c"
  "pinInputSent (stopHandshakeTimer c) = pinInputSent c"
  "dataReader (stopHandshakeTimer c) = dataReader c"
  "smeState (stopHandshakeTimer c) = smeState c"
  "smeError (stopHandshakeTimer c) = smeError c"
  "pinHandshakeDetail (stopHandshakeTimer c) = pinHandshakeDetail c"
  "lastReceivedWaitingValue (stopHandshakeTimer c) = lastReceivedWaitingValue c"
  "shutdownClosed (stopHandshakeTimer c) = shutdownClosed c"
  "dataHandlerInitDone (stopHandshakeTimer c) = dataHandlerInitDone c"
  "outgoingAttemptTerminal (stopHandshakeTimer c) = outgoingAttemptTerminal c"
  "attemptCancellationArmed (stopHandshakeTimer c) = attemptCancellationArmed c"
  "initializeDataHandlerOnRun (stopHandshakeTimer c) = initializeDataHandlerOnRun c"
  "spineBuffer (stopHandshakeTimer c) = spineBuffer c"
  "spineBufferBytes (stopHandshakeTimer c) = spineBufferBytes c"
  "spineDispatching (stopHandshakeTimer c) = spineDispatching c"
  "spineDispatchQueue (stopHandshakeTimer c) = spineDispatchQueue c"
  "pairingEffectQueue (stopHandshakeTimer c) = pairingEffectQueue c"
  "pairingEffectDraining (stopHandshakeTimer c) = pairingEffectDraining c"
  "effReported (stopHandshakeTimer c) = effReported c"
  "effPublished (stopHandshakeTimer c) = effPublished c"
  "effReader (stopHandshakeTimer c) = effReader c"
  "spawned (stopHandshakeTimer c) = spawned c"
  "calls (stopHandshakeTimer c) = calls c"
  "panicked (stopHandshakeTimer c) = panicked c"
  "trace (stopHandshakeTimer c) = trace c"
  by (simp_all add: stopHandshakeTimer_def)

lemma setHandshakeTimer_frame [frame_simps]:
  "role (setHandshakeTimer t d c) = role c"
  "remoteSKI (setHandshakeTimer t d c) = remoteSKI c"
  "remoteShipID (setHandshakeTimer t d c) = remoteShipID c"
  "localShipID (setHandshakeTimer t d c) = localShipID c"
  "outgoingAttemptMetadata (setHandshakeTimer t d c) = outgoingAttemptMetadata c"
  "hasOutgoingAttempt (setHandshakeTimer t d c) = hasOutgoingAttempt c"
  "requirePairingApproval (setHandshakeTimer t d c) = requirePairingApproval c"
  "pairingApprovalRequested (setHandshakeTimer t d c) = pairingApprovalRequested c"
  "pairingApprovalReleased (setHandshakeTimer t d c) = pairingApprovalReleased c"
  "pairingCommitStarted (setHandshakeTimer t d c) = pairingCommitStarted c"
  "pairingCommitCallbackDone (setHandshakeTimer t d c) = pairingCommitCallbackDone c"
  "pairingClosing (setHandshakeTimer t d c) = pairingClosing c"
  "pairingTerminal (setHandshakeTimer t d c) = pairingTerminal c"
  "spineSetupStarted (setHandshakeTimer t d c) = spineSetupStarted c"
  "pinInputSent (setHandshakeTimer t d c) = pinInputSent c"
  "dataReader (setHandshakeTimer t d c) = dataReader c"
  "smeState (setHandshakeTimer t d c) = smeState c"
  "smeError (setHandshakeTimer t d c) = smeError c"
  "pinHandshakeDetail (setHandshakeTimer t d c) = pinHandshakeDetail c"
  "lastReceivedWaitingValue (setHandshakeTimer t d c) = lastReceivedWaitingValue c"
  "shutdownClosed (setHandshakeTimer t d c) = shutdownClosed c"
  "dataHandlerInitDone (setHandshakeTimer t d c) = dataHandlerInitDone c"
  "outgoingAttemptTerminal (setHandshakeTimer t d c) = outgoingAttemptTerminal c"
  "attemptCancellationArmed (setHandshakeTimer t d c) = attemptCancellationArmed c"
  "initializeDataHandlerOnRun (setHandshakeTimer t d c) = initializeDataHandlerOnRun c"
  "spineBuffer (setHandshakeTimer t d c) = spineBuffer c"
  "spineBufferBytes (setHandshakeTimer t d c) = spineBufferBytes c"
  "spineDispatching (setHandshakeTimer t d c) = spineDispatching c"
  "spineDispatchQueue (setHandshakeTimer t d c) = spineDispatchQueue c"
  "pairingEffectQueue (setHandshakeTimer t d c) = pairingEffectQueue c"
  "pairingEffectDraining (setHandshakeTimer t d c) = pairingEffectDraining c"
  "effReported (setHandshakeTimer t d c) = effReported c"
  "effPublished (setHandshakeTimer t d c) = effPublished c"
  "effReader (setHandshakeTimer t d c) = effReader c"
  "spawned (setHandshakeTimer t d c) = spawned c"
  "calls (setHandshakeTimer t d c) = calls c"
  "panicked (setHandshakeTimer t d c) = panicked c"
  "trace (setHandshakeTimer t d c) = trace c"
  by (simp_all add: setHandshakeTimer_def stopHandshakeTimer_def Let_def)

lemma finishHandshakeTimer_frame [frame_simps]:
  "role (finishHandshakeTimer c) = role c"
  "remoteSKI (finishHandshakeTimer c) = remoteSKI c"
  "remoteShipID (finishHandshakeTimer c) = remoteShipID c"
  "localShipID (finishHandshakeTimer c) = localShipID c"
  "outgoingAttemptMetadata (finishHandshakeTimer c) = outgoingAttemptMetadata c"
  "hasOutgoingAttempt (finishHandshakeTimer c) = hasOutgoingAttempt c"
  "requirePairingApproval (finishHandshakeTimer c) = requirePairingApproval c"
  "pairingApprovalRequested (finishHandshakeTimer c) = pairingApprovalRequested c"
  "pairingApprovalReleased (finishHandshakeTimer c) = pairingApprovalReleased c"
  "pairingCommitStarted (finishHandshakeTimer c) = pairingCommitStarted c"
  "pairingCommitCallbackDone (finishHandshakeTimer c) = pairingCommitCallbackDone c"
  "pairingClosing (finishHandshakeTimer c) = pairingClosing c"
  "pairingTerminal (finishHandshakeTimer c) = pairingTerminal c"
  "spineSetupStarted (finishHandshakeTimer c) = spineSetupStarted c"
  "pinInputSent (finishHandshakeTimer c) = pinInputSent c"
  "dataReader (finishHandshakeTimer c) = dataReader c"
  "smeState (finishHandshakeTimer c) = smeState c"
  "smeError (finishHandshakeTimer c) = smeError c"
  "pinHandshakeDetail (finishHandshakeTimer c) = pinHandshakeDetail c"
  "lastReceivedWaitingValue (finishHandshakeTimer c) = lastReceivedWaitingValue c"
  "shutdownClosed (finishHandshakeTimer c) = shutdownClosed c"
  "dataHandlerInitDone (finishHandshakeTimer c) = dataHandlerInitDone c"
  "outgoingAttemptTerminal (finishHandshakeTimer c) = outgoingAttemptTerminal c"
  "attemptCancellationArmed (finishHandshakeTimer c) = attemptCancellationArmed c"
  "initializeDataHandlerOnRun (finishHandshakeTimer c) = initializeDataHandlerOnRun c"
  "spineBuffer (finishHandshakeTimer c) = spineBuffer c"
  "spineBufferBytes (finishHandshakeTimer c) = spineBufferBytes c"
  "spineDispatching (finishHandshakeTimer c) = spineDispatching c"
  "spineDispatchQueue (finishHandshakeTimer c) = spineDispatchQueue c"
  "pairingEffectQueue (finishHandshakeTimer c) = pairingEffectQueue c"
  "pairingEffectDraining (finishHandshakeTimer c) = pairingEffectDraining c"
  "effReported (finishHandshakeTimer c) = effReported c"
  "effPublished (finishHandshakeTimer c) = effPublished c"
  "effReader (finishHandshakeTimer c) = effReader c"
  "spawned (finishHandshakeTimer c) = spawned c"
  "calls (finishHandshakeTimer c) = calls c"
  "panicked (finishHandshakeTimer c) = panicked c"
  "trace (finishHandshakeTimer c) = trace c"
  by (simp_all add: finishHandshakeTimer_def)

section \<open>Pairing flags\<close>

definition pairingEffectAllowed :: "ship_conn \<Rightarrow> bool" where
  "pairingEffectAllowed c = (\<not> pairingClosing c \<and> \<not> pairingTerminal c)"

definition spineDispatchTerminated :: "ship_conn \<Rightarrow> bool" where
  "spineDispatchTerminated c = (pairingClosing c \<or> pairingTerminal c)"

definition pairingApprovalPending :: "ship_conn \<Rightarrow> bool" where
  "pairingApprovalPending c = (requirePairingApproval c \<and> \<not> pairingApprovalReleased c)"

text \<open>Result: required, ready.\<close>

definition requestPairingApproval :: "ship_conn \<Rightarrow> bool \<times> bool \<times> ship_conn" where
  "requestPairingApproval c =
    (if pairingCommitStarted c \<and> \<not> pairingCommitCallbackDone c \<and> \<not> pairingClosing c \<and> \<not> pairingTerminal c
     then (True, False, c\<lparr>pairingApprovalRequested := True\<rparr>)
     else if \<not> requirePairingApproval c then (False, False, c)
     else if pairingClosing c \<or> pairingTerminal c \<or> pairingApprovalReleased c then (True, False, c)
     else (True, pairingCommitStarted c \<and> pairingCommitCallbackDone c,
           c\<lparr>pairingApprovalRequested := True\<rparr>))"

definition beginPairingCommit :: "ship_conn \<Rightarrow> bool \<times> ship_conn" where
  "beginPairingCommit c =
    (if pairingClosing c \<or> pairingTerminal c then (False, c)
     else (True, c\<lparr>pairingCommitStarted := True, pairingCommitCallbackDone := False\<rparr>))"

definition completePairingCommitCallback :: "ship_conn \<Rightarrow> bool \<times> ship_conn" where
  "completePairingCommitCallback c =
    (if pairingClosing c \<or> pairingTerminal c then (False, c)
     else (pairingApprovalRequested c, c\<lparr>pairingCommitCallbackDone := True\<rparr>))"

section \<open>Pairing effects: one queue, one drain owner\<close>

text \<open>Result: whether the caller has to drain.\<close>

definition enqueuePairingEffects :: "pairingEffect list \<Rightarrow> ship_conn \<Rightarrow> bool \<times> ship_conn" where
  "enqueuePairingEffects ts c =
    (let c1 = c\<lparr>pairingEffectQueue := pairingEffectQueue c @ ts\<rparr> in
     if pairingEffectDraining c1 then (False, c1)
     else (True, c1\<lparr>pairingEffectDraining := True\<rparr>))"

definition enqueuePairingEffect :: "pairingEffect \<Rightarrow> ship_conn \<Rightarrow> bool \<times> ship_conn" where
  "enqueuePairingEffect t c = enqueuePairingEffects [t] c"

definition takePairingEffect :: "ship_conn \<Rightarrow> pairingEffect option \<times> ship_conn" where
  "takePairingEffect c =
    (case pairingEffectQueue c of
       [] \<Rightarrow> (None, c\<lparr>pairingEffectDraining := False\<rparr>)
     | t # ts \<Rightarrow> (Some t, c\<lparr>pairingEffectQueue := ts\<rparr>))"

interpretation effects: serial_queue pairingEffectQueue pairingEffectDraining
    enqueuePairingEffects takePairingEffect
  by unfold_locales
    (auto simp: enqueuePairingEffects_def takePairingEffect_def Let_def)

text \<open>The part of \<open>CloseConnection\<close> before draining: claim the shutdown once, mark the
  connection closing, queue the close. Result: whether the caller has to drain.\<close>

definition claimClose :: "bool \<Rightarrow> int \<Rightarrow> bytes \<Rightarrow> ship_conn \<Rightarrow> bool \<times> ship_conn" where
  "claimClose safe code reason c =
    (if shutdownClosed c then (False, c)
     else enqueuePairingEffect (EffClose safe code reason)
            (c\<lparr>shutdownClosed := True, pairingClosing := True\<rparr>))"

definition react1 :: "reaction \<Rightarrow> ship_conn \<Rightarrow> ship_conn" where
  "react1 r c =
    (case r of
       RClose safe code reason \<Rightarrow> snd (claimClose safe code reason c)
     | RApprovalRequest \<Rightarrow>
         (case requestPairingApproval c of
            (required, ready, c1) \<Rightarrow> if required \<and> \<not> ready then c1 else c))"

definition reactQ :: "ship_env \<Rightarrow> ship_conn \<Rightarrow> ship_conn" where
  "reactQ env c = fold react1 (reactions env (calls c)) (bumpCall c)"

definition stopOutgoingAttemptCancellation :: "ship_conn \<Rightarrow> ship_conn" where
  "stopOutgoingAttemptCancellation c = c\<lparr>attemptCancellationArmed := False\<rparr>"

definition reportConnectionClosed :: "ship_env \<Rightarrow> bool \<Rightarrow> ship_conn \<Rightarrow> ship_conn" where
  "reportConnectionClosed env handshakeCompleted c =
    (if hasOutgoingAttempt c \<and> attemptProvider env then
       (if outgoingAttemptTerminal c then c
        else reactQ env (emit (EvClosed True handshakeCompleted)
               (stopOutgoingAttemptCancellation (c\<lparr>outgoingAttemptTerminal := True\<rparr>))))
     else reactQ env (emit (EvClosed False handshakeCompleted) c))"

definition reportShipHandshakeStateUpdate :: "ship_env \<Rightarrow> ShipState \<Rightarrow> ship_conn \<Rightarrow> ship_conn" where
  "reportShipHandshakeStateUpdate env st c = reactQ env (emit (EvStateReport st) c)"

section \<open>\<open>setState\<close> (src/ship/handshake.go)\<close>

definition setStateTimer :: "ShipMessageExchangeState \<Rightarrow> ShipMessageExchangeState \<Rightarrow> ship_conn \<Rightarrow> ship_conn" where
  "setStateTimer oldState newState c =
    (case newState of
       SmeHelloStateReadyInit \<Rightarrow> setHandshakeTimer timeoutTimerTypeWaitForReady tHelloInit c
     | SmeHelloStatePendingInit \<Rightarrow> setHandshakeTimer timeoutTimerTypeWaitForReady tHelloInit c
     | SmeHelloStateOk \<Rightarrow> stopHandshakeTimer c
     | SmeHelloStateAbort \<Rightarrow> stopHandshakeTimer c
     | SmeHelloStateAbortDone \<Rightarrow> stopHandshakeTimer c
     | SmeHelloStateRemoteAbortDone \<Rightarrow> stopHandshakeTimer c
     | SmeHelloStateRejected \<Rightarrow> stopHandshakeTimer c
     | SmeProtHStateClientListenChoice \<Rightarrow> setHandshakeTimer timeoutTimerTypeWaitForReady cmiTimeout c
     | SmeProtHStateClientOk \<Rightarrow> stopHandshakeTimer c
     | SmePinStateAskInit \<Rightarrow> setHandshakeTimer timeoutTimerTypeWaitForReady cmiTimeout c
     | SmePinStateAskProcess \<Rightarrow>
         (if pinInputSent c then setHandshakeTimer timeoutTimerTypeWaitForReady pinResponseTimeout c
          else if oldState \<noteq> SmePinStateAskProcess
          then setHandshakeTimer timeoutTimerTypeWaitForReady pinBusyTimeout c
          else c)
     | SmePinStateCheckOk \<Rightarrow> stopHandshakeTimer c
     | SmePinStateAskRestricted \<Rightarrow> stopHandshakeTimer c
     | SmePinStateAskOk \<Rightarrow> stopHandshakeTimer c
     | _ \<Rightarrow> c)"

lemma setStateTimer_frame [frame_simps]:
  "role (setStateTimer o1 s c) = role c"
  "remoteSKI (setStateTimer o1 s c) = remoteSKI c"
  "remoteShipID (setStateTimer o1 s c) = remoteShipID c"
  "localShipID (setStateTimer o1 s c) = localShipID c"
  "outgoingAttemptMetadata (setStateTimer o1 s c) = outgoingAttemptMetadata c"
  "hasOutgoingAttempt (setStateTimer o1 s c) = hasOutgoingAttempt c"
  "requirePairingApproval (setStateTimer o1 s c) = requirePairingApproval c"
  "pairingApprovalRequested (setStateTimer o1 s c) = pairingApprovalRequested c"
  "pairingApprovalReleased (setStateTimer o1 s c) = pairingApprovalReleased c"
  "pairingCommitStarted (setStateTimer o1 s c) = pairingCommitStarted c"
  "pairingCommitCallbackDone (setStateTimer o1 s c) = pairingCommitCallbackDone c"
  "pairingClosing (setStateTimer o1 s c) = pairingClosing c"
  "pairingTerminal (setStateTimer o1 s c) = pairingTerminal c"
  "spineSetupStarted (setStateTimer o1 s c) = spineSetupStarted c"
  "pinInputSent (setStateTimer o1 s c) = pinInputSent c"
  "dataReader (setStateTimer o1 s c) = dataReader c"
  "smeState (setStateTimer o1 s c) = smeState c"
  "smeError (setStateTimer o1 s c) = smeError c"
  "pinHandshakeDetail (setStateTimer o1 s c) = pinHandshakeDetail c"
  "lastReceivedWaitingValue (setStateTimer o1 s c) = lastReceivedWaitingValue c"
  "shutdownClosed (setStateTimer o1 s c) = shutdownClosed c"
  "dataHandlerInitDone (setStateTimer o1 s c) = dataHandlerInitDone c"
  "outgoingAttemptTerminal (setStateTimer o1 s c) = outgoingAttemptTerminal c"
  "attemptCancellationArmed (setStateTimer o1 s c) = attemptCancellationArmed c"
  "initializeDataHandlerOnRun (setStateTimer o1 s c) = initializeDataHandlerOnRun c"
  "spineBuffer (setStateTimer o1 s c) = spineBuffer c"
  "spineBufferBytes (setStateTimer o1 s c) = spineBufferBytes c"
  "spineDispatching (setStateTimer o1 s c) = spineDispatching c"
  "spineDispatchQueue (setStateTimer o1 s c) = spineDispatchQueue c"
  "pairingEffectQueue (setStateTimer o1 s c) = pairingEffectQueue c"
  "pairingEffectDraining (setStateTimer o1 s c) = pairingEffectDraining c"
  "effReported (setStateTimer o1 s c) = effReported c"
  "effPublished (setStateTimer o1 s c) = effPublished c"
  "effReader (setStateTimer o1 s c) = effReader c"
  "spawned (setStateTimer o1 s c) = spawned c"
  "calls (setStateTimer o1 s c) = calls c"
  "panicked (setStateTimer o1 s c) = panicked c"
  "trace (setStateTimer o1 s c) = trace c"
  by (cases s; simp add: setStateTimer_def frame_simps)+

text \<open>The locked part of \<open>setState\<close>. Result: what \<open>setState\<close> returns, and whether the caller
  has to drain the effects.\<close>

definition setStateLocked :: "ShipMessageExchangeState \<Rightarrow> goError option \<Rightarrow> ship_conn \<Rightarrow> bool \<times> bool \<times> ship_conn" where
  "setStateLocked newState err c =
    (if pairingClosing c \<or> pairingTerminal c then (False, False, c)
     else
       (let oldState = smeState c;
            c1 = setStateTimer oldState newState (c\<lparr>smeState := newState\<rparr>);
            c2 = c1\<lparr>smeError := None\<rparr>
        in if oldState \<noteq> newState then
             (let c3 = c2\<lparr>smeError := err\<rparr>;
                  st = \<lparr>State = newState, Error = err, PIN = pinClone (pinHandshakeDetail c3)\<rparr>;
                  (shouldDrain, c4) = enqueuePairingEffect (EffReport st) c3
              in (True, shouldDrain, c4))
           else (True, False, c2)))"

section \<open>Sending (src/ship/connection.go)\<close>

definition writeShipMessage :: "ship_env \<Rightarrow> bytes \<Rightarrow> bool \<Rightarrow> ship_conn \<Rightarrow> goError option \<times> ship_conn" where
  "writeShipMessage env message allowClosing c =
    (if \<not> allowClosing \<and> shutdownRequested c then (Some ErrConnectionClosing, c)
     else (let r = writeResult env (calls c) in (r, emit (EvWrite message (r = None)) (bumpCall c))))"

text \<open>\<open>shipMessage\<close>: the error, the message (empty when nil) and the connection. The close of a
  connection whose socket is gone is the parameter \<open>close\<close>, because one caller is the drain
  loop itself, where a nested \<open>CloseConnection\<close> only queues.\<close>

definition shipMessage :: "(ship_conn \<Rightarrow> ship_conn) \<Rightarrow> ship_env \<Rightarrow> nat \<Rightarrow> ShipModel option \<Rightarrow> ship_conn \<Rightarrow>
    goError option \<times> bytes \<times> ship_conn" where
  "shipMessage close env typ model c =
    (let (isClosed, err) = isDataConnectionClosed env (calls c); c1 = bumpCall c in
     if isClosed then (err, [], close c1)
     else case model of
       None \<Rightarrow> (Some (ErrNew ''invalid data''), [], c1)
     | Some m \<Rightarrow>
         (case JsonIntoEEBUSJson (orderedUnmarshal env) (marshalModel m) of
            None \<Rightarrow> (Some (ErrJson (jsonErrorText env (marshalModel m))), [], c1)
          | Some eebusMsg \<Rightarrow> (None, typeByte typ # eebusMsg, c1)))"

definition sendShipModelWithClosing :: "(ship_conn \<Rightarrow> ship_conn) \<Rightarrow> ship_env \<Rightarrow> nat \<Rightarrow> ShipModel option \<Rightarrow> bool \<Rightarrow>
    ship_conn \<Rightarrow> goError option \<times> ship_conn" where
  "sendShipModelWithClosing close env typ model allowClosing c =
    (case shipMessage close env typ model c of
       (Some err, _, c1) \<Rightarrow> (Some err, c1)
     | (None, shipMsg, c1) \<Rightarrow> writeShipMessage env shipMsg allowClosing c1)"

section \<open>Closing\<close>

definition discardBufferedSpineMessages :: "ship_conn \<Rightarrow> ship_conn" where
  "discardBufferedSpineMessages c = c\<lparr>spineBuffer := [], spineBufferBytes := 0\<rparr>"

definition discardPendingSpineDispatches :: "ship_conn \<Rightarrow> ship_conn" where
  "discardPendingSpineDispatches c = c\<lparr>spineDispatchQueue := []\<rparr>"

definition handshakeEnded :: "ShipMessageExchangeState \<Rightarrow> bool" where
  "handshakeEnded state = (state = SmeStateComplete \<or> state = SmeHelloStateAbortDone
     \<or> state = SmeHelloStateRemoteAbortDone \<or> state = SmeHelloStateRejected)"

definition sendShipModelDuringClose :: "ship_env \<Rightarrow> nat \<Rightarrow> ShipModel \<Rightarrow> ship_conn \<Rightarrow> goError option \<times> ship_conn" where
  "sendShipModelDuringClose env typ model c =
    sendShipModelWithClosing (\<lambda>d. snd (claimClose False 0 [] d)) env typ (Some model) True c"

definition finishCloseConnection :: "ship_env \<Rightarrow> bool \<Rightarrow> int \<Rightarrow> bytes \<Rightarrow> bool \<Rightarrow> ShipMessageExchangeState \<Rightarrow>
    ship_conn \<Rightarrow> ship_conn" where
  "finishCloseConnection env safe code reason handshakeEnd state c =
    (if safe \<and> state = SmeStateComplete then
       (let c1 = snd (sendShipModelDuringClose env MsgTypeEnd
                  (ConnectionClose ConnectionClosePhaseTypeAnnounce (Some 500) (Some reason)) c)
        in c1\<lparr>spawned := spawned c1 @ [GoSafeClose handshakeEnd]\<rparr>)
     else
       (let closeCode = (if code \<noteq> 0 then code else 4001)
        in reportConnectionClosed env handshakeEnd (emit (EvCloseData closeCode reason) c)))"

definition closeConnectionLocked :: "ship_conn \<Rightarrow> ship_conn" where
  "closeConnectionLocked c =
    stopHandshakeTimer (stopOutgoingAttemptCancellation (discardPendingSpineDispatches
      (discardBufferedSpineMessages (c\<lparr>pairingClosing := True, pairingTerminal := True\<rparr>))))"

definition closeConnection :: "ship_env \<Rightarrow> bool \<Rightarrow> int \<Rightarrow> bytes \<Rightarrow> ship_conn \<Rightarrow> ship_conn" where
  "closeConnection env safe code reason c =
    (let c1 = closeConnectionLocked c;
         state = smeState c1;
         handshakeEnd = handshakeEnded state
     in if handshakeTimerCallbacksActive c1
        then c1\<lparr>spawned := spawned c1 @ [GoFinishAfterTimers safe code reason handshakeEnd state]\<rparr>
        else finishCloseConnection env safe code reason handshakeEnd state c1)"

section \<open>Running the effects\<close>

definition runEffect :: "ship_env \<Rightarrow> pairingEffect \<Rightarrow> ship_conn \<Rightarrow> ship_conn" where
  "runEffect env t c =
    (case t of
       EffReport st \<Rightarrow> reportShipHandshakeStateUpdate env st c
     | EffReportShipID \<Rightarrow>
         (if \<not> pairingEffectAllowed c then c
          else (reactQ env (emit (EvShipID (remoteSKI c) (remoteShipID c)) c))\<lparr>effReported := True\<rparr>)
     | EffPublishApproved \<Rightarrow>
         (if \<not> pairingEffectAllowed c then c
          else (snd (snd (setStateLocked SmeStateApproved None c)))\<lparr>effPublished := True\<rparr>)
     | EffSetup \<Rightarrow>
         (if pairingEffectAllowed c then
            (reactQ env (emit EvSetup c))\<lparr>effReader := setupRemoteDevice env (calls c)\<rparr>
          else c)
     | EffClose safe code reason \<Rightarrow> closeConnection env safe code reason c
     | EffFinish safe code reason handshakeEnd state \<Rightarrow>
         finishCloseConnection env safe code reason handshakeEnd state c)"

primrec effectWeight :: "pairingEffect \<Rightarrow> nat" where
  "effectWeight (EffReport st) = 1"
| "effectWeight EffReportShipID = 1"
| "effectWeight EffPublishApproved = 2"
| "effectWeight EffSetup = 1"
| "effectWeight (EffClose s k r) = 1"
| "effectWeight (EffFinish s k r h st) = 1"

definition effectMeasure :: "ship_conn \<Rightarrow> nat" where
  "effectMeasure c = sum_list (map effectWeight (pairingEffectQueue c)) + (if shutdownClosed c then 0 else 1)"

lemma effectMeasure_claimClose: "effectMeasure (snd (claimClose s k r c)) = effectMeasure c"
  by (simp add: claimClose_def effectMeasure_def enqueuePairingEffect_def enqueuePairingEffects_def Let_def)

lemma effectMeasure_react1: "effectMeasure (react1 r c) = effectMeasure c"
  by (cases r)
    (auto simp: react1_def effectMeasure_claimClose requestPairingApproval_def
      simp: effectMeasure_def [of "c\<lparr>pairingApprovalRequested := True\<rparr>"] effectMeasure_def [of c])

lemma effectMeasure_cong:
  "pairingEffectQueue c = pairingEffectQueue d \<Longrightarrow> shutdownClosed c = shutdownClosed d \<Longrightarrow>
     effectMeasure c = effectMeasure d"
  by (simp add: effectMeasure_def)

lemma effectMeasure_fold: "effectMeasure (fold react1 rs c) = effectMeasure c"
  by (induction rs arbitrary: c) (simp_all add: effectMeasure_react1)

lemma effectMeasure_reactQ: "effectMeasure (reactQ env c) = effectMeasure c"
  unfolding reactQ_def effectMeasure_fold by (rule effectMeasure_cong) (simp_all add: bumpCall_def)

lemma effectMeasure_emit: "effectMeasure (emit e c) = effectMeasure c"
  by (rule effectMeasure_cong) (simp_all add: emit_def)

lemma effectMeasure_reportClosed: "effectMeasure (reportConnectionClosed env h c) = effectMeasure c"
  unfolding reportConnectionClosed_def
  by (simp add: effectMeasure_reactQ effectMeasure_emit)
    (simp add: effectMeasure_def stopOutgoingAttemptCancellation_def)

lemma effectMeasure_write: "effectMeasure (snd (writeShipMessage env m b c)) = effectMeasure c"
  unfolding writeShipMessage_def Let_def
  by (simp add: effectMeasure_emit) (simp add: effectMeasure_def bumpCall_def)

lemma effectMeasure_bumpCall: "effectMeasure (bumpCall c) = effectMeasure c"
  by (rule effectMeasure_cong) (simp_all add: bumpCall_def)

lemma effectMeasure_send: "effectMeasure (snd (sendShipModelDuringClose env t m c)) = effectMeasure c"
  unfolding sendShipModelDuringClose_def sendShipModelWithClosing_def shipMessage_def Let_def
  by (auto simp: effectMeasure_claimClose effectMeasure_bumpCall effectMeasure_write split: prod.splits option.splits)

lemmas effectMeasure_simps = effectMeasure_claimClose effectMeasure_reactQ effectMeasure_emit
  effectMeasure_reportClosed effectMeasure_write effectMeasure_send

lemma effectMeasure_updates [simp]:
  "effectMeasure (c\<lparr>spawned := x1\<rparr>) = effectMeasure c"
  "effectMeasure (c\<lparr>effReported := x2\<rparr>) = effectMeasure c"
  "effectMeasure (c\<lparr>effPublished := x2\<rparr>) = effectMeasure c"
  "effectMeasure (c\<lparr>effReader := x3\<rparr>) = effectMeasure c"
  by (simp_all add: effectMeasure_def)

lemma effectMeasure_finish: "effectMeasure (finishCloseConnection env s k r h st c) = effectMeasure c"
  unfolding finishCloseConnection_def Let_def by (simp add: effectMeasure_simps)

lemma effectMeasure_closeLocked: "effectMeasure (closeConnectionLocked c) = effectMeasure c"
  by (rule effectMeasure_cong)
    (simp_all add: closeConnectionLocked_def stopHandshakeTimer_def stopOutgoingAttemptCancellation_def
      discardPendingSpineDispatches_def discardBufferedSpineMessages_def)

lemma effectMeasure_close: "effectMeasure (closeConnection env s k r c) = effectMeasure c"
  unfolding closeConnection_def Let_def
  by (simp add: effectMeasure_finish effectMeasure_closeLocked)

lemma effectMeasure_publish:
  "effectMeasure (snd (snd (setStateLocked SmeStateApproved None c))) \<le> Suc (effectMeasure c)"
  by (auto simp: setStateLocked_def setStateTimer_def effectMeasure_def enqueuePairingEffect_def
      enqueuePairingEffects_def Let_def)

lemma effectMeasure_runEffect: "effectMeasure (runEffect env t c) < effectMeasure c + effectWeight t"
proof (cases t)
  case EffPublishApproved
  then show ?thesis using effectMeasure_publish [of c] by (simp add: runEffect_def)
qed (simp_all add: runEffect_def reportShipHandshakeStateUpdate_def effectMeasure_simps
      effectMeasure_close effectMeasure_finish)

lemma effectMeasure_take:
  "takePairingEffect c = (Some t, c1) \<Longrightarrow> effectMeasure c = effectMeasure c1 + effectWeight t"
  by (auto simp: takePairingEffect_def effectMeasure_def split: list.splits)

function drainPairingEffects :: "ship_env \<Rightarrow> ship_conn \<Rightarrow> ship_conn" where
  "drainPairingEffects env c =
    (case takePairingEffect c of
       (None, c1) \<Rightarrow> c1
     | (Some t, c1) \<Rightarrow> drainPairingEffects env (runEffect env t c1))"
  by pat_completeness auto
termination
proof (relation "measure (\<lambda>(env, c). effectMeasure c)", goal_cases)
  case 1
  show ?case by simp
next
  case (2 env c a b t)
  then have "effectMeasure c = effectMeasure b + effectWeight t"
    by (simp add: effectMeasure_take)
  with effectMeasure_runEffect [of env t b] show ?case by simp
qed

declare drainPairingEffects.simps [simp del]

lemmas drain_induct = drainPairingEffects.induct [case_names drain]

lemma drain_empty:
  "pairingEffectQueue c = [] \<Longrightarrow> drainPairingEffects env c = c\<lparr>pairingEffectDraining := False\<rparr>"
  by (simp add: drainPairingEffects.simps [of env c] takePairingEffect_def)

lemma drain_Cons:
  "pairingEffectQueue c = t # ts \<Longrightarrow>
     drainPairingEffects env c = drainPairingEffects env (runEffect env t (c\<lparr>pairingEffectQueue := ts\<rparr>))"
  by (simp add: drainPairingEffects.simps [of env c] takePairingEffect_def)

section \<open>Operations that drain\<close>

text \<open>What \<open>reactQ\<close> queued outside the drain loop is drained by its caller.\<close>

definition settle :: "ship_env \<Rightarrow> ship_conn \<Rightarrow> ship_conn \<Rightarrow> ship_conn" where
  "settle env prev c =
    (if \<not> pairingEffectDraining prev \<and> pairingEffectDraining c then drainPairingEffects env c else c)"

definition react :: "ship_env \<Rightarrow> ship_conn \<Rightarrow> ship_conn" where
  "react env c = settle env c (reactQ env c)"

definition runPairingEffect :: "ship_env \<Rightarrow> pairingEffect \<Rightarrow> ship_conn \<Rightarrow> ship_conn" where
  "runPairingEffect env t c =
    (let (shouldDrain, c1) = enqueuePairingEffect t c
     in if shouldDrain then drainPairingEffects env c1 else c1)"

definition CloseConnection :: "ship_env \<Rightarrow> bool \<Rightarrow> int \<Rightarrow> bytes \<Rightarrow> ship_conn \<Rightarrow> ship_conn" where
  "CloseConnection env safe code reason c =
    (let (shouldDrain, c1) = claimClose safe code reason c
     in if shouldDrain then drainPairingEffects env c1 else c1)"

definition setState :: "ship_env \<Rightarrow> ShipMessageExchangeState \<Rightarrow> goError option \<Rightarrow> ship_conn \<Rightarrow> bool \<times> ship_conn" where
  "setState env newState err c =
    (let (ok, shouldDrain, c1) = setStateLocked newState err c
     in (ok, if shouldDrain then drainPairingEffects env c1 else c1))"

definition reportServiceShipID :: "ship_env \<Rightarrow> ship_conn \<Rightarrow> bool \<times> ship_conn" where
  "reportServiceShipID env c =
    (let c1 = runPairingEffect env EffReportShipID (c\<lparr>effReported := False\<rparr>) in (effReported c1, c1))"

definition publishPairingApproved :: "ship_env \<Rightarrow> ship_conn \<Rightarrow> bool \<times> ship_conn" where
  "publishPairingApproved env c =
    (let c1 = runPairingEffect env EffPublishApproved (c\<lparr>effPublished := False\<rparr>) in (effPublished c1, c1))"

definition sendShipModel :: "ship_env \<Rightarrow> nat \<Rightarrow> ShipModel \<Rightarrow> ship_conn \<Rightarrow> goError option \<times> ship_conn" where
  "sendShipModel env typ model c =
    sendShipModelWithClosing (CloseConnection env False 0 []) env typ (Some model) False c"

definition initializeDataProcessing :: "ship_env \<Rightarrow> ship_conn \<Rightarrow> ship_conn" where
  "initializeDataProcessing env c =
    (if dataHandlerInitDone c then c
     else react env (emit EvInitData (c\<lparr>dataHandlerInitDone := True\<rparr>)))"

text \<open>The callback of \<open>context.AfterFunc\<close> in \<open>NewOutgoingConnectionHandler\<close>.\<close>

definition attemptCanceled :: "ship_env \<Rightarrow> ship_conn \<Rightarrow> ship_conn" where
  "attemptCanceled env c =
    CloseConnection env False 0 ''outgoing attempt canceled'' (initializeDataProcessing env c)"

section \<open>PIN outcome\<close>

definition setPINHandshakeDetail :: "ship_env \<Rightarrow> PINHandshakeDetail option \<Rightarrow> bool \<Rightarrow> ship_conn \<Rightarrow> ship_conn" where
  "setPINHandshakeDetail env detail publish c =
    (let changed = (\<not> pinEqual (pinHandshakeDetail c) detail);
         c1 = c\<lparr>pinHandshakeDetail := pinClone detail\<rparr>;
         st = \<lparr>State = smeState c1, Error = smeError c1, PIN = pinClone (pinHandshakeDetail c1)\<rparr>
     in if \<not> changed \<or> \<not> publish then c1 else runPairingEffect env (EffReport st) c1)"

definition pinFailureCategory :: "goError \<Rightarrow> PINCategory \<times> bool" where
  "pinFailureCategory err =
    (case err of
       ErrPINRejected \<Rightarrow> (PINCategoryRejected, False)
     | ErrPINProtocol \<Rightarrow> (PINCategoryProtocol, False)
     | ErrPINInvalid \<Rightarrow> (PINCategoryUnavailable, False)
     | _ \<Rightarrow> (PINCategoryUnavailable, True))"

definition setPINFailureFor :: "goError \<Rightarrow> ship_conn \<Rightarrow> ship_conn" where
  "setPINFailureFor err c =
    (let inPINHandshake = (pinHandshakeDetail c \<noteq> None \<or>
           stateValue SmePinStateCheckInit \<le> stateValue (smeState c)
           \<and> stateValue (smeState c) \<le> stateValue SmePinStateAskOk)
     in if \<not> inPINHandshake then c
        else case pinHandshakeDetail c of
          Some d \<Rightarrow>
            (if Phase d = PINPhaseFailed then c
             else let (cat, retry) = pinFailureCategory err
                  in c\<lparr>pinHandshakeDetail := Some \<lparr>Requirement = Requirement d, Phase = PINPhaseFailed,
                        Category = Some cat, Retryable = retry\<rparr>\<rparr>)
        | None \<Rightarrow>
            (let (cat, retry) = pinFailureCategory err
             in c\<lparr>pinHandshakeDetail := Some \<lparr>Requirement = PINRequirementUnknown, Phase = PINPhaseFailed,
                   Category = Some cat, Retryable = retry\<rparr>\<rparr>))"

definition currentPINRequirement :: "ship_conn \<Rightarrow> PINRequirement" where
  "currentPINRequirement c =
    (case pinHandshakeDetail c of None \<Rightarrow> PINRequirementUnknown | Some d \<Rightarrow> Requirement d)"

definition beginPINInput :: "ship_conn \<Rightarrow> bool \<times> ship_conn" where
  "beginPINInput c = (if pinInputSent c then (False, c) else (True, c\<lparr>pinInputSent := True\<rparr>))"

definition rollbackPINInput :: "ship_conn \<Rightarrow> ship_conn" where
  "rollbackPINInput c = c\<lparr>pinInputSent := False\<rparr>"

definition discardTransientPIN :: "ship_env \<Rightarrow> ship_conn \<Rightarrow> ship_conn" where
  "discardTransientPIN env c = (if pinDiscarder env then emit EvDiscardPIN c else c)"

text \<open>\<open>endHandshakeWithError\<close> (src/ship/handshake.go).\<close>

definition endHandshakeWithError :: "ship_env \<Rightarrow> goError \<Rightarrow> ship_conn \<Rightarrow> ship_conn" where
  "endHandshakeWithError env err c =
    (let c1 = setPINFailureFor err (discardTransientPIN env (stopHandshakeTimer c));
         (ok, c2) = setState env SmeStateError (Some err) c1
     in if \<not> ok then c2 else CloseConnection env True 0 (errorText err) c2)"

section \<open>SPINE data\<close>

definition maxBufferedSpineMessages :: nat where "maxBufferedSpineMessages = 16"
definition maxBufferedSpineBytes :: int where "maxBufferedSpineBytes = 16 * 1024"

text \<open>Result: the reader, the close code and the close reason.\<close>

definition routeOrBufferSpinePayload :: "bytes \<Rightarrow> ship_conn \<Rightarrow> nat option \<times> int \<times> bytes \<times> ship_conn" where
  "routeOrBufferSpinePayload payload c =
    (if pairingClosing c \<or> pairingTerminal c then (None, 0, [], c)
     else if dataReader c \<noteq> None then (dataReader c, 0, [], c)
     else if requirePairingApproval c \<and> \<not> pairingApprovalReleased c
       then (None, 4452, ''SPINE data before pairing approval'', c\<lparr>pairingTerminal := True\<rparr>)
     else if maxBufferedSpineMessages \<le> length (spineBuffer c)
        \<or> maxBufferedSpineBytes - spineBufferBytes c < int (length payload)
       then (None, 4452, ''SPINE setup buffer limit exceeded'', c\<lparr>pairingTerminal := True\<rparr>)
     else (None, 0, [], c\<lparr>spineBuffer := spineBuffer c @ [payload],
                         spineBufferBytes := spineBufferBytes c + int (length payload)\<rparr>))"

definition enqueueSpineDispatchLocked :: "spineTask list \<Rightarrow> ship_conn \<Rightarrow> bool \<times> ship_conn" where
  "enqueueSpineDispatchLocked tasks c =
    (let c1 = c\<lparr>spineDispatchQueue := spineDispatchQueue c @ tasks\<rparr> in
     if spineDispatching c1 then (False, c1) else (True, c1\<lparr>spineDispatching := True\<rparr>))"

definition takeSpineDispatch :: "ship_conn \<Rightarrow> spineTask option \<times> ship_conn" where
  "takeSpineDispatch c =
    (case spineDispatchQueue c of
       [] \<Rightarrow> (None, c\<lparr>spineDispatching := False\<rparr>)
     | t # ts \<Rightarrow> (Some t, c\<lparr>spineDispatchQueue := ts\<rparr>))"

interpretation spine: serial_queue spineDispatchQueue spineDispatching
    enqueueSpineDispatchLocked takeSpineDispatch
  by unfold_locales
    (auto simp: enqueueSpineDispatchLocked_def takeSpineDispatch_def Let_def)

definition completeState :: ShipState where
  "completeState = \<lparr>State = SmeStateComplete, Error = None, PIN = None\<rparr>"

definition runSpineTask :: "ship_env \<Rightarrow> spineTask \<Rightarrow> ship_conn \<Rightarrow> ship_conn" where
  "runSpineTask env t c =
    (if spineDispatchTerminated c then c
     else case t of
       SpComplete \<Rightarrow> react env (emit (EvStateReport completeState) c)
     | SpPayload reader payload \<Rightarrow> react env (emit (EvPayload reader payload) c))"

section \<open>Invariants of the effect queue\<close>

text \<open>
  What a property of the connection must satisfy to survive every run of the drain loop,
  whatever the callbacks do. \<open>P\<close> is the property between tasks. \<open>Q\<close> is the property while a close
  task runs, after it left the queue and before it reported or handed over to a goroutine; for
  most properties it is \<open>P\<close> itself. The laws are about single locked sections and single
  external calls, so an instance is proved without looking at the loop.
\<close>

locale drain_inv =
  fixes P :: "ship_conn \<Rightarrow> bool"
    and Q :: "ship_conn \<Rightarrow> bool"
  assumes bump_P: "P c \<Longrightarrow> P (bumpCall c)"
    and bump_Q: "Q c \<Longrightarrow> Q (bumpCall c)"
    and claim_P: "P c \<Longrightarrow> P (snd (claimClose s k r c))"
    and claim_Q: "Q c \<Longrightarrow> Q (snd (claimClose s k r c))"
    and request_P: "P c \<Longrightarrow> P (snd (snd (requestPairingApproval c)))"
    and request_Q: "Q c \<Longrightarrow> Q (snd (snd (requestPairingApproval c)))"
    and reported: "P c \<Longrightarrow> P (c\<lparr>effReported := b\<rparr>)"
    and published: "P c \<Longrightarrow> P (c\<lparr>effPublished := b\<rparr>)"
    and reader: "P c \<Longrightarrow> P (c\<lparr>effReader := x\<rparr>)"
    and locked_Q: "Q c \<Longrightarrow> Q (closeConnectionLocked c)"
    and write_Q: "Q c \<Longrightarrow> Q (emit (EvWrite m b) c)"
    and closedata_Q: "Q c \<Longrightarrow> Q (emit (EvCloseData k r) c)"
    and terminal_Q: "Q c \<Longrightarrow> \<not> outgoingAttemptTerminal c \<Longrightarrow>
      P (emit (EvClosed w h) (stopOutgoingAttemptCancellation (c\<lparr>outgoingAttemptTerminal := True\<rparr>)))"
    and drop_Q: "Q c \<Longrightarrow> outgoingAttemptTerminal c \<Longrightarrow> P c"
    and closed_Q: "Q c \<Longrightarrow> P (emit (EvClosed w h) c)"
    and safe_Q: "Q c \<Longrightarrow> P (c\<lparr>spawned := spawned c @ [GoSafeClose h]\<rparr>)"
    and after_timers_Q: "Q c \<Longrightarrow> P (c\<lparr>spawned := spawned c @ [GoFinishAfterTimers s k r h st]\<rparr>)"
    and take_report: "P c \<Longrightarrow> pairingEffectQueue c = EffReport i # ts \<Longrightarrow>
      P (emit (EvStateReport i) (c\<lparr>pairingEffectQueue := ts\<rparr>))"
    and take_shipid: "P c \<Longrightarrow> pairingEffectQueue c = EffReportShipID # ts \<Longrightarrow> P (c\<lparr>pairingEffectQueue := ts\<rparr>)"
    and shipid: "P c \<Longrightarrow> P (emit (EvShipID (remoteSKI c) (remoteShipID c)) c)"
    and take_publish: "P c \<Longrightarrow> pairingEffectQueue c = EffPublishApproved # ts \<Longrightarrow> P (c\<lparr>pairingEffectQueue := ts\<rparr>)"
    and take_publish_run: "P c \<Longrightarrow> pairingEffectQueue c = EffPublishApproved # ts \<Longrightarrow> pairingEffectAllowed c \<Longrightarrow>
      P (snd (snd (setStateLocked SmeStateApproved None (c\<lparr>pairingEffectQueue := ts\<rparr>))))"
    and take_setup: "P c \<Longrightarrow> pairingEffectQueue c = EffSetup # ts \<Longrightarrow> P (c\<lparr>pairingEffectQueue := ts\<rparr>)"
    and take_setup_call: "P c \<Longrightarrow> pairingEffectQueue c = EffSetup # ts \<Longrightarrow> pairingEffectAllowed c \<Longrightarrow>
      P (emit EvSetup (c\<lparr>pairingEffectQueue := ts\<rparr>))"
    and take_close: "P c \<Longrightarrow> pairingEffectQueue c = EffClose s k r # ts \<Longrightarrow> Q (c\<lparr>pairingEffectQueue := ts\<rparr>)"
    and take_finish: "P c \<Longrightarrow> pairingEffectQueue c = EffFinish s k r h st # ts \<Longrightarrow>
      Q (c\<lparr>pairingEffectQueue := ts\<rparr>)"
    and idle: "P c \<Longrightarrow> pairingEffectQueue c = [] \<Longrightarrow> P (c\<lparr>pairingEffectDraining := False\<rparr>)"
begin

lemma react1_P: "P c \<Longrightarrow> P (react1 r c)"
  using request_P [of c] by (auto simp: react1_def claim_P split: reaction.splits prod.splits)

lemma react1_Q: "Q c \<Longrightarrow> Q (react1 r c)"
  using request_Q [of c] by (auto simp: react1_def claim_Q split: reaction.splits prod.splits)

lemma fold_P: "P c \<Longrightarrow> P (fold react1 rs c)"
  by (induction rs arbitrary: c) (simp_all add: react1_P)

lemma reactQ_P: "P c \<Longrightarrow> P (reactQ env c)"
  by (simp add: reactQ_def fold_P bump_P)

lemma reportClosed_Q: "Q c \<Longrightarrow> P (reportConnectionClosed env h c)"
  by (simp add: reportConnectionClosed_def reactQ_P closed_Q drop_Q terminal_Q)

lemma sendDuringClose_Q: "Q c \<Longrightarrow> Q (snd (sendShipModelDuringClose env t m c))"
  by (auto simp: sendShipModelDuringClose_def sendShipModelWithClosing_def shipMessage_def
      writeShipMessage_def Let_def bump_Q claim_Q write_Q split: prod.splits option.splits if_splits)

lemma finish_Q: "Q c \<Longrightarrow> P (finishCloseConnection env s k r h st c)"
  by (simp add: finishCloseConnection_def Let_def safe_Q sendDuringClose_Q reportClosed_Q closedata_Q)

lemma close_Q: "Q c \<Longrightarrow> P (closeConnection env s k r c)"
  by (simp add: closeConnection_def Let_def after_timers_Q locked_Q finish_Q)

lemma runEffect_P:
  assumes "P c" "pairingEffectQueue c = t # ts"
  shows "P (runEffect env t (c\<lparr>pairingEffectQueue := ts\<rparr>))"
proof (cases t)
  case (EffReport st)
  with assms show ?thesis
    by (simp add: runEffect_def reportShipHandshakeStateUpdate_def reactQ_P take_report)
next
  case EffReportShipID
  with assms have "P (c\<lparr>pairingEffectQueue := ts\<rparr>)" by (simp add: take_shipid)
  with shipid [of "c\<lparr>pairingEffectQueue := ts\<rparr>"] EffReportShipID show ?thesis
    by (simp add: runEffect_def reported reactQ_P)
next
  case EffPublishApproved
  with assms take_publish [of c ts] take_publish_run [of c ts] show ?thesis
    by (auto simp: runEffect_def published pairingEffectAllowed_def)
next
  case EffSetup
  with assms take_setup_call [of c ts] take_setup [of c ts] show ?thesis
    by (auto simp: runEffect_def reader reactQ_P pairingEffectAllowed_def)
next
  case (EffClose s k r)
  with assms show ?thesis by (simp add: runEffect_def close_Q take_close)
next
  case (EffFinish s k r h st)
  with assms show ?thesis by (simp add: runEffect_def finish_Q take_finish)
qed

lemma drain_P: "P c \<Longrightarrow> P (drainPairingEffects env c)"
proof (induction env c rule: drain_induct)
  case (drain env c)
  show ?case
  proof (cases "pairingEffectQueue c")
    case Nil
    with drain.prems show ?thesis by (simp add: drain_empty idle)
  next
    case (Cons t ts)
    then have tk: "takePairingEffect c = (Some t, c\<lparr>pairingEffectQueue := ts\<rparr>)"
      by (simp add: takePairingEffect_def)
    have "P (drainPairingEffects env (runEffect env t (c\<lparr>pairingEffectQueue := ts\<rparr>)))"
      using drain.IH [OF tk [symmetric] refl] runEffect_P [OF drain.prems Cons] by simp
    with Cons show ?thesis by (simp add: drain_Cons)
  qed
qed

lemma settle_P: "P c \<Longrightarrow> P (settle env b c)"
  by (simp add: settle_def drain_P)

lemma react_P: "P c \<Longrightarrow> P (react env c)"
  by (simp add: react_def settle_P reactQ_P)

lemma CloseConnection_P: "P c \<Longrightarrow> P (CloseConnection env s k r c)"
  using claim_P [of c s k r] by (auto simp: CloseConnection_def drain_P split: prod.splits)

lemma runPairingEffect_P: "P (snd (enqueuePairingEffect t c)) \<Longrightarrow> P (runPairingEffect env t c)"
  by (auto simp: runPairingEffect_def drain_P split: prod.splits)

lemma setState_locked_P: "P (snd (snd (setStateLocked s err c))) \<Longrightarrow> P (snd (setState env s err c))"
  by (auto simp: setState_def drain_P Let_def split: prod.splits)

end

text \<open>Properties that every state change keeps, too.\<close>

locale effect_inv = drain_inv +
  assumes set_state: "P c \<Longrightarrow> P (snd (snd (setStateLocked st err c)))"
begin

lemma setState_P: "P c \<Longrightarrow> P (snd (setState env s err c))"
  by (simp add: setState_locked_P set_state)

end

lemmas effect_defs = bumpCall_def emit_def claimClose_def requestPairingApproval_def
  closeConnectionLocked_def stopOutgoingAttemptCancellation_def discardBufferedSpineMessages_def
  discardPendingSpineDispatches_def setStateLocked_def enqueuePairingEffect_def enqueuePairingEffects_def shutdownRequested_def
  pairingEffectAllowed_def

interpretation spine_length: effect_inv "\<lambda>c. length (spineDispatchQueue c) \<le> n"
    "\<lambda>c. length (spineDispatchQueue c) \<le> n" for n
  by unfold_locales
    (auto simp: effect_defs Let_def frame_simps)

section \<open>SPINE dispatch\<close>

lemma runSpineTask_queue: "length (spineDispatchQueue (runSpineTask env t c)) \<le> length (spineDispatchQueue c)"
  using spine_length.react_P [of _ "length (spineDispatchQueue c)" env]
  by (auto simp: runSpineTask_def emit_def split: spineTask.splits)

function drainSpineDispatchQueue :: "ship_env \<Rightarrow> ship_conn \<Rightarrow> ship_conn" where
  "drainSpineDispatchQueue env c =
    (case takeSpineDispatch c of
       (None, c1) \<Rightarrow> c1
     | (Some t, c1) \<Rightarrow> drainSpineDispatchQueue env (runSpineTask env t c1))"
  by pat_completeness auto
termination
proof (relation "measure (\<lambda>(env, c). length (spineDispatchQueue c))", goal_cases)
  case 1
  show ?case by simp
next
  case (2 env c a b t)
  then have "length (spineDispatchQueue b) < length (spineDispatchQueue c)"
    by (auto simp: takeSpineDispatch_def split: list.splits)
  with runSpineTask_queue [of env t b] show ?case by simp
qed

declare drainSpineDispatchQueue.simps [simp del]

lemmas drainSpine_induct = drainSpineDispatchQueue.induct [case_names drain]

lemma drainSpine_empty:
  "spineDispatchQueue c = [] \<Longrightarrow> drainSpineDispatchQueue env c = c\<lparr>spineDispatching := False\<rparr>"
  by (simp add: drainSpineDispatchQueue.simps [of env c] takeSpineDispatch_def)

lemma drainSpine_Cons:
  "spineDispatchQueue c = t # ts \<Longrightarrow>
     drainSpineDispatchQueue env c = drainSpineDispatchQueue env (runSpineTask env t (c\<lparr>spineDispatchQueue := ts\<rparr>))"
  by (simp add: drainSpineDispatchQueue.simps [of env c] takeSpineDispatch_def)

text \<open>\<open>approveHandshake\<close> (src/ship/handshake.go) has two locked sections, around the setup
  callback and the wait for it.\<close>

definition approveBegin :: "ship_conn \<Rightarrow> ship_conn option" where
  "approveBegin c =
    (if pairingClosing c \<or> pairingTerminal c \<or> spineSetupStarted c then None
     else if requirePairingApproval c then
       (if \<not> pairingCommitStarted c \<or> \<not> pairingApprovalRequested c \<or> pairingApprovalReleased c then None
        else Some (c\<lparr>pairingApprovalReleased := True, spineSetupStarted := True\<rparr>))
     else Some (c\<lparr>spineSetupStarted := True\<rparr>))"

definition approveCommit :: "nat \<Rightarrow> ship_conn \<Rightarrow> bool \<times> ship_conn" where
  "approveCommit reader c =
    (if pairingClosing c \<or> pairingTerminal c then (False, c)
     else
       (let oldState = smeState c;
            buffered = spineBuffer c;
            c1 = c\<lparr>smeState := SmeStateComplete, smeError := None, dataReader := Some reader,
                   spineBuffer := [], spineBufferBytes := 0\<rparr>;
            tasks = (if oldState \<noteq> SmeStateComplete then [SpComplete] else [])
                    @ map (SpPayload reader) buffered
        in enqueueSpineDispatchLocked tasks c1))"

definition approveHandshake :: "ship_env \<Rightarrow> ship_conn \<Rightarrow> ship_conn" where
  "approveHandshake env c =
    (case approveBegin c of
       None \<Rightarrow> c
     | Some c1 \<Rightarrow>
         (let c2 = runPairingEffect env EffSetup (c1\<lparr>effReader := None\<rparr>) in
          case effReader c2 of
            None \<Rightarrow> CloseConnection env False 4452 ''SPINE reader unavailable'' c2
          | Some reader \<Rightarrow>
              (let (shouldDrain, c3) = approveCommit reader (stopHandshakeTimer c2)
               in if shouldDrain then drainSpineDispatchQueue env c3 else c3)))"

text \<open>Incoming bytes: \<open>parseMessage\<close> splits off the header byte; an empty message has header 0.\<close>

definition parseMessage :: "bytes \<Rightarrow> bool \<Rightarrow> nat \<times> bytes" where
  "parseMessage msg jsonFormat =
    (case msg of
       [] \<Rightarrow> (0, [])
     | h # rest \<Rightarrow> (byteVal h, if jsonFormat then JsonFromEEBUSJson rest else rest))"

definition processShipJsonMessage :: "'a decoder \<Rightarrow> 'a \<Rightarrow> bytes \<Rightarrow> 'a option" where
  "processShipJsonMessage d zero message = unmarshal d zero (snd (parseMessage message True))"

definition shipModelFromMessage :: "bytes \<Rightarrow> ShipData option" where
  "shipModelFromMessage message =
    (case unmarshal decodeShipData zeroShipData (snd (parseMessage message True)) of
       None \<Rightarrow> None
     | Some data \<Rightarrow> if dataPayload data = None then None else Some data)"

definition hasSpineDatagram :: "bytes \<Rightarrow> bool" where
  "hasSpineDatagram message = containsBytes message ''datagram''"

text \<open>The SPINE branch of \<open>HandleIncomingWebsocketMessage\<close>.\<close>

definition handleSpinePayload :: "ship_env \<Rightarrow> bytes \<Rightarrow> ship_conn \<Rightarrow> ship_conn" where
  "handleSpinePayload env payload c =
    (case routeOrBufferSpinePayload payload c of
       (reader, closeCode, closeText, c1) \<Rightarrow>
         if closeCode \<noteq> 0 then CloseConnection env False closeCode closeText c1
         else case reader of
           None \<Rightarrow> c1
         | Some r \<Rightarrow>
             (let (shouldDrain, c2) = enqueueSpineDispatchLocked [SpPayload r payload] c1
              in if shouldDrain then drainSpineDispatchQueue env c2 else c2))"

section \<open>Sending SPINE data\<close>

definition quoted :: "bytes \<Rightarrow> bytes" where
  "quoted s = CHR 0x22 # s @ [CHR 0x22]"

definition payloadPlaceholder :: bytes where
  "payloadPlaceholder = ''{'' @ quoted ''place'' @ '':'' @ quoted ''holder'' @ ''}''"

text \<open>\<open>json.Marshal\<close> of the \<open>model.ShipData\<close> the code builds; the extension is omitted.\<close>

definition marshalShipData :: "bytes \<Rightarrow> bytes \<Rightarrow> bytes" where
  "marshalShipData protocolId payload =
    jsonObject [jsonField ''data'' (jsonObject
      [jsonField ''header'' (jsonObject [jsonField ''protocolId'' (quoteJson protocolId)]),
       jsonField ''payload'' payload])]"

definition transformSpineDataIntoShipJson :: "ordered_unmarshal \<Rightarrow> bytes \<Rightarrow> bytes option" where
  "transformSpineDataIntoShipJson ordered data =
    (case JsonIntoEEBUSJson ordered data of
       None \<Rightarrow> None
     | Some payload \<Rightarrow>
         (case JsonIntoEEBUSJson ordered (marshalShipData ShipProtocolId payloadPlaceholder) of
            None \<Rightarrow> None
          | Some eebusMsg \<Rightarrow> Some (replaceAll eebusMsg (''['' @ payloadPlaceholder @ '']'') payload)))"

definition sendSpineData :: "ship_env \<Rightarrow> bytes \<Rightarrow> ship_conn \<Rightarrow> goError option \<times> ship_conn" where
  "sendSpineData env data c =
    (case transformSpineDataIntoShipJson (orderedUnmarshal env) data of
       None \<Rightarrow> (Some (ErrJson (jsonErrorText env data)), c)
     | Some eebusMsg \<Rightarrow>
         (let (isClosed, err) = isDataConnectionClosed env (calls c); c1 = bumpCall c in
          if isClosed then (err, CloseConnection env False 0 [] c1)
          else writeShipMessage env (typeByte MsgTypeData # eebusMsg) False c1))"

definition WriteShipMessageWithPayload :: "ship_env \<Rightarrow> bytes \<Rightarrow> ship_conn \<Rightarrow> ship_conn" where
  "WriteShipMessageWithPayload env message c = snd (sendSpineData env message c)"

section \<open>The data connection failed (\<open>ReportConnectionError\<close>)\<close>

definition ReportConnectionError :: "ship_env \<Rightarrow> goError option \<Rightarrow> ship_conn \<Rightarrow> ship_conn" where
  "ReportConnectionError env err c =
    (if \<not> pairingEffectAllowed c then c
     else
       (let currentState = smeState c in
        if currentState = SmeHelloStateReadyListen then
          CloseConnection env False 0 [] (snd (setState env SmeHelloStateRejected None c))
        else if currentState = SmeHelloStateRemoteAbortDone then CloseConnection env False 0 [] c
        else if currentState = SmeHelloStateAbort \<or> currentState = SmeHelloStateAbortDone then
          CloseConnection env False 4452 ''Node rejected by application'' c
        else
          (let c1 = snd (setState env SmeStateError err c);
               c2 = CloseConnection env False 0 [] c1;
               st = \<lparr>State = SmeStateError, Error = err, PIN = None\<rparr>
           in react env (emit (EvStateReport st) c2))))"

end
