(* ===== verification/Ship_Handshake.thy ===== *)
theory Ship_Handshake
  imports Ship_Connection
begin

text \<open>
  The SHIP handshake: \<open>handleState\<close> of \<open>src/ship/handshake.go\<close> and the phase handlers of
  \<open>hs_init.go\<close>, \<open>hs_hello.go\<close>, \<open>hs_prot.go\<close>, \<open>hs_pin.go\<close> and \<open>hs_access.go\<close>, with the entry points
  \<open>Run\<close>, \<open>HandleIncomingWebsocketMessage\<close>, \<open>ApprovePendingHandshake\<close>, \<open>AbortPendingHandshake\<close>, the
  timer callback and the goroutines.

  In the code \<open>handleState\<close> and the handlers call each other. Here a handler takes the function it
  calls back as the argument \<open>rec\<close>, and \<open>handleStateN\<close> unfolds the recursion a given number of
  times. \<open>handleState\<close> is the eightfold unfolding; \<open>handleState_rec\<close> shows that it satisfies the
  code's recursive equation, since no chain of calls is longer than five.
\<close>

type_synonym state_handler = "bool \<Rightarrow> bytes \<Rightarrow> ship_conn \<Rightarrow> ship_conn"

definition setAndHandleState :: "ship_env \<Rightarrow> state_handler \<Rightarrow> ShipMessageExchangeState \<Rightarrow> ship_conn \<Rightarrow> ship_conn" where
  "setAndHandleState env rec state c =
    (let (ok, c1) = setState env state None c in if \<not> ok then c1 else rec False [] c1)"

section \<open>Initialisation (src/ship/hs_init.go)\<close>

definition handshakeInit_cmiStateInitStart :: "ship_env \<Rightarrow> ship_conn \<Rightarrow> ship_conn" where
  "handshakeInit_cmiStateInitStart env c =
    (case role c of
       ShipRoleClient \<Rightarrow>
         (let c1 = snd (setState env CmiStateClientSend None c) in
          case writeShipMessage env ShipInit False c1 of
            (Some err, c2) \<Rightarrow> endHandshakeWithError env err c2
          | (None, c2) \<Rightarrow>
              setHandshakeTimer timeoutTimerTypeWaitForReady cmiTimeout
                (snd (setState env CmiStateClientWait None c2)))
     | ShipRoleServer \<Rightarrow>
         setHandshakeTimer timeoutTimerTypeWaitForReady cmiTimeout
           (snd (setState env CmiStateServerWait None c)))"

definition handshakeInit_cmiStateEvaluate :: "ship_env \<Rightarrow> bytes \<Rightarrow> ship_conn \<Rightarrow> bool \<times> ship_conn" where
  "handshakeInit_cmiStateEvaluate env message c =
    (let (msgType, data) = parseMessage message False in
     if msgType \<noteq> MsgTypeInit then
       (False, endHandshakeWithError env
          (ErrNew (''Invalid SHIP MessageType, expected 0 and got '' @ encodeRune msgType)) c)
     else if 0 < length data \<and> data ! 0 \<noteq> CHR 0x00 then
       (False, endHandshakeWithError env
          (ErrNew (''Invalid SHIP MessageValue, expected 0 and got '' @ data)) c)
     else (True, c))"

definition handshakeInit_cmiStateServerWait :: "ship_env \<Rightarrow> state_handler \<Rightarrow> bytes \<Rightarrow> ship_conn \<Rightarrow> ship_conn" where
  "handshakeInit_cmiStateServerWait env rec message c =
    (let c1 = snd (setState env CmiStateServerEvaluate None c);
         (ok, c2) = handshakeInit_cmiStateEvaluate env message c1
     in if \<not> ok then c2
        else case writeShipMessage env ShipInit False c2 of
          (Some err, c3) \<Rightarrow> endHandshakeWithError env err c3
        | (None, c3) \<Rightarrow> setAndHandleState env rec SmeHelloState c3)"

definition handshakeInit_cmiStateClientWait :: "ship_env \<Rightarrow> state_handler \<Rightarrow> bytes \<Rightarrow> ship_conn \<Rightarrow> ship_conn" where
  "handshakeInit_cmiStateClientWait env rec message c =
    (let c1 = snd (setState env CmiStateClientEvaluate None c);
         (ok, c2) = handshakeInit_cmiStateEvaluate env message c1
     in if \<not> ok then c2 else setAndHandleState env rec SmeHelloState c2)"

section \<open>Hello (src/ship/hs_hello.go)\<close>

definition handshakeHelloSend :: "ship_env \<Rightarrow> bytes \<Rightarrow> duration \<Rightarrow> bool \<Rightarrow> ship_conn \<Rightarrow> goError option \<times> ship_conn" where
  "handshakeHelloSend env phase waitingDuration prolongation c =
    sendShipModel env MsgTypeControl
      (ConnectionHello phase
        (if 0 < waitingDuration then Some (waitingDuration div millisecond) else None)
        (if prolongation then Some True else None)) c"

definition handshakeHello_Init :: "ship_env \<Rightarrow> state_handler \<Rightarrow> ship_conn \<Rightarrow> ship_conn" where
  "handshakeHello_Init env rec c =
    (case handshakeHelloSend env ConnectionHelloPhaseTypeReady tHelloInit False c of
       (Some err, c1) \<Rightarrow> setAndHandleState env rec SmeHelloStateAbort c1
     | (None, c1) \<Rightarrow> snd (setState env SmeHelloStateReadyListen None c1))"

definition handshakeHello_ReadyTimeout :: "ship_env \<Rightarrow> state_handler \<Rightarrow> ship_conn \<Rightarrow> ship_conn" where
  "handshakeHello_ReadyTimeout env rec c = setAndHandleState env rec SmeHelloStateAbort c"

text \<open>\<open>AllowWaitingForTrust\<close>, during which the connection may be closed.\<close>

definition askWaitingForTrust :: "ship_env \<Rightarrow> ship_conn \<Rightarrow> bool \<times> ship_conn" where
  "askWaitingForTrust env c = (allowWaitingForTrust env (calls c), react env c)"

definition handshakeHello_ReadyListen :: "ship_env \<Rightarrow> state_handler \<Rightarrow> bool \<Rightarrow> bytes \<Rightarrow> ship_conn \<Rightarrow> ship_conn" where
  "handshakeHello_ReadyListen env rec timeout message c =
    (if timeout then handshakeHello_ReadyTimeout env rec c
     else case processShipJsonMessage decodeConnectionHello zeroHello message of
       None \<Rightarrow> setAndHandleState env rec SmeHelloStateAbort c
     | Some hello \<Rightarrow>
       (if helloPhase hello = ConnectionHelloPhaseTypeReady then
          rec False [] (snd (setState env SmeHelloStateOk None c))
        else if helloPhase hello = ConnectionHelloPhaseTypePending then
          (case helloProlongationRequest hello of
             None \<Rightarrow> c
           | Some False \<Rightarrow> c
           | Some True \<Rightarrow>
               (let (allowed, c1) = askWaitingForTrust env c in
                if shutdownRequested c1 then c1
                else
                  (let c2 = (if allowed then setHandshakeTimer timeoutTimerTypeWaitForReady tHelloInit c1
                             else c1)
                   in case handshakeHelloSend env ConnectionHelloPhaseTypeReady tHelloInit False c2 of
                        (Some err, c3) \<Rightarrow> endHandshakeWithError env err c3
                      | (None, c3) \<Rightarrow> c3)))
        else if helloPhase hello = ConnectionHelloPhaseTypeAborted then
          setAndHandleState env rec SmeHelloStateRemoteAbortDone c
        else setAndHandleState env rec SmeHelloStateAbort c))"

definition handshakeHello_Abort :: "ship_env \<Rightarrow> state_handler \<Rightarrow> ship_conn \<Rightarrow> ship_conn" where
  "handshakeHello_Abort env rec c =
    (case handshakeHelloSend env ConnectionHelloPhaseTypeAborted 0 False (stopHandshakeTimer c) of
       (Some err, c1) \<Rightarrow> endHandshakeWithError env err c1
     | (None, c1) \<Rightarrow> setAndHandleState env rec SmeHelloStateAbortDone c1)"

definition handshakeHello_PendingInit :: "ship_env \<Rightarrow> state_handler \<Rightarrow> ship_conn \<Rightarrow> ship_conn" where
  "handshakeHello_PendingInit env rec c =
    (case handshakeHelloSend env ConnectionHelloPhaseTypePending tHelloInit False c of
       (Some err, c1) \<Rightarrow> endHandshakeWithError env err c1
     | (None, c1) \<Rightarrow>
         (let c2 = snd (setState env SmeHelloStatePendingListen None c1);
              (allowed, c3) = askWaitingForTrust env c2
          in if shutdownRequested c3 then c3
             else if \<not> allowed then setAndHandleState env rec SmeHelloStateAbort c3
             else c3))"

definition handshakeHello_PendingProlongationRequest :: "ship_env \<Rightarrow> ship_conn \<Rightarrow> ship_conn" where
  "handshakeHello_PendingProlongationRequest env c =
    (case handshakeHelloSend env ConnectionHelloPhaseTypePending 0 True c of
       (Some err, c1) \<Rightarrow> endHandshakeWithError env err c1
     | (None, c1) \<Rightarrow> setHandshakeTimer timeoutTimerTypeProlongRequestReply tHelloInit c1)"

text \<open>\<open>time.Duration(float64(tHelloInit.Milliseconds()) * 1.1)\<close>: 66000, in nanoseconds.\<close>

definition prolongFallback :: duration where
  "prolongFallback = 66000"

definition handshakeHello_PendingTimeout :: "ship_env \<Rightarrow> state_handler \<Rightarrow> ship_conn \<Rightarrow> ship_conn" where
  "handshakeHello_PendingTimeout env rec c =
    (if handshakeTimerType c \<noteq> timeoutTimerTypeSendProlongationRequest then
       setAndHandleState env rec SmeHelloStateAbort c
     else case handshakeHelloSend env ConnectionHelloPhaseTypePending 0 True c of
       (Some err, c1) \<Rightarrow> endHandshakeWithError env err c1
     | (None, c1) \<Rightarrow>
         (let c2 = (if lastReceivedWaitingValue c1 = 0
                    then c1\<lparr>lastReceivedWaitingValue := prolongFallback\<rparr> else c1)
          in setHandshakeTimer timeoutTimerTypeProlongRequestReply (lastReceivedWaitingValue c2) c2))"

text \<open>What both phases of \<open>PendingListen\<close> do with a received waiting time, after stopping the
  timer. Result: whether the branch returned from the handler.\<close>

definition applyWaiting :: "ship_env \<Rightarrow> state_handler \<Rightarrow> duration \<Rightarrow> ship_conn \<Rightarrow> bool \<times> ship_conn" where
  "applyWaiting env rec newDuration c =
    (if tHelloProlongThrInc \<le> newDuration \<and> tHelloProlongMin \<le> newDuration then
       (True, setHandshakeTimer timeoutTimerTypeSendProlongationRequest (newDuration - tHelloProlongThrInc) c)
     else if newDuration < tHelloProlongMin then
       (False, setAndHandleState env rec SmeHelloStateAbort c)
     else (False, c))"

definition handshakeHello_PendingListen :: "ship_env \<Rightarrow> state_handler \<Rightarrow> bool \<Rightarrow> bytes \<Rightarrow> ship_conn \<Rightarrow> ship_conn" where
  "handshakeHello_PendingListen env rec timeout message c =
    (if timeout then
       (let (allowed, c1) = askWaitingForTrust env c in
        if shutdownRequested c1 then c1
        else if \<not> allowed then handshakeHello_PendingTimeout env rec c1
        else handshakeHello_PendingProlongationRequest env c1)
     else case processShipJsonMessage decodeConnectionHello zeroHello message of
       None \<Rightarrow> setAndHandleState env rec SmeHelloStateAbort c
     | Some hello \<Rightarrow>
       (if helloPhase hello = ConnectionHelloPhaseTypeReady then
          (case helloWaiting hello of
             None \<Rightarrow> setAndHandleState env rec SmeHelloStateAbort c
           | Some waiting \<Rightarrow>
               (let (returned, c1) = applyWaiting env rec (durationOfMillis waiting) (stopHandshakeTimer c)
                in if returned then c1 else rec False [] c1))
        else if helloPhase hello = ConnectionHelloPhaseTypePending then
          (case (helloWaiting hello, helloProlongationRequest hello) of
             (Some waiting, None) \<Rightarrow>
               snd (applyWaiting env rec (durationOfMillis waiting)
                 ((stopHandshakeTimer c)\<lparr>lastReceivedWaitingValue := durationOfMillis waiting\<rparr>))
           | (None, Some True) \<Rightarrow>
               (case handshakeHelloSend env ConnectionHelloPhaseTypePending tHelloInit False c of
                  (Some err, c1) \<Rightarrow> endHandshakeWithError env err c1
                | (None, c1) \<Rightarrow> c1)
           | _ \<Rightarrow> rec False [] (setAndHandleState env rec SmeHelloStateAbort c))
        else if helloPhase hello = ConnectionHelloPhaseTypeAborted then
          setAndHandleState env rec SmeHelloStateRemoteAbortDone c
        else setAndHandleState env rec SmeHelloStateAbort c))"

section \<open>Protocol negotiation (src/ship/hs_prot.go)\<close>

definition handshakeProtocol_smeProtHStateClientInit :: "ship_env \<Rightarrow> ship_conn \<Rightarrow> ship_conn" where
  "handshakeProtocol_smeProtHStateClientInit env c =
    (let c1 = snd (setState env SmeProtHStateClientInit None c) in
     case sendShipModel env MsgTypeControl (MessageProtocolHandshake ProtocolHandshakeTypeTypeAnnounceMax) c1 of
       (Some err, c2) \<Rightarrow> endHandshakeWithError env err c2
     | (None, c2) \<Rightarrow> snd (setState env SmeProtHStateClientListenChoice None c2))"

definition handshakeProtocol_Init :: "ship_env \<Rightarrow> ship_conn \<Rightarrow> ship_conn" where
  "handshakeProtocol_Init env c =
    (case role c of
       ShipRoleServer \<Rightarrow>
         (let c1 = snd (setState env SmeProtHStateServerInit None c);
              c2 = setHandshakeTimer timeoutTimerTypeWaitForReady cmiTimeout c1
          in snd (setState env SmeProtHStateServerListenProposal None c2))
     | ShipRoleClient \<Rightarrow>
         handshakeProtocol_smeProtHStateClientInit env (snd (setState env SmeProtHStateClientInit None c)))"

definition abortProtocolHandshake :: "ship_env \<Rightarrow> int \<Rightarrow> ship_conn \<Rightarrow> ship_conn" where
  "abortProtocolHandshake env err c =
    (let c1 = snd (sendShipModel env MsgTypeControl (MessageProtocolHandshakeError err) (stopHandshakeTimer c));
         c2 = snd (setState env SmeStateError (Some (ErrNew ''handshake error'')) c1)
     in CloseConnection env False 0 [] c2)"

definition handshakeProtocol_smeProtHStateServerListenProposal :: "ship_env \<Rightarrow> bytes \<Rightarrow> ship_conn \<Rightarrow> ship_conn" where
  "handshakeProtocol_smeProtHStateServerListenProposal env message c =
    (let data = snd (parseMessage message True) in
     case unmarshal decodeMessageProtocolHandshake zeroProtocolHandshake data of
       None \<Rightarrow> endHandshakeWithError env (ErrJson (jsonErrorText env data)) c
     | Some hs \<Rightarrow>
       (if handshakeType hs \<noteq> ProtocolHandshakeTypeTypeAnnounceMax then
          endHandshakeWithError env (ErrNew ''Invalid protocol handshake request'') c
        else
          (let (err, c1) = sendShipModel env MsgTypeControl
                 (MessageProtocolHandshake ProtocolHandshakeTypeTypeSelect) (stopHandshakeTimer c);
               c2 = (case err of Some e \<Rightarrow> endHandshakeWithError env e c1 | None \<Rightarrow> c1);
               c3 = setHandshakeTimer timeoutTimerTypeWaitForReady cmiTimeout c2
           in snd (setState env SmeProtHStateServerListenConfirm None c3))))"

definition handshakeProtocol_smeProtHStateServerListenConfirm :: "ship_env \<Rightarrow> state_handler \<Rightarrow> bytes \<Rightarrow> ship_conn \<Rightarrow> ship_conn" where
  "handshakeProtocol_smeProtHStateServerListenConfirm env rec message c =
    (case unmarshal decodeMessageProtocolHandshake zeroProtocolHandshake (snd (parseMessage message True)) of
       None \<Rightarrow> abortProtocolHandshake env MessageProtocolHandshakeErrorErrorTypeUnexpectedMessage c
     | Some hs \<Rightarrow>
       (if handshakeType hs \<noteq> ProtocolHandshakeTypeTypeSelect then
          abortProtocolHandshake env MessageProtocolHandshakeErrorErrorTypeSelectionMismatch c
        else setAndHandleState env rec SmeProtHStateServerOk (stopHandshakeTimer c)))"

text \<open>The checks on the selected protocol. \<open>None\<close> is the run-time panic of indexing an empty
  slice, otherwise whether to abort.\<close>

definition choiceAborts :: "MessageProtocolHandshakeType \<Rightarrow> bool option" where
  "choiceAborts hs =
    (let n = (case formatsFormat hs of None \<Rightarrow> 0 | Some fs \<Rightarrow> length fs);
         abort = (handshakeType hs \<noteq> ProtocolHandshakeTypeTypeSelect \<or> versionMajor hs \<noteq> 1
                  \<or> versionMinor hs \<noteq> 0 \<or> n = 0 \<or> n \<noteq> 1)
     in case formatsFormat hs of
          None \<Rightarrow> Some abort
        | Some [] \<Rightarrow> None
        | Some (f # fs) \<Rightarrow> Some (abort \<or> f \<noteq> MessageProtocolFormatTypeUTF8))"

definition handshakeProtocol_smeProtHStateClientListenChoice :: "ship_env \<Rightarrow> state_handler \<Rightarrow> bytes \<Rightarrow> ship_conn \<Rightarrow> ship_conn" where
  "handshakeProtocol_smeProtHStateClientListenChoice env rec message c =
    (case unmarshal decodeMessageProtocolHandshake zeroProtocolHandshake (snd (parseMessage message True)) of
       None \<Rightarrow> abortProtocolHandshake env MessageProtocolHandshakeErrorErrorTypeUnexpectedMessage c
     | Some hs \<Rightarrow>
       (case choiceAborts hs of
          None \<Rightarrow> c\<lparr>panicked := True\<rparr>
        | Some True \<Rightarrow> abortProtocolHandshake env MessageProtocolHandshakeErrorErrorTypeSelectionMismatch c
        | Some False \<Rightarrow>
            (case sendShipModel env MsgTypeControl (MessageProtocolHandshake ProtocolHandshakeTypeTypeSelect)
                    (stopHandshakeTimer c) of
               (Some err, c1) \<Rightarrow> endHandshakeWithError env err c1
             | (None, c1) \<Rightarrow> setAndHandleState env rec SmeProtHStateClientOk c1)))"

section \<open>PIN verification (src/ship/hs_pin.go)\<close>

definition pinRequirement :: "bytes \<Rightarrow> PINRequirement" where
  "pinRequirement v = (if v = PinStateTypeOptional then PINRequirementOptional else PINRequirementRequired)"

definition pinCategory :: "bytes \<Rightarrow> PINCategory" where
  "pinCategory v = (if v = PinStateTypeOptional then PINCategoryOptional else PINCategoryRequired)"

definition mkPINDetail :: "PINRequirement \<Rightarrow> PINPhase \<Rightarrow> PINCategory option \<Rightarrow> bool \<Rightarrow> PINHandshakeDetail option" where
  "mkPINDetail req phase cat retry =
    Some \<lparr>Requirement = req, Phase = phase, Category = cat, Retryable = retry\<rparr>"

definition handshakePin_Init :: "ship_env \<Rightarrow> ship_conn \<Rightarrow> ship_conn" where
  "handshakePin_Init env c =
    (let c1 = setPINHandshakeDetail env (mkPINDetail PINRequirementNone PINPhaseNotRequired None False) False c;
         c2 = snd (setState env SmePinStateCheckInit None c1)
     in case sendShipModel env MsgTypeControl (ConnectionPinState PinStateTypeNone) c2 of
          (Some err, c3) \<Rightarrow> endHandshakeWithError env err c3
        | (None, c3) \<Rightarrow> snd (setState env SmePinStateAskInit None c3))"

definition validPinByte :: "char \<Rightarrow> bool" where
  "validPinByte v = (CHR ''0'' \<le> v \<and> v \<le> CHR ''9'' \<or> CHR ''a'' \<le> v \<and> v \<le> CHR ''f''
     \<or> CHR ''A'' \<le> v \<and> v \<le> CHR ''F'')"

definition validTransientPIN :: "bytes \<Rightarrow> bool" where
  "validTransientPIN pin = (\<not> (length pin < 8 \<or> 16 < length pin) \<and> list_all validPinByte pin)"

definition pinInputMessage :: "bytes \<Rightarrow> bytes" where
  "pinInputMessage pin =
    typeByte MsgTypeControl # (''{'' @ quoted ''connectionPinInput'' @ '':[{'' @ quoted ''pin'' @ '':''
      @ [CHR 0x22]) @ pin @ [CHR 0x22] @ ''}]}''"

definition sendTransientPIN :: "ship_env \<Rightarrow> bytes \<Rightarrow> ship_conn \<Rightarrow> goError option \<times> ship_conn" where
  "sendTransientPIN env pin c =
    (if \<not> validTransientPIN pin then (Some ErrPINInvalid, c)
     else case sensitiveWriter env of
       None \<Rightarrow> (Some ErrPINUnavailable, c)
     | Some writer \<Rightarrow>
         (if shutdownRequested c then (Some ErrPINUnavailable, c)
          else
            (let r = writer (calls c);
                 c1 = emit (EvSensitiveWrite (pinInputMessage pin) (r = None)) (bumpCall c)
             in (case r of Some e \<Rightarrow> Some ErrPINUnavailable | None \<Rightarrow> None, c1))))"

text \<open>The function \<open>processRemotePINRequest\<close> passes to the provider.\<close>

definition consumePIN :: "ship_env \<Rightarrow> bytes \<Rightarrow> ship_conn \<Rightarrow> goError option \<times> ship_conn" where
  "consumePIN env pin c =
    (let (began, c1) = beginPINInput c in
     if \<not> began then (Some ErrPINUnavailable, c1)
     else case sendTransientPIN env pin c1 of
       (Some err, c2) \<Rightarrow> (Some err, rollbackPINInput c2)
     | (None, c2) \<Rightarrow> (None, c2))"

text \<open>The provider lends PINs one after the other; from the second on the consumer refuses. The
  results go back to the provider.\<close>

fun lendPINs :: "ship_env \<Rightarrow> bytes list \<Rightarrow> bool \<Rightarrow> ship_conn \<Rightarrow> goError option list \<times> bool \<times> ship_conn" where
  "lendPINs env [] consumed c = ([], consumed, c)"
| "lendPINs env (pin # pins) consumed c =
    (if consumed then
       (let (rs, k, c1) = lendPINs env pins True c in (Some ErrPINInvalid # rs, k, c1))
     else
       (let (r, c1) = consumePIN env pin c; (rs, k, c2) = lendPINs env pins True c1 in (r # rs, k, c2)))"

definition withTransientPIN :: "ship_env \<Rightarrow> ship_conn \<Rightarrow> bool \<times> goError option \<times> ship_conn" where
  "withTransientPIN env c =
    (case pinProvider env of
       None \<Rightarrow> (False, None, c)
     | Some provider \<Rightarrow>
         (let (pins, finish) = provider (calls c);
              (rs, consumed, c1) = lendPINs env pins False (react env c);
              (provided, err) = finish rs
          in case err of
               Some e \<Rightarrow> (False, Some (if e = ErrPINInvalid then ErrPINInvalid else ErrPINUnavailable), c1)
             | None \<Rightarrow>
                 if provided \<noteq> consumed then (False, Some ErrPINUnavailable, c1)
                 else (provided, None, c1)))"

definition processRemotePINRequest :: "ship_env \<Rightarrow> state_handler \<Rightarrow> bytes \<Rightarrow> ship_conn \<Rightarrow> ship_conn" where
  "processRemotePINRequest env rec requirement c =
    (if pinInputSent c then snd (setState env SmePinStateAskProcess None c)
     else
       (let c1 = setPINHandshakeDetail env
              (mkPINDetail (pinRequirement requirement) PINPhaseWaitingPeer (Some (pinCategory requirement)) True)
              False c;
            (ok, c2) = setState env SmePinStateAskProcess None c1
        in if \<not> ok then c2
           else
             (let (provided, providerErr, c3) = withTransientPIN env c2 in
              case providerErr of
                Some e \<Rightarrow>
                  endHandshakeWithError env (if e = ErrPINInvalid then ErrPINInvalid else ErrPINUnavailable) c3
              | None \<Rightarrow>
                  if \<not> provided then
                    (if requirement = PinStateTypeOptional then
                       setAndHandleState env rec SmePinStateAskRestricted
                         (setPINHandshakeDetail env
                           (mkPINDetail PINRequirementOptional PINPhaseRestricted (Some PINCategoryOptional) False)
                           False c3)
                     else
                       endHandshakeWithError env ErrPINUnavailable
                         (setPINHandshakeDetail env
                           (mkPINDetail PINRequirementRequired PINPhaseFailed (Some PINCategoryUnavailable) False)
                           False c3))
                  else
                    (let c4 = setPINHandshakeDetail env
                           (mkPINDetail (pinRequirement requirement) PINPhaseSubmitted
                             (Some (pinCategory requirement)) True) True c3
                     in if smeState c4 = SmePinStateAskProcess
                        then setHandshakeTimer timeoutTimerTypeWaitForReady pinResponseTimeout c4
                        else c4))))"

definition processRemotePINState :: "ship_env \<Rightarrow> state_handler \<Rightarrow> ConnectionPinStateType \<Rightarrow> ship_conn \<Rightarrow> ship_conn" where
  "processRemotePINState env rec ps c =
    (if pinState ps = PinStateTypeNone then
       (if inputPermission ps \<noteq> None then endHandshakeWithError env ErrPINProtocol c
        else
          setAndHandleState env rec SmePinStateCheckOk
            (discardTransientPIN env
              (setPINHandshakeDetail env (mkPINDetail PINRequirementNone PINPhaseNotRequired None False) False c)))
     else if pinState ps = PinStateTypePinOk then
       (if inputPermission ps \<noteq> None then endHandshakeWithError env ErrPINProtocol c
        else
          setAndHandleState env rec SmePinStateCheckOk
            (discardTransientPIN env
              (setPINHandshakeDetail env
                (mkPINDetail (currentPINRequirement c) PINPhaseAccepted None False) False c)))
     else if pinState ps = PinStateTypeRequired \<or> pinState ps = PinStateTypeOptional then
       (case inputPermission ps of
          None \<Rightarrow> endHandshakeWithError env ErrPINProtocol c
        | Some perm \<Rightarrow>
            if perm = PinInputPermissionTypeBusy then
              snd (setState env SmePinStateAskProcess None
                (setPINHandshakeDetail env
                  (mkPINDetail (pinRequirement (pinState ps)) PINPhaseWaitingPeer (Some PINCategoryBusy) True)
                  False c))
            else if perm = PinInputPermissionTypeOk then processRemotePINRequest env rec (pinState ps) c
            else endHandshakeWithError env ErrPINProtocol c)
     else endHandshakeWithError env ErrPINProtocol c)"

definition handshakePin_smePinStateCheckListen :: "ship_env \<Rightarrow> state_handler \<Rightarrow> bytes \<Rightarrow> ship_conn \<Rightarrow> ship_conn" where
  "handshakePin_smePinStateCheckListen env rec message c =
    (case unmarshal decodePinEnvelope zeroPinEnvelope (snd (parseMessage message True)) of
       None \<Rightarrow> endHandshakeWithError env ErrPINProtocol c
     | Some envelope \<Rightarrow>
       (case envPinError envelope of
          Some e \<Rightarrow>
            if pinErrorError e = ConnectionPinErrorErrorTypeWrongPIN \<and> pinInputSent c
            then endHandshakeWithError env ErrPINRejected c
            else endHandshakeWithError env ErrPINProtocol c
        | None \<Rightarrow>
            (case envPinState envelope of
               None \<Rightarrow> endHandshakeWithError env ErrPINProtocol c
             | Some ps \<Rightarrow> processRemotePINState env rec ps c)))"

section \<open>Access methods (src/ship/hs_access.go)\<close>

definition handshakeAccessMethods_Init :: "ship_env \<Rightarrow> ship_conn \<Rightarrow> ship_conn" where
  "handshakeAccessMethods_Init env c =
    (case sendShipModel env MsgTypeControl AccessMethodsRequest c of
       (Some err, c1) \<Rightarrow> endHandshakeWithError env err c1
     | (None, c1) \<Rightarrow>
         snd (setState env SmeAccessMethodsRequest None
           (setHandshakeTimer timeoutTimerTypeWaitForReady cmiTimeout c1)))"

text \<open>The commit after the identity was checked: report the SHIP id, publish the approved state,
  then approve (\<open>approveHandshake\<close> is called twice when approval was requested meanwhile).\<close>

definition commitPairing :: "ship_env \<Rightarrow> bool \<Rightarrow> ship_conn \<Rightarrow> ship_conn" where
  "commitPairing env shouldReportShipID c =
    (let (began, c1) = beginPairingCommit c in
     if \<not> began then c1
     else
       (let (reportedOk, c2) = (if shouldReportShipID then reportServiceShipID env c1 else (True, c1)) in
        if \<not> reportedOk then c2
        else
          (let (publishedOk, c3) = publishPairingApproved env c2 in
           if \<not> publishedOk then c3
           else
             (let (requested, c4) = completePairingCommitCallback c3;
                  c5 = (if requested then approveHandshake env c4 else c4)
              in approveHandshake env c5))))"

definition handshakeAccessMethods_Request :: "ship_env \<Rightarrow> bytes \<Rightarrow> ship_conn \<Rightarrow> ship_conn" where
  "handshakeAccessMethods_Request env message c =
    (let data = snd (parseMessage message True) in
     if containsBytes data (quoted ''accessMethodsRequest'' @ '':{'') then
       (case sendShipModel env MsgTypeControl (AccessMethods (localShipID c)) c of
          (Some err, c1) \<Rightarrow> endHandshakeWithError env err c1
        | (None, c1) \<Rightarrow> c1)
     else if containsBytes data (quoted ''accessMethods'' @ '':{'') then
       (case unmarshal decodeAccessMethods zeroAccessMethods data of
          None \<Rightarrow> endHandshakeWithError env (ErrJson (jsonErrorText env data)) c
        | Some am \<Rightarrow>
          (case accessId am of
             None \<Rightarrow> endHandshakeWithError env (ErrNew ''Access methods response does not contain SHIP ID'') c
           | Some shipId \<Rightarrow>
               if 0 < length (remoteShipID c) \<and> remoteShipID c \<noteq> shipId then
                 endHandshakeWithError env (ErrNew ''SHIP id mismatch'') c
               else
                 (let shipIDWasUnknown = (length (remoteShipID c) = 0);
                      c1 = (if shipIDWasUnknown then c\<lparr>remoteShipID := shipId\<rparr> else c);
                      c2 = stopHandshakeTimer c1;
                      shouldReportShipID = (shipIDWasUnknown \<or> pairingApprovalPending c2)
                  in commitPairing env shouldReportShipID c2)))
     else endHandshakeWithError env (ErrNew (''access methods: invalid response: '' @ data)) c)"

section \<open>\<open>handleState\<close> (src/ship/handshake.go)\<close>

definition handleStateF :: "ship_env \<Rightarrow> state_handler \<Rightarrow> state_handler" where
  "handleStateF env rec timeout message c =
    (if \<not> pairingEffectAllowed c then c
     else case smeState c of
       SmeStateError \<Rightarrow> c
     | CmiStateInitStart \<Rightarrow> handshakeInit_cmiStateInitStart env c
     | CmiStateClientWait \<Rightarrow>
         if timeout then endHandshakeWithError env (ErrNew ''ship client handshake timeout'') c
         else handshakeInit_cmiStateClientWait env rec message c
     | CmiStateServerWait \<Rightarrow>
         if timeout then endHandshakeWithError env (ErrNew ''ship server handshake timeout'') c
         else handshakeInit_cmiStateServerWait env rec message c
     | SmeHelloState \<Rightarrow>
         (let paired = isRemoteServicePaired env (calls c);
              c1 = bumpCall c;
              auto = isAutoAcceptEnabled env (calls c1);
              c2 = (if paired then c1 else bumpCall c1);
              ready = (paired \<or> auto \<or> role c = ShipRoleClient);
              c3 = snd (setState env (if ready then SmeHelloStateReadyInit else SmeHelloStatePendingInit) None c2)
          in rec timeout message c3)
     | SmeHelloStateReadyInit \<Rightarrow> handshakeHello_Init env rec c
     | SmeHelloStateReadyListen \<Rightarrow> handshakeHello_ReadyListen env rec timeout message c
     | SmeHelloStatePendingInit \<Rightarrow> handshakeHello_PendingInit env rec c
     | SmeHelloStatePendingListen \<Rightarrow> handshakeHello_PendingListen env rec timeout message c
     | SmeHelloStateOk \<Rightarrow> handshakeProtocol_Init env c
     | SmeHelloStateAbort \<Rightarrow> handshakeHello_Abort env rec c
     | SmeHelloStateAbortDone \<Rightarrow> c\<lparr>spawned := spawned c @ [GoDelayedAbortClose]\<rparr>
     | SmeHelloStateRemoteAbortDone \<Rightarrow> c\<lparr>spawned := spawned c @ [GoDelayedAbortClose]\<rparr>
     | SmeProtHStateServerListenProposal \<Rightarrow> handshakeProtocol_smeProtHStateServerListenProposal env message c
     | SmeProtHStateServerListenConfirm \<Rightarrow> handshakeProtocol_smeProtHStateServerListenConfirm env rec message c
     | SmeProtHStateClientListenChoice \<Rightarrow>
         handshakeProtocol_smeProtHStateClientListenChoice env rec message (stopHandshakeTimer c)
     | SmeProtHStateClientOk \<Rightarrow> setAndHandleState env rec SmePinStateCheckInit c
     | SmeProtHStateServerOk \<Rightarrow> setAndHandleState env rec SmePinStateCheckInit c
     | SmePinStateCheckInit \<Rightarrow> handshakePin_Init env c
     | SmePinStateCheckListen \<Rightarrow>
         if timeout then endHandshakeWithError env ErrPINProtocol c
         else handshakePin_smePinStateCheckListen env rec message c
     | SmePinStateAskInit \<Rightarrow>
         if timeout then endHandshakeWithError env ErrPINProtocol c
         else handshakePin_smePinStateCheckListen env rec message c
     | SmePinStateAskProcess \<Rightarrow>
         if timeout then endHandshakeWithError env ErrPINProtocol c
         else handshakePin_smePinStateCheckListen env rec message c
     | SmePinStateCheckOk \<Rightarrow> handshakeAccessMethods_Init env c
     | SmePinStateAskRestricted \<Rightarrow> handshakeAccessMethods_Init env c
     | SmePinStateAskOk \<Rightarrow> handshakeAccessMethods_Init env c
     | SmeAccessMethodsRequest \<Rightarrow> handshakeAccessMethods_Request env message c
     | _ \<Rightarrow> c)"

primrec handleStateN :: "nat \<Rightarrow> ship_env \<Rightarrow> state_handler" where
  "handleStateN 0 env = (\<lambda>timeout message c. c)"
| "handleStateN (Suc n) env = handleStateF env (handleStateN n env)"

definition handleState :: "ship_env \<Rightarrow> state_handler" where
  "handleState env = handleStateN 8 env"

section \<open>Entry points\<close>

definition handleShipMessage :: "ship_env \<Rightarrow> bool \<Rightarrow> bytes \<Rightarrow> ship_conn \<Rightarrow> ship_conn" where
  "handleShipMessage env timeout message c =
    (let closeMsg = (if 2 < length message then processShipJsonMessage decodeConnectionClose zeroClose message
                     else None) in
     case closeMsg of
       Some m \<Rightarrow>
         if closePhase m \<noteq> [] then
           (if closePhase m = ConnectionClosePhaseTypeAnnounce then
              CloseConnection env False 4001 ''remote close announce''
                (snd (sendShipModel env MsgTypeEnd (ConnectionClose ConnectionClosePhaseTypeConfirm None None) c))
            else if closePhase m = ConnectionClosePhaseTypeConfirm then
              CloseConnection env False 4001 ''remote close confirm'' c
            else c)
         else handleState env timeout message c
     | None \<Rightarrow> handleState env timeout message c)"

definition Run :: "ship_env \<Rightarrow> ship_conn \<Rightarrow> ship_conn" where
  "Run env c =
    (if initializeDataHandlerOnRun c then
       (if \<not> pairingEffectAllowed c then c
        else
          (let c1 = initializeDataProcessing env c in
           if hasOutgoingAttempt c1 \<and> attemptContextErr env (calls c1)
           then CloseConnection env False 0 ''outgoing attempt canceled'' c1
           else handleShipMessage env False [] c1))
     else handleShipMessage env False [] c)"

definition HandleIncomingWebsocketMessage :: "ship_env \<Rightarrow> bytes \<Rightarrow> ship_conn \<Rightarrow> ship_conn" where
  "HandleIncomingWebsocketMessage env message c =
    (if \<not> hasSpineDatagram message then handleShipMessage env False message c
     else case shipModelFromMessage message of
       None \<Rightarrow> c
     | Some data \<Rightarrow> (case dataPayload data of None \<Rightarrow> c | Some payload \<Rightarrow> handleSpinePayload env payload c))"

definition ApprovePendingHandshake :: "ship_env \<Rightarrow> ship_conn \<Rightarrow> ship_conn" where
  "ApprovePendingHandshake env c =
    (let (required, ready, c1) = requestPairingApproval c in
     if required then (if ready then approveHandshake env c1 else c1)
     else if smeState c1 = SmeStateApproved then approveHandshake env c1
     else if smeState c1 \<noteq> SmeHelloStatePendingListen then c1
     else setAndHandleState env (handleState env) SmeHelloStateOk
            (setAndHandleState env (handleState env) SmeHelloStateReadyInit (stopHandshakeTimer c1)))"

definition AbortPendingHandshake :: "ship_env \<Rightarrow> ship_conn \<Rightarrow> ship_conn" where
  "AbortPendingHandshake env c =
    (if smeState c = SmeStateApproved then CloseConnection env False 4452 ''pairing approval aborted'' c
     else if smeState c \<noteq> SmeHelloStatePendingListen \<and> smeState c \<noteq> SmeHelloStateReadyListen then c
     else setAndHandleState env (handleState env) SmeHelloStateAbort (stopHandshakeTimer c))"

text \<open>The running handshake timer fires: the goroutine started by \<open>setHandshakeTimer\<close>, with its
  deferred \<open>finishHandshakeTimer\<close>.\<close>

definition timerFired :: "ship_env \<Rightarrow> ship_conn \<Rightarrow> ship_conn" where
  "timerFired env c =
    (if \<not> handshakeTimerRunning c then c
     else finishHandshakeTimer (handleState env True [] (c\<lparr>handshakeTimerRunning := False\<rparr>)))"

text \<open>A goroutine of \<open>spawned\<close> runs its body, after its delay or wait.\<close>

definition runGoroutine :: "ship_env \<Rightarrow> goroutine \<Rightarrow> ship_conn \<Rightarrow> ship_conn" where
  "runGoroutine env g c =
    (case g of
       GoDelayedAbortClose \<Rightarrow> CloseConnection env False 4452 ''Node rejected by application'' c
     | GoFinishAfterTimers safe code reason handshakeEnd state \<Rightarrow>
         runPairingEffect env (EffFinish safe code reason handshakeEnd state) (stopHandshakeTimer c)
     | GoSafeClose handshakeEnd \<Rightarrow>
         settle env c (reportConnectionClosed env handshakeEnd (emit (EvCloseData 4001 ''close'') c)))"

end
