(* ===== verification/Ship_Invariants.thy ===== *)
theory Ship_Invariants
  imports Ship_Handshake
begin

text \<open>
  Invariants of a SHIP connection over its whole life. \<open>handler_inv\<close> extends \<open>effect_inv\<close> by the
  laws for the locked sections and external calls of the handlers, and proves once that a property
  with these laws holds after every entry point, timer callback and goroutine, in any order and
  for every behaviour of the other components. The interpretations below are the connection's
  invariants; the step relation \<open>ship_step\<close> is what a connection can do between two calls.
\<close>

text \<open>After \<open>approveBegin\<close>: setup has started, and approval is released if it was required.\<close>

definition approvedFlags :: "ship_conn \<Rightarrow> bool" where
  "approvedFlags c = (spineSetupStarted c \<and> (requirePairingApproval c \<longrightarrow> pairingApprovalReleased c))"

interpretation approved: effect_inv approvedFlags approvedFlags
  by unfold_locales
    (auto simp: approvedFlags_def effect_defs Let_def frame_simps)

lemma approveBegin_flags: "approveBegin c = Some c1 \<Longrightarrow> approvedFlags c1"
  by (auto simp: approveBegin_def approvedFlags_def split: if_splits)

section \<open>Properties every handler keeps\<close>

text \<open>\<open>conn_ops\<close> asks that a property survives the operations handlers are made of, run to
  completion, drain loops included.\<close>

locale conn_ops =
  fixes P :: "ship_conn \<Rightarrow> bool"
  assumes bump_P: "P c \<Longrightarrow> P (bumpCall c)"
    and write_P: "P c \<Longrightarrow> P (emit (EvWrite m b) c)"
    and init_P: "P c \<Longrightarrow> P (emit EvInitData (c\<lparr>dataHandlerInitDone := True\<rparr>))"
    and discard_P: "P c \<Longrightarrow> P (emit EvDiscardPIN c)"
    and state_report_P: "P c \<Longrightarrow> P (emit (EvStateReport i) c)"
    and request_P: "P c \<Longrightarrow> P (snd (snd (requestPairingApproval c)))"
    and stop_timer: "P c \<Longrightarrow> P (stopHandshakeTimer c)"
    and set_timer: "P c \<Longrightarrow> P (setHandshakeTimer t d c)"
    and timer_fires: "P c \<Longrightarrow> P (c\<lparr>handshakeTimerRunning := False\<rparr>)"
    and finish_timer: "P c \<Longrightarrow> P (finishHandshakeTimer c)"
    and pin_detail: "P c \<Longrightarrow> P (c\<lparr>pinHandshakeDetail := p\<rparr>)"
    and waiting_value: "P c \<Longrightarrow> P (c\<lparr>lastReceivedWaitingValue := d\<rparr>)"
    and ship_id: "P c \<Longrightarrow> remoteShipID c = [] \<Longrightarrow> P (c\<lparr>remoteShipID := x\<rparr>)"
    and begin_commit: "P c \<Longrightarrow> P (snd (beginPairingCommit c))"
    and complete_commit: "P c \<Longrightarrow> P (snd (completePairingCommitCallback c))"
    and consume_pin: "P c \<Longrightarrow> P (snd (consumePIN env pin c))"
    and spawn_abort: "P c \<Longrightarrow> P (c\<lparr>spawned := spawned c @ [GoDelayedAbortClose]\<rparr>)"
    and panic: "P c \<Longrightarrow> P (c\<lparr>panicked := True\<rparr>)"
    and react_P: "P c \<Longrightarrow> P (react env c)"
    and CloseConnection_P: "P c \<Longrightarrow> P (CloseConnection env s k r c)"
    and setState_P: "P c \<Longrightarrow> P (snd (setState env st err c))"
    and run_report: "P c \<Longrightarrow> P (runPairingEffect env (EffReport i) c)"
    and ship_id_report: "P c \<Longrightarrow> P (snd (reportServiceShipID env c))"
    and publish_approved: "P c \<Longrightarrow> P (snd (publishPairingApproved env c))"
    and approve: "P c \<Longrightarrow> P (approveHandshake env c)"
    and spine_payload: "P c \<Longrightarrow> P (handleSpinePayload env pl c)"
    and run_goroutine: "P c \<Longrightarrow> spawned c = gs @ g # hs \<Longrightarrow> P (runGoroutine env g (c\<lparr>spawned := gs @ hs\<rparr>))"
begin

lemma bump_write: "P c \<Longrightarrow> P (snd (writeShipMessage env m b c))"
  by (simp add: writeShipMessage_def Let_def write_P bump_P)

lemma send: "P c \<Longrightarrow> P (snd (sendShipModel env t m c))"
  by (auto simp: sendShipModel_def sendShipModelWithClosing_def shipMessage_def Let_def split_beta
      bump_write CloseConnection_P bump_P split: option.splits)

lemma init_data: "P c \<Longrightarrow> P (initializeDataProcessing env c)"
  by (simp add: initializeDataProcessing_def react_P init_P)

lemma attempt_canceled: "P c \<Longrightarrow> P (attemptCanceled env c)"
  by (simp add: attemptCanceled_def CloseConnection_P init_data)

lemma set_pin_detail: "P c \<Longrightarrow> P (setPINHandshakeDetail env p b c)"
  by (simp add: setPINHandshakeDetail_def Let_def run_report pin_detail)

lemma pin_failure: "P c \<Longrightarrow> P (setPINFailureFor e c)"
  by (auto simp: setPINFailureFor_def Let_def split_beta pin_detail split: option.splits)

lemma discard_pin: "P c \<Longrightarrow> P (discardTransientPIN env c)"
  by (simp add: discardTransientPIN_def discard_P)

lemma end_error: "P c \<Longrightarrow> P (endHandshakeWithError env e c)"
  by (simp add: endHandshakeWithError_def Let_def split_beta CloseConnection_P setState_P pin_failure
      discard_pin stop_timer)

lemma write_spine: "P c \<Longrightarrow> P (WriteShipMessageWithPayload env m c)"
  by (auto simp: WriteShipMessageWithPayload_def sendSpineData_def Let_def split_beta CloseConnection_P
      bump_P bump_write split: option.splits)

lemma connection_error: "P c \<Longrightarrow> P (ReportConnectionError env e c)"
  by (simp add: ReportConnectionError_def Let_def CloseConnection_P setState_P react_P state_report_P)

lemmas basics = send init_data set_pin_detail pin_failure discard_pin end_error approve setState_P
  CloseConnection_P react_P stop_timer set_timer bump_P bump_write waiting_value spawn_abort panic

lemma set_and_handle:
  "(\<And>t m d. P d \<Longrightarrow> P (rec t m d)) \<Longrightarrow> P c \<Longrightarrow> P (setAndHandleState env rec s c)"
  by (simp add: setAndHandleState_def Let_def split_beta setState_P)

lemma init_start: "P c \<Longrightarrow> P (handshakeInit_cmiStateInitStart env c)"
  by (auto simp: handshakeInit_cmiStateInitStart_def Let_def split_beta basics
      split: shipRole.splits option.splits)

lemma init_evaluate: "P c \<Longrightarrow> P (snd (handshakeInit_cmiStateEvaluate env m c))"
  by (simp add: handshakeInit_cmiStateEvaluate_def Let_def split_beta basics)

lemma hello_send: "P c \<Longrightarrow> P (snd (handshakeHelloSend env ph d b c))"
  by (simp add: handshakeHelloSend_def basics)

lemma ask_waiting: "P c \<Longrightarrow> P (snd (askWaitingForTrust env c))"
  by (simp add: askWaitingForTrust_def basics)

lemma protocol_client_init: "P c \<Longrightarrow> P (handshakeProtocol_smeProtHStateClientInit env c)"
  by (auto simp: handshakeProtocol_smeProtHStateClientInit_def Let_def split_beta basics split: option.splits)

lemma protocol_init: "P c \<Longrightarrow> P (handshakeProtocol_Init env c)"
  by (auto simp: handshakeProtocol_Init_def Let_def basics protocol_client_init split: shipRole.splits)

lemma protocol_abort: "P c \<Longrightarrow> P (abortProtocolHandshake env e c)"
  by (simp add: abortProtocolHandshake_def Let_def basics)

lemma protocol_proposal: "P c \<Longrightarrow> P (handshakeProtocol_smeProtHStateServerListenProposal env m c)"
  by (auto simp: handshakeProtocol_smeProtHStateServerListenProposal_def Let_def split_beta basics
      split: option.splits)

lemma pin_init: "P c \<Longrightarrow> P (handshakePin_Init env c)"
  by (auto simp: handshakePin_Init_def Let_def split_beta basics split: option.splits)

lemma lend_pins: "P c \<Longrightarrow> P (snd (snd (lendPINs env pins k c)))"
  by (induction pins arbitrary: k c) (auto simp: Let_def split_beta consume_pin)

lemma with_pin: "P c \<Longrightarrow> P (snd (snd (withTransientPIN env c)))"
  by (auto simp: withTransientPIN_def Let_def split_beta lend_pins basics split: option.splits)

lemma access_init: "P c \<Longrightarrow> P (handshakeAccessMethods_Init env c)"
  by (auto simp: handshakeAccessMethods_Init_def Let_def split_beta basics split: option.splits)

lemma commit_pairing: "P c \<Longrightarrow> P (commitPairing env b c)"
  by (auto simp: commitPairing_def Let_def split_beta basics begin_commit complete_commit
      ship_id_report publish_approved)

lemma access_request: "P c \<Longrightarrow> P (handshakeAccessMethods_Request env m c)"
  by (auto simp: handshakeAccessMethods_Request_def Let_def split_beta basics commit_pairing ship_id
      split: option.splits)

text \<open>Handlers that call back \<open>handleState\<close>.\<close>

lemma init_server_wait:
  "(\<And>t m d. P d \<Longrightarrow> P (rec t m d)) \<Longrightarrow> P c \<Longrightarrow> P (handshakeInit_cmiStateServerWait env rec m c)"
  by (auto simp: handshakeInit_cmiStateServerWait_def Let_def split_beta basics init_evaluate
      set_and_handle split: option.splits)

lemma init_client_wait:
  "(\<And>t m d. P d \<Longrightarrow> P (rec t m d)) \<Longrightarrow> P c \<Longrightarrow> P (handshakeInit_cmiStateClientWait env rec m c)"
  by (simp add: handshakeInit_cmiStateClientWait_def Let_def split_beta basics init_evaluate set_and_handle)

lemma hello_init: "(\<And>t m d. P d \<Longrightarrow> P (rec t m d)) \<Longrightarrow> P c \<Longrightarrow> P (handshakeHello_Init env rec c)"
  by (auto simp: handshakeHello_Init_def split_beta basics hello_send set_and_handle split: option.splits)

lemma hello_ready:
  "(\<And>t m d. P d \<Longrightarrow> P (rec t m d)) \<Longrightarrow> P c \<Longrightarrow> P (handshakeHello_ReadyListen env rec b m c)"
  by (auto simp: handshakeHello_ReadyListen_def handshakeHello_ReadyTimeout_def Let_def split_beta basics
      hello_send ask_waiting set_and_handle split: option.splits bool.splits)

lemma hello_abort: "(\<And>t m d. P d \<Longrightarrow> P (rec t m d)) \<Longrightarrow> P c \<Longrightarrow> P (handshakeHello_Abort env rec c)"
  by (auto simp: handshakeHello_Abort_def split_beta basics hello_send set_and_handle split: option.splits)

lemma hello_pending_init:
  "(\<And>t m d. P d \<Longrightarrow> P (rec t m d)) \<Longrightarrow> P c \<Longrightarrow> P (handshakeHello_PendingInit env rec c)"
  by (auto simp: handshakeHello_PendingInit_def Let_def split_beta basics hello_send ask_waiting
      set_and_handle split: option.splits)

lemma hello_pending_timeout:
  "(\<And>t m d. P d \<Longrightarrow> P (rec t m d)) \<Longrightarrow> P c \<Longrightarrow> P (handshakeHello_PendingTimeout env rec c)"
  by (auto simp: handshakeHello_PendingTimeout_def Let_def split_beta basics hello_send set_and_handle
      split: option.splits)

lemma hello_prolong: "P c \<Longrightarrow> P (handshakeHello_PendingProlongationRequest env c)"
  by (auto simp: handshakeHello_PendingProlongationRequest_def split_beta basics hello_send split: option.splits)

lemma apply_waiting:
  "(\<And>t m d. P d \<Longrightarrow> P (rec t m d)) \<Longrightarrow> P c \<Longrightarrow> P (snd (applyWaiting env rec d c))"
  by (simp add: applyWaiting_def basics set_and_handle)

lemma hello_pending:
  "(\<And>t m d. P d \<Longrightarrow> P (rec t m d)) \<Longrightarrow> P c \<Longrightarrow> P (handshakeHello_PendingListen env rec b m c)"
  by (auto simp: handshakeHello_PendingListen_def Let_def split_beta basics hello_send ask_waiting
      hello_pending_timeout hello_prolong apply_waiting set_and_handle split: option.splits bool.splits)

lemma protocol_confirm:
  "(\<And>t m d. P d \<Longrightarrow> P (rec t m d)) \<Longrightarrow> P c \<Longrightarrow> P (handshakeProtocol_smeProtHStateServerListenConfirm env rec m c)"
  by (auto simp: handshakeProtocol_smeProtHStateServerListenConfirm_def basics protocol_abort set_and_handle
      split: option.splits)

lemma protocol_choice:
  "(\<And>t m d. P d \<Longrightarrow> P (rec t m d)) \<Longrightarrow> P c \<Longrightarrow> P (handshakeProtocol_smeProtHStateClientListenChoice env rec m c)"
  by (auto simp: handshakeProtocol_smeProtHStateClientListenChoice_def split_beta basics protocol_abort
      set_and_handle split: option.splits bool.splits)

lemma pin_request:
  "(\<And>t m d. P d \<Longrightarrow> P (rec t m d)) \<Longrightarrow> P c \<Longrightarrow> P (processRemotePINRequest env rec q c)"
  by (auto simp: processRemotePINRequest_def Let_def split_beta basics with_pin set_and_handle
      split: option.splits)

lemma pin_state:
  "(\<And>t m d. P d \<Longrightarrow> P (rec t m d)) \<Longrightarrow> P c \<Longrightarrow> P (processRemotePINState env rec ps c)"
  by (auto simp: processRemotePINState_def basics pin_request set_and_handle split: option.splits)

lemma pin_listen:
  "(\<And>t m d. P d \<Longrightarrow> P (rec t m d)) \<Longrightarrow> P c \<Longrightarrow> P (handshakePin_smePinStateCheckListen env rec m c)"
  by (auto simp: handshakePin_smePinStateCheckListen_def basics pin_state split: option.splits)

lemmas phases = init_start init_server_wait init_client_wait hello_init hello_ready hello_abort
  hello_pending_init hello_pending protocol_init protocol_proposal protocol_confirm protocol_choice
  pin_init pin_listen access_init access_request

lemma handleStateF_P:
  "(\<And>t m d. P d \<Longrightarrow> P (rec t m d)) \<Longrightarrow> P c \<Longrightarrow> P (handleStateF env rec t m c)"
  by (cases "smeState c") (auto simp: handleStateF_def Let_def basics phases set_and_handle)

lemma handleStateN_P: "P c \<Longrightarrow> P (handleStateN n env t m c)"
  by (induction n arbitrary: t m c) (simp_all add: handleStateF_P)

lemma handle_state: "P c \<Longrightarrow> P (handleState env t m c)"
  by (simp add: handleState_def handleStateN_P)

lemma ship_message: "P c \<Longrightarrow> P (handleShipMessage env t m c)"
  by (auto simp: handleShipMessage_def Let_def basics handle_state split: option.splits)

lemma run_P: "P c \<Longrightarrow> P (Run env c)"
  by (simp add: Run_def Let_def basics ship_message)

lemma incoming: "P c \<Longrightarrow> P (HandleIncomingWebsocketMessage env m c)"
  by (auto simp: HandleIncomingWebsocketMessage_def ship_message spine_payload split: option.splits)

lemma approve_pending: "P c \<Longrightarrow> P (ApprovePendingHandshake env c)"
  using request_P [of c]
  by (auto simp: ApprovePendingHandshake_def Let_def split_beta basics set_and_handle handle_state)

lemma abort_pending: "P c \<Longrightarrow> P (AbortPendingHandshake env c)"
  by (simp add: AbortPendingHandshake_def basics set_and_handle handle_state)

lemma timer_fired: "P c \<Longrightarrow> P (timerFired env c)"
  by (simp add: timerFired_def finish_timer handle_state timer_fires)

end

section \<open>What a connection can do\<close>

text \<open>The calls other components make, the timer, the attempt's cancellation and the goroutines.
  \<open>env\<close> ranges over all behaviours of the other components and may differ from step to step.\<close>

definition goroutineReady :: "goroutine \<Rightarrow> ship_conn \<Rightarrow> bool" where
  "goroutineReady g c =
    (case g of
       GoFinishAfterTimers _ _ _ _ _ \<Rightarrow> handshakeTimerActive (stopHandshakeTimer c) = 0
     | _ \<Rightarrow> True)"

inductive ship_step :: "ship_conn \<Rightarrow> ship_conn \<Rightarrow> bool" where
  step_run: "ship_step c (Run env c)"
| step_message: "ship_step c (HandleIncomingWebsocketMessage env m c)"
| step_approve: "ship_step c (ApprovePendingHandshake env c)"
| step_abort: "ship_step c (AbortPendingHandshake env c)"
| step_close: "ship_step c (CloseConnection env safe code reason c)"
| step_write: "ship_step c (WriteShipMessageWithPayload env m c)"
| step_error: "ship_step c (ReportConnectionError env err c)"
| step_timer: "ship_step c (timerFired env c)"
| step_canceled: "hasOutgoingAttempt c \<Longrightarrow> ship_step c (attemptCanceled env c)"
| step_goroutine: "spawned c = gs @ g # hs \<Longrightarrow> goroutineReady g c \<Longrightarrow> ship_step c (runGoroutine env g (c\<lparr>spawned := gs @ hs\<rparr>))"

inductive_cases ship_stepE: "ship_step c d"

inductive ship_reachable :: "ship_conn \<Rightarrow> ship_conn \<Rightarrow> bool" for c0 where
  reach_start: "ship_reachable c0 c0"
| reach_step: "ship_reachable c0 c \<Longrightarrow> ship_step c d \<Longrightarrow> ship_reachable c0 d"

context conn_ops
begin

lemma step_P: "ship_step c d \<Longrightarrow> P c \<Longrightarrow> P d"
  by (erule ship_stepE) (auto simp: run_P incoming approve_pending abort_pending CloseConnection_P write_spine
      connection_error timer_fired attempt_canceled run_goroutine)

lemma reachable_P: "ship_reachable c0 c \<Longrightarrow> P c0 \<Longrightarrow> P c"
  by (induction rule: ship_reachable.induct) (auto intro: step_P)

end

section \<open>Properties given by the laws of single sections\<close>

locale handler_inv = effect_inv +
  assumes write_P: "P c \<Longrightarrow> P (emit (EvWrite m b) c)"
    and init_P: "P c \<Longrightarrow> P (emit EvInitData (c\<lparr>dataHandlerInitDone := True\<rparr>))"
    and discard_P: "P c \<Longrightarrow> P (emit EvDiscardPIN c)"
    and state_report_P: "P c \<Longrightarrow> P (emit (EvStateReport i) c)"
    and stop_timer: "P c \<Longrightarrow> P (stopHandshakeTimer c)"
    and set_timer: "P c \<Longrightarrow> P (setHandshakeTimer t d c)"
    and timer_fires: "P c \<Longrightarrow> P (c\<lparr>handshakeTimerRunning := False\<rparr>)"
    and finish_timer: "P c \<Longrightarrow> P (finishHandshakeTimer c)"
    and enqueue_report: "P c \<Longrightarrow> P (snd (enqueuePairingEffect (EffReport i) c))"
    and enqueue_shipid: "P c \<Longrightarrow> P (snd (enqueuePairingEffect EffReportShipID c))"
    and enqueue_publish: "P c \<Longrightarrow> P (snd (enqueuePairingEffect EffPublishApproved c))"
    and pin_detail: "P c \<Longrightarrow> P (c\<lparr>pinHandshakeDetail := p\<rparr>)"
    and waiting_value: "P c \<Longrightarrow> P (c\<lparr>lastReceivedWaitingValue := d\<rparr>)"
    and ship_id: "P c \<Longrightarrow> remoteShipID c = [] \<Longrightarrow> P (c\<lparr>remoteShipID := x1\<rparr>)"
    and begin_commit: "P c \<Longrightarrow> P (snd (beginPairingCommit c))"
    and complete_commit: "P c \<Longrightarrow> P (snd (completePairingCommitCallback c))"
    and approve_begin: "P c \<Longrightarrow> approveBegin c = Some c1 \<Longrightarrow>
      P (snd (enqueuePairingEffect EffSetup (c1\<lparr>effReader := None\<rparr>)))"
    and approve_commit: "P c \<Longrightarrow> approvedFlags c \<Longrightarrow> P (snd (approveCommit rd c))"
    and consume_pin: "P c \<Longrightarrow> P (snd (consumePIN env pin c))"
    and spawn_abort: "P c \<Longrightarrow> P (c\<lparr>spawned := spawned c @ [GoDelayedAbortClose]\<rparr>)"
    and panic: "P c \<Longrightarrow> P (c\<lparr>panicked := True\<rparr>)"
    and route: "P c \<Longrightarrow> P (snd (snd (snd (routeOrBufferSpinePayload pl c))))"
    and enqueue_spine: "P c \<Longrightarrow> dataReader c = Some rd \<Longrightarrow> P (snd (enqueueSpineDispatchLocked [SpPayload rd pl] c))"
    and take_spine: "P c \<Longrightarrow> spineDispatchQueue c = u # us \<Longrightarrow> P (c\<lparr>spineDispatchQueue := us\<rparr>)"
    and take_payload: "P c \<Longrightarrow> spineDispatchQueue c = SpPayload rd pl # us \<Longrightarrow> pairingEffectAllowed c \<Longrightarrow>
      P (emit (EvPayload rd pl) (c\<lparr>spineDispatchQueue := us\<rparr>))"
    and spine_idle: "P c \<Longrightarrow> spineDispatchQueue c = [] \<Longrightarrow> P (c\<lparr>spineDispatching := False\<rparr>)"
    and run_abort: "P c \<Longrightarrow> spawned c = gs @ GoDelayedAbortClose # hs \<Longrightarrow> P (c\<lparr>spawned := gs @ hs\<rparr>)"
    and run_safe: "P c \<Longrightarrow> spawned c = gs @ GoSafeClose h # hs \<Longrightarrow> Q (c\<lparr>spawned := gs @ hs\<rparr>)"
    and run_after_timers: "P c \<Longrightarrow> spawned c = gs @ GoFinishAfterTimers s k r h st # hs \<Longrightarrow>
      P (snd (enqueuePairingEffect (EffFinish s k r h st) (stopHandshakeTimer (c\<lparr>spawned := gs @ hs\<rparr>))))"
begin

lemma ship_id_report: "P c \<Longrightarrow> P (snd (reportServiceShipID env c))"
  by (simp add: reportServiceShipID_def Let_def runPairingEffect_P enqueue_shipid reported)

lemma publish_approved: "P c \<Longrightarrow> P (snd (publishPairingApproved env c))"
  by (simp add: publishPairingApproved_def Let_def runPairingEffect_P enqueue_publish published)

lemma run_spine_task:
  assumes "P c" "spineDispatchQueue c = t # ts"
  shows "P (runSpineTask env t (c\<lparr>spineDispatchQueue := ts\<rparr>))"
proof (cases t)
  case SpComplete
  with take_spine [OF assms] show ?thesis
    by (simp add: runSpineTask_def react_P state_report_P)
next
  case (SpPayload r p)
  with assms take_spine [OF assms] take_payload [of c r p ts] show ?thesis
    by (auto simp: runSpineTask_def react_P spineDispatchTerminated_def pairingEffectAllowed_def)
qed

lemma drain_spine: "P c \<Longrightarrow> P (drainSpineDispatchQueue env c)"
proof (induction env c rule: drainSpine_induct)
  case (drain env c)
  show ?case
  proof (cases "spineDispatchQueue c")
    case Nil
    with drain.prems show ?thesis by (simp add: drainSpine_empty spine_idle)
  next
    case (Cons t ts)
    then have tk: "takeSpineDispatch c = (Some t, c\<lparr>spineDispatchQueue := ts\<rparr>)"
      by (simp add: takeSpineDispatch_def)
    show ?thesis
      using drain.IH [OF tk [symmetric] refl] run_spine_task [OF drain.prems Cons] Cons
      by (simp add: drainSpine_Cons)
  qed
qed

lemma approve: "P c \<Longrightarrow> P (approveHandshake env c)"
proof (cases "approveBegin c")
  case None
  then show "P c \<Longrightarrow> P (approveHandshake env c)" by (simp add: approveHandshake_def)
next
  case (Some c1)
  assume p: "P c"
  define c2 where "c2 = runPairingEffect env EffSetup (c1\<lparr>effReader := None\<rparr>)"
  have "P c2" using approve_begin [OF p Some] by (simp add: c2_def runPairingEffect_P)
  moreover have "approvedFlags c2"
    using approveBegin_flags [OF Some] approved.runPairingEffect_P
    by (simp add: c2_def approvedFlags_def enqueuePairingEffect_def enqueuePairingEffects_def Let_def)
  then have "approvedFlags (stopHandshakeTimer c2)"
    by (simp add: approvedFlags_def frame_simps)
  ultimately show ?thesis
    using Some approve_commit [of "stopHandshakeTimer c2"]
    by (simp add: approveHandshake_def c2_def [symmetric] Let_def split_beta stop_timer
        CloseConnection_P drain_spine split: option.splits)
qed

lemma spine_payload: "P c \<Longrightarrow> P (handleSpinePayload env pl c)"
  using route [of c pl] enqueue_spine
  by (auto simp: handleSpinePayload_def Let_def split_beta CloseConnection_P drain_spine
      routeOrBufferSpinePayload_def split: option.splits if_splits)

lemma run_goroutine:
  assumes "P c" "spawned c = gs @ g # hs"
  shows "P (runGoroutine env g (c\<lparr>spawned := gs @ hs\<rparr>))"
proof (cases g)
  case GoDelayedAbortClose
  with assms show ?thesis by (simp add: runGoroutine_def CloseConnection_P run_abort)
next
  case (GoFinishAfterTimers s k r h st)
  with assms show ?thesis by (simp add: runGoroutine_def runPairingEffect_P run_after_timers)
next
  case (GoSafeClose h)
  with assms show ?thesis by (simp add: runGoroutine_def settle_P reportClosed_Q closedata_Q run_safe)
qed

end

sublocale handler_inv \<subseteq> ops: conn_ops
  by unfold_locales
    (auto simp: bump_P write_P init_P discard_P state_report_P request_P stop_timer set_timer timer_fires
      finish_timer pin_detail waiting_value ship_id begin_commit complete_commit consume_pin spawn_abort
      panic react_P CloseConnection_P setState_P runPairingEffect_P enqueue_report ship_id_report
      publish_approved approve spine_payload run_goroutine)

end
