(* ===== verification/Ship_Safety.thy ===== *)
theory Ship_Safety
  imports Ship_Invariants
begin

text \<open>
  Safety of a SHIP connection: the invariants, as instances of the interfaces of
  \<open>Ship_Invariants\<close>, and what they say about every state a connection can reach.
\<close>

lemmas handler_defs = effect_defs beginPairingCommit_def
  completePairingCommitCallback_def approveBegin_def approveCommit_def approvedFlags_def
  enqueueSpineDispatchLocked_def routeOrBufferSpinePayload_def Let_def

text \<open>The states connections start from.\<close>

definition startState :: "ship_conn \<Rightarrow> bool" where
  "startState c =
    ((\<exists>r l ski sid. c = NewConnectionHandler r l ski sid)
     \<or> (\<exists>r l ski sid meta ctx appr. NewOutgoingConnectionHandler r l ski sid meta ctx appr = Inr c))"

lemmas start_defs = startState_def NewConnectionHandler_def NewOutgoingConnectionHandler_def
  newConnectionHandler_def

section \<open>The SPINE buffer\<close>

definition bufferInv :: "ship_conn \<Rightarrow> bool" where
  "bufferInv c =
    (length (spineBuffer c) \<le> maxBufferedSpineMessages
     \<and> spineBufferBytes c = int (sum_list (map length (spineBuffer c)))
     \<and> spineBufferBytes c \<le> maxBufferedSpineBytes)"

lemma consumePIN_frame [frame_simps]:
  "spineBuffer (snd (consumePIN env pin c)) = spineBuffer c"
  "spineBufferBytes (snd (consumePIN env pin c)) = spineBufferBytes c"
  "pairingEffectQueue (snd (consumePIN env pin c)) = pairingEffectQueue c"
  "pairingEffectDraining (snd (consumePIN env pin c)) = pairingEffectDraining c"
  "spawned (snd (consumePIN env pin c)) = spawned c"
  "shutdownClosed (snd (consumePIN env pin c)) = shutdownClosed c"
  "pairingClosing (snd (consumePIN env pin c)) = pairingClosing c"
  "pairingTerminal (snd (consumePIN env pin c)) = pairingTerminal c"
  "smeState (snd (consumePIN env pin c)) = smeState c"
  "outgoingAttemptTerminal (snd (consumePIN env pin c)) = outgoingAttemptTerminal c"
  "spineSetupStarted (snd (consumePIN env pin c)) = spineSetupStarted c"
  "requirePairingApproval (snd (consumePIN env pin c)) = requirePairingApproval c"
  "pairingApprovalReleased (snd (consumePIN env pin c)) = pairingApprovalReleased c"
  "pairingApprovalRequested (snd (consumePIN env pin c)) = pairingApprovalRequested c"
  "pairingCommitStarted (snd (consumePIN env pin c)) = pairingCommitStarted c"
  "dataReader (snd (consumePIN env pin c)) = dataReader c"
  "spineDispatchQueue (snd (consumePIN env pin c)) = spineDispatchQueue c"
  by (auto simp: consumePIN_def beginPINInput_def sendTransientPIN_def rollbackPINInput_def emit_def
      bumpCall_def Let_def split: option.splits if_splits)

interpretation buffer: handler_inv bufferInv bufferInv
  by unfold_locales
    (auto simp: bufferInv_def handler_defs frame_simps maxBufferedSpineMessages_def
      maxBufferedSpineBytes_def split: if_splits)

section \<open>Closing\<close>

fun isCloseEffect :: "pairingEffect \<Rightarrow> bool" where
  "isCloseEffect (EffClose _ _ _) = True"
| "isCloseEffect (EffFinish _ _ _ _ _) = True"
| "isCloseEffect _ = False"

fun isCloseGoroutine :: "goroutine \<Rightarrow> bool" where
  "isCloseGoroutine (GoFinishAfterTimers _ _ _ _ _) = True"
| "isCloseGoroutine (GoSafeClose _) = True"
| "isCloseGoroutine _ = False"

fun isClosedEvent :: "event \<Rightarrow> bool" where
  "isClosedEvent (EvClosed _ _) = True"
| "isClosedEvent _ = False"

text \<open>Who is responsible for reporting the close: a queued task, a goroutine, or nobody any more
  because the report is in the trace.\<close>

definition closeTokens :: "ship_conn \<Rightarrow> nat" where
  "closeTokens c = length (filter isCloseEffect (pairingEffectQueue c))
    + length (filter isCloseGoroutine (spawned c)) + length (filter isClosedEvent (trace c))"

definition closeInv :: "ship_conn \<Rightarrow> bool" where
  "closeInv c = (closeTokens c = (if shutdownClosed c then 1 else 0)
    \<and> (outgoingAttemptTerminal c \<longrightarrow> filter isClosedEvent (trace c) \<noteq> [])
    \<and> (shutdownClosed c \<longrightarrow> pairingClosing c))"

definition closeHeld :: "ship_conn \<Rightarrow> bool" where
  "closeHeld c = (closeTokens c = 0 \<and> shutdownClosed c \<and> pairingClosing c
    \<and> \<not> outgoingAttemptTerminal c)"

lemma consumePIN_closed: "filter isClosedEvent (trace (snd (consumePIN env pin c))) = filter isClosedEvent (trace c)"
  by (auto simp: consumePIN_def beginPINInput_def sendTransientPIN_def rollbackPINInput_def emit_def
      bumpCall_def Let_def split: option.splits if_splits)

interpretation closing: handler_inv closeInv closeHeld
  by unfold_locales
    (auto simp: closeInv_def closeHeld_def closeTokens_def handler_defs frame_simps consumePIN_closed
      split: if_splits)

section \<open>Approval before SPINE data\<close>

fun isSpPayload :: "spineTask \<Rightarrow> bool" where
  "isSpPayload (SpPayload _ _) = True"
| "isSpPayload SpComplete = False"

fun isSpineEvent :: "event \<Rightarrow> bool" where
  "isSpineEvent EvSetup = True"
| "isSpineEvent (EvPayload _ _) = True"
| "isSpineEvent _ = False"

definition approvalInv :: "ship_conn \<Rightarrow> bool" where
  "approvalInv c =
    (((dataReader c \<noteq> None \<or> (\<exists>t \<in> set (spineDispatchQueue c). isSpPayload t)
        \<or> EffSetup \<in> set (pairingEffectQueue c) \<or> (\<exists>e \<in> set (trace c). isSpineEvent e))
       \<longrightarrow> approvedFlags c)
     \<and> (requirePairingApproval c \<and> pairingApprovalReleased c
         \<longrightarrow> pairingApprovalRequested c \<and> pairingCommitStarted c)
     \<and> length (filter ((=) EffSetup) (pairingEffectQueue c)) + length (filter ((=) EvSetup) (trace c))
         \<le> (if spineSetupStarted c then 1 else 0))"

lemma consumePIN_spine:
  "filter ((=) EvSetup) (trace (snd (consumePIN env pin c))) = filter ((=) EvSetup) (trace c)"
  "(\<exists>e \<in> set (trace (snd (consumePIN env pin c))). isSpineEvent e) \<longleftrightarrow> (\<exists>e \<in> set (trace c). isSpineEvent e)"
  by (auto simp: consumePIN_def beginPINInput_def sendTransientPIN_def rollbackPINInput_def emit_def
      bumpCall_def Let_def split: option.splits if_splits)

interpretation approval: handler_inv approvalInv approvalInv
  by unfold_locales
    (auto simp: approvalInv_def handler_defs frame_simps consumePIN_spine
      split: if_splits)

section \<open>The PIN\<close>

fun pinWritten :: "event \<Rightarrow> bool" where
  "pinWritten (EvSensitiveWrite _ ok) = ok"
| "pinWritten _ = False"

fun pinEventValid :: "event \<Rightarrow> bool" where
  "pinEventValid (EvSensitiveWrite m _) = (\<exists>pin. validTransientPIN pin \<and> m = pinInputMessage pin)"
| "pinEventValid _ = True"

definition pinInv :: "ship_conn \<Rightarrow> bool" where
  "pinInv c = (length (filter pinWritten (trace c)) = (if pinInputSent c then 1 else 0)
    \<and> list_all pinEventValid (trace c))"

lemma consumePIN_pinInv: "pinInv c \<Longrightarrow> pinInv (snd (consumePIN env pin c))"
  by (auto simp: pinInv_def consumePIN_def beginPINInput_def sendTransientPIN_def rollbackPINInput_def
      emit_def bumpCall_def Let_def split: option.splits if_splits)

interpretation pin: handler_inv pinInv pinInv
proof unfold_locales
  show "pinInv c \<Longrightarrow> pinInv (snd (consumePIN env pin c))" for c env pin
    by (rule consumePIN_pinInv)
qed (auto simp: pinInv_def handler_defs frame_simps split: if_splits)

section \<open>A closing connection\<close>

text \<open>Once closing or terminal: the handshake state, the reader and the calls into SPINE are
  frozen.\<close>

definition frozen :: "ShipMessageExchangeState \<Rightarrow> nat option \<Rightarrow> event list \<Rightarrow> ship_conn \<Rightarrow> bool" where
  "frozen s r es c = ((pairingClosing c \<or> pairingTerminal c) \<and> smeState c = s \<and> dataReader c = r
    \<and> filter isSpineEvent (trace c) = es)"

lemma consumePIN_spine_filter:
  "filter isSpineEvent (trace (snd (consumePIN env pin c))) = filter isSpineEvent (trace c)"
  by (auto simp: consumePIN_def beginPINInput_def sendTransientPIN_def rollbackPINInput_def emit_def
      bumpCall_def Let_def split: option.splits if_splits)

interpretation freeze: handler_inv "frozen s r es" "frozen s r es" for s r es
  by unfold_locales
    (auto simp: frozen_def handler_defs frame_simps consumePIN_spine_filter split: if_splits)

text \<open>Once the shutdown was requested no PIN leaves the connection.\<close>

fun isPinWrite :: "event \<Rightarrow> bool" where
  "isPinWrite (EvSensitiveWrite _ _) = True"
| "isPinWrite _ = False"

definition pinFrozen :: "event list \<Rightarrow> ship_conn \<Rightarrow> bool" where
  "pinFrozen es c = (shutdownClosed c \<and> filter isPinWrite (trace c) = es)"

lemma consumePIN_pinFrozen: "pinFrozen es c \<Longrightarrow> pinFrozen es (snd (consumePIN env pin c))"
  by (auto simp: pinFrozen_def consumePIN_def beginPINInput_def sendTransientPIN_def rollbackPINInput_def
      shutdownRequested_def emit_def bumpCall_def Let_def split: option.splits if_splits)

interpretation pin_freeze: handler_inv "pinFrozen es" "pinFrozen es" for es
proof unfold_locales
  show "pinFrozen es c \<Longrightarrow> pinFrozen es (snd (consumePIN env pin c))" for c env pin
    by (rule consumePIN_pinFrozen)
qed (auto simp: pinFrozen_def handler_defs frame_simps split: if_splits)

section \<open>The remote identity\<close>

fun shipIdEvent :: "bytes \<Rightarrow> bytes \<Rightarrow> event \<Rightarrow> bool" where
  "shipIdEvent ski sid (EvShipID a b) = (a = ski \<and> b = sid)"
| "shipIdEvent ski sid _ = True"

definition identityInv :: "bytes \<Rightarrow> bytes \<Rightarrow> event list \<Rightarrow> ship_conn \<Rightarrow> bool" where
  "identityInv ski sid es c = (remoteSKI c = ski \<and> remoteShipID c = sid \<and> sid \<noteq> []
    \<and> (\<exists>new. trace c = es @ new \<and> list_all (shipIdEvent ski sid) new))"

lemma consumePIN_identity: "identityInv ski sid es c \<Longrightarrow> identityInv ski sid es (snd (consumePIN env pin c))"
  by (auto simp: identityInv_def consumePIN_def beginPINInput_def sendTransientPIN_def rollbackPINInput_def
      emit_def bumpCall_def Let_def split: option.splits if_splits)

interpretation identity: handler_inv "identityInv ski sid es" "identityInv ski sid es" for ski sid es
proof unfold_locales
  show "identityInv ski sid es c \<Longrightarrow> identityInv ski sid es (snd (consumePIN env pin c))" for c env pin
    by (rule consumePIN_identity)
qed (auto simp: identityInv_def handler_defs frame_simps split: if_splits)

section \<open>Effects are drained\<close>

text \<open>Between two steps nothing is queued and nobody drains: every operation that queues an
  effect also runs it before it returns.\<close>

definition quiescent :: "ship_conn \<Rightarrow> bool" where
  "quiescent c = (pairingEffectQueue c = [] \<and> \<not> pairingEffectDraining c)"

lemma drain_quiescent: "quiescent (drainPairingEffects env c)"
proof (induction env c rule: drain_induct)
  case (drain env c)
  show ?case
  proof (cases "pairingEffectQueue c")
    case Nil
    then show ?thesis by (simp add: drain_empty quiescent_def)
  next
    case (Cons t ts)
    then have "takePairingEffect c = (Some t, c\<lparr>pairingEffectQueue := ts\<rparr>)"
      by (simp add: takePairingEffect_def)
    from drain.IH [OF this [symmetric] refl] show ?thesis using Cons by (simp add: drain_Cons)
  qed
qed

definition ownedQueue :: "ship_conn \<Rightarrow> bool" where
  "ownedQueue c = (pairingEffectQueue c \<noteq> [] \<longrightarrow> pairingEffectDraining c)"

lemma ownedQueue_react1: "ownedQueue c \<Longrightarrow> ownedQueue (react1 r c)"
  by (auto simp: ownedQueue_def react1_def effect_defs Let_def split: reaction.splits)

lemma ownedQueue_reactQ: "ownedQueue c \<Longrightarrow> ownedQueue (reactQ env c)"
proof -
  have "ownedQueue d \<Longrightarrow> ownedQueue (fold react1 rs d)" for rs d
    by (induction rs arbitrary: d) (simp_all add: ownedQueue_react1)
  then show "ownedQueue c \<Longrightarrow> ownedQueue (reactQ env c)"
    by (simp add: reactQ_def bumpCall_def ownedQueue_def)
qed

lemma ownedQueue_reportClosed: "ownedQueue c \<Longrightarrow> ownedQueue (reportConnectionClosed env h c)"
proof -
  assume o: "ownedQueue c"
  then have "ownedQueue (emit e (stopOutgoingAttemptCancellation (c\<lparr>outgoingAttemptTerminal := True\<rparr>)))"
    "ownedQueue (emit e c)" for e
    by (simp_all add: ownedQueue_def emit_def stopOutgoingAttemptCancellation_def)
  with o show ?thesis by (simp add: reportConnectionClosed_def ownedQueue_reactQ)
qed

lemma quiescent_settle: "quiescent p \<Longrightarrow> ownedQueue c \<Longrightarrow> quiescent (settle env p c)"
  by (auto simp: settle_def drain_quiescent) (auto simp: quiescent_def ownedQueue_def)

lemma quiescent_owned: "quiescent c \<Longrightarrow> ownedQueue c"
  by (simp add: quiescent_def ownedQueue_def)

lemma quiescent_react: "quiescent c \<Longrightarrow> quiescent (react env c)"
  by (simp add: react_def quiescent_settle ownedQueue_reactQ quiescent_owned)

lemma quiescent_emit: "quiescent (emit e c) = quiescent c"
  by (simp add: quiescent_def emit_def)

lemma quiescent_run: "quiescent c \<Longrightarrow> quiescent (runPairingEffect env t c)"
  by (auto simp: runPairingEffect_def drain_quiescent enqueuePairingEffect_def enqueuePairingEffects_def
      Let_def) (simp add: quiescent_def)

lemma quiescent_close: "quiescent c \<Longrightarrow> quiescent (CloseConnection env s k r c)"
  by (auto simp: CloseConnection_def claimClose_def drain_quiescent enqueuePairingEffect_def
      enqueuePairingEffects_def Let_def) (simp add: quiescent_def)

lemma quiescent_setState: "quiescent c \<Longrightarrow> quiescent (snd (setState env s err c))"
  by (auto simp: setState_def setStateLocked_def drain_quiescent enqueuePairingEffect_def
      enqueuePairingEffects_def Let_def frame_simps) (simp_all add: quiescent_def frame_simps)

lemma quiescent_drainSpine: "quiescent c \<Longrightarrow> quiescent (drainSpineDispatchQueue env c)"
proof (induction env c rule: drainSpine_induct)
  case (drain env c)
  show ?case
  proof (cases "spineDispatchQueue c")
    case Nil
    then show ?thesis using drain.prems by (simp add: drainSpine_empty quiescent_def)
  next
    case (Cons t ts)
    then have tk: "takeSpineDispatch c = (Some t, c\<lparr>spineDispatchQueue := ts\<rparr>)"
      by (simp add: takeSpineDispatch_def)
    have "quiescent (c\<lparr>spineDispatchQueue := ts\<rparr>)" using drain.prems by (simp add: quiescent_def)
    then have "quiescent (runSpineTask env t (c\<lparr>spineDispatchQueue := ts\<rparr>))"
      by (auto simp: runSpineTask_def quiescent_react quiescent_emit split: spineTask.splits)
    from drain.IH [OF tk [symmetric] refl this] show ?thesis using Cons by (simp add: drainSpine_Cons)
  qed
qed

lemma quiescent_approve: "quiescent c \<Longrightarrow> quiescent (approveHandshake env c)"
proof (cases "approveBegin c")
  case None
  then show "quiescent c \<Longrightarrow> quiescent (approveHandshake env c)" by (simp add: approveHandshake_def)
next
  case (Some c1)
  assume q: "quiescent c"
  define c2 where "c2 = runPairingEffect env EffSetup (c1\<lparr>effReader := None\<rparr>)"
  from q Some have "quiescent (c1\<lparr>effReader := None\<rparr>)"
    by (auto simp: approveBegin_def quiescent_def split: if_splits)
  then have c2: "quiescent c2" by (simp add: c2_def quiescent_run)
  then have "quiescent (snd (approveCommit r (stopHandshakeTimer c2)))" for r
    by (simp add: approveCommit_def enqueueSpineDispatchLocked_def quiescent_def frame_simps Let_def)
  with Some c2 show ?thesis
    by (simp add: approveHandshake_def c2_def [symmetric] Let_def split_beta quiescent_drainSpine
        quiescent_close split: option.splits)
qed

lemma quiescent_payload: "quiescent c \<Longrightarrow> quiescent (handleSpinePayload env pl c)"
proof -
  assume q: "quiescent c"
  then have "quiescent (snd (snd (snd (routeOrBufferSpinePayload pl c))))"
    by (simp add: routeOrBufferSpinePayload_def quiescent_def)
  moreover have "quiescent (snd (enqueueSpineDispatchLocked ts d)) = quiescent d" for ts d
    by (simp add: enqueueSpineDispatchLocked_def quiescent_def Let_def)
  ultimately show ?thesis
    by (auto simp: handleSpinePayload_def Let_def split_beta quiescent_close quiescent_drainSpine
        split: option.splits)
qed

lemma quiescent_goroutine: "quiescent c \<Longrightarrow> quiescent (runGoroutine env g (c\<lparr>spawned := gs\<rparr>))"
proof -
  assume q: "quiescent c"
  then have "quiescent (c\<lparr>spawned := gs\<rparr>)" "quiescent (stopHandshakeTimer (c\<lparr>spawned := gs\<rparr>))"
    by (simp_all add: quiescent_def frame_simps)
  moreover from q have "ownedQueue (emit (EvCloseData 4001 ''close'') (c\<lparr>spawned := gs\<rparr>))"
    by (simp add: quiescent_def ownedQueue_def emit_def)
  then have "ownedQueue (reportConnectionClosed env h (emit (EvCloseData 4001 ''close'') (c\<lparr>spawned := gs\<rparr>)))" for h
    by (rule ownedQueue_reportClosed)
  ultimately show ?thesis
    by (cases g) (simp_all add: runGoroutine_def quiescent_close quiescent_run quiescent_settle)
qed

interpretation quiet: conn_ops quiescent
proof unfold_locales
  show "quiescent c \<Longrightarrow> quiescent (snd (reportServiceShipID env c))" for c env
    using quiescent_run [of "c\<lparr>effReported := False\<rparr>"]
    by (simp add: reportServiceShipID_def Let_def quiescent_def)
  show "quiescent c \<Longrightarrow> quiescent (snd (publishPairingApproved env c))" for c env
    using quiescent_run [of "c\<lparr>effPublished := False\<rparr>"]
    by (simp add: publishPairingApproved_def Let_def quiescent_def)
qed (simp_all add: quiescent_react quiescent_close quiescent_setState quiescent_run quiescent_approve
      quiescent_payload quiescent_goroutine,
    simp_all add: quiescent_def bumpCall_def emit_def requestPairingApproval_def beginPairingCommit_def
      completePairingCommitCallback_def frame_simps)

end
