(* ===== verification/Ship_Recursion.thy ===== *)
theory Ship_Recursion
  imports Ship_Safety
begin

text \<open>
  The recursion of \<open>handleState\<close> ends. A successful \<open>setState s\<close> leaves the connection in \<open>s\<close>, or in
  the approved state when a queued publication ran. \<open>stateRank\<close> bounds the chain of calls from each
  state, so unfolding more often than the rank changes nothing.
\<close>

section \<open>The state after a drain\<close>

interpretation states: drain_inv "\<lambda>c. smeState c \<in> insert SmeStateApproved S"
    "\<lambda>c. smeState c \<in> insert SmeStateApproved S" for S
  by unfold_locales (auto simp: effect_defs Let_def frame_simps)

lemma setState_ok:
  assumes "pairingEffectAllowed c"
  shows "smeState (snd (setState env s err c)) \<in> {SmeStateApproved, s}" "fst (setState env s err c)"
proof -
  have "smeState (snd (snd (setStateLocked s err c))) \<in> insert SmeStateApproved {s}"
    using assms by (auto simp: effect_defs Let_def frame_simps)
  then show "smeState (snd (setState env s err c)) \<in> {SmeStateApproved, s}"
    using states.setState_locked_P by blast
  show "fst (setState env s err c)"
    using assms by (simp add: setState_def setStateLocked_def pairingEffectAllowed_def Let_def split_beta)
qed

lemma setState_refused: "\<not> pairingEffectAllowed c \<Longrightarrow> setState env s err c = (False, c)"
  by (auto simp: setState_def setStateLocked_def pairingEffectAllowed_def)

lemma setState_in:
  "s \<in> S \<Longrightarrow> SmeStateApproved \<in> S \<Longrightarrow> smeState c \<in> S \<Longrightarrow> smeState (snd (setState env s err c)) \<in> S"
  using setState_ok(1) [of c env s err] by (cases "pairingEffectAllowed c") (auto simp: setState_refused)

lemma CloseConnection_in:
  "SmeStateApproved \<in> S \<Longrightarrow> smeState c \<in> S \<Longrightarrow> smeState (CloseConnection env b k r c) \<in> S"
  using states.CloseConnection_P [of c S env b k r] by (simp add: insert_absorb)

lemma react_in: "SmeStateApproved \<in> S \<Longrightarrow> smeState c \<in> S \<Longrightarrow> smeState (react env c) \<in> S"
  using states.react_P [of c S env] by (simp add: insert_absorb)

lemma send_in:
  "SmeStateApproved \<in> S \<Longrightarrow> smeState c \<in> S \<Longrightarrow> smeState (snd (sendShipModel env t m c)) \<in> S"
  by (auto simp: sendShipModel_def sendShipModelWithClosing_def shipMessage_def writeShipMessage_def Let_def
      split_beta CloseConnection_in emit_def bumpCall_def split: option.splits)

lemma setPINFailureFor_state [frame_simps]: "smeState (setPINFailureFor e c) = smeState c"
  by (auto simp: setPINFailureFor_def Let_def split_beta split: option.splits)

lemma discardTransientPIN_state [frame_simps]: "smeState (discardTransientPIN env c) = smeState c"
  by (simp add: discardTransientPIN_def emit_def)

lemma end_error_in:
  "SmeStateApproved \<in> S \<Longrightarrow> SmeStateError \<in> S \<Longrightarrow> smeState c \<in> S \<Longrightarrow>
     smeState (endHandshakeWithError env e c) \<in> S"
  by (simp add: endHandshakeWithError_def Let_def split_beta CloseConnection_in setState_in frame_simps)

section \<open>Ranks\<close>

definition stateRank :: "ShipMessageExchangeState \<Rightarrow> bytes \<Rightarrow> nat" where
  "stateRank s m =
    (case s of
       CmiStateClientWait \<Rightarrow> 5 | CmiStateServerWait \<Rightarrow> 5
     | SmeHelloState \<Rightarrow> 4
     | SmeHelloStatePendingListen \<Rightarrow> if m = [] then 3 else 4
     | SmeHelloStateReadyInit \<Rightarrow> 3 | SmeHelloStatePendingInit \<Rightarrow> 3 | SmeHelloStateReadyListen \<Rightarrow> 3
     | SmeProtHStateClientListenChoice \<Rightarrow> 3 | SmeProtHStateServerListenConfirm \<Rightarrow> 3
     | SmeHelloStateAbort \<Rightarrow> 2 | SmeProtHStateClientOk \<Rightarrow> 2 | SmeProtHStateServerOk \<Rightarrow> 2
     | SmePinStateCheckListen \<Rightarrow> 2 | SmePinStateAskInit \<Rightarrow> 2 | SmePinStateAskProcess \<Rightarrow> 2
     | _ \<Rightarrow> 1)"

text \<open>Two handlers that do the same in every state of at most the given rank.\<close>

definition agree :: "nat \<Rightarrow> state_handler \<Rightarrow> state_handler \<Rightarrow> bool" where
  "agree n r1 r2 \<longleftrightarrow>
    (\<forall>t m c. \<not> pairingEffectAllowed c \<or> stateRank (smeState c) m \<le> n \<longrightarrow> r1 t m c = r2 t m c)"

lemma agreeD: "agree n r1 r2 \<Longrightarrow> stateRank (smeState c) m \<le> n \<Longrightarrow> r1 t m c = r2 t m c"
  by (auto simp: agree_def)

lemma agree_state:
  assumes "agree n r1 r2" "0 < n" "stateRank s m \<le> n" "smeState c \<in> {SmeStateApproved, s}"
  shows "r1 t m c = r2 t m c"
proof -
  have "stateRank SmeStateApproved m \<le> n" using assms(2) by (simp add: stateRank_def)
  with assms(3,4) have "stateRank (smeState c) m \<le> n" by auto
  with assms(1) show ?thesis by (rule agreeD)
qed

lemma agree_set:
  assumes "agree n r1 r2" "0 < n" "stateRank s [] \<le> n"
  shows "setAndHandleState env r1 s c = setAndHandleState env r2 s c"
proof (cases "pairingEffectAllowed c")
  case True
  then show ?thesis
    using setState_ok [OF True, of env s None] agree_state [OF assms]
    by (simp add: setAndHandleState_def Let_def split_beta)
next
  case False
  then show ?thesis by (simp add: setAndHandleState_def setState_refused)
qed

text \<open>Handling the abort state ends in one of these.\<close>

definition abortStates :: "ShipMessageExchangeState set" where
  "abortStates = {SmeHelloStateAbort, SmeHelloStateAbortDone, SmeStateError, SmeStateApproved}"

definition abortsOnly :: "state_handler \<Rightarrow> bool" where
  "abortsOnly r \<longleftrightarrow> (\<forall>t m c. smeState c \<in> abortStates \<longrightarrow> smeState (r t m c) \<in> abortStates)"

lemma abortsOnly_handleStateF: "abortsOnly r \<Longrightarrow> abortsOnly (handleStateF env r)"
proof -
  assume r: "abortsOnly r"
  have A: "SmeStateApproved \<in> abortStates" "SmeStateError \<in> abortStates" "SmeHelloStateAbortDone \<in> abortStates"
    by (simp_all add: abortStates_def)
  have "smeState (handshakeHello_Abort env r c) \<in> abortStates" if "smeState c \<in> abortStates" for c
  proof -
    have s: "smeState (snd (handshakeHelloSend env p d b (stopHandshakeTimer c))) \<in> abortStates" for p d b
      using that A by (simp add: handshakeHelloSend_def send_in frame_simps)
    then show ?thesis
      using r A
      by (auto simp: handshakeHello_Abort_def setAndHandleState_def Let_def split_beta abortsOnly_def
          end_error_in setState_in split: option.splits)
  qed
  then show ?thesis by (auto simp: abortsOnly_def handleStateF_def abortStates_def)
qed

lemma abortsOnly_handleStateN: "abortsOnly (handleStateN n env)"
  by (induction n) (simp_all add: abortsOnly_handleStateF, simp add: abortsOnly_def)

lemma abort_result:
  assumes "abortsOnly r" "pairingEffectAllowed c"
  shows "smeState (setAndHandleState env r SmeHelloStateAbort c) \<in> abortStates"
  using assms setState_ok [OF assms(2), of env SmeHelloStateAbort None]
  by (auto simp: setAndHandleState_def Let_def split_beta abortsOnly_def abortStates_def)

section \<open>One unfolding\<close>

lemma empty_message: "processShipJsonMessage d z [] = None"
  by (simp add: processShipJsonMessage_def parseMessage_def unmarshal_def parseJson_def)

lemma agree_readyListen:
  assumes "agree n r1 r2" "2 \<le> n" "pairingEffectAllowed c"
  shows "handshakeHello_ReadyListen env r1 t m c = handshakeHello_ReadyListen env r2 t m c"
proof -
  have n: "0 < n" using assms(2) by simp
  have "setAndHandleState env r1 s d = setAndHandleState env r2 s d"
    if "s \<in> {SmeHelloStateAbort, SmeHelloStateRemoteAbortDone}" for s d
    using that assms(2) by (auto intro!: agree_set [OF assms(1) n] simp: stateRank_def)
  moreover have "r1 False [] (snd (setState env SmeHelloStateOk None c)) = r2 False [] (snd (setState env SmeHelloStateOk None c))"
    using n by (auto intro!: agree_state [OF assms(1) n _ setState_ok(1) [OF assms(3)]] simp: stateRank_def)
  ultimately show ?thesis
    by (simp add: handshakeHello_ReadyListen_def handshakeHello_ReadyTimeout_def Let_def split_beta split: option.split)
qed

lemma agree_pendingListen:
  assumes "agree n r1 r2" "stateRank SmeHelloStatePendingListen m \<le> Suc n" "pairingEffectAllowed c"
    and "abortsOnly r1" "smeState c = SmeHelloStatePendingListen"
  shows "handshakeHello_PendingListen env r1 t m c = handshakeHello_PendingListen env r2 t m c"
proof -
  have n: "0 < n" "2 \<le> n" using assms(2) by (simp_all add: stateRank_def split: if_splits)
  have set: "setAndHandleState env r1 s d = setAndHandleState env r2 s d"
    if "s \<in> {SmeHelloStateAbort, SmeHelloStateRemoteAbortDone}" for s d
    using that n by (auto intro!: agree_set [OF assms(1) n(1)] simp: stateRank_def)
  then have wait: "applyWaiting env r1 w d = applyWaiting env r2 w d" for w d
    by (simp add: applyWaiting_def)
  have tmo: "handshakeHello_PendingTimeout env r1 d = handshakeHello_PendingTimeout env r2 d" for d
    by (simp add: handshakeHello_PendingTimeout_def set)
  show ?thesis
  proof (cases "m = []")
    case True
    then show ?thesis
      by (simp add: handshakeHello_PendingListen_def empty_message tmo set Let_def split_beta split: option.split)
  next
    case False
    with assms(2) have n3: "3 \<le> n" by (simp add: stateRank_def)
    have stop: "pairingEffectAllowed (stopHandshakeTimer c)" "smeState (stopHandshakeTimer c) = SmeHelloStatePendingListen"
      using assms(3,5) by (simp_all add: pairingEffectAllowed_def frame_simps)
    have low: "r1 False [] d = r2 False [] d" if "smeState d \<in> insert SmeHelloStatePendingListen abortStates" for d
      using that n3 by (auto intro!: agreeD [OF assms(1)] simp: stateRank_def abortStates_def)
    have "smeState (snd (applyWaiting env r1 w (stopHandshakeTimer c)))
        \<in> insert SmeHelloStatePendingListen abortStates" if "\<not> fst (applyWaiting env r1 w (stopHandshakeTimer c))" for w
      using that stop abort_result [OF assms(4) stop(1)]
      by (auto simp: applyWaiting_def split: if_splits)
    then have "r1 False [] (snd (applyWaiting env r1 w (stopHandshakeTimer c)))
        = r2 False [] (snd (applyWaiting env r1 w (stopHandshakeTimer c)))"
      if "\<not> fst (applyWaiting env r1 w (stopHandshakeTimer c))" for w
      using that low by blast
    moreover have "r1 False [] (setAndHandleState env r1 SmeHelloStateAbort c)
        = r2 False [] (setAndHandleState env r1 SmeHelloStateAbort c)"
      using low abort_result [OF assms(4,3)] by blast
    ultimately show ?thesis
      by (auto simp: handshakeHello_PendingListen_def tmo set wait Let_def split_beta
          split: option.split bool.split)
  qed
qed

lemma agree_pin:
  assumes "agree n r1 r2" "0 < n"
  shows "handshakePin_smePinStateCheckListen env r1 m c = handshakePin_smePinStateCheckListen env r2 m c"
proof -
  have "setAndHandleState env r1 s d = setAndHandleState env r2 s d"
    if "s \<in> {SmePinStateCheckOk, SmePinStateAskRestricted}" for s d
    using that assms(2) by (auto intro!: agree_set [OF assms] simp: stateRank_def)
  then show ?thesis
    by (simp add: handshakePin_smePinStateCheckListen_def processRemotePINState_def
        processRemotePINRequest_def Let_def split_beta cong: option.case_cong sum.case_cong if_cong)
qed

lemma agree_handleStateF:
  assumes "agree n r1 r2" "abortsOnly r1"
  shows "agree (Suc n) (handleStateF env r1) (handleStateF env r2)"
  unfolding agree_def
proof (intro allI impI)
  fix t m and c :: ship_conn
  assume rank: "\<not> pairingEffectAllowed c \<or> stateRank (smeState c) m \<le> Suc n"
  show "handleStateF env r1 t m c = handleStateF env r2 t m c"
  proof (cases "pairingEffectAllowed c")
    case False
    then show ?thesis by (simp add: handleStateF_def)
  next
    case True
    with rank have rank: "stateRank (smeState c) m \<le> Suc n" by simp
    note set = agree_set [OF assms(1)]
    show ?thesis
    proof (cases "smeState c")
      case CmiStateClientWait
      with rank show ?thesis
        by (simp add: handleStateF_def handshakeInit_cmiStateClientWait_def set stateRank_def Let_def split_beta
            split: option.split)
    next
      case CmiStateServerWait
      with rank show ?thesis
        by (simp add: handleStateF_def handshakeInit_cmiStateServerWait_def set stateRank_def Let_def split_beta
            split: option.split)
    next
      case SmeHelloState
      have "pairingEffectAllowed (bumpCall d) = pairingEffectAllowed d" for d
        by (simp add: pairingEffectAllowed_def bumpCall_def)
      then have "r1 t m (snd (setState env s None d)) = r2 t m (snd (setState env s None d))"
        if "s \<in> {SmeHelloStateReadyInit, SmeHelloStatePendingInit}" "d \<in> {bumpCall c, bumpCall (bumpCall c)}" for s d
        using that True rank SmeHelloState
        by (intro agree_state [OF assms(1) _ _ setState_ok(1)]) (auto simp: stateRank_def)
      with True SmeHelloState show ?thesis by (simp add: handleStateF_def Let_def)
    next
      case SmeHelloStateReadyInit
      with rank show ?thesis
        by (simp add: handleStateF_def handshakeHello_Init_def set stateRank_def split_beta split: option.split)
    next
      case SmeHelloStateReadyListen
      with rank True show ?thesis
        by (simp add: handleStateF_def agree_readyListen [OF assms(1)] stateRank_def)
    next
      case SmeHelloStatePendingInit
      with rank show ?thesis
        by (simp add: handleStateF_def handshakeHello_PendingInit_def set stateRank_def Let_def split_beta
            split: option.split)
    next
      case SmeHelloStatePendingListen
      with rank True show ?thesis
        by (simp add: handleStateF_def agree_pendingListen [OF assms(1)] assms(2))
    next
      case SmeHelloStateAbort
      with rank show ?thesis by (simp add: handleStateF_def handshakeHello_Abort_def set stateRank_def split_beta split: option.split)
    next
      case SmeProtHStateServerListenConfirm
      with rank show ?thesis
        by (simp add: handleStateF_def handshakeProtocol_smeProtHStateServerListenConfirm_def set stateRank_def split_beta split: option.split)
    next
      case SmeProtHStateClientListenChoice
      with rank show ?thesis
        by (simp add: handleStateF_def handshakeProtocol_smeProtHStateClientListenChoice_def set stateRank_def split_beta split: option.split bool.split)
    next
      case SmeProtHStateClientOk
      with rank show ?thesis by (simp add: handleStateF_def set stateRank_def split_beta split: option.split)
    next
      case SmeProtHStateServerOk
      with rank show ?thesis by (simp add: handleStateF_def set stateRank_def split_beta split: option.split)
    next
      case SmePinStateCheckListen
      with rank show ?thesis by (simp add: handleStateF_def agree_pin [OF assms(1)] stateRank_def)
    next
      case SmePinStateAskInit
      with rank show ?thesis by (simp add: handleStateF_def agree_pin [OF assms(1)] stateRank_def)
    next
      case SmePinStateAskProcess
      with rank show ?thesis by (simp add: handleStateF_def agree_pin [OF assms(1)] stateRank_def)
    qed (simp_all add: handleStateF_def)
  qed
qed

lemma stateRank_pos: "0 < stateRank s m"
  by (cases s) (simp_all add: stateRank_def)

lemma stateRank_le: "stateRank s m \<le> 5"
  by (cases s) (simp_all add: stateRank_def)

lemma agree_handleStateN: "agree n (handleStateN n env) (handleStateN (n + k) env)"
proof (induction n)
  case 0
  have "handleStateN k env t m c = c" if "\<not> pairingEffectAllowed c" for t m c
    using that by (cases k) (simp_all add: handleStateF_def)
  moreover have "stateRank s m \<noteq> 0" for s m using stateRank_pos [of s m] by simp
  ultimately show ?case unfolding agree_def by (metis add_0 handleStateN.simps(1) le_zero_eq)
next
  case (Suc n)
  then show ?case by (simp add: agree_handleStateF abortsOnly_handleStateN)
qed

lemma handleStateN_eq: "5 \<le> n \<Longrightarrow> handleStateN n env t m c = handleStateN 5 env t m c"
  using agreeD [OF agree_handleStateN [of 5 env "n - 5"] stateRank_le] by simp

section \<open>The recursive equation\<close>

text \<open>C11: \<open>handleState\<close> always returns: the unfolded definition satisfies the recursive equation of
  the code, for every environment, state and message, and no chain of nested calls exceeds five, so
  any further unfolding gives the same result.\<close>

theorem handleState_rec:
  "handleState env t m c = handleStateF env (handleState env) t m c
   \<and> (\<forall>n. handleStateN (5 + n) env t m c = handleState env t m c)"
proof -
  have eq: "handleStateN (5 + n) env = handleState env" for n
    by (intro ext) (simp add: handleState_def handleStateN_eq [of "5 + n"] handleStateN_eq [of 8])
  have "handleStateN (Suc (5 + 3)) env = handleStateF env (handleStateN (5 + 3) env)"
    by (rule handleStateN.simps)
  then have "handleStateN (5 + 4) env = handleStateF env (handleStateN (5 + 3) env)"
    by (simp add: eval_nat_numeral)
  then show ?thesis using eq by metis
qed

end
