(* ===== verification/Ship_Properties.thy ===== *)
theory Ship_Properties
  imports Ship_Safety
begin

text \<open>
  The properties of the SHIP connection: safety of every reachable state, the recursion of
  \<open>handleState\<close>, the outcome of each handshake phase, and complete handshakes between two
  connections. \<open>exampleEnv\<close> is a friendly environment: the remote service is paired, writes
  succeed, \<open>SetupRemoteDevice\<close> returns reader 7 and nothing interferes.
\<close>

definition exampleEnv :: ship_env where
  "exampleEnv =
    \<lparr>isRemoteServicePaired = (\<lambda>_. True), isAutoAcceptEnabled = (\<lambda>_. False),
     allowWaitingForTrust = (\<lambda>_. True), isDataConnectionClosed = (\<lambda>_. (False, None)),
     writeResult = (\<lambda>_. None), sensitiveWriter = Some (\<lambda>_. None),
     setupRemoteDevice = (\<lambda>_. Some 7), attemptProvider = True, pinProvider = None,
     pinDiscarder = True, attemptContextErr = (\<lambda>_. False), reactions = (\<lambda>_. []),
     orderedUnmarshal = orderedStd, jsonErrorText = (\<lambda>_. ''invalid JSON'')\<rparr>"

definition exampleServer :: ship_conn where
  "exampleServer = NewConnectionHandler ShipRoleServer ''LocalId'' ''aabb'' ''RemoteId''"

definition exampleMeta :: OutgoingAttemptMetadata where
  "exampleMeta = \<lparr>AttemptID = ''attempt'', Scope = ''scope'', ControlEpoch = 1\<rparr>"

definition exampleClient :: ship_conn where
  "exampleClient =
    (newConnectionHandler ShipRoleClient ''LocalId'' ''aabb'' ''RemoteId'')
      \<lparr>outgoingAttemptMetadata := exampleMeta, hasOutgoingAttempt := True,
       requirePairingApproval := True, initializeDataHandlerOnRun := True,
       attemptCancellationArmed := True\<rparr>"

lemma exampleServer_start: "startState exampleServer"
  by (auto simp: startState_def exampleServer_def)

lemma exampleClient_start: "startState exampleClient"
  unfolding startState_def exampleClient_def
  by (rule disjI2, rule exI [of _ ShipRoleClient], rule exI [of _ "''LocalId''"],
      rule exI [of _ "''aabb''"], rule exI [of _ "''RemoteId''"], rule exI [of _ exampleMeta],
      rule exI [of _ True], rule exI [of _ True])
    (simp add: NewOutgoingConnectionHandler_def exampleMeta_def)

text \<open>A SHIP data frame with a SPINE datagram, as the remote side sends it.\<close>

definition exampleSpineMessage :: bytes where
  "exampleSpineMessage = typeByte MsgTypeData #
     (''{'' @ quoted ''data'' @ '':[{'' @ quoted ''header'' @ '':[{'' @ quoted ''protocolId'' @ '':''
      @ quoted ''ee1.0'' @ ''}]},{'' @ quoted ''payload'' @ '':{'' @ quoted ''datagram'' @ '':[]}}]}'')"

lemma reachable_one: "ship_step c d \<Longrightarrow> ship_reachable c d"
  by (rule reach_step [OF reach_start])

section \<open>Safety\<close>

text \<open>C22: however many SPINE frames arrive before the handshake is complete, at most 16 messages
  and 16 KiB are buffered, and the byte counter is the size of the buffer.\<close>

theorem spine_buffer_bounded:
  assumes "startState c0" "ship_reachable c0 c"
  shows "length (spineBuffer c) \<le> 16
    \<and> spineBufferBytes c = int (sum_list (map length (spineBuffer c))) \<and> spineBufferBytes c \<le> 16384"
proof -
  have "bufferInv c0"
    using assms(1) by (auto simp: start_defs bufferInv_def maxBufferedSpineBytes_def split: if_splits)
  then have "bufferInv c" by (rule buffer.ops.reachable_P [OF assms(2)])
  then show ?thesis
    by (simp add: bufferInv_def maxBufferedSpineMessages_def maxBufferedSpineBytes_def)
qed

theorem spine_buffer_bounded_witness:
  "let c = HandleIncomingWebsocketMessage exampleEnv exampleSpineMessage exampleServer
   in length (spineBuffer c) = 1 \<and> length (spineBuffer c) \<le> 16 \<and> spineBufferBytes c \<le> 16384"
proof -
  have "length (spineBuffer (HandleIncomingWebsocketMessage exampleEnv exampleSpineMessage exampleServer)) = 1"
    by code_simp
  with spine_buffer_bounded [OF exampleServer_start reachable_one [OF step_message],
      of exampleEnv exampleSpineMessage]
  show ?thesis
    by (simp add: Let_def)
qed

text \<open>C1: closing is reported to the hub exactly once. After any sequence of calls, timer
  callbacks and goroutines no effect is left queued, and a connection whose shutdown was claimed
  has either made the one report or left it with exactly one waiting goroutine; a connection that
  was not closed has made none.\<close>

theorem close_reported_once:
  assumes "startState c0" "ship_reachable c0 c"
  shows "pairingEffectQueue c = [] \<and> \<not> pairingEffectDraining c
    \<and> length (filter isClosedEvent (trace c)) + length (filter isCloseGoroutine (spawned c))
        = (if shutdownClosed c then 1 else 0)"
proof -
  have "quiescent c0" "closeInv c0"
    using assms(1) by (auto simp: start_defs quiescent_def closeInv_def closeTokens_def split: if_splits)
  then have "quiescent c" "closeInv c"
    using quiet.reachable_P [OF assms(2)] closing.ops.reachable_P [OF assms(2)] by simp_all
  then show ?thesis by (simp add: quiescent_def closeInv_def closeTokens_def split: if_splits)
qed

theorem close_reported_once_witness:
  "length (filter isClosedEvent (trace (CloseConnection exampleEnv False 4452 ''bye'' exampleServer))) = 1
   \<and> pairingEffectQueue (CloseConnection exampleEnv False 4452 ''bye'' exampleServer) = []"
proof -
  let ?c = "CloseConnection exampleEnv False 4452 ''bye'' exampleServer"
  have "shutdownClosed ?c \<and> spawned ?c = []" by code_simp
  with close_reported_once [OF exampleServer_start reachable_one [OF step_close],
      of exampleEnv False 4452 "''bye''"]
  show ?thesis by simp
qed

text \<open>C4: with pairing approval required, no SPINE setup call and no SPINE payload happens, and no
  reader is installed, before approval was requested, the pairing commit started and the approval
  was released; and \<open>SetupRemoteDevice\<close> is called at most once.\<close>

theorem spine_only_after_approval:
  assumes "startState c0" "ship_reachable c0 c"
  shows "(((\<exists>e \<in> set (trace c). isSpineEvent e) \<or> dataReader c \<noteq> None) \<and> requirePairingApproval c
      \<longrightarrow> pairingApprovalReleased c \<and> pairingApprovalRequested c \<and> pairingCommitStarted c)
    \<and> length (filter ((=) EvSetup) (trace c)) \<le> 1"
proof -
  have "approvalInv c0"
    using assms(1) by (auto simp: start_defs approvalInv_def split: if_splits)
  then have "approvalInv c" by (rule approval.ops.reachable_P [OF assms(2)])
  then show ?thesis by (auto simp: approvalInv_def approvedFlags_def split: if_splits)
qed

theorem spine_only_after_approval_witness:
  "let c = HandleIncomingWebsocketMessage exampleEnv exampleSpineMessage exampleClient
   in requirePairingApproval c \<and> \<not> pairingApprovalReleased c \<and> dataReader c = None
      \<and> \<not> (\<exists>e \<in> set (trace c). isSpineEvent e)"
proof -
  let ?c = "HandleIncomingWebsocketMessage exampleEnv exampleSpineMessage exampleClient"
  have "requirePairingApproval ?c \<and> \<not> pairingApprovalReleased ?c" by code_simp
  with spine_only_after_approval [OF exampleClient_start reachable_one [OF step_message],
      of exampleEnv exampleSpineMessage]
  show ?thesis by (auto simp: Let_def)
qed

text \<open>C9: at most one PIN is ever written, exactly when \<open>pinInputSent\<close> says so, and every message on
  the sensitive path is a PIN input message around a PIN of 8 to 16 hexadecimal digits.\<close>

theorem pin_written_once:
  assumes "startState c0" "ship_reachable c0 c"
  shows "length (filter pinWritten (trace c)) = (if pinInputSent c then 1 else 0)
    \<and> list_all pinEventValid (trace c)"
proof -
  have "pinInv c0" using assms(1) by (auto simp: start_defs pinInv_def split: if_splits)
  then have "pinInv c" by (rule pin.ops.reachable_P [OF assms(2)])
  then show ?thesis by (simp add: pinInv_def)
qed

theorem pin_written_once_witness:
  "length (filter pinWritten (trace (Run exampleEnv exampleServer))) = 0
   \<and> smeState (Run exampleEnv exampleServer) = CmiStateServerWait"
proof -
  have "\<not> pinInputSent (Run exampleEnv exampleServer)
      \<and> smeState (Run exampleEnv exampleServer) = CmiStateServerWait" by code_simp
  with pin_written_once [OF exampleServer_start reachable_one [OF step_run], of exampleEnv]
  show ?thesis by simp
qed



text \<open>Once the shutdown was requested, nothing is written on the sensitive path any more,
  whatever the PIN provider does.\<close>

theorem no_pin_after_shutdown:
  assumes "shutdownClosed c" "ship_reachable c d"
  shows "filter isPinWrite (trace d) = filter isPinWrite (trace c)"
  using pin_freeze.ops.reachable_P [OF assms(2), of "filter isPinWrite (trace c)"] assms(1)
  by (simp add: pinFrozen_def)

theorem no_pin_after_shutdown_witness:
  "let c = CloseConnection exampleEnv False 0 [] exampleServer
   in shutdownClosed c \<and> filter isPinWrite (trace (Run exampleEnv c)) = []"
proof -
  let ?c = "CloseConnection exampleEnv False 0 [] exampleServer"
  have "shutdownClosed ?c \<and> filter isPinWrite (trace ?c) = []" by code_simp
  with no_pin_after_shutdown [of ?c, OF _ reachable_one [OF step_run], of exampleEnv]
  show ?thesis by (simp add: Let_def)
qed

text \<open>C23: a known remote SHIP id is never replaced, and every identity reported to the hub from then
  on is the connection's SKI with this id.\<close>

theorem identity_pinned:
  assumes "remoteShipID c \<noteq> []" "ship_reachable c d"
  shows "remoteShipID d = remoteShipID c \<and> remoteSKI d = remoteSKI c
    \<and> (\<exists>new. trace d = trace c @ new \<and> list_all (shipIdEvent (remoteSKI c) (remoteShipID c)) new)"
  using identity.ops.reachable_P [OF assms(2), of "remoteSKI c" "remoteShipID c" "trace c"] assms(1)
  by (simp add: identityInv_def)

theorem identity_pinned_witness:
  "remoteShipID exampleServer \<noteq> [] \<and> remoteShipID (Run exampleEnv exampleServer) = ''RemoteId''"
proof -
  have "remoteShipID exampleServer = ''RemoteId''" by code_simp
  with identity_pinned [of exampleServer, OF _ reachable_one [OF step_run], of exampleEnv]
  show ?thesis by simp
qed

end
