(* ===== verification/Ship_Outcomes.thy ===== *)
theory Ship_Outcomes
  imports Ship_Properties
begin

text \<open>
  What the handshake phases do, branch by branch: the error path, protocol selection, the identity
  check, approval and the delivery of buffered SPINE data, waiting times, closing. Statements about
  outcomes start from a quiescent connection, as every reachable state is, and, where callbacks must not interfere, from an environment without reactions.
\<close>

section \<open>Drain loops that publish nothing\<close>

definition settled :: "ShipMessageExchangeState \<Rightarrow> goError option \<Rightarrow> PINHandshakeDetail option \<Rightarrow> ship_conn \<Rightarrow> bool" where
  "settled s e p c = (smeState c = s \<and> smeError c = e \<and> pinHandshakeDetail c = p
     \<and> EffPublishApproved \<notin> set (pairingEffectQueue c))"

interpretation settled: drain_inv "settled s e p" "settled s e p" for s e p
  by unfold_locales (auto simp: settled_def effect_defs Let_def frame_simps)

interpretation shut: drain_inv shutdownClosed shutdownClosed
  by unfold_locales (auto simp: effect_defs Let_def frame_simps)

interpretation closed_flag: drain_inv pairingClosing pairingClosing
  by unfold_locales (auto simp: effect_defs Let_def frame_simps)

text \<open>A queued report is made.\<close>

definition reportDue :: "ShipState \<Rightarrow> ship_conn \<Rightarrow> bool" where
  "reportDue i c = (EffReport i \<in> set (pairingEffectQueue c) \<or> EvStateReport i \<in> set (trace c))"

interpretation due: drain_inv "reportDue i" "reportDue i" for i
  by unfold_locales (auto simp: reportDue_def effect_defs Let_def frame_simps)

lemma CloseConnection_shut: "shutdownClosed (CloseConnection env s k r c)"
proof (cases "shutdownClosed c")
  case True
  then show ?thesis by (simp add: shut.CloseConnection_P)
next
  case False
  then have "shutdownClosed (snd (claimClose s k r c))"
    by (simp add: claimClose_def enqueuePairingEffect_def enqueuePairingEffects_def Let_def)
  then show ?thesis by (auto simp: CloseConnection_def shut.drain_P split: prod.splits)
qed

lemma CloseConnection_twice: "CloseConnection env s k r (CloseConnection env' s' k' r' c) = CloseConnection env' s' k' r' c"
  using CloseConnection_shut [of env' s' k' r' c] by (simp add: CloseConnection_def [of env] claimClose_def)

section \<open>The error path\<close>

text \<open>The PIN outcome \<open>setPINFailureFor\<close> leaves.\<close>

definition failedDetail :: "goError \<Rightarrow> ship_conn \<Rightarrow> PINHandshakeDetail option" where
  "failedDetail err c = pinHandshakeDetail (setPINFailureFor err c)"

lemma end_error_outcome:
  assumes "pairingEffectAllowed c" "quiescent c" "smeState c \<noteq> SmeStateError"
  shows "smeState (endHandshakeWithError env err c) = SmeStateError
    \<and> smeError (endHandshakeWithError env err c) = Some err
    \<and> EvStateReport \<lparr>State = SmeStateError, Error = Some err, PIN = failedDetail err c\<rparr>
        \<in> set (trace (endHandshakeWithError env err c))
    \<and> shutdownClosed (endHandshakeWithError env err c)"
proof -
  define c1 where "c1 = setPINFailureFor err (discardTransientPIN env (stopHandshakeTimer c))"
  define st where "st = \<lparr>State = SmeStateError, Error = Some err, PIN = failedDetail err c\<rparr>"
  have pin: "pinHandshakeDetail c1 = failedDetail err c"
    by (auto simp: c1_def failedDetail_def setPINFailureFor_def discardTransientPIN_def emit_def
        frame_simps Let_def split_beta split: option.splits)
  have flags: "pairingEffectAllowed c1" "quiescent c1" "smeState c1 \<noteq> SmeStateError"
    using assms by (auto simp: c1_def setPINFailureFor_def discardTransientPIN_def emit_def
        frame_simps Let_def split_beta pairingEffectAllowed_def quiescent_def split: option.splits)
  define c2 where "c2 = snd (setState env SmeStateError (Some err) c1)"
  have locked: "settled SmeStateError (Some err) (failedDetail err c) (snd (snd (setStateLocked SmeStateError (Some err) c1)))"
    "reportDue st (snd (snd (setStateLocked SmeStateError (Some err) c1)))"
    using flags pin
    by (auto simp: settled_def reportDue_def st_def setStateLocked_def setStateTimer_def
        enqueuePairingEffect_def enqueuePairingEffects_def quiescent_def pairingEffectAllowed_def Let_def)
  have ok: "fst (setState env SmeStateError (Some err) c1)"
    using flags by (auto simp: setState_def setStateLocked_def pairingEffectAllowed_def Let_def split_beta)
  have c2: "settled SmeStateError (Some err) (failedDetail err c) c2" "reportDue st c2"
    using settled.setState_locked_P [OF locked(1)] due.setState_locked_P [OF locked(2)]
    by (simp_all add: c2_def)
  define d where "d = CloseConnection env True 0 (errorText err) c2"
  have d: "endHandshakeWithError env err c = d"
    using ok by (simp add: endHandshakeWithError_def c1_def [symmetric] c2_def d_def Let_def split_beta)
  have "quiescent d"
    using quiescent_setState [OF flags(2)] by (simp add: d_def c2_def quiescent_close)
  then have "EvStateReport st \<in> set (trace d)"
    using due.CloseConnection_P [OF c2(2), of env True 0 "errorText err"]
    by (simp add: d_def reportDue_def quiescent_def)
  moreover have "settled SmeStateError (Some err) (failedDetail err c) d"
    using settled.CloseConnection_P [OF c2(1)] by (simp add: d_def)
  moreover have "shutdownClosed d" by (simp add: d_def CloseConnection_shut)
  ultimately show ?thesis by (simp add: d settled_def st_def)
qed

text \<open>C24: an open connection that ends its handshake with an error is in the error state with this
  error, the hub was told so with the PIN outcome, and the connection is closed, whatever the
  callbacks do meanwhile.\<close>

theorem handshake_error_outcome:
  assumes "pairingEffectAllowed c" "quiescent c" "smeState c \<noteq> SmeStateError"
  shows "smeState (endHandshakeWithError env err c) = SmeStateError
    \<and> smeError (endHandshakeWithError env err c) = Some err
    \<and> EvStateReport \<lparr>State = SmeStateError, Error = Some err, PIN = failedDetail err c\<rparr>
        \<in> set (trace (endHandshakeWithError env err c))
    \<and> shutdownClosed (endHandshakeWithError env err c)"
  using assms by (rule end_error_outcome)

theorem handshake_error_outcome_witness:
  "smeState (endHandshakeWithError exampleEnv ErrPINProtocol exampleServer) = SmeStateError
   \<and> shutdownClosed (endHandshakeWithError exampleEnv ErrPINProtocol exampleServer)"
proof -
  have "pairingEffectAllowed exampleServer" "quiescent exampleServer" "smeState exampleServer \<noteq> SmeStateError"
    by code_simp+
  then show ?thesis using handshake_error_outcome [of exampleServer exampleEnv ErrPINProtocol] by simp
qed

section \<open>Protocol selection\<close>

lemma setState_settled:
  assumes "quiescent c"
  shows "smeState (snd (setState env s err c)) \<in> {s, smeState c}"
proof (cases "pairingEffectAllowed c")
  case True
  then have "settled s (smeError (snd (snd (setStateLocked s err c)))) (pinHandshakeDetail c)
      (snd (snd (setStateLocked s err c)))"
    using assms by (auto simp: settled_def effect_defs quiescent_def frame_simps Let_def)
  from settled.setState_locked_P [OF this] show ?thesis by (simp add: settled_def)
next
  case False
  then show ?thesis by (auto simp: setState_def setStateLocked_def pairingEffectAllowed_def)
qed

lemma CloseConnection_settled: "quiescent c \<Longrightarrow> smeState (CloseConnection env s k r c) = smeState c"
  using settled.CloseConnection_P [of "smeState c" "smeError c" "pinHandshakeDetail c" c]
  by (simp add: settled_def quiescent_def)

lemma sendShipModel_settled: "quiescent c \<Longrightarrow> smeState (snd (sendShipModel env t m c)) = smeState c"
proof -
  assume q: "quiescent c"
  then have "quiescent (bumpCall c)" by (rule quiet.bump_P)
  then have "smeState (CloseConnection env False 0 [] (bumpCall c)) = smeState c"
    by (simp add: CloseConnection_settled) (simp add: bumpCall_def)
  then show ?thesis
    by (auto simp: sendShipModel_def sendShipModelWithClosing_def shipMessage_def writeShipMessage_def
        Let_def split_beta emit_def bumpCall_def split: option.splits)
qed

lemma abortProtocol_outcome:
  assumes "quiescent c"
  shows "shutdownClosed (abortProtocolHandshake env e c)
    \<and> smeState (abortProtocolHandshake env e c) \<in> {SmeStateError, smeState c}"
proof -
  define c1 where "c1 = snd (sendShipModel env MsgTypeControl (MessageProtocolHandshakeError e) (stopHandshakeTimer c))"
  have q: "quiescent (stopHandshakeTimer c)" using assms by (rule quiet.stop_timer)
  have c1: "quiescent c1" "smeState c1 = smeState c"
    using q by (simp_all add: c1_def quiet.send sendShipModel_settled frame_simps)
  have "quiescent (snd (setState env SmeStateError (Some (ErrNew ''handshake error'')) c1))"
    using c1(1) by (rule quiescent_setState)
  then show ?thesis
    using setState_settled [OF c1(1), of env SmeStateError] c1(2)
    by (simp add: abortProtocolHandshake_def Let_def c1_def [symmetric] CloseConnection_shut
        CloseConnection_settled)
qed

text \<open>C25: the client accepts exactly the selection of protocol version 1.0 with the one format
  JSON-UTF8, and only a non-nil empty format list makes the check itself fail (an index out of range
  at run time).\<close>

theorem protocol_choice_checks:
  "(choiceAborts hs = Some False \<longleftrightarrow>
      handshakeType hs = ProtocolHandshakeTypeTypeSelect \<and> versionMajor hs = 1 \<and> versionMinor hs = 0
      \<and> formatsFormat hs = Some [MessageProtocolFormatTypeUTF8])
   \<and> (choiceAborts hs = None \<longleftrightarrow> formatsFormat hs = Some [])"
  by (auto simp: choiceAborts_def Let_def split: option.splits list.splits)

text \<open>A client that receives any other choice closes the connection and never reports the
  protocol as agreed: it ends in the error state, or stays in the state it was closed in when the
  socket was already gone.\<close>

theorem protocol_choice_refused:
  assumes "quiescent c"
    and "unmarshal decodeMessageProtocolHandshake zeroProtocolHandshake (snd (parseMessage m True)) = Some hs"
    and "choiceAborts hs = Some True"
  shows "shutdownClosed (handshakeProtocol_smeProtHStateClientListenChoice env rec m c)
    \<and> smeState (handshakeProtocol_smeProtHStateClientListenChoice env rec m c) \<in> {SmeStateError, smeState c}"
  using assms abortProtocol_outcome [OF assms(1)]
  by (simp add: handshakeProtocol_smeProtHStateClientListenChoice_def)

definition exampleChoice :: "bytes \<Rightarrow> bytes" where
  "exampleChoice formats = typeByte MsgTypeControl # (''{'' @ quoted ''messageProtocolHandshake'' @ '':[{''
     @ quoted ''handshakeType'' @ '':'' @ quoted ''select'' @ ''},{'' @ quoted ''version'' @ '':[{''
     @ quoted ''major'' @ '':1},{'' @ quoted ''minor'' @ '':0}]},{'' @ quoted ''formats'' @ '':[{''
     @ quoted ''format'' @ '':'' @ formats @ ''}]}]}'')"

theorem protocol_choice_refused_witness:
  "shutdownClosed (handshakeProtocol_smeProtHStateClientListenChoice exampleEnv (handleState exampleEnv)
     (exampleChoice (''['' @ quoted ''JSON-UTF16'' @ '']'')) exampleServer)"
proof -
  let ?m = "exampleChoice (''['' @ quoted ''JSON-UTF16'' @ '']'')"
  let ?hs = "\<lparr>handshakeType = ''select'', versionMajor = 1, versionMinor = 0, formatsFormat = Some [''JSON-UTF16'']\<rparr>"
  have "quiescent exampleServer" "choiceAborts ?hs = Some True"
    "unmarshal decodeMessageProtocolHandshake zeroProtocolHandshake (snd (parseMessage ?m True)) = Some ?hs"
    by code_simp+
  then show ?thesis using protocol_choice_refused [of exampleServer ?m ?hs] by simp
qed

definition exampleListenChoice :: ship_conn where
  "exampleListenChoice = exampleClient\<lparr>smeState := SmeProtHStateClientListenChoice\<rparr>"

text \<open>A remote server can crash the process: in the state waiting for the protocol choice, a
  frame whose format list is an empty array written with a space in it is not rewritten to an object
  by \<open>JsonFromEEBUSJson\<close>, decodes to a non-nil empty slice, and the check indexes its first
  element.\<close>

theorem protocol_choice_panic:
  "panicked (HandleIncomingWebsocketMessage exampleEnv (exampleChoice ''[ ]'') exampleListenChoice)"
  by code_simp

section \<open>Identity check\<close>

text \<open>An access methods answer with a SHIP id other than the known one ends the handshake: error
  state with \<open>SHIP id mismatch\<close>, connection closed, the known id kept.\<close>

theorem ship_id_mismatch:
  assumes "pairingEffectAllowed c" "quiescent c" "smeState c = SmeAccessMethodsRequest"
    and "remoteShipID c \<noteq> []"
    and "\<not> containsBytes (snd (parseMessage m True)) (quoted ''accessMethodsRequest'' @ '':{'')"
    and "containsBytes (snd (parseMessage m True)) (quoted ''accessMethods'' @ '':{'')"
    and "unmarshal decodeAccessMethods zeroAccessMethods (snd (parseMessage m True)) = Some am"
    and "accessId am = Some other" "other \<noteq> remoteShipID c"
  shows "smeState (handleState env t m c) = SmeStateError
    \<and> smeError (handleState env t m c) = Some (ErrNew ''SHIP id mismatch'')
    \<and> shutdownClosed (handleState env t m c)"
proof -
  have "handleState env t m c = handleStateF env (handleStateN 7 env) t m c"
    by (simp add: handleState_def eval_nat_numeral)
  also have "\<dots> = endHandshakeWithError env (ErrNew ''SHIP id mismatch'') c"
    using assms by (auto simp: handleStateF_def handshakeAccessMethods_Request_def Let_def)
  finally show ?thesis
    using end_error_outcome [of c env "ErrNew ''SHIP id mismatch''"] assms(1-3) by simp
qed

definition exampleAccess :: "bytes \<Rightarrow> bytes" where
  "exampleAccess i = typeByte MsgTypeControl # (''{'' @ quoted ''accessMethods'' @ '':[{'' @ quoted ''id'' @ '':''
     @ quoted i @ ''}]}'')"

theorem ship_id_mismatch_witness:
  "smeState (handleState exampleEnv False (exampleAccess ''Mallory'') (exampleClient\<lparr>smeState := SmeAccessMethodsRequest\<rparr>))
     = SmeStateError"
proof -
  let ?m = "exampleAccess ''Mallory''"
  let ?c = "exampleClient\<lparr>smeState := SmeAccessMethodsRequest\<rparr>"
  have "pairingEffectAllowed ?c" "quiescent ?c" "smeState ?c = SmeAccessMethodsRequest" "remoteShipID ?c \<noteq> []"
    "\<not> containsBytes (snd (parseMessage ?m True)) (quoted ''accessMethodsRequest'' @ '':{'')"
    "containsBytes (snd (parseMessage ?m True)) (quoted ''accessMethods'' @ '':{'')"
    "unmarshal decodeAccessMethods zeroAccessMethods (snd (parseMessage ?m True))
       = Some \<lparr>accessId = Some ''Mallory'', accessDnsSdMDns = None, accessDns = None\<rparr>"
    "''Mallory'' \<noteq> remoteShipID ?c"
    by code_simp+
  then show ?thesis
    using ship_id_mismatch [of ?c ?m _ "''Mallory''" exampleEnv False] by simp
qed

end
