(* ===== verification/Ship_Spine.thy ===== *)
theory Ship_Spine
  imports Ship_Outcomes
begin

text \<open>
  Delivery of SPINE data: order and completeness, from the frames that arrive during the handshake
  over approval to the frames that arrive afterwards.
\<close>

section \<open>Order for every environment\<close>

fun isPayloadEvent :: "event \<Rightarrow> bool" where
  "isPayloadEvent (EvPayload _ _) = True"
| "isPayloadEvent _ = False"

fun payloadEvent :: "spineTask \<Rightarrow> event" where
  "payloadEvent (SpPayload r p) = EvPayload r p"
| "payloadEvent SpComplete = EvStateReport completeState"

definition delivered :: "event list \<Rightarrow> spineTask list \<Rightarrow> ship_conn \<Rightarrow> bool" where
  "delivered es q c = (filter isPayloadEvent (trace c) = es
     \<and> (spineDispatchQueue c = q \<or> spineDispatchQueue c = [] \<and> (pairingClosing c \<or> pairingTerminal c)))"

interpretation delivered: drain_inv "delivered es q" "delivered es q" for es q
  by unfold_locales (auto simp: delivered_def effect_defs Let_def frame_simps)

lemma drainSpine_terminated:
  "spineDispatchTerminated c \<Longrightarrow>
     drainSpineDispatchQueue env c = c\<lparr>spineDispatchQueue := [], spineDispatching := False\<rparr>"
proof (induction env c rule: drainSpine_induct)
  case (drain env c)
  show ?case
  proof (cases "spineDispatchQueue c")
    case Nil
    then show ?thesis by (simp add: drainSpine_empty)
  next
    case (Cons t ts)
    then have tk: "takeSpineDispatch c = (Some t, c\<lparr>spineDispatchQueue := ts\<rparr>)"
      by (simp add: takeSpineDispatch_def)
    have run: "runSpineTask env t (c\<lparr>spineDispatchQueue := ts\<rparr>) = c\<lparr>spineDispatchQueue := ts\<rparr>"
      using drain.prems by (simp add: runSpineTask_def spineDispatchTerminated_def)
    have "spineDispatchTerminated (c\<lparr>spineDispatchQueue := ts\<rparr>)"
      using drain.prems by (simp add: spineDispatchTerminated_def)
    with drain.IH [OF tk [symmetric] refl] run Cons show ?thesis
      by (simp add: drainSpine_Cons)
  qed
qed

text \<open>SPINE payloads reach the reader in the order they were queued and without gaps, whatever
  the reader and the hub do meanwhile: the drain loop delivers some first part of the queued
  payloads (all of them unless the connection is closed on the way).\<close>

theorem spine_dispatch_fifo:
  "\<exists>n. filter isPayloadEvent (trace (drainSpineDispatchQueue env c))
     = filter isPayloadEvent (trace c) @ map payloadEvent (take n (filter isSpPayload (spineDispatchQueue c)))"
proof (induction env c rule: drainSpine_induct)
  case (drain env c)
  show ?case
  proof (cases "spineDispatchTerminated c")
    case True
    then show ?thesis by (intro exI [of _ 0]) (simp add: drainSpine_terminated)
  next
    case live: False
    show ?thesis
    proof (cases "spineDispatchQueue c")
      case Nil
      then show ?thesis by (simp add: drainSpine_empty)
    next
      case (Cons t ts)
      define c1 where "c1 = c\<lparr>spineDispatchQueue := ts\<rparr>"
      define d where "d = runSpineTask env t c1"
      from Cons have tk: "takeSpineDispatch c = (Some t, c1)" by (simp add: takeSpineDispatch_def c1_def)
      obtain n where n: "filter isPayloadEvent (trace (drainSpineDispatchQueue env d))
          = filter isPayloadEvent (trace d) @ map payloadEvent (take n (filter isSpPayload (spineDispatchQueue d)))"
        using drain.IH [OF tk [symmetric] refl] by (auto simp: d_def)
      define e where "e = payloadEvent t"
      have dd: "d = react env (emit e c1)"
        using live by (cases t) (simp_all add: d_def e_def runSpineTask_def c1_def spineDispatchTerminated_def)
      have "delivered (filter isPayloadEvent (trace c) @ filter isPayloadEvent [e]) ts (emit e c1)"
        by (simp add: delivered_def emit_def c1_def)
      then have "delivered (filter isPayloadEvent (trace c) @ filter isPayloadEvent [e]) ts d"
        unfolding dd by (rule delivered.react_P)
      then have d: "filter isPayloadEvent (trace d) = filter isPayloadEvent (trace c) @ filter isPayloadEvent [e]"
        "spineDispatchQueue d = ts \<or> spineDispatchQueue d = []"
        by (auto simp: delivered_def)
      have e: "filter isPayloadEvent [e] = map payloadEvent (filter isSpPayload [t])"
        by (cases t) (simp_all add: e_def)
      obtain m where m: "take n (filter isSpPayload (spineDispatchQueue d)) = take m (filter isSpPayload ts)"
        using d(2) by (metis filter.simps(1) take_Nil take_eq_Nil2)
      have step: "drainSpineDispatchQueue env c = drainSpineDispatchQueue env d"
        using Cons by (simp add: drainSpine_Cons c1_def d_def)
      have "filter isSpPayload (spineDispatchQueue c) = filter isSpPayload [t] @ filter isSpPayload ts"
        using Cons by simp
      then have "map payloadEvent (take (length (filter isSpPayload [t]) + m) (filter isSpPayload (spineDispatchQueue c)))
          = filter isPayloadEvent [e] @ map payloadEvent (take m (filter isSpPayload ts))"
        unfolding e by simp
      then show ?thesis
        using n m d(1) by (intro exI [of _ "length (filter isSpPayload [t]) + m"]) (simp only: step append_assoc)
    qed
  qed
qed

section \<open>Without interference\<close>

definition calm :: "ship_env \<Rightarrow> bool" where
  "calm env \<longleftrightarrow> (\<forall>n. reactions env n = [])"

lemma calm_reactQ: "calm env \<Longrightarrow> reactQ env c = bumpCall c"
  by (simp add: calm_def reactQ_def)

lemma calm_react: "calm env \<Longrightarrow> react env c = bumpCall c"
  by (simp add: react_def calm_reactQ settle_def) (simp add: bumpCall_def)

lemma calm_drainSpine:
  "calm env \<Longrightarrow> \<not> spineDispatchTerminated c \<Longrightarrow>
     drainSpineDispatchQueue env c =
       c\<lparr>spineDispatchQueue := [], spineDispatching := False, calls := calls c + length (spineDispatchQueue c),
         trace := trace c @ map payloadEvent (spineDispatchQueue c)\<rparr>"
proof (induction env c rule: drainSpine_induct)
  case (drain env c)
  show ?case
  proof (cases "spineDispatchQueue c")
    case Nil
    then show ?thesis by (simp add: drainSpine_empty)
  next
    case (Cons t ts)
    define c1 where "c1 = c\<lparr>spineDispatchQueue := ts\<rparr>"
    from Cons have tk: "takeSpineDispatch c = (Some t, c1)" by (simp add: takeSpineDispatch_def c1_def)
    have run: "runSpineTask env t c1 = bumpCall (emit (payloadEvent t) c1)"
      using drain.prems
      by (cases t) (simp_all add: runSpineTask_def calm_react c1_def spineDispatchTerminated_def)
    have "\<not> spineDispatchTerminated (runSpineTask env t c1)"
      using drain.prems run by (simp add: spineDispatchTerminated_def bumpCall_def emit_def c1_def)
    from drain.IH [OF tk [symmetric] refl drain.prems(1) this] run Cons show ?thesis
      by (simp add: drainSpine_Cons c1_def bumpCall_def emit_def)
  qed
qed

lemma calm_setup:
  assumes "calm env" "quiescent c" "pairingEffectAllowed c"
  shows "runPairingEffect env EffSetup c =
    c\<lparr>calls := Suc (calls c), trace := trace c @ [EvSetup], effReader := setupRemoteDevice env (calls c)\<rparr>"
  using assms
  by (simp add: runPairingEffect_def enqueuePairingEffect_def enqueuePairingEffects_def quiescent_def Let_def
      drain_Cons runEffect_def calm_reactQ pairingEffectAllowed_def drain_empty bumpCall_def emit_def)

text \<open>A connection whose handshake may still complete, with nothing in flight.\<close>

definition beforeSetup :: "ship_conn \<Rightarrow> bool" where
  "beforeSetup c = (pairingEffectAllowed c \<and> quiescent c \<and> \<not> spineSetupStarted c \<and> dataReader c = None
     \<and> spineDispatchQueue c = [] \<and> \<not> spineDispatching c \<and> spineBuffer c = [] \<and> spineBufferBytes c = 0
     \<and> smeState c \<noteq> SmeStateComplete \<and> \<not> requirePairingApproval c)"

lemma fold_buffer:
  assumes "pairingEffectAllowed c" "dataReader c = None" "\<not> requirePairingApproval c"
    and "bufferInv c"
    and "length (spineBuffer c) + length ps \<le> maxBufferedSpineMessages"
    and "spineBufferBytes c + int (sum_list (map length ps)) \<le> maxBufferedSpineBytes"
  shows "fold (handleSpinePayload env) ps c =
    c\<lparr>spineBuffer := spineBuffer c @ ps, spineBufferBytes := spineBufferBytes c + int (sum_list (map length ps))\<rparr>"
  using assms
proof (induction ps arbitrary: c)
  case Nil
  then show ?case by simp
next
  case (Cons p ps)
  define c1 where "c1 = c\<lparr>spineBuffer := spineBuffer c @ [p], spineBufferBytes := spineBufferBytes c + int (length p)\<rparr>"
  have "handleSpinePayload env p c = c1"
    using Cons.prems
    by (auto simp: handleSpinePayload_def routeOrBufferSpinePayload_def pairingEffectAllowed_def c1_def)
  moreover have "fold (handleSpinePayload env) ps c1 = c1\<lparr>spineBuffer := spineBuffer c1 @ ps,
      spineBufferBytes := spineBufferBytes c1 + int (sum_list (map length ps))\<rparr>"
    using Cons.prems
    by (intro Cons.IH) (auto simp: c1_def pairingEffectAllowed_def bufferInv_def)
  ultimately show ?case by (simp add: c1_def)
qed

lemma calm_approve:
  assumes "calm env" "pairingEffectAllowed c" "quiescent c" "approveBegin c = Some c1"
    and "setupRemoteDevice env (calls c) = Some r" "spineDispatchQueue c = []" "\<not> spineDispatching c"
    and "smeState c \<noteq> SmeStateComplete"
  shows "approveHandshake env c =
    (stopHandshakeTimer c1)\<lparr>smeState := SmeStateComplete, smeError := None, dataReader := Some r,
       spineBuffer := [], spineBufferBytes := 0, effReader := Some r,
       calls := calls c + 2 + length (spineBuffer c),
       trace := trace c @ EvSetup # EvStateReport completeState # map (EvPayload r) (spineBuffer c)\<rparr>"
proof -
  have c1: "pairingEffectAllowed (c1\<lparr>effReader := None\<rparr>)" "quiescent (c1\<lparr>effReader := None\<rparr>)"
    "spineDispatchQueue c1 = []" "\<not> spineDispatching c1" "spineBuffer c1 = spineBuffer c" "smeState c1 = smeState c"
    "calls c1 = calls c" "trace c1 = trace c" "\<not> pairingClosing c1" "\<not> pairingTerminal c1"
    using assms by (auto simp: approveBegin_def pairingEffectAllowed_def quiescent_def split: if_splits)
  show ?thesis
    using assms c1
    by (simp add: approveHandshake_def calm_setup Let_def approveCommit_def enqueueSpineDispatchLocked_def
        frame_simps calm_drainSpine spineDispatchTerminated_def o_def)
      (simp add: stopHandshakeTimer_def)
qed

lemma calm_payload:
  assumes "calm env" "pairingEffectAllowed c" "dataReader c = Some r" "spineDispatchQueue c = []" "\<not> spineDispatching c"
  shows "handleSpinePayload env p c = c\<lparr>calls := Suc (calls c), trace := trace c @ [EvPayload r p]\<rparr>"
  using assms
  by (simp add: handleSpinePayload_def routeOrBufferSpinePayload_def pairingEffectAllowed_def Let_def
      enqueueSpineDispatchLocked_def calm_drainSpine spineDispatchTerminated_def)

lemma fold_calm_payload:
  assumes "calm env" "pairingEffectAllowed c" "dataReader c = Some r" "spineDispatchQueue c = []" "\<not> spineDispatching c"
  shows "fold (handleSpinePayload env) ps c =
    c\<lparr>calls := calls c + length ps, trace := trace c @ map (EvPayload r) ps\<rparr>"
  using assms(2-5)
proof (induction ps arbitrary: c)
  case Nil
  then show ?case by simp
next
  case (Cons p ps)
  have "fold (handleSpinePayload env) ps (c\<lparr>calls := Suc (calls c), trace := trace c @ [EvPayload r p]\<rparr>)
    = c\<lparr>calls := Suc (calls c) + length ps, trace := trace c @ [EvPayload r p] @ map (EvPayload r) ps\<rparr>"
    using Cons.prems by (subst Cons.IH) (simp_all add: pairingEffectAllowed_def)
  with Cons.prems show ?case by (simp add: calm_payload [OF assms(1)])
qed



end
