(* ===== verification/Ship_Phases.thy ===== *)
theory Ship_Phases
  imports Ship_Spine
begin

text \<open>
  Single phases: the init frame, waiting times and the hello timer, PIN outcomes and the PIN
  exchange, and the announced close of a completed connection.
\<close>

lemma handleState_unfold: "handleState env t m c = handleStateF env (handleStateN 7 env) t m c"
  by (simp add: handleState_def eval_nat_numeral)

section \<open>Init\<close>

text \<open>The init check accepts a frame exactly when its type byte is 0 and its value byte, if there
  is one, is 0. An empty frame passes as well.\<close>

theorem init_frame_accepted:
  "fst (handshakeInit_cmiStateEvaluate env m c) \<longleftrightarrow>
     m = [] \<or> m ! 0 = CHR 0x00 \<and> (length m = 1 \<or> m ! 1 = CHR 0x00)"
proof (cases m)
  case Nil
  then show ?thesis
    by (simp add: handshakeInit_cmiStateEvaluate_def parseMessage_def MsgTypeInit_def)
next
  case (Cons h r)
  have "byteVal h = 0 \<longleftrightarrow> h = CHR 0x00"
  proof
    assume "byteVal h = 0"
    then have "char_of (of_char h :: nat) = (char_of (0::nat) :: char)" by (simp add: byteVal_def)
    then show "h = CHR 0x00" by (simp only: char_of_char) (simp add: char_of_def)
  qed (simp add: byteVal_def)
  with Cons show ?thesis
    by (cases r) (auto simp: handshakeInit_cmiStateEvaluate_def parseMessage_def MsgTypeInit_def Let_def)
qed

section \<open>Waiting times\<close>

text \<open>A waiting time of up to 9223372036854 ms is converted exactly; beyond that the conversion
  wraps, so that 18446744073710 ms become 448384 ns.\<close>

theorem waiting_conversion:
  "(0 \<le> w \<and> w \<le> 9223372036854 \<longrightarrow> durationOfMillis w = w * 1000000)
   \<and> durationOfMillis 18446744073710 = 448384"
  by (auto simp: durationOfMillis_def toInt64_def millisecond_def)

theorem waiting_conversion_witness:
  "durationOfMillis 60000 = tHelloInit"
  using waiting_conversion [of 60000] by (simp add: tHelloInit_def second_def)

text \<open>The hello message that both theorems below are about: pending, with a waiting time and no
  prolongation request.\<close>

definition pendingHello :: "bytes \<Rightarrow> int \<Rightarrow> bool" where
  "pendingHello m w =
    (processShipJsonMessage decodeConnectionHello zeroHello m
       = Some \<lparr>helloPhase = ConnectionHelloPhaseTypePending, helloWaiting = Some w, helloProlongationRequest = None\<rparr>)"

lemma pendingHello_step:
  assumes "pairingEffectAllowed c" "smeState c = SmeHelloStatePendingListen" "pendingHello m w"
  shows "handleState env False m c = snd (applyWaiting env (handleStateN 7 env) (durationOfMillis w)
    ((stopHandshakeTimer c)\<lparr>lastReceivedWaitingValue := durationOfMillis w\<rparr>))"
  using assms
  by (simp add: handleState_unfold handleStateF_def handshakeHello_PendingListen_def pendingHello_def phase_defs)

text \<open>A pending peer that announces a waiting time of at least 30 s makes the connection ask for
  prolongation 30 s before the time is over: that timer runs, the state is unchanged.\<close>

theorem pending_prolongation_timer:
  assumes "pairingEffectAllowed c" "smeState c = SmeHelloStatePendingListen" "\<not> shutdownClosed c"
    and "pendingHello m w" "30000 \<le> w" "w \<le> 9223372036854"
  shows "handshakeTimerRunning (handleState env False m c)
    \<and> handshakeTimerType (handleState env False m c) = timeoutTimerTypeSendProlongationRequest
    \<and> handshakeTimerDuration (handleState env False m c) = (w - 30000) * 1000000
    \<and> smeState (handleState env False m c) = SmeHelloStatePendingListen"
proof -
  have "durationOfMillis w = w * 1000000"
    using assms by (simp add: durationOfMillis_def toInt64_def millisecond_def)
  with assms show ?thesis
    unfolding pendingHello_step [OF assms(1,2,4)]
    by (simp add: applyWaiting_def setHandshakeTimer_def stopHandshakeTimer_def shutdownRequested_def
        timeout_defs Let_def)
qed

text \<open>A pending peer that announces between 1 s and 30 s switches the connection's own timer off
  and starts no other: the connection stays open in the pending state with no timer running.\<close>

theorem pending_short_wait_no_timer:
  assumes "pairingEffectAllowed c" "smeState c = SmeHelloStatePendingListen"
    and "pendingHello m w" "1000 \<le> w" "w < 30000"
  shows "\<not> handshakeTimerRunning (handleState env False m c)
    \<and> smeState (handleState env False m c) = SmeHelloStatePendingListen
    \<and> pairingEffectAllowed (handleState env False m c)"
proof -
  have "durationOfMillis w = w * 1000000"
    using assms by (simp add: durationOfMillis_def toInt64_def millisecond_def)
  with assms show ?thesis
    unfolding pendingHello_step [OF assms(1-3)]
    by (simp add: applyWaiting_def stopHandshakeTimer_def timeout_defs pairingEffectAllowed_def)
qed

definition examplePending :: "bytes \<Rightarrow> bytes" where
  "examplePending w = typeByte MsgTypeControl # (''{'' @ quoted ''connectionHello'' @ '':[{'' @ quoted ''phase'' @ '':''
     @ quoted ''pending'' @ ''},{'' @ quoted ''waiting'' @ '':'' @ w @ ''}]}'')"

definition examplePendingServer :: ship_conn where
  "examplePendingServer =
    setHandshakeTimer timeoutTimerTypeWaitForReady tHelloInit (exampleServer\<lparr>smeState := SmeHelloStatePendingListen\<rparr>)"

theorem pending_prolongation_timer_witness:
  "handshakeTimerDuration (handleState exampleEnv False (examplePending ''60000'') examplePendingServer)
     = 30000 * 1000000"
proof -
  have "pairingEffectAllowed examplePendingServer" "smeState examplePendingServer = SmeHelloStatePendingListen"
    "\<not> shutdownClosed examplePendingServer" "pendingHello (examplePending ''60000'') 60000"
    by code_simp+
  then show ?thesis
    using pending_prolongation_timer [of examplePendingServer "examplePending ''60000''" 60000 exampleEnv] by simp
qed

theorem pending_short_wait_no_timer_witness:
  "handshakeTimerRunning examplePendingServer
   \<and> \<not> handshakeTimerRunning (handleState exampleEnv False (examplePending ''20000'') examplePendingServer)"
proof -
  have "handshakeTimerRunning examplePendingServer"
    "pairingEffectAllowed examplePendingServer" "smeState examplePendingServer = SmeHelloStatePendingListen"
    "pendingHello (examplePending ''20000'') 20000"
    by code_simp+
  then show ?thesis
    using pending_short_wait_no_timer [of examplePendingServer "examplePending ''20000''" 20000 exampleEnv] by simp
qed

section \<open>PIN\<close>

text \<open>The PIN outcome reported for a failed handshake: nothing outside a PIN handshake; an
  earlier failure is kept; otherwise the phase is failed, the requirement known so far is kept, and
  the failure may be retried unless the PIN was rejected or invalid or the peer broke the protocol.\<close>

theorem pin_failure_outcome:
  "pinHandshakeDetail (setPINFailureFor err c) =
    (case pinHandshakeDetail c of
       Some d \<Rightarrow>
         if Phase d = PINPhaseFailed then Some d
         else Some \<lparr>Requirement = Requirement d, Phase = PINPhaseFailed,
                Category = Some (if err = ErrPINRejected then PINCategoryRejected
                                 else if err = ErrPINProtocol then PINCategoryProtocol
                                 else PINCategoryUnavailable),
                Retryable = (err \<notin> {ErrPINRejected, ErrPINProtocol, ErrPINInvalid})\<rparr>
     | None \<Rightarrow>
         if stateValue (smeState c) < 26 \<or> 35 < stateValue (smeState c) then None
         else Some \<lparr>Requirement = PINRequirementUnknown, Phase = PINPhaseFailed,
                Category = Some (if err = ErrPINRejected then PINCategoryRejected
                                 else if err = ErrPINProtocol then PINCategoryProtocol
                                 else PINCategoryUnavailable),
                Retryable = (err \<notin> {ErrPINRejected, ErrPINProtocol, ErrPINInvalid})\<rparr>)"
  by (cases err) (auto simp: setPINFailureFor_def pinFailureCategory_def Let_def split: option.splits)

lemma calm_setState:
  assumes "calm env" "quiescent c"
  shows "setState env s err c =
    (let c1 = snd (snd (setStateLocked s err c)) in
     if fst (snd (setStateLocked s err c))
     then (True, c1\<lparr>pairingEffectQueue := [], pairingEffectDraining := False, calls := Suc (calls c),
             trace := trace c @ [EvStateReport \<lparr>State = s, Error = err, PIN = pinHandshakeDetail c\<rparr>]\<rparr>)
     else (fst (setStateLocked s err c), c1))"
  using assms
  by (auto simp: setState_def setStateLocked_def enqueuePairingEffect_def enqueuePairingEffects_def
      quiescent_def drain_Cons runEffect_def reportShipHandshakeStateUpdate_def calm_reactQ drain_empty
      emit_def bumpCall_def frame_simps Let_def)

lemma calm_report:
  assumes "calm env" "quiescent c"
  shows "runPairingEffect env (EffReport i) c = c\<lparr>calls := Suc (calls c), trace := trace c @ [EvStateReport i]\<rparr>"
  using assms
  by (simp add: runPairingEffect_def enqueuePairingEffect_def enqueuePairingEffects_def quiescent_def Let_def
      drain_Cons runEffect_def reportShipHandshakeStateUpdate_def calm_reactQ drain_empty bumpCall_def emit_def)

text \<open>A provider that lends this PIN once and passes the consumer's verdict on.\<close>

definition lendsOnce :: "bytes \<Rightarrow> ship_env \<Rightarrow> bool" where
  "lendsOnce pin env \<longleftrightarrow> pinProvider env = Some (\<lambda>_. ([pin], \<lambda>rs. (True, hd rs)))"

lemma pin_ask_state:
  assumes "calm env" "quiescent c" "pairingEffectAllowed c"
  shows "smeState (snd (setState env s err c)) = s \<and> fst (setState env s err c)
    \<and> pinInputSent (snd (setState env s err c)) = pinInputSent c
    \<and> pinHandshakeDetail (snd (setState env s err c)) = pinHandshakeDetail c
    \<and> shutdownClosed (snd (setState env s err c)) = shutdownClosed c
    \<and> pairingEffectAllowed (snd (setState env s err c))"
  using assms unfolding calm_setState [OF assms(1,2)]
  by (auto simp: setStateLocked_def enqueuePairingEffect_def enqueuePairingEffects_def pairingEffectAllowed_def
      frame_simps Let_def)

text \<open>Asked for a PIN it has not sent yet, a connection whose provider lends a valid PIN writes
  exactly this PIN on the sensitive path, remembers that it did, reports the PIN as submitted and
  waits 30 s for the verdict in the ask-process state.\<close>

theorem pin_exchange:
  assumes "calm env" "quiescent c" "pairingEffectAllowed c" "\<not> shutdownClosed c" "\<not> pinInputSent c"
    and "validTransientPIN pin" "lendsOnce pin env" "sensitiveWriter env = Some (\<lambda>_. None)"
  shows "let d = processRemotePINRequest env rec requirement c
    in smeState d = SmePinStateAskProcess \<and> pinInputSent d
       \<and> EvSensitiveWrite (pinInputMessage pin) True \<in> set (trace d)
       \<and> map_option Phase (pinHandshakeDetail d) = Some PINPhaseSubmitted
       \<and> handshakeTimerRunning d \<and> handshakeTimerDuration d = pinResponseTimeout"
proof -
  define c1 where "c1 = c\<lparr>pinHandshakeDetail :=
    mkPINDetail (pinRequirement requirement) PINPhaseWaitingPeer (Some (pinCategory requirement)) True\<rparr>"
  have c1: "setPINHandshakeDetail env (mkPINDetail (pinRequirement requirement) PINPhaseWaitingPeer
      (Some (pinCategory requirement)) True) False c = c1"
    by (simp add: setPINHandshakeDetail_def c1_def Let_def)
  have q1: "quiescent c1" "pairingEffectAllowed c1"
    using assms by (simp_all add: c1_def quiescent_def pairingEffectAllowed_def)
  define c2 where "c2 = snd (setState env SmePinStateAskProcess None c1)"
  have c2: "fst (setState env SmePinStateAskProcess None c1)" "smeState c2 = SmePinStateAskProcess"
      "\<not> pinInputSent c2" "\<not> shutdownClosed c2" "quiescent c2"
      "pinHandshakeDetail c2 = pinHandshakeDetail c1"
    using pin_ask_state [OF assms(1) q1, of SmePinStateAskProcess None] assms(4,5) quiescent_setState [OF q1(1)]
    by (simp_all add: c2_def c1_def)
  define c3 where "c3 = emit (EvSensitiveWrite (pinInputMessage pin) True) (bumpCall ((bumpCall c2)\<lparr>pinInputSent := True\<rparr>))"
  have w: "withTransientPIN env c2 = (True, None, c3)"
    using assms(6-8) c2(3,4)
    by (simp add: withTransientPIN_def lendsOnce_def calm_react [OF assms(1)] consumePIN_def beginPINInput_def
        sendTransientPIN_def shutdownRequested_def c3_def) (simp add: bumpCall_def)
  define st where "st = mkPINDetail (pinRequirement requirement) PINPhaseSubmitted (Some (pinCategory requirement)) True"
  have "quiescent (c3\<lparr>pinHandshakeDetail := st\<rparr>)" "pinHandshakeDetail c3 \<noteq> st"
    using c2(5,6) by (simp_all add: c3_def c1_def st_def mkPINDetail_def quiescent_def emit_def bumpCall_def)
  then have d: "setPINHandshakeDetail env st True c3
      = c3\<lparr>pinHandshakeDetail := st, calls := Suc (calls c3),
           trace := trace c3 @ [EvStateReport \<lparr>State = smeState c3, Error = smeError c3, PIN = st\<rparr>]\<rparr>"
    by (simp add: setPINHandshakeDetail_def pinEqual_iff Let_def calm_report [OF assms(1)])
  define c4 where "c4 = setPINHandshakeDetail env st True c3"
  have pr: "processRemotePINRequest env rec requirement c
      = (if smeState c4 = SmePinStateAskProcess
         then setHandshakeTimer timeoutTimerTypeWaitForReady pinResponseTimeout c4 else c4)"
    using assms(5) c2(1)
    by (simp add: processRemotePINRequest_def c1 c2_def [symmetric] w st_def [symmetric] c4_def Let_def split_beta)
  have c4: "smeState c4 = SmePinStateAskProcess" "pinInputSent c4" "\<not> shutdownClosed c4"
    "EvSensitiveWrite (pinInputMessage pin) True \<in> set (trace c4)" "pinHandshakeDetail c4 = st"
    using c2(2,4) unfolding c4_def d by (simp_all add: c3_def emit_def bumpCall_def)
  then show ?thesis
    unfolding pr Let_def
    by (simp add: st_def mkPINDetail_def frame_simps)
      (simp add: setHandshakeTimer_def stopHandshakeTimer_def shutdownRequested_def Let_def)
qed

definition examplePinEnv :: ship_env where
  "examplePinEnv = exampleEnv\<lparr>pinProvider := Some (\<lambda>_. ([''12345678''], \<lambda>rs. (True, hd rs)))\<rparr>"

theorem pin_exchange_witness:
  "pinInputSent (processRemotePINRequest examplePinEnv (handleState examplePinEnv) ''required'' exampleServer)"
proof -
  have "calm examplePinEnv" "lendsOnce ''12345678'' examplePinEnv" "sensitiveWriter examplePinEnv = Some (\<lambda>_. None)"
    by (simp_all add: calm_def examplePinEnv_def exampleEnv_def lendsOnce_def)
  moreover have "quiescent exampleServer" "pairingEffectAllowed exampleServer" "\<not> shutdownClosed exampleServer"
    "\<not> pinInputSent exampleServer" "validTransientPIN ''12345678''"
    by code_simp+
  ultimately show ?thesis
    using pin_exchange [of examplePinEnv exampleServer "''12345678''"] by (simp add: Let_def)
qed

section \<open>Announced close\<close>

text \<open>A safe close of a completed connection announces the termination to the peer while the
  socket is still open, and hands the rest to a goroutine; when this runs, it closes the socket with
  code 4001 and makes the one report to the hub.\<close>

theorem safe_close_announces:
  assumes "calm env" "quiescent c" "smeState c = SmeStateComplete" "\<not> shutdownClosed c"
    and "handshakeTimerActive (stopHandshakeTimer c) = 0" "\<not> outgoingAttemptTerminal c"
    and "isDataConnectionClosed env (calls c) = (False, None)" "writeResult env (Suc (calls c)) = None"
    and "JsonIntoEEBUSJson (orderedUnmarshal env)
      (marshalModel (ConnectionClose ConnectionClosePhaseTypeAnnounce (Some 500) (Some reason))) = Some announce"
  shows "let d = CloseConnection env True code reason c
    in trace d = trace c @ [EvWrite (typeByte MsgTypeEnd # announce) True]
       \<and> spawned d = spawned c @ [GoSafeClose True]
       \<and> trace (runGoroutine env (GoSafeClose True) d) = trace d @ [EvCloseData 4001 ''close'',
           EvClosed (hasOutgoingAttempt c \<and> attemptProvider env) True]"
proof -
  define c1 where "c1 = c\<lparr>shutdownClosed := True, pairingClosing := True, pairingEffectDraining := True\<rparr>"
  define c2 where "c2 = closeConnectionLocked c1"
  have claim: "claimClose True code reason c = (True, c1\<lparr>pairingEffectQueue := [EffClose True code reason]\<rparr>)"
    using assms(2,4) by (simp add: claimClose_def enqueuePairingEffect_def enqueuePairingEffects_def
        quiescent_def c1_def Let_def)
  have c2: "smeState c2 = SmeStateComplete" "handshakeTimerActive c2 = 0" "calls c2 = calls c" "trace c2 = trace c"
    "spawned c2 = spawned c" "pairingEffectQueue c2 = []" "hasOutgoingAttempt c2 = hasOutgoingAttempt c"
    "outgoingAttemptTerminal c2 = outgoingAttemptTerminal c"
    using assms(2,3,5)
    by (simp_all add: c2_def c1_def closeConnectionLocked_def stopOutgoingAttemptCancellation_def
        discardBufferedSpineMessages_def discardPendingSpineDispatches_def quiescent_def frame_simps)
      (simp add: stopHandshakeTimer_def split: if_splits)
  have send: "snd (sendShipModelDuringClose env MsgTypeEnd
      (ConnectionClose ConnectionClosePhaseTypeAnnounce (Some 500) (Some reason)) c2)
      = c2\<lparr>calls := calls c + 2, trace := trace c @ [EvWrite (typeByte MsgTypeEnd # announce) True]\<rparr>"
    using assms(7-9) c2(3,4)
    by (simp add: sendShipModelDuringClose_def sendShipModelWithClosing_def shipMessage_def writeShipMessage_def
        bumpCall_def emit_def)
  have "closeConnection env True code reason c1 = c2\<lparr>calls := calls c + 2,
      trace := trace c @ [EvWrite (typeByte MsgTypeEnd # announce) True], spawned := spawned c @ [GoSafeClose True]\<rparr>"
    using c2(1,2,5) send
    by (simp add: closeConnection_def c2_def [symmetric] handshakeTimerCallbacksActive_def
        finishCloseConnection_def handshakeEnded_def Let_def)
  moreover have "c1\<lparr>pairingEffectQueue := []\<rparr> = c1"
    using assms(2) by (simp add: c1_def quiescent_def)
  ultimately have d: "CloseConnection env True code reason c = c2\<lparr>calls := calls c + 2,
      trace := trace c @ [EvWrite (typeByte MsgTypeEnd # announce) True], spawned := spawned c @ [GoSafeClose True],
      pairingEffectDraining := False\<rparr>"
    using c2(6) by (simp add: CloseConnection_def claim drain_Cons runEffect_def drain_empty)
  show ?thesis
    unfolding d Let_def using assms(1,6) c2(5,7,8)
    by (simp add: runGoroutine_def settle_def reportConnectionClosed_def calm_reactQ bumpCall_def emit_def
        stopOutgoingAttemptCancellation_def)
qed

theorem safe_close_announces_witness:
  "spawned (CloseConnection exampleEnv True 0 ''bye'' (exampleServer\<lparr>smeState := SmeStateComplete\<rparr>)) = [GoSafeClose True]"
proof -
  let ?c = "exampleServer\<lparr>smeState := SmeStateComplete\<rparr>"
  let ?m = "marshalModel (ConnectionClose ConnectionClosePhaseTypeAnnounce (Some 500) (Some ''bye''))"
  have "calm exampleEnv" by (simp add: calm_def exampleEnv_def)
  moreover have "quiescent ?c" "smeState ?c = SmeStateComplete" "\<not> shutdownClosed ?c"
    "handshakeTimerActive (stopHandshakeTimer ?c) = 0" "\<not> outgoingAttemptTerminal ?c" "spawned ?c = []"
    "isDataConnectionClosed exampleEnv (calls ?c) = (False, None)" "writeResult exampleEnv (Suc (calls ?c)) = None"
    "JsonIntoEEBUSJson (orderedUnmarshal exampleEnv) ?m \<noteq> None"
    by code_simp+
  ultimately show ?thesis
    using safe_close_announces [of exampleEnv ?c "''bye''" _ 0] by (auto simp: Let_def)
qed

end
