(* ===== verification/Go_Netip.thy ===== *)
theory Go_Netip
  imports Go_Json "HOL-Library.Product_Lexorder"
begin

unbundle bit_operations_syntax

text \<open>
  The parts of Go's \<open>net/netip\<close> and \<open>net\<close> that the hub uses: addresses with zones, their
  classification, \<open>Compare\<close>, \<open>Unmap\<close>, \<open>AddrFromSlice\<close>, \<open>String\<close> and \<open>ParseAddr\<close>.
\<close>

section \<open>Addresses\<close>

datatype Addr = AddrZero | Addr4 "32 word" | Addr6 "128 word" bytes

fun addrIsValid :: "Addr \<Rightarrow> bool" where
  "addrIsValid AddrZero = False"
| "addrIsValid _ = True"

fun addrIs4 :: "Addr \<Rightarrow> bool" where
  "addrIs4 (Addr4 w) = True"
| "addrIs4 _ = False"

fun addrIs6 :: "Addr \<Rightarrow> bool" where
  "addrIs6 (Addr6 w z) = True"
| "addrIs6 _ = False"

fun addrIs4In6 :: "Addr \<Rightarrow> bool" where
  "addrIs4In6 (Addr6 w z) = (drop_bit 32 w = 0xFFFF)"
| "addrIs4In6 _ = False"

fun addrZone :: "Addr \<Rightarrow> bytes" where
  "addrZone (Addr6 w z) = z"
| "addrZone _ = []"

fun addrWithZone :: "Addr \<Rightarrow> bytes \<Rightarrow> Addr" where
  "addrWithZone (Addr6 w _) z = Addr6 w z"
| "addrWithZone a _ = a"

fun addrUnmap :: "Addr \<Rightarrow> Addr" where
  "addrUnmap (Addr6 w z) = (if addrIs4In6 (Addr6 w z) then Addr4 (ucast w) else Addr6 w z)"
| "addrUnmap a = a"

text \<open>\<open>IsUnspecified\<close> compares with \<open>0.0.0.0\<close> and \<open>::\<close>, zone included.\<close>

definition addrIsUnspecified :: "Addr \<Rightarrow> bool" where
  "addrIsUnspecified a = (a = Addr4 0 \<or> a = Addr6 0 [])"

fun addrIsMulticast :: "Addr \<Rightarrow> bool" where
  "addrIsMulticast (Addr4 w) = (drop_bit 28 w = 0xE)"
| "addrIsMulticast (Addr6 w z) =
    (if addrIs4In6 (Addr6 w z) then drop_bit 28 (ucast w :: 32 word) = 0xE else drop_bit 120 w = 0xFF)"
| "addrIsMulticast AddrZero = False"

fun addrIsLinkLocalUnicast :: "Addr \<Rightarrow> bool" where
  "addrIsLinkLocalUnicast (Addr4 w) = (drop_bit 16 w = 0xA9FE)"
| "addrIsLinkLocalUnicast (Addr6 w z) =
    (if addrIs4In6 (Addr6 w z) then drop_bit 16 (ucast w :: 32 word) = 0xA9FE else drop_bit 118 w = 0x3FA)"
| "addrIsLinkLocalUnicast AddrZero = False"

fun addrIsLoopback :: "Addr \<Rightarrow> bool" where
  "addrIsLoopback (Addr4 w) = (drop_bit 24 w = 127)"
| "addrIsLoopback (Addr6 w z) =
    (if addrIs4In6 (Addr6 w z) then drop_bit 24 (ucast w :: 32 word) = 127 else w = 1)"
| "addrIsLoopback AddrZero = False"

fun addrIsGlobalUnicast :: "Addr \<Rightarrow> bool" where
  "addrIsGlobalUnicast AddrZero = False"
| "addrIsGlobalUnicast a =
    (let b = addrUnmap a in
     \<not> (b = Addr4 0 \<or> b = Addr4 0xFFFFFFFF) \<and> b \<noteq> Addr6 0 [] \<and> \<not> addrIsLoopback b
       \<and> \<not> addrIsMulticast b \<and> \<not> addrIsLinkLocalUnicast b)"

section \<open>Ordering\<close>

text \<open>\<open>Compare\<close> orders by bit length, then by value, then by zone.\<close>

fun addrKey :: "Addr \<Rightarrow> nat \<times> int \<times> bytes" where
  "addrKey AddrZero = (0, 0, [])"
| "addrKey (Addr4 w) = (32, uint w, [])"
| "addrKey (Addr6 w z) = (128, uint w, z)"

lemma addrKey_inj: "addrKey a = addrKey b \<longleftrightarrow> a = b"
  by (cases a; cases b) (auto simp: word_uint_eq_iff)

definition addrCompare :: "Addr \<Rightarrow> Addr \<Rightarrow> int" where
  "addrCompare a b = (if addrKey a < addrKey b then -1 else if addrKey a = addrKey b then 0 else 1)"

instantiation Addr :: linorder
begin

definition less_eq_Addr :: "Addr \<Rightarrow> Addr \<Rightarrow> bool" where
  "less_eq_Addr a b = (addrCompare a b \<le> 0)"

definition less_Addr :: "Addr \<Rightarrow> Addr \<Rightarrow> bool" where
  "less_Addr a b = (addrCompare a b < 0)"

lemma Addr_le_key: "(a :: Addr) \<le> b \<longleftrightarrow> addrKey a \<le> addrKey b"
  by (auto simp: less_eq_Addr_def addrCompare_def)

lemma Addr_less_key: "(a :: Addr) < b \<longleftrightarrow> addrKey a < addrKey b"
  by (auto simp: less_Addr_def addrCompare_def)

instance
  by standard (auto simp: Addr_le_key Addr_less_key addrKey_inj intro: order.trans)

end

section \<open>Byte slices\<close>

definition wordOfBytes :: "bytes \<Rightarrow> 'a::len word" where
  "wordOfBytes bs = foldl (\<lambda>w c. push_bit 8 w OR of_nat (byteVal c)) 0 bs"

text \<open>\<open>netip.AddrFromSlice\<close> on a \<open>net.IP\<close>; \<open>To4\<close> and \<open>IsLinkLocalUnicast\<close> of \<open>net.IP\<close>.\<close>

definition addrFromSlice :: "bytes \<Rightarrow> Addr option" where
  "addrFromSlice ip =
    (if length ip = 4 then Some (Addr4 (wordOfBytes ip))
     else if length ip = 16 then Some (Addr6 (wordOfBytes ip) []) else None)"

definition ipTo4 :: "bytes \<Rightarrow> bytes option" where
  "ipTo4 ip =
    (if length ip = 4 then Some ip
     else if length ip = 16 \<and> take 12 ip = replicate 10 (CHR 0x00) @ [CHR 0xFF, CHR 0xFF]
       then Some (drop 12 ip) else None)"

definition ipIsLinkLocalUnicast :: "bytes \<Rightarrow> bool" where
  "ipIsLinkLocalUnicast ip =
    (case ipTo4 ip of
       Some v4 \<Rightarrow> byteVal (v4 ! 0) = 169 \<and> byteVal (v4 ! 1) = 254
     | None \<Rightarrow> length ip = 16 \<and> byteVal (ip ! 0) = 0xFE \<and> byteVal (ip ! 1) div 64 = 2)"

section \<open>Printing\<close>

fun hexDigits :: "nat \<Rightarrow> bytes" where
  "hexDigits n = (if n < 16 then [hexDigit n] else hexDigits (n div 16) @ [hexDigit (n mod 16)])"

declare hexDigits.simps [simp del]

definition string4 :: "32 word \<Rightarrow> bytes" where
  "string4 w =
    (let b = (\<lambda>k. decDigits (unat (drop_bit k w AND 0xFF))) in
     b 24 @ ''.'' @ b 16 @ ''.'' @ b 8 @ ''.'' @ b 0)"

definition groups6 :: "128 word \<Rightarrow> nat list" where
  "groups6 w = map (\<lambda>i. unat (drop_bit (112 - 16 * i) w AND 0xFFFF)) [0..<8]"

definition zeroRun :: "nat list \<Rightarrow> nat \<Rightarrow> nat" where
  "zeroRun gs i = length (takeWhile (\<lambda>g. g = 0) (drop i gs))"

text \<open>The first longest run of at least two zero groups: start and end.\<close>

definition longestZeroRun :: "nat list \<Rightarrow> (nat \<times> nat) option" where
  "longestZeroRun gs =
    foldl (\<lambda>best i. let l = zeroRun gs i in
             if 2 \<le> l \<and> (case best of None \<Rightarrow> True | Some (s, e) \<Rightarrow> e - s < l)
             then Some (i, i + l) else best) None [0..<8]"

definition joinGroups :: "nat list \<Rightarrow> bytes" where
  "joinGroups gs = concat (map (\<lambda>(i, g). (if i = (0::nat) then [] else '':'') @ hexDigits g)
     (zip [0..<length gs] gs))"

definition string6 :: "128 word \<Rightarrow> bytes" where
  "string6 w =
    (let gs = groups6 w in
     case longestZeroRun gs of
       None \<Rightarrow> joinGroups gs
     | Some (s, e) \<Rightarrow> joinGroups (take s gs) @ ''::'' @ joinGroups (drop e gs))"

fun addrString :: "Addr \<Rightarrow> bytes" where
  "addrString AddrZero = ''invalid IP''"
| "addrString (Addr4 w) = string4 w"
| "addrString (Addr6 w z) =
    (if addrIs4In6 (Addr6 w z) then ''::ffff:'' @ string4 (ucast w) else string6 w)
      @ (if z = [] then [] else ''%'' @ z)"

section \<open>Parsing\<close>

definition isDec :: "char \<Rightarrow> bool" where
  "isDec c = (48 \<le> byteVal c \<and> byteVal c \<le> 57)"

text \<open>\<open>parseIPv4Fields\<close>: the loop over the text, with the current octet, its digit count and the
  octets read so far.\<close>

fun parseIPv4Loop :: "bytes \<Rightarrow> nat \<Rightarrow> nat \<Rightarrow> nat list \<Rightarrow> nat list option" where
  "parseIPv4Loop [] val digLen fs = (if length fs < 3 then None else Some (fs @ [val]))"
| "parseIPv4Loop (c # s) val digLen fs =
    (if isDec c then
       (if digLen = 1 \<and> val = 0 then None
        else (let v = val * 10 + (byteVal c - 48) in
              if 255 < v then None else parseIPv4Loop s v (digLen + 1) fs))
     else if c = CHR ''.'' then
       (if digLen = 0 \<or> s = [] then None
        else if length fs = 3 then None
        else parseIPv4Loop s 0 0 (fs @ [val]))
     else None)"

definition parseIPv4Fields :: "bytes \<Rightarrow> nat list option" where
  "parseIPv4Fields s = parseIPv4Loop s 0 0 []"

definition parseIPv4 :: "bytes \<Rightarrow> Addr option" where
  "parseIPv4 s =
    (case parseIPv4Fields s of
       None \<Rightarrow> None
     | Some fs \<Rightarrow> Some (Addr4 (wordOfBytes (map char_of fs))))"

text \<open>One hexadecimal field: \<open>Some (value, rest)\<close>, or \<open>None\<close> when it has no digit or too many.\<close>

fun hexField :: "bytes \<Rightarrow> nat \<Rightarrow> nat \<Rightarrow> (nat \<times> nat \<times> bytes) option" where
  "hexField [] acc n = Some (acc, n, [])"
| "hexField (c # s) acc n =
    (case hexVal c of
       None \<Rightarrow> Some (acc, n, c # s)
     | Some d \<Rightarrow> if 3 < n then None else hexField s (acc * 16 + d) (n + 1))"

text \<open>The field loop of \<open>parseIPv6\<close>; \<open>gs\<close> are the 16-bit fields read so far and \<open>ell\<close> the
  position of \<open>::\<close>. The first argument bounds the turns: every turn adds a field or ends, so 9
  are enough. The result is the fields, the position of \<open>::\<close> and the text left over.\<close>

fun parseIPv6Loop :: "nat \<Rightarrow> bytes \<Rightarrow> nat list \<Rightarrow> nat option \<Rightarrow> (nat list \<times> nat option \<times> bytes) option" where
  "parseIPv6Loop 0 s gs ell = Some (gs, ell, s)"
| "parseIPv6Loop (Suc k) s gs ell =
    (if 8 \<le> length gs then Some (gs, ell, s) else
     case hexField s 0 0 of
       None \<Rightarrow> None
     | Some (acc, off, rest) \<Rightarrow>
         if off = 0 then None
         else if (case rest of [] \<Rightarrow> False | c # _ \<Rightarrow> c = CHR ''.'') then
           (if ell = None \<and> length gs \<noteq> 6 then None
            else if 6 < length gs then None
            else (case parseIPv4Fields s of
                    Some [a, b, c, d] \<Rightarrow> Some (gs @ [a * 256 + b, c * 256 + d], ell, [])
                  | _ \<Rightarrow> None))
         else (let gs' = gs @ [acc] in
           case rest of
             [] \<Rightarrow> Some (gs', ell, [])
           | c # r \<Rightarrow>
               if c \<noteq> CHR '':'' then None
               else (case r of
                       [] \<Rightarrow> None
                     | d # r' \<Rightarrow>
                         if d = CHR '':'' then
                           (if ell \<noteq> None then None
                            else if r' = [] then Some (gs', Some (length gs'), [])
                            else parseIPv6Loop k r' gs' (Some (length gs')))
                         else parseIPv6Loop k r gs' ell)))"

definition wordOfGroups :: "nat list \<Rightarrow> 128 word" where
  "wordOfGroups gs = foldl (\<lambda>w g. push_bit 16 w OR of_nat g) 0 gs"

definition parseIPv6Body :: "bytes \<Rightarrow> bytes \<Rightarrow> nat option \<Rightarrow> Addr option" where
  "parseIPv6Body s z ell0 =
    (case parseIPv6Loop 9 s [] ell0 of
       None \<Rightarrow> None
     | Some (gs, ell, rest) \<Rightarrow>
         if rest \<noteq> [] then None
         else if length gs < 8 then
           (case ell of
              None \<Rightarrow> None
            | Some e \<Rightarrow> Some (Addr6 (wordOfGroups (take e gs @ replicate (8 - length gs) 0 @ drop e gs)) z))
         else if ell \<noteq> None then None
         else Some (Addr6 (wordOfGroups gs) z))"

definition parseIPv6 :: "bytes \<Rightarrow> Addr option" where
  "parseIPv6 inp =
    (let s = takeWhile (\<lambda>c. c \<noteq> CHR ''%'') inp;
         z = drop (length s + 1) inp in
     if length s < length inp \<and> z = [] then None
     else if hasPrefix s ''::'' then
       (if length s = 2 then Some (Addr6 0 z) else parseIPv6Body (drop 2 s) z (Some 0))
     else parseIPv6Body s z None)"

fun parseAddrScan :: "bytes \<Rightarrow> bytes \<Rightarrow> Addr option" where
  "parseAddrScan whole [] = None"
| "parseAddrScan whole (c # s) =
    (if c = CHR ''.'' then parseIPv4 whole
     else if c = CHR '':'' then parseIPv6 whole
     else if c = CHR ''%'' then None
     else parseAddrScan whole s)"

definition parseAddr :: "bytes \<Rightarrow> Addr option" where
  "parseAddr s = parseAddrScan s s"

end
