(* ===== verification/Hub_Address.thy ===== *)
theory Hub_Address
  imports Go_Netip Ship_Model
begin

text \<open>
  Endpoint selection of the hub: which addresses of a discovery entry may be dialled and in
  which order (\<open>orderedConnectionAddresses\<close> and its callers in \<open>src/hub/hub_connections.go\<close>), the
  validation of hosts, listener policies (\<open>src/hub/listener_policy.go\<close>) and SKIs
  (\<open>validPairingCandidateSKI\<close> of \<open>src/hub/hub_pairing.go\<close>).
\<close>

section \<open>Discovery entries (src/api/mdns.go)\<close>

record MdnsEntry =
  meName :: bytes
  meSki :: bytes
  meIdentifier :: bytes
  mePath :: bytes
  meRegister :: bool
  meBrand :: bytes
  meType :: bytes
  meModel :: bytes
  meHost :: bytes
  mePort :: int
  meAddresses :: "bytes list"
  meScopedAddresses :: "Addr list"
  meUnscopedLinkLocalObserved :: bool

section \<open>Usable addresses\<close>

definition normalizeConnectionAddress :: "Addr \<Rightarrow> Addr option" where
  "normalizeConnectionAddress address =
    (if \<not> addrIsValid address then None
     else let address = addrUnmap address in
       if addrIsUnspecified address \<or> addrIsMulticast address then None
       else if addrIs6 address \<and> addrIsLinkLocalUnicast address then
         (if addrZone address = [] then None else Some address)
       else if addrZone address \<noteq> [] then Some (addrWithZone address [])
       else Some address)"

text \<open>The closure \<open>appendAddress\<close>, on the two slices and the set \<open>seen\<close>.\<close>

definition appendAddress :: "Addr \<Rightarrow> Addr list \<times> Addr list \<times> Addr list \<Rightarrow> Addr list \<times> Addr list \<times> Addr list" where
  "appendAddress a st =
    (case st of (ipv4, ipv6, seen) \<Rightarrow>
      (case normalizeConnectionAddress a of
         None \<Rightarrow> (ipv4, ipv6, seen)
       | Some b \<Rightarrow>
           if b \<in> set seen then (ipv4, ipv6, seen)
           else if addrIs4 b then (ipv4 @ [b], ipv6, b # seen)
           else (ipv4, ipv6 @ [b], b # seen)))"

definition legacyAddress :: "bytes \<Rightarrow> Addr list \<times> Addr list \<times> Addr list \<Rightarrow> Addr list \<times> Addr list \<times> Addr list" where
  "legacyAddress ip st = (case addrFromSlice ip of None \<Rightarrow> st | Some a \<Rightarrow> appendAddress a st)"

definition orderedConnectionAddresses :: "Addr list \<Rightarrow> bytes list \<Rightarrow> Addr list" where
  "orderedConnectionAddresses scoped legacy =
    (let st = fold legacyAddress legacy (fold appendAddress scoped ([], [], [])) in
     sort (fst st) @ sort (fst (snd st)))"

definition pairingCandidateAddress :: "Addr list \<Rightarrow> bytes list \<Rightarrow> bytes option" where
  "pairingCandidateAddress scoped legacy =
    (case orderedConnectionAddresses scoped legacy of [] \<Rightarrow> None | a # _ \<Rightarrow> Some (addrString a))"

definition normalizeOutgoingAttemptHost :: "bytes \<Rightarrow> bytes" where
  "normalizeOutgoingAttemptHost host =
    (if hasPrefix host ''['' \<and> hasSuffix host '']'' then trimSuffix (trimPrefix host ''['') '']'' else host)"

definition validatedOutgoingAttemptHost :: "bytes \<Rightarrow> bytes option" where
  "validatedOutgoingAttemptHost host0 =
    (let host = normalizeOutgoingAttemptHost host0 in
     if host = [] then None
     else case parseAddr host of
       Some a \<Rightarrow> (case normalizeConnectionAddress a of None \<Rightarrow> None | Some b \<Rightarrow> Some (addrString b))
     | None \<Rightarrow>
         if containsBytes host ''%'' \<or> (\<exists>c \<in> set host. c \<in> {CHR ''['', CHR '']'', CHR '':''}) then None
         else Some host)"

definition hostMatchesConnectionAddress :: "bytes \<Rightarrow> Addr list \<Rightarrow> bool" where
  "hostMatchesConnectionAddress host addresses =
    (case validatedOutgoingAttemptHost host of
       None \<Rightarrow> False
     | Some h \<Rightarrow> (case parseAddr h of None \<Rightarrow> False | Some a \<Rightarrow> a \<in> set addresses))"

definition mdnsEntryHasUnscopedLinkLocal :: "MdnsEntry option \<Rightarrow> bool" where
  "mdnsEntryHasUnscopedLinkLocal entry =
    (case entry of
       None \<Rightarrow> False
     | Some e \<Rightarrow>
         meUnscopedLinkLocalObserved e
         \<or> (\<exists>a \<in> set (meScopedAddresses e). addrIs6 a \<and> addrIsLinkLocalUnicast a \<and> addrZone a = [])
         \<or> (\<exists>ip \<in> set (meAddresses e). ip \<noteq> [] \<and> ipTo4 ip = None \<and> ipIsLinkLocalUnicast ip))"

definition trustedRemoteRetryHost :: "MdnsEntry option \<Rightarrow> bytes option" where
  "trustedRemoteRetryHost entry =
    (case entry of
       None \<Rightarrow> None
     | Some e \<Rightarrow>
         (case pairingCandidateAddress (meScopedAddresses e) (meAddresses e) of
            Some address \<Rightarrow> Some address
          | None \<Rightarrow>
              if mdnsEntryHasUnscopedLinkLocal (Some e) then None
              else validatedOutgoingAttemptHost (meHost e)))"

text \<open>The endpoints \<open>initateConnectionWithError\<close> tries, in order: every usable address (an IPv6
  address in brackets), then the host name unless it is one of the addresses or the entry had a
  link-local address without zone.\<close>

definition connectionEndpoints :: "MdnsEntry \<Rightarrow> bytes list" where
  "connectionEndpoints e =
    (let addresses = orderedConnectionAddresses (meScopedAddresses e) (meAddresses e) in
     map (\<lambda>a. if addrIs6 a then ''['' @ addrString a @ '']'' else addrString a) addresses
     @ (if meHost e \<noteq> [] \<and> \<not> mdnsEntryHasUnscopedLinkLocal (Some e)
           \<and> \<not> hostMatchesConnectionAddress (meHost e) addresses
        then [meHost e] else []))"

section \<open>Listener policies\<close>

record ListenerPolicy =
  lpAddr :: Addr
  lpPort :: "16 word"
  DiscoveryEnabled :: bool

datatype policyError = EndpointInvalid | PortZero | AddressMapped | AddressUnspecified
  | AddressMulticast | AddressNotUnicast | PortMismatch

definition listenerPolicyAddressIsUnicast :: "Addr \<Rightarrow> bool" where
  "listenerPolicyAddressIsUnicast a =
    ((case a of Addr4 w \<Rightarrow> \<not> (drop_bit 24 w = 0 \<or> w = 0xFFFFFFFF) | _ \<Rightarrow> True)
     \<and> (addrIsGlobalUnicast a \<or> addrIsLoopback a \<or> addrIsLinkLocalUnicast a))"

definition validateListenerPolicy :: "int \<Rightarrow> ListenerPolicy \<Rightarrow> policyError option" where
  "validateListenerPolicy port policy =
    (let address = lpAddr policy in
     if \<not> addrIsValid address then Some EndpointInvalid
     else if lpPort policy = 0 then Some PortZero
     else if addrIs4In6 address then Some AddressMapped
     else if addrIsUnspecified address then Some AddressUnspecified
     else if addrIsMulticast address then Some AddressMulticast
     else if \<not> listenerPolicyAddressIsUnicast address then Some AddressNotUnicast
     else if port \<noteq> uint (lpPort policy) then Some PortMismatch
     else None)"

section \<open>SKIs given by callers\<close>

text \<open>\<open>hex.DecodeString\<close> and \<open>hex.EncodeToString\<close>.\<close>

fun hexDecode :: "bytes \<Rightarrow> nat list option" where
  "hexDecode [] = Some []"
| "hexDecode [c] = None"
| "hexDecode (a # b # s) =
    (case (hexVal a, hexVal b, hexDecode s) of
       (Some x, Some y, Some r) \<Rightarrow> Some ((x * 16 + y) # r)
     | _ \<Rightarrow> None)"

definition hexEncode :: "nat list \<Rightarrow> bytes" where
  "hexEncode bs = concat (map (\<lambda>b. [hexDigit (b div 16), hexDigit (b mod 16)]) bs)"

definition validPairingCandidateSKI :: "bytes \<Rightarrow> bytes option" where
  "validPairingCandidateSKI ski =
    (if length ski \<noteq> 40 then None
     else case hexDecode ski of
       None \<Rightarrow> None
     | Some decoded \<Rightarrow>
         if length decoded \<noteq> 20 \<or> ski \<noteq> hexEncode decoded then None else Some ski)"


section \<open>The order in which addresses are dialled\<close>

definition usableAddresses :: "Addr list \<Rightarrow> bytes list \<Rightarrow> Addr set" where
  "usableAddresses scoped legacy =
    {b. \<exists>a. (a \<in> set scoped \<or> (\<exists>ip \<in> set legacy. addrFromSlice ip = Some a)) \<and> normalizeConnectionAddress a = Some b}"

lemma Addr4_less_Addr6: "Addr4 v \<le> Addr6 w z"
  by (simp add: Addr_le_key)

lemma normalize_valid: "normalizeConnectionAddress a = Some b \<Longrightarrow> b \<noteq> AddrZero"
  by (cases a) (auto simp: normalizeConnectionAddress_def Let_def split: if_splits)

definition normalized :: "Addr set \<Rightarrow> Addr set" where
  "normalized A = {b. \<exists>a \<in> A. normalizeConnectionAddress a = Some b}"

text \<open>What the two slices and \<open>seen\<close> hold after the addresses \<open>A\<close> were offered.\<close>

definition addrInv :: "Addr set \<Rightarrow> Addr list \<times> Addr list \<times> Addr list \<Rightarrow> bool" where
  "addrInv A st =
    (case st of (ipv4, ipv6, seen) \<Rightarrow>
       distinct ipv4 \<and> distinct ipv6 \<and> set seen = set ipv4 \<union> set ipv6
       \<and> (\<forall>a \<in> set ipv4. \<exists>w. a = Addr4 w) \<and> (\<forall>a \<in> set ipv6. \<exists>w z. a = Addr6 w z)
       \<and> set ipv4 \<union> set ipv6 = normalized A)"

lemma usableAddresses_normalized:
  "usableAddresses scoped legacy = normalized (set scoped \<union> {a. \<exists>ip \<in> set legacy. addrFromSlice ip = Some a})"
  by (auto simp: usableAddresses_def normalized_def)

lemma normalized_insert:
  "normalized (insert a A) = set_option (normalizeConnectionAddress a) \<union> normalized A"
  by (auto simp: normalized_def)

lemma appendAddress_inv: "addrInv A st \<Longrightarrow> addrInv (insert a A) (appendAddress a st)"
proof -
  assume inv: "addrInv A st"
  obtain i4 i6 sn where st: "st = (i4, i6, sn)" by (cases st)
  show ?thesis
  proof (cases "normalizeConnectionAddress a")
    case None
    then show ?thesis using inv by (simp add: addrInv_def appendAddress_def st normalized_insert)
  next
    case (Some b)
    have set_b: "normalized (insert a A) = insert b (set sn)"
      using inv by (simp add: addrInv_def st normalized_insert Some)
    show ?thesis
    proof (cases "b \<in> set sn")
      case True
      then have "appendAddress a st = st" by (simp add: appendAddress_def st Some)
      with True set_b inv show ?thesis by (simp add: addrInv_def st insert_absorb)
    next
      case False
      then have nb: "b \<notin> set i4" "b \<notin> set i6" using inv by (auto simp: addrInv_def st)
      consider w where "b = Addr4 w" | w z where "b = Addr6 w z"
        using normalize_valid [OF Some] by (cases b) auto
      then show ?thesis
      proof cases
        case 1
        then show ?thesis
          using inv nb False set_b unfolding addrInv_def appendAddress_def st Some by simp
      next
        case 2
        then show ?thesis
          using inv nb False set_b unfolding addrInv_def appendAddress_def st Some by simp
      qed
    qed
  qed
qed

lemma fold_append_inv: "addrInv A st \<Longrightarrow> addrInv (A \<union> set as) (fold appendAddress as st)"
proof (induction as arbitrary: A st)
  case (Cons a as)
  from Cons.IH [OF appendAddress_inv [OF Cons.prems, of a]] show ?case by simp
qed simp

lemma fold_legacy_inv:
  "addrInv A st \<Longrightarrow> addrInv (A \<union> {a. \<exists>ip \<in> set ips. addrFromSlice ip = Some a}) (fold legacyAddress ips st)"
proof (induction ips arbitrary: A st)
  case (Cons ip ips)
  show ?case
  proof (cases "addrFromSlice ip")
    case None
    then show ?thesis using Cons.IH [OF Cons.prems] by (simp add: legacyAddress_def)
  next
    case (Some a)
    have "insert a (A \<union> {x. \<exists>i \<in> set ips. addrFromSlice i = Some x})
      = A \<union> {x. \<exists>i \<in> set (ip # ips). addrFromSlice i = Some x}" using Some by auto
    then show ?thesis
      using Cons.IH [OF appendAddress_inv [OF Cons.prems, of a]] Some by (simp add: legacyAddress_def)
  qed
qed simp

text \<open>C26: the hub dials the usable addresses of an entry once each, in increasing order
  (\<open>netip.Addr.Compare\<close>, so IPv4 before IPv6): the two loops, the deduplication and the two sorts
  of \<open>orderedConnectionAddresses\<close> compute the sorted enumeration of the set of addresses that
  \<open>normalizeConnectionAddress\<close> accepts, wherever an address was listed.\<close>

theorem ordered_addresses_sorted:
  "orderedConnectionAddresses scoped legacy = sorted_list_of_set (usableAddresses scoped legacy)"
proof -
  obtain i4 i6 sn where st: "fold legacyAddress legacy (fold appendAddress scoped ([], [], [])) = (i4, i6, sn)"
    by (metis prod.exhaust)
  have "addrInv {} ([], [], [])" by (simp add: addrInv_def normalized_def)
  from fold_legacy_inv [OF fold_append_inv [OF this]]
  have inv: "addrInv (set scoped \<union> {a. \<exists>ip \<in> set legacy. addrFromSlice ip = Some a}) (i4, i6, sn)"
    unfolding st [symmetric] by simp
  have "sorted (sort i4 @ sort i6)"
    using inv by (fastforce simp: sorted_append addrInv_def Addr4_less_Addr6)
  moreover have "distinct (sort i4 @ sort i6)" using inv by (fastforce simp: addrInv_def)
  moreover have "set (sort i4 @ sort i6) = usableAddresses scoped legacy"
    using inv by (simp add: addrInv_def usableAddresses_normalized)
  ultimately show ?thesis
    by (metis orderedConnectionAddresses_def st fst_conv snd_conv sorted_list_of_set.idem_if_sorted_distinct
        sorted_list_of_set.sorted_key_list_of_set_unique finite_set)
qed

section \<open>What normalisation and policy validation accept\<close>

lemma not_mapped_unmap: "\<not> addrIs4In6 (addrUnmap a)"
  by (cases a) auto

text \<open>An address the hub agrees to dial is never IPv4-mapped and never multicast, carries a
  zone exactly when it is an IPv6 link-local address, and is an unspecified address only when it
  was written as \<open>::\<close> with a zone.\<close>

theorem normalized_address_usable:
  assumes "normalizeConnectionAddress a = Some b"
  shows "addrIsValid b \<and> \<not> addrIs4In6 b \<and> \<not> addrIsMulticast b
    \<and> (addrZone b \<noteq> [] \<longleftrightarrow> addrIs6 b \<and> addrIsLinkLocalUnicast b)
    \<and> (addrIsUnspecified b \<longrightarrow> (\<exists>z. z \<noteq> [] \<and> a = Addr6 0 z))"
proof -
  define c where "c = addrUnmap a"
  have c: "addrIsValid a" "\<not> addrIsUnspecified c" "\<not> addrIsMulticast c" "\<not> addrIs4In6 c"
    using assms by (auto simp: normalizeConnectionAddress_def Let_def c_def not_mapped_unmap split: if_splits)
  have b: "if addrIs6 c \<and> addrIsLinkLocalUnicast c then addrZone c \<noteq> [] \<and> b = c
    else b = addrWithZone c []"
    using assms by (cases "addrUnmap a") (auto simp: normalizeConnectionAddress_def Let_def c_def split: if_splits)
  show ?thesis
  proof (cases c)
    case AddrZero
    then show ?thesis using c(1) by (cases a) (auto simp: c_def split: if_splits)
  next
    case (Addr4 w)
    then show ?thesis using b c by (simp add: addrIsUnspecified_def)
  next
    case (Addr6 w z)
    then have "a = Addr6 w z" by (cases a) (auto simp: c_def split: if_splits)
    then show ?thesis using b c Addr6 by (auto simp: addrIsUnspecified_def split: if_splits)
  qed
qed

text \<open>The unspecified IPv6 address with a zone passes both checks meant to exclude it: the
  hub would dial \<open>::\<close>, and a listener policy may bind it although the validation has an error
  for an unspecified address. \<open>IsUnspecified\<close> compares the zone too, and both functions call it
  before the zone is dropped.\<close>

theorem zoned_unspecified_accepted:
  "normalizeConnectionAddress (Addr6 0 ''eth0'') = Some (Addr6 0 [])
   \<and> addrIsUnspecified (Addr6 0 [])
   \<and> validateListenerPolicy 4711 \<lparr>lpAddr = Addr6 0 ''eth0'', lpPort = 4711, DiscoveryEnabled = True\<rparr> = None
   \<and> validateListenerPolicy 4711 \<lparr>lpAddr = Addr6 0 [], lpPort = 4711, DiscoveryEnabled = True\<rparr> = Some AddressUnspecified"
  by (simp add: normalizeConnectionAddress_def addrIsUnspecified_def validateListenerPolicy_def
      listenerPolicyAddressIsUnicast_def Let_def)

text \<open>An accepted listener policy names a non-zero port equal to the configured one and a
  unicast address that is not IPv4-mapped: a global, loopback or link-local one, and for IPv4
  neither in \<open>0.0.0.0/8\<close> nor the broadcast address.\<close>

theorem listener_policy_accepted:
  assumes "validateListenerPolicy port policy = None"
  shows "port = uint (lpPort policy) \<and> port \<noteq> 0 \<and> \<not> addrIs4In6 (lpAddr policy)
    \<and> \<not> addrIsMulticast (lpAddr policy)
    \<and> (addrIsGlobalUnicast (lpAddr policy) \<or> addrIsLoopback (lpAddr policy) \<or> addrIsLinkLocalUnicast (lpAddr policy))
    \<and> (\<forall>w. lpAddr policy = Addr4 w \<longrightarrow> drop_bit 24 w \<noteq> 0 \<and> w \<noteq> 0xFFFFFFFF)"
proof -
  have p: "lpPort policy \<noteq> 0" "port = uint (lpPort policy)" "\<not> addrIs4In6 (lpAddr policy)"
    "\<not> addrIsMulticast (lpAddr policy)" "listenerPolicyAddressIsUnicast (lpAddr policy)"
    using assms by (auto simp: validateListenerPolicy_def Let_def split: if_splits)
  then have "uint (lpPort policy) \<noteq> 0" by (simp add: word_uint_eq_iff)
  with p show ?thesis by (auto simp: listenerPolicyAddressIsUnicast_def split: Addr.splits)
qed

theorem listener_policy_accepted_witness:
  "validateListenerPolicy 4711 \<lparr>lpAddr = Addr4 0xC0A80114, lpPort = 4711, DiscoveryEnabled = False\<rparr> = None
   \<and> \<not> addrIsMulticast (Addr4 0xC0A80114)"
proof -
  have v: "validateListenerPolicy 4711 \<lparr>lpAddr = Addr4 0xC0A80114, lpPort = 4711, DiscoveryEnabled = False\<rparr> = None"
    by code_simp
  from listener_policy_accepted [OF v] v show ?thesis by simp
qed

section \<open>Validation of an SKI\<close>

definition lowerHex :: "char \<Rightarrow> bool" where
  "lowerHex c = (let n = byteVal c in (48 \<le> n \<and> n \<le> 57) \<or> (97 \<le> n \<and> n \<le> 102))"

lemma hexDigit_value:
  assumes "hexVal c = Some n"
  shows "n < 16" and "hexDigit n = c \<longleftrightarrow> lowerHex c"
proof -
  have b: "byteVal (char_of m :: char) = m" if "m < 256" for m
    using that by (simp add: byteVal_def of_char_of)
  have inj: "c = d" if "byteVal c = byteVal d" for d
    using that by (metis byteVal_def char_of_char)
  show n: "n < 16" using assms by (auto simp: hexVal_def Let_def split: if_splits)
  have "hexDigit n = c \<longleftrightarrow> byteVal (hexDigit n) = byteVal c" using inj by metis
  also have "byteVal (hexDigit n) = (if n < 10 then 48 + n else 87 + n)"
    using n by (simp add: hexDigit_def b)
  finally show "hexDigit n = c \<longleftrightarrow> lowerHex c"
    using assms n by (auto simp: lowerHex_def hexVal_def Let_def split: if_splits)
qed

lemma lowerHex_value: "lowerHex c \<Longrightarrow> \<exists>n. hexVal c = Some n"
  by (auto simp: lowerHex_def hexVal_def Let_def)

lemma hexEncode_Cons [simp]: "hexEncode (b # bs) = hexDigit (b div 16) # hexDigit (b mod 16) # hexEncode bs"
  by (simp add: hexEncode_def)

lemma hexDecode_roundtrip:
  "hexDecode s = Some bs \<Longrightarrow> length s = 2 * length bs \<and> (s = hexEncode bs \<longleftrightarrow> list_all lowerHex s)"
proof (induction s arbitrary: bs rule: hexDecode.induct)
  case 1
  then show ?case by (simp add: hexEncode_def)
next
  case (2 c)
  then show ?case by simp
next
  case (3 a b s)
  from 3 (2) obtain x y r where xy: "hexVal a = Some x" "hexVal b = Some y" "hexDecode s = Some r"
    and bs: "bs = (x * 16 + y) # r"
    by (auto split: option.splits)
  have d: "(x * 16 + y) div 16 = x" "y mod 16 = y" using hexDigit_value (1) [OF xy(2)] by auto
  show ?case
    using 3 (1) [OF xy(3)] hexDigit_value (2) [OF xy(1)] hexDigit_value (2) [OF xy(2)]
    by (simp add: bs d) blast
qed

lemma hexDecode_lowerHex: "list_all lowerHex s \<Longrightarrow> even (length s) \<Longrightarrow> \<exists>bs. hexDecode s = Some bs"
proof (induction s rule: hexDecode.induct)
  case (3 a b s)
  then obtain bs where "hexDecode s = Some bs" by auto
  moreover obtain x y where "hexVal a = Some x" "hexVal b = Some y" using 3 lowerHex_value by fastforce
  ultimately show ?case by simp
qed auto

text \<open>An SKI passed by a caller is accepted exactly when it has 40 lowercase hexadecimal digits,
  and is then used unchanged; decoding and re-encoding it, as the code does, decides precisely
  that.\<close>

theorem valid_ski_iff:
  "validPairingCandidateSKI ski = (if length ski = 40 \<and> list_all lowerHex ski then Some ski else None)"
proof (cases "length ski = 40")
  case True
  show ?thesis
  proof (cases "hexDecode ski")
    case None
    then have "\<not> list_all lowerHex ski" using hexDecode_lowerHex [of ski] True by auto
    with None True show ?thesis by (simp add: validPairingCandidateSKI_def)
  next
    case (Some bs)
    from hexDecode_roundtrip [OF this] True Some show ?thesis by (auto simp: validPairingCandidateSKI_def)
  qed
qed (simp add: validPairingCandidateSKI_def)

end
