(* ===== verification/Hub_State.thy ===== *)
theory Hub_State
  imports Hub_Address "HOL-Library.AList"
begin

text \<open>
  The state of the hub (\<open>src/hub/hub.go\<close>, \<open>src/api/servicedetails.go\<close>,
  \<open>src/api/connectionstate.go\<close>) and the operations that only touch it: authorities, attempt
  registrations with their callback gate, PIN providers, service details and the notification
  queue.

  Objects the code shares by pointer and compares by identity (services, state details,
  authorities, registrations, reservations, candidates, retries, connections) live at addresses
  (\<open>ptr\<close>) in stores of the \<open>hub\<close> record; \<open>nextPtr\<close> is the next unused address, so a fresh object
  differs from every older one. A Go map is an association list without duplicate keys; the code
  ranges over maps in an unspecified order, and the theorems hold for every list, hence for
  every order. A set (\<open>map[K]struct\{\}\<close>) is a list without duplicates.

  One definition models one region protected by the hub's mutexes, or a composition of such
  regions in the order of the code. What leaves the hub (callbacks to the hub reader and to
  mDNS, closing a connection, cancelling a context, discarding or using a PIN provider, starting
  a goroutine) is appended to \<open>hubTrace\<close>; a callback into the hub that such a call causes is a
  later operation of its own.
\<close>

declare update_conv' [simp]
declare delete_conv' [simp]

section \<open>Errors\<close>

text \<open>An error value is identified by its identity; \<open>errUnwrap\<close> is what it wraps.\<close>

datatype errorValue = ErrorValue (errIdent: nat) (errUnwrap: "errorValue option")

lemma errUnwrap_smaller: "errUnwrap e = Some u \<Longrightarrow> size u < size e"
  by (cases e) auto

text \<open>\<open>errors.Is\<close>: nil matches only nil; otherwise the chain is searched for the target.\<close>

function errorsIs :: "errorValue option \<Rightarrow> errorValue option \<Rightarrow> bool" where
  "errorsIs None t = (t = None)"
| "errorsIs (Some e) None = False"
| "errorsIs (Some e) (Some t) = (e = t \<or> (errUnwrap e \<noteq> None \<and> errorsIs (errUnwrap e) (Some t)))"
  by pat_completeness auto

termination
  by (relation "measure (\<lambda>(e, t). case e of None \<Rightarrow> 0 | Some x \<Rightarrow> Suc (size x))")
    (auto split: option.splits dest: errUnwrap_smaller)

lemma errorsIs_refl [simp]: "errorsIs e e"
  by (cases e) auto

text \<open>The identity of \<open>api.ErrConnectionNotFound\<close>, a package variable.\<close>

definition ErrConnectionNotFound :: errorValue where
  "ErrConnectionNotFound = ErrorValue 0 None"

text \<open>The errors the hub's own operations return.\<close>

datatype hubError =
    ErrInvalidRemoteSKI | ErrPairingCandidateUnavailable | ErrPairingCandidateSKIMismatch
  | ErrPairingCandidateConsumed | ErrPairingCandidateActive | ErrPairingCandidateReservationStale
  | ErrPairingCandidateAlreadyConnecting | ErrPairingCandidateReservationUnavailable
  | ErrOutgoingAttemptGateRequired | ErrRemoteAlreadyTrusted | ErrInvalidOutgoingAttemptGate
  | ErrPINProviderInvalid
  | ErrTrustedRemoteRetryUnavailable | ErrTrustedRemoteRetryNotTrusted
  | ErrTrustedRemoteRetryConnected | ErrTrustedRemoteRetryBusy | ErrTrustedRemoteObservationStale
  | outgoingAttemptDeniedError | inboundPairingDirectionHandoffError | errOutgoingAttemptFailed

section \<open>Services and their connection state\<close>

datatype ConnectionState =
    ConnectionStateNone | ConnectionStateQueued | ConnectionStateInitiated
  | ConnectionStateReceivedPairingRequest | ConnectionStateInProgress | ConnectionStateTrusted
  | ConnectionStatePin | ConnectionStateCompleted | ConnectionStateRemoteDeniedTrust
  | ConnectionStateError

type_synonym ptr = nat

record ConnectionStateDetail =
  cdState :: ConnectionState
  cdError :: "errorValue option"
  cdPIN :: "PINHandshakeDetail option"

record ServiceDetails =
  svcSKI :: bytes
  svcIPv4 :: bytes
  svcShipID :: bytes
  svcDeviceType :: bytes
  svcAutoAccept :: bool
  svcTrusted :: bool
  svcDetail :: ptr

definition NewConnectionStateDetail :: "ConnectionState \<Rightarrow> errorValue option \<Rightarrow> ConnectionStateDetail" where
  "NewConnectionStateDetail s e = \<lparr>cdState = s, cdError = e, cdPIN = None\<rparr>"

section \<open>Attempts, reservations, candidates and observations\<close>

record outboundAttemptRegistration =
  regAuthority :: ptr
  regMetadata :: OutgoingAttemptMetadata
  regCanceled :: bool                \<comment> \<open>\<open>context.Err() != nil\<close>\<close>
  regConnection :: "ptr option"
  callbackBlocked :: bool
  callbackActive :: int
  callbackDrained :: bool            \<comment> \<open>a waiter's channel is open\<close>

record inboundPairingReservation =
  resReplaced :: "ptr option"
  resWinner :: "ptr option"
  resCandidate :: "ptr option"
  resAuthority :: "ptr option"

record activePairingCandidate =
  candService :: ptr
  candAuthority :: ptr
  candReservation :: bytes
  candRef :: bytes
  candRevision :: uint64
  candHost :: bytes
  candPort :: bytes
  candPath :: bytes
  candConnectIssued :: bool

record trustedRemoteObservation =
  obsRevision :: uint64
  obsAdmission :: uint64
  obsHost :: bytes
  obsPort :: int
  obsPath :: bytes

record activeTrustedRemoteRetry =
  retService :: ptr
  retAuthority :: ptr
  retObservation :: trustedRemoteObservation

record pairingCandidateRetirement =
  rtmSki :: bytes
  rtmService :: ptr
  rtmAuthority :: ptr
  rtmProvider :: "ptr option"

text \<open>\<open>api.PairingCandidateObservation\<close>, what mDNS reports, and the hub's own record of it.\<close>

record apiCandidate =
  CandidateRef :: bytes
  candName :: bytes
  candSKI :: bytes
  candIdentifier :: bytes
  candBrand :: bytes
  candType :: bytes
  candModel :: bytes
  candObsPath :: bytes
  candObsHost :: bytes
  candObsPort :: int
  candRegister :: bool
  candAddresses :: "bytes list"
  candScopedAddresses :: "Addr list"
  candUnscopedLinkLocal :: bool

record pairingCandidateObservation =
  pcoSki :: bytes
  pcoRevision :: uint64
  pcoPath :: bytes
  pcoPort :: int
  pcoAddresses :: "bytes list"
  pcoScopedAddresses :: "Addr list"

text \<open>The arguments of a queued \<open>reportMdnsSnapshot\<close>; an entry may be nil.\<close>

record mdnsSnapshot =
  snapEntries :: "(bytes \<times> MdnsEntry option) list"
  snapNewEntries :: bool
  snapCandidates :: "apiCandidate list"
  snapRevision :: uint64
  snapAdmission :: uint64

section \<open>The hub\<close>

datatype hubEvent =
    HCloseConnection ptr bool int bytes           \<comment> \<open>\<open>CloseConnection(safe, code, reason)\<close>\<close>
  | HApprovePending ptr | HAbortPending ptr | HRun ptr
  | HCancel ptr                                   \<comment> \<open>a registration's \<open>cancel()\<close>\<close>
  | HDisconnected bytes                           \<comment> \<open>\<open>RemoteSKIDisconnected\<close>\<close>
  | HConnected bytes | HShipIDUpdate bytes bytes
  | HAttemptClosed bytes bool OutgoingAttemptMetadata
  | HAttemptUpdate bytes ShipMessageExchangeState OutgoingAttemptMetadata
  | HPairingDetail bytes ConnectionStateDetail    \<comment> \<open>\<open>ServicePairingDetailUpdate\<close>\<close>
  | HAnnounce | HRequestEntries | HMdnsShutdown | HHttpShutdown
  | HUsePIN ptr bytes | HDiscardPIN ptr bytes
  | HGoCandidate bytes ptr ptr                    \<comment> \<open>goroutine of \<open>launchPairingCandidate\<close>: SKI, service, candidate\<close>
  | HGoRetry ptr                                  \<comment> \<open>goroutine of \<open>launchTrustedRemoteRetry\<close>\<close>
  | HGoSendWSClose                                \<comment> \<open>\<open>go h.sendWSCloseMessage(conn)\<close>\<close>
  | HGoClose ptr                                  \<comment> \<open>\<open>go existingC.CloseConnection(false, 0, "")\<close>\<close>
  | HGoInitiate bytes int duration MdnsEntry      \<comment> \<open>goroutine of \<open>coordinateConnectionInitations\<close>\<close>
  | HVisibleServices "(bytes \<times> bytes \<times> bytes) list"   \<comment> \<open>SKI, name and identifier, sorted\<close>
  | HVisibleCandidates "(bytes \<times> bytes) list"           \<comment> \<open>SKI and reference, sorted\<close>
  | HGoPublish bytes ptr OutgoingAttemptMetadata bool

record hub =
  connections :: "(bytes \<times> ptr) list"
  hasShutdown :: bool
  connectionAttemptCounter :: "(bytes \<times> int) list"
  connectionAttemptRunning :: "(bytes \<times> bool) list"
  connectionsInitiating :: "(bytes \<times> bool) list"
  inboundPairingReservations :: "(bytes \<times> ptr) list"
  supersededConnections :: "ptr list"
  localSKI :: bytes
  readerHandlesAttempts :: bool      \<comment> \<open>\<open>hubReader.(OutgoingAttemptHubReaderInterface)\<close> succeeds\<close>
  outgoingAttemptGate :: "ptr option"
  outgoingGateEpoch :: uint64
  outboundEpoch :: uint64
  internalAttemptEpoch :: uint64
  outboundAuthorities :: "(bytes \<times> ptr) list"
  outboundAttempts :: "(bytes \<times> ptr list) list"
  outboundShutdown :: bool
  autoaccept :: bool
  visiblePairingCandidates :: "(bytes \<times> pairingCandidateObservation) list"
  consumedPairingCandidates :: "bytes list"
  activePairingCandidates :: "(bytes \<times> ptr) list"
  visibleTrustedRemoteObservations :: "(bytes \<times> trustedRemoteObservation) list"
  activeTrustedRemoteRetries :: "(bytes \<times> ptr) list"
  transientPINProviders :: "(bytes \<times> ptr \<times> ptr) list"   \<comment> \<open>authority, provider\<close>
  latestPairingObservationRevision :: uint64
  mdnsAppliedAdmission :: uint64
  remoteServices :: "(bytes \<times> ptr) list"
  hasStarted :: bool
  pairingNotificationQueue :: "(bytes \<times> ConnectionStateDetail) list"
  pairingNotificationDraining :: bool
  mdnsSnapshotQueue :: "mdnsSnapshot list"
  mdnsSnapshotDraining :: bool
  mdnsSnapshotRevision :: uint64
  mdnsSnapshotAdmission :: uint64
  connSKI :: "ptr \<Rightarrow> bytes"          \<comment> \<open>\<open>RemoteSKI()\<close> of a connection\<close>
  services :: "ptr \<Rightarrow> ServiceDetails"
  details :: "ptr \<Rightarrow> ConnectionStateDetail"
  authorityEpoch :: "ptr \<Rightarrow> uint64"
  registrations :: "ptr \<Rightarrow> outboundAttemptRegistration"
  reservations :: "ptr \<Rightarrow> inboundPairingReservation"
  candidates :: "ptr \<Rightarrow> activePairingCandidate"
  retries :: "ptr \<Rightarrow> activeTrustedRemoteRetry"
  pinDiscards :: "ptr \<Rightarrow> bool"       \<comment> \<open>the provider is a \<open>TransientPINDiscarder\<close>\<close>
  nextPtr :: ptr
  hubTrace :: "hubEvent list"

definition NewHub :: "bytes \<Rightarrow> bool \<Rightarrow> (ptr \<Rightarrow> bool) \<Rightarrow> hub" where
  "NewHub ski attempts discards =
    \<lparr>connections = [], hasShutdown = False, connectionAttemptCounter = [],
     connectionAttemptRunning = [], connectionsInitiating = [], inboundPairingReservations = [],
     supersededConnections = [], localSKI = ski, readerHandlesAttempts = attempts,
     outgoingAttemptGate = None, outgoingGateEpoch = 0, outboundEpoch = 0,
     internalAttemptEpoch = 0, outboundAuthorities = [], outboundAttempts = [],
     outboundShutdown = False, autoaccept = False, visiblePairingCandidates = [],
     consumedPairingCandidates = [], activePairingCandidates = [],
     visibleTrustedRemoteObservations = [], activeTrustedRemoteRetries = [],
     transientPINProviders = [], latestPairingObservationRevision = 0, mdnsAppliedAdmission = 0,
     remoteServices = [], hasStarted = False, pairingNotificationQueue = [],
     pairingNotificationDraining = False, mdnsSnapshotQueue = [], mdnsSnapshotDraining = False,
     mdnsSnapshotRevision = 0, mdnsSnapshotAdmission = 0, connSKI = (\<lambda>_. []),
     services = (\<lambda>_. \<lparr>svcSKI = [], svcIPv4 = [], svcShipID = [], svcDeviceType = [],
                     svcAutoAccept = False, svcTrusted = False, svcDetail = 0\<rparr>),
     details = (\<lambda>_. NewConnectionStateDetail ConnectionStateNone None),
     authorityEpoch = (\<lambda>_. 0),
     registrations = (\<lambda>_. \<lparr>regAuthority = 0, regMetadata = zeroMetadata, regCanceled = False,
                          regConnection = None, callbackBlocked = False, callbackActive = 0,
                          callbackDrained = False\<rparr>),
     reservations = (\<lambda>_. \<lparr>resReplaced = None, resWinner = None, resCandidate = None, resAuthority = None\<rparr>),
     candidates = (\<lambda>_. \<lparr>candService = 0, candAuthority = 0, candReservation = [], candRef = [],
                       candRevision = 0, candHost = [], candPort = [], candPath = [],
                       candConnectIssued = False\<rparr>),
     retries = (\<lambda>_. \<lparr>retService = 0, retAuthority = 0,
                    retObservation = \<lparr>obsRevision = 0, obsAdmission = 0, obsHost = [], obsPort = 0, obsPath = []\<rparr>\<rparr>),
     pinDiscards = discards, nextPtr = 1, hubTrace = []\<rparr>"

definition hemit :: "hubEvent \<Rightarrow> hub \<Rightarrow> hub" where
  "hemit e h = h\<lparr>hubTrace := hubTrace h @ [e]\<rparr>"

text \<open>A read of a \<open>map[string]bool\<close>: false for a missing key.\<close>

definition flagSet :: "(bytes \<times> bool) list \<Rightarrow> bytes \<Rightarrow> bool" where
  "flagSet m k = (map_of m k = Some True)"

section \<open>Connections by SKI\<close>

definition removeExactConnection :: "ptr \<Rightarrow> hub \<Rightarrow> bool \<times> hub" where
  "removeExactConnection c h =
    (if map_of (connections h) (connSKI h c) \<noteq> Some c then (False, h)
     else (True, h\<lparr>connections := AList.delete (connSKI h c) (connections h)\<rparr>))"

definition isSkiConnected :: "bytes \<Rightarrow> hub \<Rightarrow> bool" where
  "isSkiConnected ski h = (map_of (connections h) ski \<noteq> None)"

definition connectionForSKI :: "bytes \<Rightarrow> hub \<Rightarrow> ptr option" where
  "connectionForSKI ski h = map_of (connections h) ski"

definition connectionStateForSKI :: "bytes \<Rightarrow> hub \<Rightarrow> ptr option \<times> bool" where
  "connectionStateForSKI ski h = (map_of (connections h) ski, flagSet (connectionsInitiating h) ski)"

section \<open>The callback gate of a registration\<close>

definition updReg :: "ptr \<Rightarrow> (outboundAttemptRegistration \<Rightarrow> outboundAttemptRegistration) \<Rightarrow> hub \<Rightarrow> hub" where
  "updReg r f h = h\<lparr>registrations := (registrations h)(r := f (registrations h r))\<rparr>"

definition beginCallback :: "ptr option \<Rightarrow> hub \<Rightarrow> bool \<times> hub" where
  "beginCallback registration h =
    (case registration of
       None \<Rightarrow> (False, h)
     | Some r \<Rightarrow>
         if callbackBlocked (registrations h r) then (False, h)
         else (True, updReg r (\<lambda>g. g\<lparr>callbackActive := callbackActive g + 1\<rparr>) h))"

definition endCallback :: "ptr \<Rightarrow> hub \<Rightarrow> hub" where
  "endCallback r h =
    updReg r (\<lambda>g. let n = callbackActive g - 1 in
      g\<lparr>callbackActive := n, callbackDrained := (callbackDrained g \<and> n \<noteq> 0)\<rparr>) h"

text \<open>The locked part of \<open>blockCallbacksAndWait\<close>; the result says whether the caller has to wait
  for \<open>callbackDrained\<close> to be closed.\<close>

definition blockCallbacks :: "ptr option \<Rightarrow> hub \<Rightarrow> bool \<times> hub" where
  "blockCallbacks registration h =
    (case registration of
       None \<Rightarrow> (False, h)
     | Some r \<Rightarrow>
         if callbackActive (registrations h r) = 0
         then (False, updReg r (\<lambda>g. g\<lparr>callbackBlocked := True\<rparr>) h)
         else (True, updReg r (\<lambda>g. g\<lparr>callbackBlocked := True, callbackDrained := True\<rparr>) h))"

section \<open>Authorities\<close>

definition rotateOutboundAuthorityLocked :: "bytes \<Rightarrow> hub \<Rightarrow> ptr \<times> hub" where
  "rotateOutboundAuthorityLocked ski h =
    (let e = nextEpoch (outboundEpoch h); p = nextPtr h in
     (p, h\<lparr>outboundEpoch := e, authorityEpoch := (authorityEpoch h)(p := e), nextPtr := Suc p,
           outboundAuthorities := AList.update ski p (outboundAuthorities h)\<rparr>))"

definition currentOutboundAuthorityLocked :: "bytes \<Rightarrow> hub \<Rightarrow> ptr \<times> hub" where
  "currentOutboundAuthorityLocked ski h =
    (case map_of (outboundAuthorities h) ski of
       Some a \<Rightarrow> (a, h)
     | None \<Rightarrow> rotateOutboundAuthorityLocked ski h)"

section \<open>Registrations\<close>

definition cancelRegistration :: "ptr \<Rightarrow> hub \<Rightarrow> hub" where
  "cancelRegistration r h = hemit (HCancel r) (updReg r (\<lambda>g. g\<lparr>regCanceled := True\<rparr>) h)"

definition cancelOutboundAttemptRegistrations :: "ptr list \<Rightarrow> hub \<Rightarrow> hub" where
  "cancelOutboundAttemptRegistrations rs h = fold cancelRegistration rs h"

definition removeOutboundAttemptConnections :: "ptr list \<Rightarrow> hub \<Rightarrow> hub" where
  "removeOutboundAttemptConnections rs h =
    fold (\<lambda>r h. case regConnection (registrations h r) of
                  None \<Rightarrow> h | Some c \<Rightarrow> snd (removeExactConnection c h)) rs h"

definition removeOutboundAttemptRegistrationsLocked :: "bytes \<Rightarrow> hub \<Rightarrow> ptr list \<times> hub" where
  "removeOutboundAttemptRegistrationsLocked ski h =
    (case map_of (outboundAttempts h) ski of
       None \<Rightarrow> ([], h)
     | Some [] \<Rightarrow> ([], h)
     | Some rs \<Rightarrow> (rs, h\<lparr>outboundAttempts := AList.delete ski (outboundAttempts h)\<rparr>))"

definition removeAllOutboundAttemptRegistrationsLocked :: "hub \<Rightarrow> ptr list \<times> hub" where
  "removeAllOutboundAttemptRegistrationsLocked h =
    fold (\<lambda>ski (rs, h). let (rs', h') = removeOutboundAttemptRegistrationsLocked ski h in (rs @ rs', h'))
      (map fst (outboundAttempts h)) ([], h)"

text \<open>The insertion of a new registration, shared by the two launch operations: a fresh context
  (derived from \<open>permitCanceled\<close>, the state of its parent) and no connection yet.\<close>

definition installRegistration ::
  "bytes \<Rightarrow> ptr \<Rightarrow> OutgoingAttemptMetadata \<Rightarrow> bool \<Rightarrow> hub \<Rightarrow> ptr \<times> hub" where
  "installRegistration ski a metadata permitCanceled h =
    (let r = nextPtr h;
         rs = (case map_of (outboundAttempts h) ski of None \<Rightarrow> [] | Some rs \<Rightarrow> rs) in
     (r, h\<lparr>nextPtr := Suc r,
           registrations := (registrations h)(r :=
             \<lparr>regAuthority = a, regMetadata = metadata, regCanceled = permitCanceled, regConnection = None,
              callbackBlocked = False, callbackActive = 0, callbackDrained = False\<rparr>),
           outboundAttempts := AList.update ski (List.insert r rs) (outboundAttempts h)\<rparr>))"

definition registerOutboundAttemptForLaunch ::
  "bytes \<Rightarrow> uint64 \<Rightarrow> ptr option \<Rightarrow> OutgoingAttemptMetadata \<Rightarrow> bool \<Rightarrow> hub \<Rightarrow> ptr option \<times> hub" where
  "registerOutboundAttemptForLaunch ski generation authority metadata permitCanceled h =
    (case authority of
       None \<Rightarrow> (None, h)
     | Some a \<Rightarrow>
         if outboundShutdown h \<or> outgoingAttemptGate h = None \<or> outgoingGateEpoch h \<noteq> generation
            \<or> map_of (outboundAuthorities h) ski \<noteq> Some a then (None, h)
         else (let (r, h') = installRegistration ski a metadata permitCanceled h in (Some r, h')))"

definition internalOutgoingAttemptScope :: bytes where
  "internalOutgoingAttemptScope = ''ship.internal.reconnect''"

definition registerInternalOutboundAttemptForLaunch ::
  "bytes \<Rightarrow> ptr option \<Rightarrow> hub \<Rightarrow> (ptr \<times> OutgoingAttemptMetadata) option \<times> hub" where
  "registerInternalOutboundAttemptForLaunch ski authority h =
    (case authority of
       None \<Rightarrow> (None, h)
     | Some a \<Rightarrow>
         if outboundShutdown h \<or> outgoingAttemptGate h \<noteq> None
            \<or> map_of (outboundAuthorities h) ski \<noteq> Some a then (None, h)
         else
           (let e = nextEpoch (internalAttemptEpoch h);
                metadata = \<lparr>AttemptID = ''ship-internal-'' @ itoa (uint e),
                            Scope = internalOutgoingAttemptScope, ControlEpoch = authorityEpoch h a\<rparr>;
                (r, h') = installRegistration ski a metadata False (h\<lparr>internalAttemptEpoch := e\<rparr>)
            in (Some (r, metadata), h')))"

definition internalOutboundAttemptActiveLocked :: "bytes \<Rightarrow> OutgoingAttemptMetadata \<Rightarrow> hub \<Rightarrow> bool" where
  "internalOutboundAttemptActiveLocked ski metadata h =
    (case (map_of (remoteServices h) ski, map_of (outboundAuthorities h) ski) of
       (Some s, Some a) \<Rightarrow>
         svcTrusted (services h s) \<and> Scope metadata = internalOutgoingAttemptScope
         \<and> ControlEpoch metadata = authorityEpoch h a
         \<and> (case map_of (outboundAttempts h) ski of
              None \<Rightarrow> False
            | Some rs \<Rightarrow> \<exists>r \<in> set rs. regMetadata (registrations h r) = metadata \<and> \<not> regCanceled (registrations h r))
     | _ \<Rightarrow> False)"

definition releaseOutboundAttemptRegistration :: "bytes \<Rightarrow> ptr option \<Rightarrow> hub \<Rightarrow> hub" where
  "releaseOutboundAttemptRegistration ski registration h =
    (case registration of
       None \<Rightarrow> h
     | Some r \<Rightarrow>
         cancelRegistration r
           (case map_of (outboundAttempts h) ski of
              None \<Rightarrow> h
            | Some rs \<Rightarrow>
                if r \<notin> set rs then h
                else (let rs' = removeAll r rs in
                  h\<lparr>outboundAttempts := (if rs' = [] then AList.delete ski (outboundAttempts h)
                                        else AList.update ski rs' (outboundAttempts h))\<rparr>)))"

definition bindOutboundAttemptConnection :: "bytes \<Rightarrow> ptr option \<Rightarrow> ptr option \<Rightarrow> hub \<Rightarrow> bool \<times> hub" where
  "bindOutboundAttemptConnection ski registration connection h =
    (case (registration, connection) of
       (Some r, Some c) \<Rightarrow>
         if (case map_of (outboundAttempts h) ski of None \<Rightarrow> False | Some rs \<Rightarrow> r \<in> set rs)
            \<and> \<not> regCanceled (registrations h r)
         then (True, updReg r (\<lambda>g. g\<lparr>regConnection := Some c\<rparr>) h)
         else (False, h)
     | _ \<Rightarrow> (False, h))"

definition releaseOutboundAttemptForConnectionLocked ::
  "bytes \<Rightarrow> ptr \<Rightarrow> OutgoingAttemptMetadata \<Rightarrow> hub \<Rightarrow> ptr list \<times> ptr option \<times> hub" where
  "releaseOutboundAttemptForConnectionLocked ski connection metadata h =
    (let rs = (case map_of (outboundAttempts h) ski of None \<Rightarrow> [] | Some rs \<Rightarrow> rs);
         mine = (\<lambda>r. regConnection (registrations h r) = Some connection \<and> regMetadata (registrations h r) = metadata);
         removed = filter mine rs;
         left = filter (\<lambda>r. \<not> mine r) rs in
     (removed,
      (if removed = [] then None else Some (regAuthority (registrations h (last removed)))),
      h\<lparr>outboundAttempts := (if left = [] then AList.delete ski (outboundAttempts h)
                            else AList.update ski left (outboundAttempts h))\<rparr>))"

section \<open>PIN providers (src/hub/hub_pairing.go)\<close>

definition takeTransientPINProviderLocked :: "bytes \<Rightarrow> hub \<Rightarrow> ptr option \<times> hub" where
  "takeTransientPINProviderLocked ski h =
    (case map_of (transientPINProviders h) ski of
       None \<Rightarrow> (None, h)
     | Some (a, p) \<Rightarrow> (Some p, h\<lparr>transientPINProviders := AList.delete ski (transientPINProviders h)\<rparr>))"

definition takeTransientPINProviderForAuthorityLocked :: "bytes \<Rightarrow> ptr option \<Rightarrow> hub \<Rightarrow> ptr option \<times> hub" where
  "takeTransientPINProviderForAuthorityLocked ski authority h =
    (case map_of (transientPINProviders h) ski of
       None \<Rightarrow> (None, h)
     | Some (a, p) \<Rightarrow>
         if authority \<noteq> Some a then (None, h)
         else (Some p, h\<lparr>transientPINProviders := AList.delete ski (transientPINProviders h)\<rparr>))"

definition takeAllTransientPINProvidersLocked :: "hub \<Rightarrow> (bytes \<times> ptr) list \<times> hub" where
  "takeAllTransientPINProvidersLocked h =
    (map (\<lambda>(ski, a, p). (ski, p)) (transientPINProviders h), h\<lparr>transientPINProviders := []\<rparr>)"

definition discardTransientPINProvider :: "bytes \<Rightarrow> ptr option \<Rightarrow> hub \<Rightarrow> hub" where
  "discardTransientPINProvider ski provider h =
    (case provider of
       None \<Rightarrow> h
     | Some p \<Rightarrow> if pinDiscards h p then hemit (HDiscardPIN p ski) h else h)"

definition discardTransientPINProviders :: "(bytes \<times> ptr) list \<Rightarrow> hub \<Rightarrow> hub" where
  "discardTransientPINProviders ps h = fold (\<lambda>(ski, p). discardTransientPINProvider ski (Some p)) ps h"

definition WithTransientPIN :: "bytes \<Rightarrow> hub \<Rightarrow> bool \<times> hub" where
  "WithTransientPIN remoteSKI h =
    (let ski = NormalizeSKI remoteSKI in
     case takeTransientPINProviderLocked ski h of
       (None, h') \<Rightarrow> (False, h')
     | (Some p, h') \<Rightarrow> (True, hemit (HUsePIN p ski) h'))"

definition DiscardTransientPIN :: "bytes \<Rightarrow> hub \<Rightarrow> hub" where
  "DiscardTransientPIN remoteSKI h =
    (let ski = NormalizeSKI remoteSKI; (p, h') = takeTransientPINProviderLocked ski h in
     discardTransientPINProvider ski p h')"

definition withTransientPINForAuthority :: "bytes \<Rightarrow> ptr option \<Rightarrow> hub \<Rightarrow> bool \<times> hub" where
  "withTransientPINForAuthority remoteSKI authority h =
    (let ski = NormalizeSKI remoteSKI in
     case takeTransientPINProviderForAuthorityLocked ski authority h of
       (None, h') \<Rightarrow> (False, h')
     | (Some p, h') \<Rightarrow> (True, hemit (HUsePIN p ski) h'))"

definition discardTransientPINForAuthority :: "bytes \<Rightarrow> ptr option \<Rightarrow> hub \<Rightarrow> hub" where
  "discardTransientPINForAuthority remoteSKI authority h =
    (let ski = NormalizeSKI remoteSKI; (p, h') = takeTransientPINProviderForAuthorityLocked ski authority h in
     discardTransientPINProvider ski p h')"

section \<open>Services\<close>

definition updService :: "ptr \<Rightarrow> (ServiceDetails \<Rightarrow> ServiceDetails) \<Rightarrow> hub \<Rightarrow> hub" where
  "updService p f h = h\<lparr>services := (services h)(p := f (services h p))\<rparr>"

definition SetTrusted :: "bool \<Rightarrow> ptr \<Rightarrow> hub \<Rightarrow> hub" where
  "SetTrusted b p h = updService p (\<lambda>s. s\<lparr>svcTrusted := b\<rparr>) h"

text \<open>\<open>service.ConnectionStateDetail().SetState(st)\<close>.\<close>

definition SetState :: "ConnectionState \<Rightarrow> ptr \<Rightarrow> hub \<Rightarrow> hub" where
  "SetState st p h =
    (let d = svcDetail (services h p) in h\<lparr>details := (details h)(d := (details h d)\<lparr>cdState := st\<rparr>)\<rparr>)"

definition serviceState :: "ptr \<Rightarrow> hub \<Rightarrow> ConnectionStateDetail" where
  "serviceState p h = details h (svcDetail (services h p))"

definition NewServiceDetails :: "bytes \<Rightarrow> hub \<Rightarrow> ptr \<times> hub" where
  "NewServiceDetails ski h =
    (let d = nextPtr h; p = Suc d in
     (p, h\<lparr>nextPtr := Suc p,
           details := (details h)(d := NewConnectionStateDetail ConnectionStateNone None),
           services := (services h)(p := \<lparr>svcSKI = NormalizeSKI ski, svcIPv4 = [], svcShipID = [],
             svcDeviceType = [], svcAutoAccept = False, svcTrusted = False, svcDetail = d\<rparr>)\<rparr>))"

definition ServiceForSKI :: "bytes \<Rightarrow> hub \<Rightarrow> ptr \<times> hub" where
  "ServiceForSKI ski0 h =
    (let ski = NormalizeSKI ski0 in
     case map_of (remoteServices h) ski of
       Some p \<Rightarrow> (p, h)
     | None \<Rightarrow>
         (let (p, h1) = NewServiceDetails ski h;
              h2 = SetState ConnectionStateNone p h1
          in (p, h2\<lparr>remoteServices := AList.update ski p (remoteServices h2)\<rparr>)))"

lemma service_mapped: "ServiceForSKI ski h = (s, h') \<Longrightarrow> map_of (remoteServices h') (NormalizeSKI ski) = Some s"
  by (auto simp: ServiceForSKI_def NewServiceDetails_def SetState_def Let_def split: option.splits)

definition IsRemoteServiceForSKIPaired :: "bytes \<Rightarrow> hub \<Rightarrow> bool \<times> hub" where
  "IsRemoteServiceForSKIPaired ski h = (let (p, h') = ServiceForSKI ski h in (svcTrusted (services h' p), h'))"

definition numberPairedServices :: "hub \<Rightarrow> nat" where
  "numberPairedServices h = length (filter (\<lambda>(ski, p). svcTrusted (services h p)) (remoteServices h))"

definition checkAutoReannounce :: "hub \<Rightarrow> hub" where
  "checkAutoReannounce h =
    (if length (connections h) < numberPairedServices h
     then hemit HRequestEntries (hemit HAnnounce h) else h)"

section \<open>Pairing notifications (src/hub/hub_shipconnection.go)\<close>

definition enqueuePairingDetails :: "(bytes \<times> ConnectionStateDetail) list \<Rightarrow> hub \<Rightarrow> bool \<times> hub" where
  "enqueuePairingDetails xs h =
    (\<not> pairingNotificationDraining h,
     h\<lparr>pairingNotificationQueue := pairingNotificationQueue h @ xs, pairingNotificationDraining := True\<rparr>)"

definition takePairingNotification :: "hub \<Rightarrow> (bytes \<times> ConnectionStateDetail) option \<times> hub" where
  "takePairingNotification h =
    (case pairingNotificationQueue h of
       [] \<Rightarrow> (None, h\<lparr>pairingNotificationDraining := False\<rparr>)
     | x # xs \<Rightarrow> (Some x, h\<lparr>pairingNotificationQueue := xs\<rparr>))"

interpretation notifications: serial_queue pairingNotificationQueue pairingNotificationDraining
  enqueuePairingDetails takePairingNotification
  by unfold_locales (simp_all add: enqueuePairingDetails_def takePairingNotification_def)

text \<open>The drain loop: each task calls \<open>ServicePairingDetailUpdate\<close>. It ends because a turn shortens
  the queue.\<close>

function drainPairingNotifications :: "hub \<Rightarrow> hub" where
  "drainPairingNotifications h =
    (case takePairingNotification h of
       (None, h') \<Rightarrow> h'
     | (Some (ski, d), h') \<Rightarrow> drainPairingNotifications (hemit (HPairingDetail ski d) h'))"
  by pat_completeness auto

termination
  by (relation "measure (\<lambda>h. length (pairingNotificationQueue h))")
    (auto simp: takePairingNotification_def hemit_def split: list.splits)

declare drainPairingNotifications.simps [simp del]

definition snapshotPairingDetail :: "ConnectionStateDetail \<Rightarrow> ConnectionStateDetail" where
  "snapshotPairingDetail d = (NewConnectionStateDetail (cdState d) (cdError d))\<lparr>cdPIN := pinClone (cdPIN d)\<rparr>"

text \<open>\<open>publishPairingDetail(ski, service.ConnectionStateDetail())\<close>.\<close>

definition publishPairingDetail :: "bytes \<Rightarrow> ptr \<Rightarrow> hub \<Rightarrow> hub" where
  "publishPairingDetail ski d h =
    (let (shouldDrain, h') = enqueuePairingDetails [(ski, snapshotPairingDetail (details h d))] h in
     if shouldDrain then drainPairingNotifications h' else h')"

end
