(* ===== verification/Hub_Connections.thy ===== *)
theory Hub_Connections
  imports Hub_State
begin

text \<open>
  The hub's connection registry and outgoing attempts: attempt counters, registering inbound and
  outgoing connections with the SKI ordering rule, inbound pairing reservations, exact close
  claims, retirement of pairing candidates, the attempt gate, revocation and shutdown
  (\<open>src/hub/hub.go\<close>, \<open>src/hub/hub_connections.go\<close>, \<open>src/hub/hub_shipconnection.go\<close>).
\<close>

section \<open>Attempt counters\<close>

definition connectionInitiationDelayTimeRanges :: "(int \<times> int) list" where
  "connectionInitiationDelayTimeRanges = [(0, 3), (3, 10), (10, 20)]"

definition increaseConnectionAttemptCounter :: "bytes \<Rightarrow> hub \<Rightarrow> int \<times> hub" where
  "increaseConnectionAttemptCounter ski h =
    (let n = int (length connectionInitiationDelayTimeRanges) - 1;
         current = (case map_of (connectionAttemptCounter h) ski of
                      None \<Rightarrow> 0
                    | Some c \<Rightarrow> if n \<le> c + 1 then n else c + 1)
     in (current, h\<lparr>connectionAttemptCounter := AList.update ski current (connectionAttemptCounter h)\<rparr>))"

definition removeConnectionAttemptCounter :: "bytes \<Rightarrow> hub \<Rightarrow> hub" where
  "removeConnectionAttemptCounter ski h =
    h\<lparr>connectionAttemptCounter := AList.delete ski (connectionAttemptCounter h)\<rparr>"

definition getCurrentConnectionAttemptCounter :: "bytes \<Rightarrow> hub \<Rightarrow> int option" where
  "getCurrentConnectionAttemptCounter ski h = map_of (connectionAttemptCounter h) ski"

text \<open>\<open>rand.Intn(n)\<close> panics for \<open>n \<le> 0\<close> and returns some number below \<open>n\<close>, here \<open>r mod n\<close> for
  an arbitrary \<open>r\<close>. An index out of range panics too: \<open>None\<close>.\<close>

definition getConnectionInitiationDelayTime :: "nat \<Rightarrow> bytes \<Rightarrow> hub \<Rightarrow> (int \<times> duration) option \<times> hub" where
  "getConnectionInitiationDelayTime r ski h =
    (let (counter, h') = increaseConnectionAttemptCounter ski h in
     (if counter < 0 \<or> int (length connectionInitiationDelayTimeRanges) \<le> counter then None
      else let (lo, hi) = connectionInitiationDelayTimeRanges ! nat counter;
               mn = lo * 1000; mx = hi * 1000 in
        if mx - mn \<le> 0 then None
        else Some (counter, (int r mod (mx - mn) + mn) * millisecond),
      h'))"

definition setConnectionAttemptRunning :: "bytes \<Rightarrow> bool \<Rightarrow> hub \<Rightarrow> hub" where
  "setConnectionAttemptRunning ski active h =
    h\<lparr>connectionAttemptRunning := AList.update ski active (connectionAttemptRunning h)\<rparr>"

definition isConnectionAttemptRunning :: "bytes \<Rightarrow> hub \<Rightarrow> bool" where
  "isConnectionAttemptRunning ski h = flagSet (connectionAttemptRunning h) ski"

section \<open>Superseded connections\<close>

definition maximumSupersededConnectionsPerSKI :: nat where
  "maximumSupersededConnectionsPerSKI = 128"

definition supersededConnectionCountForSKILocked :: "bytes \<Rightarrow> hub \<Rightarrow> nat" where
  "supersededConnectionCountForSKILocked ski h =
    length (filter (\<lambda>c. connSKI h c = ski) (supersededConnections h))"

definition supersede :: "ptr \<Rightarrow> hub \<Rightarrow> hub" where
  "supersede c h = h\<lparr>supersededConnections := List.insert c (supersededConnections h)\<rparr>"

definition blockOutboundAttemptCallbacks :: "ptr option \<Rightarrow> hub \<Rightarrow> hub" where
  "blockOutboundAttemptCallbacks connection h =
    (case connection of
       None \<Rightarrow> h
     | Some c \<Rightarrow>
         (let rs = (case map_of (outboundAttempts h) (connSKI h c) of None \<Rightarrow> [] | Some rs \<Rightarrow> rs) in
          fold (\<lambda>r h. snd (blockCallbacks (Some r) h))
            (filter (\<lambda>r. regConnection (registrations h r) = Some c) rs) h))"

section \<open>Registering connections\<close>

text \<open>Go's \<open>ws.NewWebsocketConnection\<close> and \<open>ship.NewConnectionHandler\<close> give the hub a new
  connection object for an SKI.\<close>

definition newConnection :: "bytes \<Rightarrow> hub \<Rightarrow> ptr \<times> hub" where
  "newConnection ski h =
    (nextPtr h, h\<lparr>nextPtr := Suc (nextPtr h), connSKI := (connSKI h)(nextPtr h := ski)\<rparr>)"

definition setConnection :: "ptr \<Rightarrow> hub \<Rightarrow> hub" where
  "setConnection c h = h\<lparr>connections := AList.update (connSKI h c) c (connections h)\<rparr>"

definition registerConnection :: "ptr \<Rightarrow> hub \<Rightarrow> bool \<times> hub" where
  "registerConnection c h =
    (if hasShutdown h then (False, hemit (HCloseConnection c False 0 ''hub shutdown'') h)
     else (True, setConnection c h))"

definition replacedReason :: bytes where
  "replacedReason = ''replaced by SHIP SKI ordering''"

text \<open>The locked part of \<open>registerInboundConnection\<close>: whether the connection was registered, and
  the one it replaces.\<close>

definition admitInbound :: "ptr \<Rightarrow> hub \<Rightarrow> (bool \<times> ptr option) \<times> hub" where
  "admitInbound c h =
    (let ski = connSKI h c; existing = map_of (connections h) ski in
     if hasShutdown h then ((False, None), h)
     else if (existing \<noteq> None \<or> flagSet (connectionsInitiating h) ski) \<and> ski \<le> localSKI h
       then ((False, None), h)
     else if existing \<noteq> None \<and> maximumSupersededConnectionsPerSKI \<le> supersededConnectionCountForSKILocked ski h
       then ((False, None), h)
     else ((True, existing),
           (case existing of None \<Rightarrow> setConnection c h | Some e \<Rightarrow> supersede e (setConnection c h))))"

definition registerInboundConnection :: "ptr \<Rightarrow> hub \<Rightarrow> bool \<times> hub" where
  "registerInboundConnection c h =
    (let ((ok, existing), h1) = admitInbound c h in
     (ok, case existing of
            None \<Rightarrow> h1
          | Some e \<Rightarrow> hemit (HCloseConnection e False 0 replacedReason) (blockOutboundAttemptCallbacks existing h1)))"

definition reserveInboundPairingConnection :: "bytes \<Rightarrow> hub \<Rightarrow> ptr option \<times> hub" where
  "reserveInboundPairingConnection ski h =
    (let existing = map_of (connections h) ski in
     if hasShutdown h \<or> map_of (inboundPairingReservations h) ski \<noteq> None then (None, h)
     else if flagSet (connectionsInitiating h) ski \<and> ski \<le> localSKI h then (None, h)
     else if existing \<noteq> None \<and> ski \<le> localSKI h then (None, h)
     else
       (let active = map_of (activePairingCandidates h) ski; p = nextPtr h in
        (Some p, h\<lparr>nextPtr := Suc p,
           reservations := (reservations h)(p :=
             \<lparr>resReplaced = existing, resWinner = None, resCandidate = active,
              resAuthority = map_option (\<lambda>q. candAuthority (candidates h q)) active\<rparr>),
           inboundPairingReservations := AList.update ski p (inboundPairingReservations h)\<rparr>)))"

text \<open>The locked part of \<open>registerReservedInboundPairingConnection\<close>.\<close>

definition admitReserved :: "ptr \<Rightarrow> ptr \<Rightarrow> hub \<Rightarrow> (bool \<times> ptr option) \<times> hub" where
  "admitReserved c p h =
    (let r = reservations h p; ski = connSKI h c; existing = map_of (connections h) ski;
         candidateCurrent =
           (case resCandidate r of
              None \<Rightarrow> True
            | Some q \<Rightarrow> map_of (activePairingCandidates h) ski = Some q
                        \<and> resAuthority r = Some (candAuthority (candidates h q)))
     in
     if resCandidate r \<noteq> None \<and> mdnsAppliedAdmission h \<noteq> mdnsSnapshotAdmission h then ((False, None), h)
     else if hasShutdown h \<or> map_of (inboundPairingReservations h) ski \<noteq> Some p \<or> \<not> candidateCurrent
       \<or> resWinner r \<noteq> None \<or> existing \<noteq> resReplaced r
       \<or> (resReplaced r \<noteq> None
           \<and> maximumSupersededConnectionsPerSKI \<le> supersededConnectionCountForSKILocked ski h)
       then ((False, None), h)
     else
       (let h1 = setConnection c (h\<lparr>reservations := (reservations h)(p := r\<lparr>resWinner := Some c\<rparr>)\<rparr>) in
        ((True, existing), (case existing of None \<Rightarrow> h1 | Some e \<Rightarrow> supersede e h1))))"

definition registerReservedInboundPairingConnection ::
  "ptr \<Rightarrow> ptr option \<Rightarrow> hub \<Rightarrow> (ptr option \<times> bool) \<times> hub" where
  "registerReservedInboundPairingConnection c reservation h =
    (case reservation of
       None \<Rightarrow> ((None, False), h)
     | Some p \<Rightarrow>
         (let ((ok, existing), h1) = admitReserved c p h in
          if ok then ((existing, True), blockOutboundAttemptCallbacks existing h1) else ((None, False), h1)))"

definition hasInboundPairingReservation :: "bytes \<Rightarrow> hub \<Rightarrow> bool" where
  "hasInboundPairingReservation ski h = (map_of (inboundPairingReservations h) ski \<noteq> None)"

datatype outgoingConnectionRegistrationResult =
    outgoingConnectionRegistrationRejected | outgoingConnectionRegistrationAccepted
  | outgoingConnectionRegistrationInboundHandoff

text \<open>The locked part of \<open>registerOutgoingConnection\<close>; \<open>attemptCanceled\<close> is
  \<open>attemptContext.Err() != nil\<close>.\<close>

definition admitOutgoing ::
  "ptr \<Rightarrow> bool \<Rightarrow> ptr option \<Rightarrow> hub \<Rightarrow> (outgoingConnectionRegistrationResult \<times> ptr option) \<times> hub" where
  "admitOutgoing c attemptCanceled requiredAuthority h =
    (let ski = connSKI h c in
     if hasShutdown h \<or> attemptCanceled then ((outgoingConnectionRegistrationRejected, None), h)
     else case map_of (inboundPairingReservations h) ski of
       Some p \<Rightarrow>
         if requiredAuthority \<noteq> None \<and> resAuthority (reservations h p) = requiredAuthority
         then ((outgoingConnectionRegistrationInboundHandoff, None), supersede c h)
         else ((outgoingConnectionRegistrationRejected, None), h)
     | None \<Rightarrow>
         (case map_of (connections h) ski of
            None \<Rightarrow> ((outgoingConnectionRegistrationAccepted, None), setConnection c h)
          | Some e \<Rightarrow>
              if localSKI h \<le> ski then ((outgoingConnectionRegistrationInboundHandoff, None), supersede c h)
              else if maximumSupersededConnectionsPerSKI \<le> supersededConnectionCountForSKILocked ski h
              then ((outgoingConnectionRegistrationRejected, None), h)
              else ((outgoingConnectionRegistrationAccepted, Some e), setConnection c (supersede e h))))"

definition registerOutgoingConnection ::
  "ptr \<Rightarrow> bool \<Rightarrow> ptr option \<Rightarrow> hub \<Rightarrow> outgoingConnectionRegistrationResult \<times> hub" where
  "registerOutgoingConnection c attemptCanceled requiredAuthority h =
    (let ((res, existing), h1) = admitOutgoing c attemptCanceled requiredAuthority h in
     (res, case existing of
             None \<Rightarrow> h1
           | Some e \<Rightarrow> hemit (HCloseConnection e False 0 replacedReason) (blockOutboundAttemptCallbacks existing h1)))"

text \<open>\<open>keepThisConnection\<close>; \<open>hasConn\<close> is \<open>conn != nil\<close>.\<close>

definition keepThisConnection :: "bool \<Rightarrow> bool \<Rightarrow> bytes \<Rightarrow> hub \<Rightarrow> bool \<times> hub" where
  "keepThisConnection hasConn incomingRequest remoteSKI h =
    (let (existing, initiating) = connectionStateForSKI remoteSKI h in
     if existing = None \<and> (\<not> incomingRequest \<or> \<not> initiating) then (True, h)
     else
       (let keep = (if incomingRequest then localSKI h < remoteSKI else remoteSKI < localSKI h) in
        (keep, if keep then (case existing of None \<Rightarrow> h | Some e \<Rightarrow> hemit (HGoClose e) h)
               else if hasConn then hemit HGoSendWSClose h else h)))"

section \<open>Claiming a closed connection\<close>

text \<open>The result: removed, superseded, and the reservation the connection had won.\<close>

definition claimClosedConnectionState :: "ptr \<Rightarrow> hub \<Rightarrow> (bool \<times> bool \<times> ptr option) \<times> hub" where
  "claimClosedConnectionState c h =
    (let ski = connSKI h c in
     if c \<in> set (supersededConnections h)
       then ((False, True, None), h\<lparr>supersededConnections := removeAll c (supersededConnections h)\<rparr>)
     else if map_of (connections h) ski \<noteq> Some c then ((False, False, None), h)
     else
       (let won = (case map_of (inboundPairingReservations h) ski of
                     None \<Rightarrow> None
                   | Some p \<Rightarrow> if resWinner (reservations h p) = Some c then Some p else None)
        in ((True, False, won),
            h\<lparr>connections := AList.delete ski (connections h),
              inboundPairingReservations :=
                (if won = None then inboundPairingReservations h
                 else AList.delete ski (inboundPairingReservations h))\<rparr>)))"

definition claimClosedConnection :: "ptr \<Rightarrow> hub \<Rightarrow> (bool \<times> bool) \<times> hub" where
  "claimClosedConnection c h =
    (let ((removed, superseded, _), h') = claimClosedConnectionState c h in ((removed, superseded), h'))"

section \<open>Retiring pairing candidates\<close>

definition retireActivePairingCandidateLocked ::
  "bytes \<Rightarrow> ptr option \<Rightarrow> ptr option \<Rightarrow> hub \<Rightarrow> pairingCandidateRetirement option \<times> hub" where
  "retireActivePairingCandidateLocked ski expectedCandidate expectedAuthority h =
    (case map_of (activePairingCandidates h) ski of
       None \<Rightarrow> (None, h)
     | Some q \<Rightarrow>
         (let a = candidates h q in
          if (expectedCandidate \<noteq> None \<and> expectedCandidate \<noteq> Some q)
             \<or> (expectedAuthority \<noteq> None \<and> expectedAuthority \<noteq> Some (candAuthority a))
             \<or> svcTrusted (services h (candService a)) then (None, h)
          else
            (let (ra, h1) = rotateOutboundAuthorityLocked ski h;
                 h2 = SetState ConnectionStateNone (candService a) h1;
                 h3 = h2\<lparr>activePairingCandidates := AList.delete ski (activePairingCandidates h2)\<rparr>;
                 (pin, h4) = takeTransientPINProviderForAuthorityLocked ski (Some (candAuthority a)) h3
             in (Some \<lparr>rtmSki = ski, rtmService = candService a, rtmAuthority = ra, rtmProvider = pin\<rparr>, h4))))"

definition finishPairingCandidateRetirement :: "pairingCandidateRetirement \<Rightarrow> hub \<Rightarrow> hub" where
  "finishPairingCandidateRetirement t h =
    (let removeRetryState = (map_of (outboundAuthorities h) (rtmSki t) = Some (rtmAuthority t)
           \<and> \<not> svcTrusted (services h (rtmService t)));
         h1 = (if removeRetryState then removeConnectionAttemptCounter (rtmSki t) h else h);
         h2 = discardTransientPINProvider (rtmSki t) (rtmProvider t) h1
     in publishPairingDetail (rtmSki t) (svcDetail (services h2 (rtmService t))) h2)"

definition finishPairingCandidateRetirements :: "pairingCandidateRetirement list \<Rightarrow> hub \<Rightarrow> hub" where
  "finishPairingCandidateRetirements ts h = fold finishPairingCandidateRetirement ts h"

definition retirePairingCandidate :: "bytes \<Rightarrow> ptr option \<Rightarrow> ptr option \<Rightarrow> hub \<Rightarrow> hub" where
  "retirePairingCandidate ski expectedCandidate expectedAuthority h =
    (case retireActivePairingCandidateLocked ski expectedCandidate expectedAuthority h of
       (None, h1) \<Rightarrow> h1
     | (Some t, h1) \<Rightarrow>
         (let (rs, h2) = removeOutboundAttemptRegistrationsLocked ski h1;
              h3 = removeOutboundAttemptConnections rs h2;
              h4 = cancelOutboundAttemptRegistrations rs h3
          in finishPairingCandidateRetirements [t] h4))"

definition abandonInboundPairingReservation :: "bytes \<Rightarrow> ptr \<Rightarrow> hub \<Rightarrow> hub" where
  "abandonInboundPairingReservation ski p h =
    (let r = reservations h p in
     if map_of (inboundPairingReservations h) ski = Some p \<and> resWinner r = None then
       (let h1 = h\<lparr>inboundPairingReservations := AList.delete ski (inboundPairingReservations h)\<rparr>;
            replacedStillCurrent = (resReplaced r \<noteq> None \<and> map_of (connections h) ski = resReplaced r)
        in if \<not> replacedStillCurrent \<and> resCandidate r \<noteq> None \<and> resAuthority r \<noteq> None
           then retirePairingCandidate ski (resCandidate r) (resAuthority r) h1 else h1)
     else h)"

section \<open>Closed connections\<close>

definition HandleConnectionClosed :: "ptr \<Rightarrow> bool \<Rightarrow> hub \<Rightarrow> hub" where
  "HandleConnectionClosed c handshakeCompleted h =
    (let ski = connSKI h c;
         ((removed, superseded, won), h1) = claimClosedConnectionState c h in
     if superseded \<or> \<not> removed then h1
     else
       (let h2 = DiscardTransientPIN ski h1;
            h3 = (if handshakeCompleted then removeConnectionAttemptCounter ski h2 else h2);
            h4 = hemit (HDisconnected ski) h3;
            (s, h5) = ServiceForSKI ski h4;
            trusted = svcTrusted (services h5 s)
        in case won of
             Some p \<Rightarrow>
               if \<not> trusted then
                 (let r = reservations h5 p in
                  if resCandidate r \<noteq> None \<and> resAuthority r \<noteq> None
                  then retirePairingCandidate ski (resCandidate r) (resAuthority r) h5 else h5)
               else checkAutoReannounce h5
           | None \<Rightarrow> if \<not> handshakeCompleted \<and> \<not> trusted then h5 else checkAutoReannounce h5))"

definition claimClosedOutboundAttempt ::
  "bytes \<Rightarrow> ptr \<Rightarrow> OutgoingAttemptMetadata \<Rightarrow> hub \<Rightarrow> (pairingCandidateRetirement option \<times> bool) \<times> hub" where
  "claimClosedOutboundAttempt ski c metadata h =
    (let ((_, superseded), h1) = claimClosedConnection c h;
         (rs, released, h2) = releaseOutboundAttemptForConnectionLocked ski c metadata h1;
         (pin, retirement, h3) =
           (if \<not> superseded \<and> released \<noteq> None then
              (let (p, h') = takeTransientPINProviderForAuthorityLocked ski released h2;
                   (t, h'') = retireActivePairingCandidateLocked ski None released h'
               in (p, t, h''))
            else (None, None, h2))
     in ((retirement, superseded),
         cancelOutboundAttemptRegistrations rs (discardTransientPINProvider ski pin h3)))"

definition HandleConnectionClosedWithAttempt :: "ptr \<Rightarrow> bool \<Rightarrow> OutgoingAttemptMetadata \<Rightarrow> hub \<Rightarrow> hub" where
  "HandleConnectionClosedWithAttempt c handshakeCompleted metadata h =
    (let ski = connSKI h c;
         ((retirement, superseded), h1) = claimClosedOutboundAttempt ski c metadata h in
     if superseded then h1
     else
       (let h2 = (case retirement of None \<Rightarrow> h1 | Some t \<Rightarrow> finishPairingCandidateRetirements [t] h1);
            reannounce = (\<lambda>h. if handshakeCompleted then checkAutoReannounce h
              else (let (paired, h') = IsRemoteServiceForSKIPaired ski h in
                    if paired then checkAutoReannounce h' else h'))
        in if Scope metadata = internalOutgoingAttemptScope then
             reannounce (hemit (HDisconnected ski)
               (if handshakeCompleted then removeConnectionAttemptCounter ski h2 else h2))
           else if readerHandlesAttempts h2 then
             reannounce (hemit (HAttemptClosed ski handshakeCompleted metadata) h2)
           else HandleConnectionClosed c handshakeCompleted h2))"

section \<open>The attempt gate, revocation and shutdown\<close>

datatype gateArg = NilGate | TypedNilGate | Gate ptr

text \<open>\<open>SetOutgoingAttemptGate\<close> retires every candidate, rotates the authority of every active retry
  and drops every registration.\<close>

definition retireAll :: "hub \<Rightarrow> pairingCandidateRetirement list \<times> hub" where
  "retireAll h =
    fold (\<lambda>ski (ts, h). case retireActivePairingCandidateLocked ski None None h of
             (None, h') \<Rightarrow> (ts, h') | (Some t, h') \<Rightarrow> (ts @ [t], h'))
      (map fst (activePairingCandidates h)) ([], h)"

definition rotateRetries :: "hub \<Rightarrow> bytes list \<times> hub" where
  "rotateRetries h =
    fold (\<lambda>ski (ks, h).
        (let h1 = snd (rotateOutboundAuthorityLocked ski h) in
         (ks @ [ski], h1\<lparr>activeTrustedRemoteRetries := AList.delete ski (activeTrustedRemoteRetries h1)\<rparr>)))
      (map fst (activeTrustedRemoteRetries h)) ([], h)"

definition clearTrustedRemoteRetryRunning :: "bytes list \<Rightarrow> hub \<Rightarrow> hub" where
  "clearTrustedRemoteRetryRunning skis h = fold (\<lambda>ski. setConnectionAttemptRunning ski False) skis h"

definition SetOutgoingAttemptGate :: "gateArg \<Rightarrow> hub \<Rightarrow> hubError option \<times> hub" where
  "SetOutgoingAttemptGate gate h =
    (if gate = TypedNilGate \<or> (gate \<noteq> NilGate \<and> \<not> readerHandlesAttempts h)
     then (Some ErrInvalidOutgoingAttemptGate, h)
     else
       (let h1 = h\<lparr>outgoingAttemptGate := (case gate of Gate g \<Rightarrow> Some g | _ \<Rightarrow> None),
                    outgoingGateEpoch := outgoingGateEpoch h + 1\<rparr>;
            (ts, h2) = retireAll h1;
            (skis, h3) = rotateRetries h2;
            (rs, h4) = removeAllOutboundAttemptRegistrationsLocked h3;
            h5 = removeOutboundAttemptConnections rs h4;
            h6 = cancelOutboundAttemptRegistrations rs h5;
            h7 = finishPairingCandidateRetirements ts h6
        in (None, clearTrustedRemoteRetryRunning skis h7)))"

text \<open>The locked part of \<open>revokeOutboundAttempts\<close>, without the connections of the registrations:
  the registrations and the PIN provider it takes, and whether a retry was active.\<close>

definition revokeLocked :: "bytes \<Rightarrow> ptr \<Rightarrow> hub \<Rightarrow> (ptr list \<times> ptr option \<times> bool) \<times> hub" where
  "revokeLocked ski s h =
    (let h1 = snd (rotateOutboundAuthorityLocked ski h);
         (rs, h2) = removeOutboundAttemptRegistrationsLocked ski h1;
         h3 = h2\<lparr>activePairingCandidates := AList.delete ski (activePairingCandidates h2)\<rparr>;
         (pin, h4) = takeTransientPINProviderLocked ski h3;
         retried = (map_of (activeTrustedRemoteRetries h4) ski \<noteq> None);
         h5 = h4\<lparr>activeTrustedRemoteRetries := AList.delete ski (activeTrustedRemoteRetries h4)\<rparr>
     in ((rs, pin, retried), SetState ConnectionStateNone s (SetTrusted False s h5)))"

definition revokeOutboundAttempts :: "bytes \<Rightarrow> ptr \<Rightarrow> hub \<Rightarrow> hub" where
  "revokeOutboundAttempts ski s h =
    (let ((rs, pin, retried), h1) = revokeLocked ski s h;
         h2 = removeOutboundAttemptConnections rs h1;
         h3 = discardTransientPINProvider ski pin h2;
         h4 = cancelOutboundAttemptRegistrations rs h3
     in if retried then setConnectionAttemptRunning ski False h4 else h4)"

text \<open>\<open>beginShutdown\<close> in its three locked regions.\<close>

definition shutdownConnections :: "hub \<Rightarrow> ptr list option \<times> hub" where
  "shutdownConnections h =
    (if hasShutdown h then (None, h)
     else (Some (map snd (connections h)), h\<lparr>hasShutdown := True, connections := []\<rparr>))"

definition shutdownAttempts :: "hub \<Rightarrow> ptr list \<times> hub" where
  "shutdownAttempts h =
    removeAllOutboundAttemptRegistrationsLocked
      (h\<lparr>outboundShutdown := True, outgoingGateEpoch := outgoingGateEpoch h + 1\<rparr>)"

definition shutdownProviders :: "hub \<Rightarrow> hub" where
  "shutdownProviders h =
    (let (ps, h') = takeAllTransientPINProvidersLocked h in discardTransientPINProviders ps h')"

definition beginShutdown :: "hub \<Rightarrow> (ptr list \<times> ptr list) option \<times> hub" where
  "beginShutdown h =
    (case shutdownConnections h of
       (None, h1) \<Rightarrow> (None, h1)
     | (Some cs, h1) \<Rightarrow> (let (rs, h2) = shutdownAttempts h1 in (Some (cs, rs), shutdownProviders h2)))"

text \<open>\<open>Shutdown\<close> of a hub without listener policy; \<open>serving\<close> is \<open>httpServer != nil\<close>.\<close>

definition Shutdown :: "bool \<Rightarrow> hub \<Rightarrow> hub" where
  "Shutdown serving h =
    (case beginShutdown h of
       (None, h1) \<Rightarrow> h1
     | (Some (cs, rs), h1) \<Rightarrow>
         (let h2 = hemit HMdnsShutdown (cancelOutboundAttemptRegistrations rs h1);
              h3 = fold (\<lambda>c. hemit (HCloseConnection c False 0 [])) cs h2
          in if serving then hemit HHttpShutdown h3 else h3))"

section \<open>Attempt snapshots\<close>

definition outgoingAttemptGateSnapshot ::
  "ptr \<Rightarrow> ptr option \<Rightarrow> hub \<Rightarrow> (ptr option \<times> uint64 \<times> ptr option \<times> bool) \<times> hub" where
  "outgoingAttemptGateSnapshot s requiredAuthority h =
    (if outboundShutdown h then ((None, 0, None, False), h)
     else
       (let gate = outgoingAttemptGate h; generation = outgoingGateEpoch h;
            (a, h1) = currentOutboundAuthorityLocked (svcSKI (services h s)) h in
        if requiredAuthority \<noteq> None \<and> requiredAuthority \<noteq> Some a then ((gate, generation, None, False), h1)
        else ((gate, generation, Some a, True), h1)))"

definition outboundReconnectAuthority :: "ptr option \<Rightarrow> hub \<Rightarrow> ptr option \<times> hub" where
  "outboundReconnectAuthority remoteService h =
    (case remoteService of
       None \<Rightarrow> (None, h)
     | Some s \<Rightarrow>
         (let ski = NormalizeSKI (svcSKI (services h s)) in
          if map_of (remoteServices h) ski \<noteq> Some s
             \<or> (\<not> svcTrusted (services h s) \<and> cdState (serviceState s h) \<noteq> ConnectionStateQueued)
          then (None, h)
          else if outboundShutdown h then (None, h)
          else (let (a, h1) = currentOutboundAuthorityLocked ski h in (Some a, h1))))"

text \<open>Whether the callbacks of an outgoing connection still belong to its registration
  (\<open>src/hub/outgoing_attempt_info_provider.go\<close>).\<close>

definition outboundAttemptRegistrationOwnsCallbacks :: "ptr option \<Rightarrow> hub \<Rightarrow> bool" where
  "outboundAttemptRegistrationOwnsCallbacks registration h =
    (case registration of
       None \<Rightarrow> False
     | Some r \<Rightarrow>
         (case regConnection (registrations h r) of
            None \<Rightarrow> False
          | Some c \<Rightarrow>
              (case map_of (outboundAttempts h) (connSKI h c) of None \<Rightarrow> False | Some rs \<Rightarrow> r \<in> set rs)
              \<and> \<not> regCanceled (registrations h r)
              \<and> c \<notin> set (supersededConnections h)
              \<and> map_of (connections h) (connSKI h c) = Some c))"

end
