(* ===== verification/Hub_Pairing.thy ===== *)
theory Hub_Pairing
  imports Hub_Connections
begin

text \<open>
  Trust, pairing candidates and handshake updates of the hub (\<open>src/hub/hub_pairing.go\<close>,
  \<open>src/hub/hub_shipconnection.go\<close>, the inbound part of \<open>ServeHTTP\<close> in
  \<open>src/hub/hub_connections.go\<close>), and the callbacks of an outgoing connection
  (\<open>src/hub/outgoing_attempt_info_provider.go\<close>).
\<close>

section \<open>Handshake states as connection states\<close>

definition mapShipMessageExchangeState :: "ShipMessageExchangeState \<Rightarrow> ConnectionState" where
  "mapShipMessageExchangeState s =
    (case s of
       CmiStateInitStart \<Rightarrow> ConnectionStateQueued
     | CmiStateClientSend \<Rightarrow> ConnectionStateInitiated
     | CmiStateClientWait \<Rightarrow> ConnectionStateInitiated
     | CmiStateClientEvaluate \<Rightarrow> ConnectionStateInitiated
     | CmiStateServerWait \<Rightarrow> ConnectionStateInitiated
     | CmiStateServerEvaluate \<Rightarrow> ConnectionStateInitiated
     | SmeHelloStateReadyInit \<Rightarrow> ConnectionStateInProgress
     | SmeHelloStateReadyListen \<Rightarrow> ConnectionStateInProgress
     | SmeHelloStateReadyTimeout \<Rightarrow> ConnectionStateInProgress
     | SmeHelloStatePendingInit \<Rightarrow> ConnectionStateInProgress
     | SmeHelloStatePendingTimeout \<Rightarrow> ConnectionStateInProgress
     | SmeHelloStatePendingListen \<Rightarrow> ConnectionStateReceivedPairingRequest
     | SmeHelloStateOk \<Rightarrow> ConnectionStateTrusted
     | SmeHelloStateAbort \<Rightarrow> ConnectionStateNone
     | SmeHelloStateAbortDone \<Rightarrow> ConnectionStateNone
     | SmeHelloStateRemoteAbortDone \<Rightarrow> ConnectionStateRemoteDeniedTrust
     | SmeHelloStateRejected \<Rightarrow> ConnectionStateRemoteDeniedTrust
     | SmePinStateCheckInit \<Rightarrow> ConnectionStatePin
     | SmePinStateCheckListen \<Rightarrow> ConnectionStatePin
     | SmePinStateCheckError \<Rightarrow> ConnectionStatePin
     | SmePinStateCheckBusyInit \<Rightarrow> ConnectionStatePin
     | SmePinStateCheckBusyWait \<Rightarrow> ConnectionStatePin
     | SmePinStateCheckOk \<Rightarrow> ConnectionStatePin
     | SmePinStateAskInit \<Rightarrow> ConnectionStatePin
     | SmePinStateAskProcess \<Rightarrow> ConnectionStatePin
     | SmePinStateAskRestricted \<Rightarrow> ConnectionStatePin
     | SmePinStateAskOk \<Rightarrow> ConnectionStatePin
     | SmeAccessMethodsRequest \<Rightarrow> ConnectionStateInProgress
     | SmeStateApproved \<Rightarrow> ConnectionStateInProgress
     | SmeStateComplete \<Rightarrow> ConnectionStateCompleted
     | SmeStateError \<Rightarrow> ConnectionStateError
     | _ \<Rightarrow> ConnectionStateInProgress)"

text \<open>A reported handshake state, with the error as an identity (\<open>model.ShipState\<close>).\<close>

record shipStateUpdate =
  suState :: ShipMessageExchangeState
  suError :: "errorValue option"
  suPIN :: "PINHandshakeDetail option"

definition pinDetailForShipState :: "shipStateUpdate \<Rightarrow> ConnectionStateDetail \<Rightarrow> PINHandshakeDetail option" where
  "pinDetailForShipState st existing =
    (if suPIN st \<noteq> None then pinClone (suPIN st)
     else if suState st \<noteq> SmeStateComplete \<and> suState st \<noteq> SmeStateError then None
     else pinClone (cdPIN existing))"

definition pairingStateFor :: "shipStateUpdate \<Rightarrow> ConnectionState" where
  "pairingStateFor st =
    (if suError st \<noteq> None \<and> \<not> errorsIs (suError st) (Some ErrConnectionNotFound)
     then ConnectionStateError else mapShipMessageExchangeState (suState st))"

definition detailFor :: "shipStateUpdate \<Rightarrow> ConnectionStateDetail \<Rightarrow> ConnectionStateDetail" where
  "detailFor st existing =
    (NewConnectionStateDetail (pairingStateFor st) (suError st))\<lparr>cdPIN := pinClone (pinDetailForShipState st existing)\<rparr>"

definition detailChanged :: "shipStateUpdate \<Rightarrow> ConnectionStateDetail \<Rightarrow> bool" where
  "detailChanged st existing =
    (cdState existing \<noteq> pairingStateFor st \<or> \<not> errorsIs (cdError existing) (suError st)
     \<or> \<not> pinEqual (cdPIN existing) (cdPIN (detailFor st existing)))"

definition SetConnectionStateDetail :: "ptr \<Rightarrow> ConnectionStateDetail \<Rightarrow> hub \<Rightarrow> ptr \<times> hub" where
  "SetConnectionStateDetail s d h =
    (let p = nextPtr h;
         h1 = h\<lparr>nextPtr := Suc p, details := (details h)(p := d)\<rparr>
     in (p, updService s (\<lambda>x. x\<lparr>svcDetail := p\<rparr>) h1))"

text \<open>Under \<open>muxReg\<close>: the service becomes trusted and its candidate is no longer active.\<close>

definition trustService :: "bytes \<Rightarrow> ptr \<Rightarrow> hub \<Rightarrow> hub" where
  "trustService ski s h =
    (let h' = SetTrusted True s h
     in h'\<lparr>activePairingCandidates := AList.delete ski (activePairingCandidates h')\<rparr>)"

definition HandleShipHandshakeStateUpdate :: "bytes \<Rightarrow> shipStateUpdate \<Rightarrow> hub \<Rightarrow> hub" where
  "HandleShipHandshakeStateUpdate ski st h =
    (let h1 = (if suState st = SmeHelloStateOk then
                 (let (s, h') = ServiceForSKI ski h in trustService ski s h')
               else h);
         (s, h2) = ServiceForSKI ski h1;
         existing = serviceState s h2
     in if detailChanged st existing then
          (let (p, h3) = SetConnectionStateDetail s (detailFor st existing) h2
           in hemit (HGoPublish ski p zeroMetadata False) h3)
        else h2)"

definition handleInternalShipHandshakeStateUpdate ::
  "bytes \<Rightarrow> shipStateUpdate \<Rightarrow> OutgoingAttemptMetadata \<Rightarrow> hub \<Rightarrow> hub" where
  "handleInternalShipHandshakeStateUpdate ski0 st metadata h =
    (let ski = NormalizeSKI ski0 in
     if \<not> internalOutboundAttemptActiveLocked ski metadata h then h
     else case map_of (remoteServices h) ski of
       None \<Rightarrow> h
     | Some s \<Rightarrow>
         (let existing = serviceState s h in
          if detailChanged st existing then
            (let (p, h1) = SetConnectionStateDetail s (detailFor st existing) h
             in hemit (HGoPublish ski p metadata True) h1)
          else h))"

text \<open>\<open>HandleShipHandshakeStateUpdateWithAttempt\<close>; an update of an attempt that the gate permitted
  goes to the reader if it takes such updates.\<close>

definition HandleShipHandshakeStateUpdateWithAttempt ::
  "bytes \<Rightarrow> shipStateUpdate \<Rightarrow> OutgoingAttemptMetadata \<Rightarrow> hub \<Rightarrow> hub" where
  "HandleShipHandshakeStateUpdateWithAttempt ski st metadata h =
    (if Scope metadata = internalOutgoingAttemptScope then handleInternalShipHandshakeStateUpdate ski st metadata h
     else if readerHandlesAttempts h then hemit (HAttemptUpdate ski (suState st) metadata) h
     else HandleShipHandshakeStateUpdate ski st h)"

definition pairingDetailsEqual :: "ConnectionStateDetail \<Rightarrow> ConnectionStateDetail \<Rightarrow> bool" where
  "pairingDetailsEqual l r = (cdState l = cdState r \<and> errorsIs (cdError l) (cdError r) \<and> pinEqual (cdPIN l) (cdPIN r))"

text \<open>The goroutine \<open>publishCurrentPairingDetailAfterDelay\<close>, after its delay.\<close>

definition publishCurrentPairingDetailAfterDelay ::
  "bytes \<Rightarrow> ptr \<Rightarrow> OutgoingAttemptMetadata \<Rightarrow> bool \<Rightarrow> hub \<Rightarrow> hub" where
  "publishCurrentPairingDetailAfterDelay ski d metadata requireInternal h =
    (if requireInternal \<and> \<not> internalOutboundAttemptActiveLocked ski metadata h then h
     else case map_of (remoteServices h) ski of
       None \<Rightarrow> h
     | Some s \<Rightarrow> if pairingDetailsEqual (serviceState s h) (details h d) then publishPairingDetail ski d h else h)"

definition ReportServiceShipID :: "bytes \<Rightarrow> bytes \<Rightarrow> hub \<Rightarrow> hub" where
  "ReportServiceShipID ski shipID h = hemit (HShipIDUpdate ski shipID) (hemit (HConnected ski) h)"

section \<open>Callbacks of an outgoing connection\<close>

text \<open>Every callback of \<open>outgoingAttemptInfoProvider\<close> that reaches the application runs \<open>body\<close>
  between \<open>beginCallback\<close> and \<open>endCallback\<close>, and only when the registration still owns its
  callbacks.\<close>

definition guardedCallback :: "ptr option \<Rightarrow> (hub \<Rightarrow> hub) \<Rightarrow> hub \<Rightarrow> hub" where
  "guardedCallback registration body h =
    (case registration of
       None \<Rightarrow> h
     | Some r \<Rightarrow>
         (case beginCallback registration h of
            (False, h1) \<Rightarrow> h1
          | (True, h1) \<Rightarrow>
              endCallback r (if outboundAttemptRegistrationOwnsCallbacks registration h1 then body h1 else h1)))"

definition provider_ReportServiceShipID :: "ptr option \<Rightarrow> bytes \<Rightarrow> bytes \<Rightarrow> hub \<Rightarrow> hub" where
  "provider_ReportServiceShipID reg ski shipID h = guardedCallback reg (ReportServiceShipID ski shipID) h"

definition provider_HandleShipHandshakeStateUpdateWithAttempt ::
  "ptr option \<Rightarrow> bytes \<Rightarrow> shipStateUpdate \<Rightarrow> OutgoingAttemptMetadata \<Rightarrow> hub \<Rightarrow> hub" where
  "provider_HandleShipHandshakeStateUpdateWithAttempt reg ski st metadata h =
    guardedCallback reg (HandleShipHandshakeStateUpdateWithAttempt ski st metadata) h"

definition provider_WithTransientPIN :: "ptr option \<Rightarrow> bytes \<Rightarrow> hub \<Rightarrow> hub" where
  "provider_WithTransientPIN reg ski h =
    guardedCallback reg
      (\<lambda>h. snd (withTransientPINForAuthority ski (map_option (\<lambda>r. regAuthority (registrations h r)) reg) h)) h"

definition provider_DiscardTransientPIN :: "ptr option \<Rightarrow> bytes \<Rightarrow> hub \<Rightarrow> hub" where
  "provider_DiscardTransientPIN reg ski h =
    (case reg of
       None \<Rightarrow> h
     | Some r \<Rightarrow> discardTransientPINForAuthority ski (Some (regAuthority (registrations h r))) h)"

section \<open>Pairing candidates\<close>

definition reservationValid :: "bytes \<Rightarrow> bool" where
  "reservationValid token = (token \<noteq> replicate 32 (CHR 0x00))"

definition reservationMatches :: "bytes \<Rightarrow> bytes \<Rightarrow> bool" where
  "reservationMatches a b = (reservationValid a \<and> reservationValid b \<and> a = b)"

text \<open>\<open>launchPairingCandidate\<close>: publishes the state and starts the goroutine that dials.\<close>

definition launchPairingCandidate :: "bytes \<Rightarrow> ptr \<Rightarrow> ptr \<Rightarrow> hub \<Rightarrow> hub" where
  "launchPairingCandidate ski s q h =
    hemit (HGoCandidate ski s q) (publishPairingDetail ski (svcDetail (services h s)) h)"

text \<open>The service of a candidate, created when the SKI is new.\<close>

definition candidateService :: "bytes \<Rightarrow> hub \<Rightarrow> ptr \<times> hub" where
  "candidateService ski h =
    (case map_of (remoteServices h) ski of
       Some s \<Rightarrow> (s, h)
     | None \<Rightarrow> (let (s, h') = NewServiceDetails ski h in
                (s, h'\<lparr>remoteServices := AList.update ski s (remoteServices h')\<rparr>)))"

text \<open>The part of \<open>admitPairingCandidate\<close> that commits: the reference is consumed, a new authority
  replaces the old one, and the frozen endpoint becomes the active candidate.\<close>

definition installCandidate ::
  "bytes \<Rightarrow> bytes \<Rightarrow> bytes \<Rightarrow> pairingCandidateObservation \<Rightarrow> bytes \<Rightarrow> bool \<Rightarrow> ptr \<Rightarrow> hub \<Rightarrow> ptr \<times> hub" where
  "installCandidate reservation candidateRef ski entry host connect s h =
    (let h2 = h\<lparr>consumedPairingCandidates := List.insert candidateRef (consumedPairingCandidates h)\<rparr>;
         (a, h3) = rotateOutboundAuthorityLocked ski h2;
         q = nextPtr h3;
         h4 = h3\<lparr>nextPtr := Suc q,
            candidates := (candidates h3)(q :=
              \<lparr>candService = s, candAuthority = a, candReservation = reservation,
               candRef = candidateRef, candRevision = pcoRevision entry, candHost = host,
               candPort = itoa (pcoPort entry), candPath = pcoPath entry,
               candConnectIssued = connect\<rparr>),
            activePairingCandidates := AList.update ski q (activePairingCandidates h3)\<rparr>
     in (q, SetState ConnectionStateQueued s (updService s (\<lambda>x. x\<lparr>svcShipID := []\<rparr>) h4)))"

text \<open>\<open>admitPairingCandidate\<close>. \<open>token\<close> is what \<open>rand.Read\<close> delivers (\<open>None\<close>: it fails). The result
  is the error, or the reservation with the service and candidate to launch.\<close>

definition admitPairingCandidate ::
  "bytes option \<Rightarrow> bytes \<Rightarrow> bytes \<Rightarrow> bool \<Rightarrow> hub \<Rightarrow> (hubError + bytes \<times> bytes \<times> ptr \<times> ptr) \<times> hub" where
  "admitPairingCandidate token candidateRef expectedSKI connect h =
    (case validPairingCandidateSKI expectedSKI of
       None \<Rightarrow> (Inl ErrInvalidRemoteSKI, h)
     | Some ski \<Rightarrow>
       (case token of
          None \<Rightarrow> (Inl ErrPairingCandidateReservationUnavailable, h)
        | Some reservation \<Rightarrow>
       (if mdnsAppliedAdmission h \<noteq> mdnsSnapshotAdmission h then (Inl ErrPairingCandidateUnavailable, h)
        else if candidateRef \<in> set (consumedPairingCandidates h) then (Inl ErrPairingCandidateConsumed, h)
        else case map_of (visiblePairingCandidates h) candidateRef of
          None \<Rightarrow> (Inl ErrPairingCandidateUnavailable, h)
        | Some entry \<Rightarrow>
       (if pcoSki entry \<noteq> ski then (Inl ErrPairingCandidateSKIMismatch, h)
        else case pairingCandidateAddress (pcoScopedAddresses entry) (pcoAddresses entry) of
          None \<Rightarrow> (Inl ErrPairingCandidateUnavailable, h)
        | Some host \<Rightarrow>
       (if pcoPort entry \<le> 0 \<or> 65535 < pcoPort entry \<or> pcoPath entry = []
        then (Inl ErrPairingCandidateUnavailable, h)
        else
         (let (s, h1) = candidateService ski h
          in if svcTrusted (services h1 s) then (Inl ErrRemoteAlreadyTrusted, h1)
             else if map_of (activePairingCandidates h1) ski \<noteq> None then (Inl ErrPairingCandidateActive, h1)
             else if connect \<and> outgoingAttemptGate h1 = None then (Inl ErrOutgoingAttemptGateRequired, h1)
             else
               (let (q, h2) = installCandidate reservation candidateRef ski entry host connect s h1;
                    h3 = (if connect then h2 else publishPairingDetail ski (svcDetail (services h2 s)) h2)
                in (Inr (reservation, ski, s, q), h3))))))))"

definition SelectPairingCandidate :: "bytes option \<Rightarrow> bytes \<Rightarrow> bytes \<Rightarrow> hub \<Rightarrow> (hubError + bytes) \<times> hub" where
  "SelectPairingCandidate token candidateRef expectedSKI h =
    (case admitPairingCandidate token candidateRef expectedSKI False h of
       (Inl e, h') \<Rightarrow> (Inl e, h')
     | (Inr (reservation, _), h') \<Rightarrow> (Inr reservation, h'))"

definition QueuePairingCandidate :: "bytes option \<Rightarrow> bytes \<Rightarrow> bytes \<Rightarrow> hub \<Rightarrow> hubError option \<times> hub" where
  "QueuePairingCandidate token candidateRef expectedSKI h =
    (case admitPairingCandidate token candidateRef expectedSKI True h of
       (Inl e, h') \<Rightarrow> (Some e, h')
     | (Inr (_, ski, s, q), h') \<Rightarrow> (None, launchPairingCandidate ski s q h'))"

text \<open>The committing part of \<open>connectPairingCandidate\<close>.\<close>

definition issueConnect :: "bytes \<Rightarrow> ptr \<Rightarrow> ptr option \<Rightarrow> hub \<Rightarrow> hub" where
  "issueConnect ski q provider h =
    (let a = candidates h q;
         h1 = h\<lparr>candidates := (candidates h)(q := a\<lparr>candConnectIssued := True\<rparr>)\<rparr>;
         h2 = (case provider of
                 None \<Rightarrow> h1
               | Some p \<Rightarrow> h1\<lparr>transientPINProviders :=
                   AList.update ski (candAuthority a, p) (transientPINProviders h1)\<rparr>)
     in SetState ConnectionStateQueued (candService a) h2)"

definition connectPairingCandidate :: "bytes \<Rightarrow> ptr option \<Rightarrow> hub \<Rightarrow> hubError option \<times> hub" where
  "connectPairingCandidate reservation provider h =
    (if \<not> reservationValid reservation then (Some ErrPairingCandidateReservationStale, h)
     else if mdnsAppliedAdmission h \<noteq> mdnsSnapshotAdmission h then (Some ErrPairingCandidateReservationStale, h)
     else case find (\<lambda>(ski, q). reservationMatches (candReservation (candidates h q)) reservation)
                 (activePairingCandidates h) of
       None \<Rightarrow> (Some ErrPairingCandidateReservationStale, h)
     | Some (ski, q) \<Rightarrow>
         (let a = candidates h q; s = candService a in
          if svcTrusted (services h s) then (Some ErrPairingCandidateReservationStale, h)
          else if candConnectIssued a then (Some ErrPairingCandidateAlreadyConnecting, h)
          else if outgoingAttemptGate h = None then (Some ErrOutgoingAttemptGateRequired, h)
          else
            (None, launchPairingCandidate ski s q (issueConnect ski q provider h))))"

definition ConnectPairingCandidate :: "bytes \<Rightarrow> hub \<Rightarrow> hubError option \<times> hub" where
  "ConnectPairingCandidate reservation h = connectPairingCandidate reservation None h"

definition ConnectPairingCandidateWithPIN :: "bytes \<Rightarrow> ptr option \<Rightarrow> hub \<Rightarrow> hubError option \<times> hub" where
  "ConnectPairingCandidateWithPIN reservation provider h =
    (if provider = None then (Some ErrPINProviderInvalid, h) else connectPairingCandidate reservation provider h)"

text \<open>The goroutine of \<open>launchPairingCandidate\<close>: whether it dials, and what a dial that returned
  \<open>result\<close> leads to.\<close>

definition candidateMayDial :: "bytes \<Rightarrow> ptr \<Rightarrow> hub \<Rightarrow> bool" where
  "candidateMayDial ski q h =
    (map_of (activePairingCandidates h) ski = Some q \<and> candConnectIssued (candidates h q))"

definition candidateDialed :: "bytes \<Rightarrow> ptr \<Rightarrow> hubError option \<Rightarrow> hub \<Rightarrow> hub" where
  "candidateDialed ski q result h =
    (if result \<noteq> None \<and> result \<noteq> Some inboundPairingDirectionHandoffError
     then retirePairingCandidate ski (Some q) None h else h)"

section \<open>Trust decisions of the user\<close>

definition RegisterRemoteSKI :: "bytes \<Rightarrow> hub \<Rightarrow> hub" where
  "RegisterRemoteSKI ski0 h =
    (let ski = NormalizeSKI ski0;
         (s, h1) = ServiceForSKI ski h;
         h3 = trustService ski s h1
     in if \<not> hasStarted h3 then checkAutoReannounce h3
        else case connectionForSKI ski h3 of
          Some c \<Rightarrow> hemit (HApprovePending c) h3
        | None \<Rightarrow>
            (let h4 = SetState ConnectionStateQueued s h3
             in hemit HRequestEntries (publishPairingDetail ski (svcDetail (services h4 s)) h4)))"

definition UnregisterRemoteSKI :: "bytes \<Rightarrow> hub \<Rightarrow> hub" where
  "UnregisterRemoteSKI ski0 h =
    (let ski = NormalizeSKI ski0;
         (s, h1) = ServiceForSKI ski h;
         h2 = removeConnectionAttemptCounter ski (revokeOutboundAttempts ski s h1);
         h3 = publishPairingDetail ski (svcDetail (services h2 s)) h2
     in case connectionForSKI ski h3 of
          None \<Rightarrow> h3
        | Some c \<Rightarrow> hemit (HCloseConnection c True 4500 ''User close'') h3)"

definition DisconnectSKI :: "bytes \<Rightarrow> bytes \<Rightarrow> hub \<Rightarrow> hub" where
  "DisconnectSKI ski reason h =
    (case connectionForSKI ski h of None \<Rightarrow> h | Some c \<Rightarrow> hemit (HCloseConnection c True 0 reason) h)"

definition CancelPairingWithSKI :: "bytes \<Rightarrow> hub \<Rightarrow> hub" where
  "CancelPairingWithSKI ski0 h =
    (let ski = NormalizeSKI ski0;
         (s, h1) = ServiceForSKI ski h;
         h2 = removeConnectionAttemptCounter ski (revokeOutboundAttempts ski s h1);
         h3 = (case connectionForSKI ski h2 of None \<Rightarrow> h2 | Some c \<Rightarrow> hemit (HAbortPending c) h2)
     in publishPairingDetail ski (svcDetail (services h3 s)) h3)"

section \<open>Inbound connections\<close>

text \<open>\<open>ServeHTTP\<close> from the SKI of the client certificate on, run without interruption. The result
  is the connection the hub runs, or \<open>None\<close> when the websocket is closed.\<close>

definition ServeHTTP :: "bytes \<Rightarrow> hub \<Rightarrow> ptr option \<times> hub" where
  "ServeHTTP ski0 h =
    (let ski = NormalizeSKI ski0;
         (s, h1) = ServiceForSKI ski h
     in if cdState (serviceState s h1) = ConnectionStateQueued then
          (case reserveInboundPairingConnection ski h1 of
             (None, h2) \<Rightarrow> (None, h2)
           | (Some p, h2) \<Rightarrow>
               (let (c, h3) = newConnection ski h2;
                    ((replaced, registered), h4) = registerReservedInboundPairingConnection c (Some p) h3 in
                if \<not> registered then (None, abandonInboundPairingReservation ski p h4)
                else
                  (let h5 = (case replaced of
                               None \<Rightarrow> h4 | Some e \<Rightarrow> hemit (HCloseConnection e False 0 replacedReason) h4);
                       h6 = SetState ConnectionStateReceivedPairingRequest s h5;
                       h7 = publishPairingDetail ski0 (svcDetail (services h6 s)) h6
                   in (Some c, hemit (HRun c) h7))))
        else if hasInboundPairingReservation ski h1 then (None, h1)
        else
          (let (c, h2) = newConnection ski h1; (ok, h3) = registerInboundConnection c h2 in
           if ok then (Some c, hemit (HRun c) h3) else (None, h3)))"

end
