(* ===== verification/Hub_Mdns.thy ===== *)
theory Hub_Mdns
  imports Hub_Pairing
begin

text \<open>
  Discovery snapshots and reconnection of trusted remotes: the ordered application of mDNS
  snapshots, the observations they leave, the invalidation of candidates and retries they cause,
  explicit retries and the coordination of automatic reconnects (\<open>src/hub/hub_mdns.go\<close> and
  \<open>src/hub/hub_connections.go\<close>).
\<close>

section \<open>Observations of trusted remotes\<close>

definition observeEntry ::
  "uint64 \<Rightarrow> uint64 \<Rightarrow> MdnsEntry option \<Rightarrow> (bytes \<times> trustedRemoteObservation) list \<times> bytes list
    \<Rightarrow> (bytes \<times> trustedRemoteObservation) list \<times> bytes list" where
  "observeEntry revision admission entry st =
    (case (entry, st) of
       (None, _) \<Rightarrow> st
     | (Some e, (observations, ambiguous)) \<Rightarrow>
         if mePort e \<le> 0 \<or> 65535 < mePort e then st
         else case validPairingCandidateSKI (meSki e) of
           None \<Rightarrow> st
         | Some ski \<Rightarrow>
             if map_of observations ski \<noteq> None then (AList.delete ski observations, List.insert ski ambiguous)
             else if ski \<in> set ambiguous then st
             else case trustedRemoteRetryHost (Some e) of
               None \<Rightarrow> st
             | Some host \<Rightarrow>
                 (AList.update ski \<lparr>obsRevision = revision, obsAdmission = admission, obsHost = host,
                    obsPort = mePort e, obsPath = mePath e\<rparr> observations, ambiguous))"

definition trustedRemoteObservations ::
  "(bytes \<times> MdnsEntry option) list \<Rightarrow> uint64 \<Rightarrow> uint64 \<Rightarrow> (bytes \<times> trustedRemoteObservation) list" where
  "trustedRemoteObservations entries revision admission =
    fst (fold (observeEntry revision admission) (map snd entries) ([], []))"

section \<open>Invalidation of active retries\<close>

definition retryCurrent :: "(bytes \<times> trustedRemoteObservation) list \<Rightarrow> bytes \<Rightarrow> ptr \<Rightarrow> hub \<Rightarrow> bool" where
  "retryCurrent current ski p h =
    (case map_of current ski of
       None \<Rightarrow> False
     | Some o' \<Rightarrow> obsRevision o' = obsRevision (retObservation (retries h p))
                 \<and> obsAdmission o' = obsAdmission (retObservation (retries h p)))"

definition invalidateRetry ::
  "(bytes \<times> trustedRemoteObservation) list \<Rightarrow> bytes \<times> ptr \<Rightarrow> (ptr list \<times> bytes list) \<times> hub \<Rightarrow> (ptr list \<times> bytes list) \<times> hub" where
  "invalidateRetry current kp st =
    (case (kp, st) of ((ski, p), ((rs, skis), h)) \<Rightarrow>
       if retryCurrent current ski p h then st
       else
         (let h1 = snd (rotateOutboundAuthorityLocked ski h);
              (rs', h2) = removeOutboundAttemptRegistrationsLocked ski h1
          in ((rs @ rs', skis @ [ski]),
              h2\<lparr>activeTrustedRemoteRetries := AList.delete ski (activeTrustedRemoteRetries h2)\<rparr>)))"

definition invalidateTrustedRemoteRetriesLocked ::
  "(bytes \<times> trustedRemoteObservation) list \<Rightarrow> hub \<Rightarrow> (ptr list \<times> bytes list) \<times> hub" where
  "invalidateTrustedRemoteRetriesLocked current h =
    fold (invalidateRetry current) (activeTrustedRemoteRetries h) (([], []), h)"

section \<open>Automatic reconnects\<close>

text \<open>\<open>rnd\<close> is the random source; a queued service is dialled at once.\<close>

definition coordinateConnectionInitations :: "(bytes \<Rightarrow> nat) \<Rightarrow> bytes \<Rightarrow> MdnsEntry \<Rightarrow> hub \<Rightarrow> hub" where
  "coordinateConnectionInitations rnd ski entry h =
    (if isConnectionAttemptRunning ski h then h
     else case getConnectionInitiationDelayTime (rnd ski) ski (setConnectionAttemptRunning ski True h) of
       (None, h1) \<Rightarrow> h1
     | (Some (counter, dur), h1) \<Rightarrow>
         (let (s, h2) = ServiceForSKI ski h1 in
          hemit (HGoInitiate ski counter
            (if cdState (serviceState s h2) = ConnectionStateQueued then 0 else dur) entry) h2))"

text \<open>The goroutine \<open>prepareConnectionInitation\<close> up to the dial: the service and authority of the
  attempt, or \<open>None\<close> when nothing is dialled.\<close>

definition prepareConnectionInitation :: "bytes \<Rightarrow> int \<Rightarrow> hub \<Rightarrow> (ptr \<times> ptr) option \<times> hub" where
  "prepareConnectionInitation ski counter h =
    (let h1 = setConnectionAttemptRunning ski False h in
     if getCurrentConnectionAttemptCounter ski h1 \<noteq> Some counter then (None, h1)
     else
       (let (s, h2) = ServiceForSKI ski h1 in
        if \<not> svcTrusted (services h2 s) \<and> cdState (serviceState s h2) \<noteq> ConnectionStateQueued then (None, h2)
        else if isSkiConnected ski h2 then (None, h2)
        else case outboundReconnectAuthority (Some s) h2 of
          (None, h3) \<Rightarrow> (None, checkAutoReannounce h3)
        | (Some a, h3) \<Rightarrow> (Some (s, a), h3)))"

section \<open>Applying a snapshot\<close>

definition pairingCandidateObservationMatchesActive :: "pairingCandidateObservation \<Rightarrow> ptr \<Rightarrow> hub \<Rightarrow> bool" where
  "pairingCandidateObservationMatchesActive entry q h =
    (let a = candidates h q in
     pcoSki entry = svcSKI (services h (candService a)) \<and> pcoPath entry = candPath a
     \<and> itoa (pcoPort entry) = candPort a
     \<and> (\<exists>x \<in> set (orderedConnectionAddresses (pcoScopedAddresses entry) (pcoAddresses entry)).
          addrString x = candHost a))"

definition observationOf :: "uint64 \<Rightarrow> apiCandidate \<Rightarrow> pairingCandidateObservation" where
  "observationOf revision c =
    \<lparr>pcoSki = candSKI c, pcoRevision = revision, pcoPath = candObsPath c, pcoPort = candObsPort c,
     pcoAddresses = candAddresses c, pcoScopedAddresses = candScopedAddresses c\<rparr>"

definition candidateListed :: "apiCandidate \<Rightarrow> bool" where
  "candidateListed c = (CandidateRef c \<noteq> [] \<and> candSKI c \<noteq> [])"

definition visibleCandidates :: "apiCandidate list \<Rightarrow> uint64 \<Rightarrow> (bytes \<times> pairingCandidateObservation) list" where
  "visibleCandidates cs revision =
    fold (\<lambda>c m. if candidateListed c then AList.update (CandidateRef c) (observationOf revision c) m else m) cs []"

text \<open>The loop over the active candidates: one that was not yet asked to connect and is no longer
  visible as selected is retired.\<close>

definition retireInvisible ::
  "bytes \<times> ptr \<Rightarrow> pairingCandidateRetirement list \<times> hub \<Rightarrow> pairingCandidateRetirement list \<times> hub" where
  "retireInvisible kq st =
    (case (kq, st) of ((ski, q), (ts, h)) \<Rightarrow>
       if candConnectIssued (candidates h q) then st
       else if (case map_of (visiblePairingCandidates h) (candRef (candidates h q)) of
                  None \<Rightarrow> False | Some e \<Rightarrow> pairingCandidateObservationMatchesActive e q h) then st
       else (case retireActivePairingCandidateLocked ski (Some q) (Some (candAuthority (candidates h q))) h of
               (None, h') \<Rightarrow> (ts, h') | (Some t, h') \<Rightarrow> (ts @ [t], h')))"

definition reconnectEntry :: "(bytes \<Rightarrow> nat) \<Rightarrow> MdnsEntry option \<Rightarrow> hub \<Rightarrow> hub" where
  "reconnectEntry rnd entry h =
    (case entry of
       None \<Rightarrow> h
     | Some e \<Rightarrow>
         if meSki e = [] \<or> isSkiConnected (meSki e) h then h
         else
           (let (s, h1) = ServiceForSKI (meSki e) h in
            if \<not> svcTrusted (services h1 s) then h1
            else coordinateConnectionInitations rnd (meSki e) e
                   (updService s (\<lambda>x. x\<lparr>svcAutoAccept := meRegister e\<rparr>) h1)))"

definition remoteServiceList :: "(bytes \<times> MdnsEntry option) list \<Rightarrow> (bytes \<times> bytes \<times> bytes) list" where
  "remoteServiceList entries =
    sort [(meSki e, meName e, meIdentifier e). (_, Some e) \<leftarrow> entries, meSki e \<noteq> []]"

definition candidateRefList :: "apiCandidate list \<Rightarrow> (bytes \<times> bytes) list" where
  "candidateRefList cs = sort (map (\<lambda>c. (candSKI c, CandidateRef c)) (filter candidateListed cs))"

definition reportMdnsSnapshot :: "(bytes \<Rightarrow> nat) \<Rightarrow> mdnsSnapshot \<Rightarrow> hub \<Rightarrow> hub" where
  "reportMdnsSnapshot rnd sn h =
    (if snapRevision sn < latestPairingObservationRevision h then
       (let ((rs, skis), h1) = invalidateTrustedRemoteRetriesLocked [] (h\<lparr>mdnsAppliedAdmission := snapAdmission sn\<rparr>);
            h2 = removeOutboundAttemptConnections rs h1
        in clearTrustedRemoteRetryRunning skis (cancelOutboundAttemptRegistrations rs h2))
     else
       (let obs = trustedRemoteObservations (snapEntries sn) (snapRevision sn) (snapAdmission sn);
            h1 = h\<lparr>latestPairingObservationRevision := snapRevision sn,
                   mdnsAppliedAdmission := snapAdmission sn,
                   visibleTrustedRemoteObservations := obs,
                   consumedPairingCandidates :=
                     filter (\<lambda>r. r \<in> CandidateRef ` set (snapCandidates sn)) (consumedPairingCandidates h),
                   visiblePairingCandidates := visibleCandidates (snapCandidates sn) (snapRevision sn)\<rparr>;
            (ts, h2) = fold retireInvisible (activePairingCandidates h1) ([], h1);
            ((rs, skis), h3) = invalidateTrustedRemoteRetriesLocked obs h2;
            h4 = removeOutboundAttemptConnections rs h3;
            h5 = finishPairingCandidateRetirements ts h4;
            h6 = clearTrustedRemoteRetryRunning skis (cancelOutboundAttemptRegistrations rs h5);
            h7 = fold (reconnectEntry rnd) (map snd (snapEntries sn)) h6
        in hemit (HVisibleCandidates (candidateRefList (snapCandidates sn)))
             (hemit (HVisibleServices (remoteServiceList (snapEntries sn))) h7)))"

section \<open>Queueing snapshots\<close>

definition nextRevision :: "uint64 \<Rightarrow> hub \<Rightarrow> uint64 \<times> uint64" where
  "nextRevision revision h =
    (if revision = 0 then (let r = nextEpoch (mdnsSnapshotRevision h) in (r, r))
     else (revision, max revision (mdnsSnapshotRevision h)))"

definition enqueueSnapshots :: "mdnsSnapshot list \<Rightarrow> hub \<Rightarrow> bool \<times> hub" where
  "enqueueSnapshots xs h =
    (\<not> mdnsSnapshotDraining h, h\<lparr>mdnsSnapshotQueue := mdnsSnapshotQueue h @ xs, mdnsSnapshotDraining := True\<rparr>)"

definition takeSnapshot :: "hub \<Rightarrow> mdnsSnapshot option \<times> hub" where
  "takeSnapshot h =
    (case mdnsSnapshotQueue h of
       [] \<Rightarrow> (None, h\<lparr>mdnsSnapshotDraining := False\<rparr>)
     | x # xs \<Rightarrow> (Some x, h\<lparr>mdnsSnapshotQueue := xs\<rparr>))"

interpretation snapshots: serial_queue mdnsSnapshotQueue mdnsSnapshotDraining enqueueSnapshots takeSnapshot
  by unfold_locales (simp_all add: enqueueSnapshots_def takeSnapshot_def)

text \<open>The locked part of \<open>enqueueMdnsSnapshot\<close>; the result says whether the caller drains.\<close>

definition admitMdnsSnapshot ::
  "(bytes \<times> MdnsEntry option) list \<Rightarrow> bool \<Rightarrow> apiCandidate list \<Rightarrow> uint64 \<Rightarrow> hub \<Rightarrow> bool \<times> hub" where
  "admitMdnsSnapshot entries newEntries cs revision h =
    (let (r, latest) = nextRevision revision h;
         admission = mdnsSnapshotAdmission h + 1 in
     enqueueSnapshots [\<lparr>snapEntries = entries, snapNewEntries = newEntries, snapCandidates = cs,
                        snapRevision = r, snapAdmission = admission\<rparr>]
       (h\<lparr>mdnsSnapshotRevision := latest, mdnsSnapshotAdmission := admission\<rparr>))"

section \<open>Explicit retries\<close>

definition startRetry :: "bytes \<Rightarrow> ptr \<Rightarrow> ptr \<Rightarrow> trustedRemoteObservation \<Rightarrow> hub \<Rightarrow> ptr \<times> hub" where
  "startRetry ski s a observation h =
    (let p = nextPtr h in
     (p, h\<lparr>nextPtr := Suc p,
           retries := (retries h)(p := \<lparr>retService = s, retAuthority = a, retObservation = observation\<rparr>),
           activeTrustedRemoteRetries := AList.update ski p (activeTrustedRemoteRetries h)\<rparr>))"

definition RetryTrustedRemote :: "bytes \<Rightarrow> hub \<Rightarrow> hubError option \<times> hub" where
  "RetryTrustedRemote expectedSKI h =
    (case validPairingCandidateSKI expectedSKI of
       None \<Rightarrow> (Some ErrInvalidRemoteSKI, h)
     | Some ski \<Rightarrow>
         if mdnsAppliedAdmission h \<noteq> mdnsSnapshotAdmission h then (Some ErrTrustedRemoteObservationStale, h)
         else case map_of (visibleTrustedRemoteObservations h) ski of
           None \<Rightarrow> (Some ErrTrustedRemoteRetryUnavailable, h)
         | Some observation \<Rightarrow>
         (case map_of (remoteServices h) ski of
           None \<Rightarrow> (Some ErrTrustedRemoteRetryNotTrusted, h)
         | Some s \<Rightarrow>
             if \<not> svcTrusted (services h s) then (Some ErrTrustedRemoteRetryNotTrusted, h)
             else if map_of (activeTrustedRemoteRetries h) ski \<noteq> None then (Some ErrTrustedRemoteRetryBusy, h)
             else if hasShutdown h then (Some ErrTrustedRemoteRetryUnavailable, h)
             else if map_of (connections h) ski \<noteq> None then (Some ErrTrustedRemoteRetryConnected, h)
             else if flagSet (connectionsInitiating h) ski \<or> map_of (inboundPairingReservations h) ski \<noteq> None
               then (Some ErrTrustedRemoteRetryBusy, h)
             else if flagSet (connectionAttemptRunning h) ski then (Some ErrTrustedRemoteRetryBusy, h)
             else
               (let h1 = setConnectionAttemptRunning ski True h in
                if outboundShutdown h1
                then (Some ErrTrustedRemoteRetryUnavailable, setConnectionAttemptRunning ski False h1)
                else
                  (let (a, h2) = currentOutboundAuthorityLocked ski h1;
                       (p, h3) = startRetry ski s a observation h2
                   in (None, hemit (HGoRetry p) h3)))))"

definition trustedRemoteRetryStillCurrent :: "bytes \<Rightarrow> ptr \<Rightarrow> hub \<Rightarrow> bool" where
  "trustedRemoteRetryStillCurrent ski p h =
    (let active = retries h p in
     map_of (activeTrustedRemoteRetries h) ski = Some p
     \<and> mdnsAppliedAdmission h = mdnsSnapshotAdmission h
     \<and> map_of (remoteServices h) ski = Some (retService active)
     \<and> svcTrusted (services h (retService active))
     \<and> retryCurrent (visibleTrustedRemoteObservations h) ski p h
     \<and> \<not> hasShutdown h \<and> map_of (connections h) ski = None
     \<and> \<not> flagSet (connectionsInitiating h) ski \<and> map_of (inboundPairingReservations h) ski = None
     \<and> \<not> outboundShutdown h \<and> map_of (outboundAuthorities h) ski = Some (retAuthority active))"

definition finishTrustedRemoteRetry :: "bytes \<Rightarrow> ptr \<Rightarrow> hub \<Rightarrow> hub" where
  "finishTrustedRemoteRetry ski p h =
    (if map_of (activeTrustedRemoteRetries h) ski \<noteq> Some p then h
     else setConnectionAttemptRunning ski False
       (h\<lparr>activeTrustedRemoteRetries := AList.delete ski (activeTrustedRemoteRetries h)\<rparr>))"

text \<open>The goroutine of a retry before its dial: the host to dial, or the retry is finished.\<close>

definition runTrustedRemoteRetry :: "ptr \<Rightarrow> hub \<Rightarrow> bytes option \<times> hub" where
  "runTrustedRemoteRetry p h =
    (let active = retries h p; ski = svcSKI (services h (retService active)) in
     if \<not> trustedRemoteRetryStillCurrent ski p h then (None, finishTrustedRemoteRetry ski p h)
     else if obsHost (retObservation active) = [] then (None, finishTrustedRemoteRetry ski p h)
     else (Some (obsHost (retObservation active)), h))"

end
