(* ===== verification/Hub_Steps.thy ===== *)
theory Hub_Steps
  imports Hub_Mdns
begin

text \<open>
  The hub as a transition system. \<open>hub_step\<close> has one rule for each region that the hub's mutexes
  make atomic (and for each single effect between regions), with the conditions under which the
  code reaches it; goroutines interleave at this granularity. The locale \<open>hub_closed\<close> is the
  contract of a set of states closed under these steps, and shows once that every operation of
  the hub stays inside it: an invariant is proved region by region, an interpretation then gives
  it for the operations. \<open>hub_reachable\<close> adds the admission of discovery snapshots.
\<close>

section \<open>Steps\<close>

text \<open>A connection that exists and is not known to the registry.\<close>

definition pendingConnection :: "ptr \<Rightarrow> hub \<Rightarrow> bool" where
  "pendingConnection c h =
    (c < nextPtr h \<and> c \<notin> set (supersededConnections h) \<and> map_of (connections h) (connSKI h c) \<noteq> Some c)"

definition connsAllocated :: "hub \<Rightarrow> bool" where
  "connsAllocated h =
    ((\<forall>c \<in> set (supersededConnections h). c < nextPtr h)
     \<and> (\<forall>k c. map_of (connections h) k = Some c \<longrightarrow> c < nextPtr h))"

lemma pending_new: "connsAllocated h \<Longrightarrow> newConnection ski h = (c, h') \<Longrightarrow> pendingConnection c h'"
  by (fastforce simp: connsAllocated_def newConnection_def pendingConnection_def)

lemma connsAllocated_service: "connsAllocated h \<Longrightarrow> ServiceForSKI ski h = (s, h') \<Longrightarrow> connsAllocated h'"
  by (fastforce simp: connsAllocated_def ServiceForSKI_def NewServiceDetails_def SetState_def Let_def split: option.splits)

lemma connsAllocated_reserve:
  "connsAllocated h \<Longrightarrow> reserveInboundPairingConnection ski h = (p, h') \<Longrightarrow> connsAllocated h'"
  by (fastforce simp: connsAllocated_def reserveInboundPairingConnection_def Let_def split: if_splits)

inductive hub_step :: "hub \<Rightarrow> hub \<Rightarrow> bool" where
  st_emit: "hub_step h (hemit e h)"
| st_begin: "hub_step h (snd (beginCallback r h))"
| st_end: "hub_step h (endCallback p h)"
| st_block: "hub_step h (snd (blockCallbacks r h))"
| st_cancel: "hub_step h (cancelRegistration p h)"
| st_bind: "hub_step h (snd (bindOutboundAttemptConnection ski r c h))"
| st_rotate: "hub_step h (snd (rotateOutboundAuthorityLocked ski h))"
| st_launch: "hub_step h (snd (registerOutboundAttemptForLaunch ski g a md b h))"
| st_internal: "hub_step h (snd (registerInternalOutboundAttemptForLaunch ski a h))"
| st_release: "hub_step h (snd (snd (releaseOutboundAttemptForConnectionLocked ski c' md h)))"
| st_release_reg: "hub_step h (releaseOutboundAttemptRegistration ski r h)"
| st_remove_regs: "hub_step h (snd (removeOutboundAttemptRegistrationsLocked ski h))"
| st_remove_conn: "hub_step h (snd (removeExactConnection c' h))"
| st_take_pin: "hub_step h (snd (takeTransientPINProviderLocked ski h))"
| st_take_pin_for: "hub_step h (snd (takeTransientPINProviderForAuthorityLocked ski a h))"
| st_take_pins: "hub_step h (snd (takeAllTransientPINProvidersLocked h))"
| st_state: "hub_step h (SetState st s h)"
| st_service: "hub_step h (snd (ServiceForSKI ski h))"
| st_candidate_service: "hub_step h (snd (candidateService ski h))"
| st_autoaccept: "hub_step h (updService s (\<lambda>x. x\<lparr>svcAutoAccept := b\<rparr>) h)"
| st_detail: "hub_step h (snd (SetConnectionStateDetail s d h))"
| st_notify: "hub_step h (snd (enqueuePairingDetails xs h))"
| st_notified: "hub_step h (snd (takePairingNotification h))"
| st_uncount: "hub_step h (removeConnectionAttemptCounter ski h)"
| st_count: "hub_step h (snd (increaseConnectionAttemptCounter ski h))"
| st_running: "hub_step h (setConnectionAttemptRunning ski b h)"
| st_initiating: "hub_step h (h\<lparr>connectionsInitiating := flags\<rparr>)"
| st_connection: "hub_step h (snd (newConnection ski h))"
| st_register: "pendingConnection c' h \<Longrightarrow> hub_step h (snd (registerConnection c' h))"
| st_inbound: "pendingConnection c' h \<Longrightarrow> hub_step h (snd (admitInbound c' h))"
| st_reserved: "pendingConnection c' h \<Longrightarrow> hub_step h (snd (admitReserved c' p h))"
| st_outgoing: "pendingConnection c' h \<Longrightarrow> hub_step h (snd (admitOutgoing c' b a h))"
| st_reserve: "hub_step h (snd (reserveInboundPairingConnection ski h))"
| st_claim: "hub_step h (snd (claimClosedConnectionState c' h))"
| st_abandon: "map_of (inboundPairingReservations h) ski = Some p \<Longrightarrow> resWinner (reservations h p) = None \<Longrightarrow>
    hub_step h (h\<lparr>inboundPairingReservations := AList.delete ski (inboundPairingReservations h)\<rparr>)"
| st_retire: "hub_step h (snd (retireActivePairingCandidateLocked ski r a h))"
| st_revoke: "map_of (remoteServices h) ski = Some s \<Longrightarrow> hub_step h (snd (revokeLocked ski s h))"
| st_trust: "map_of (remoteServices h) ski = Some s \<Longrightarrow> hub_step h (trustService ski s h)"
| st_gate: "hub_step h (h\<lparr>outgoingAttemptGate := r, outgoingGateEpoch := outgoingGateEpoch h + 1\<rparr>)"
| st_retry: "hub_step h (snd (startRetry ski s p obs1 h))"
| st_retry_done: "hub_step h (h\<lparr>activeTrustedRemoteRetries := AList.delete ski (activeTrustedRemoteRetries h)\<rparr>)"
| st_shutdown: "hub_step h (snd (shutdownConnections h))"
| st_shutdown_attempts: "hub_step h (snd (shutdownAttempts h))"
| st_admit: "map_of (remoteServices h) ski = Some s \<Longrightarrow> \<not> svcTrusted (services h s) \<Longrightarrow>
    map_of (activePairingCandidates h) ski = None \<Longrightarrow>
    hub_step h (snd (installCandidate token ref ski entry host b s h))"
| st_connect: "map_of (activePairingCandidates h) ski = Some q \<Longrightarrow> \<not> svcTrusted (services h (candService (candidates h q))) \<Longrightarrow>
    \<not> candConnectIssued (candidates h q) \<Longrightarrow> hub_step h (issueConnect ski q r h)"
| st_started: "hub_step h (h\<lparr>hasStarted := b\<rparr>)"
| st_autoaccept_hub: "hub_step h (h\<lparr>autoaccept := b\<rparr>)"

text \<open>What applying a snapshot stores before it acts on it.\<close>

definition observe :: "uint64 \<Rightarrow> uint64 \<Rightarrow> (bytes \<times> trustedRemoteObservation) list \<Rightarrow> bytes list
    \<Rightarrow> (bytes \<times> pairingCandidateObservation) list \<Rightarrow> hub \<Rightarrow> hub" where
  "observe w v obs refs vis h =
    h\<lparr>latestPairingObservationRevision := w, mdnsAppliedAdmission := v,
      visibleTrustedRemoteObservations := obs, consumedPairingCandidates := refs,
      visiblePairingCandidates := vis\<rparr>"

inductive hub_reachable :: "hub \<Rightarrow> hub \<Rightarrow> bool" for h0 where
  hr_start: "hub_reachable h0 h0"
| hr_step: "hub_reachable h0 h \<Longrightarrow> hub_step h h' \<Longrightarrow> hub_reachable h0 h'"
| hr_applied: "hub_reachable h0 h \<Longrightarrow> hub_reachable h0 (h\<lparr>mdnsAppliedAdmission := w\<rparr>)"
| hr_observed: "hub_reachable h0 h \<Longrightarrow> hub_reachable h0 (observe w v obs refs vis h)"
| hr_snapshot: "hub_reachable h0 h \<Longrightarrow> hub_reachable h0 (snd (admitMdnsSnapshot entries b cs w h))"
| hr_take: "hub_reachable h0 h \<Longrightarrow> hub_reachable h0 (snd (takeSnapshot h))"

section \<open>Operations are sequences of steps\<close>

locale hub_closed =
  fixes P :: "hub \<Rightarrow> bool"
  assumes step: "P h \<Longrightarrow> hub_step h h' \<Longrightarrow> P h'"
begin

lemma emit: "P h \<Longrightarrow> P (hemit e h)" by (rule step [OF _ st_emit])
lemma running: "P h \<Longrightarrow> P (setConnectionAttemptRunning ski b h)" by (rule step [OF _ st_running])
lemma uncount: "P h \<Longrightarrow> P (removeConnectionAttemptCounter ski h)" by (rule step [OF _ st_uncount])
lemma service: "P h \<Longrightarrow> ServiceForSKI ski h = (s, h') \<Longrightarrow> P h'"
  using step [OF _ st_service, of h ski] by simp
lemma rotate: "P h \<Longrightarrow> P (snd (rotateOutboundAuthorityLocked ski h))" by (rule step [OF _ st_rotate])
lemma current: "P h \<Longrightarrow> P (snd (currentOutboundAuthorityLocked ski h))"
  by (simp add: currentOutboundAuthorityLocked_def rotate split: option.split)
lemma state: "P h \<Longrightarrow> P (SetState st s h)" by (rule step [OF _ st_state])

lemma cancel_all: "P h \<Longrightarrow> P (cancelOutboundAttemptRegistrations rs h)"
  unfolding cancelOutboundAttemptRegistrations_def
  by (induction rs arbitrary: h) (auto intro: step [OF _ st_cancel])

lemma remove_conns: "P h \<Longrightarrow> P (removeOutboundAttemptConnections rs h)"
  unfolding removeOutboundAttemptConnections_def
  by (induction rs arbitrary: h) (auto intro: step [OF _ st_remove_conn] split: option.split)

lemma remove_regs: "P h \<Longrightarrow> removeOutboundAttemptRegistrationsLocked ski h = (rs, h') \<Longrightarrow> P h'"
  using step [OF _ st_remove_regs, of h ski] by simp

lemma remove_all_regs: "P h \<Longrightarrow> P (snd (removeAllOutboundAttemptRegistrationsLocked h))"
proof -
  assume "P h"
  then have "P (snd (fold (\<lambda>ski (rs, h). let (rs', h') = removeOutboundAttemptRegistrationsLocked ski h in (rs @ rs', h'))
      ks (rs, h)))" for ks rs
  proof (induction ks arbitrary: rs h)
    case (Cons k ks)
    obtain rs' h' where r: "removeOutboundAttemptRegistrationsLocked k h = (rs', h')" by fastforce
    show ?case using Cons.IH [OF remove_regs [OF Cons.prems r]] by (simp add: r)
  qed simp
  then show ?thesis by (simp add: removeAllOutboundAttemptRegistrationsLocked_def)
qed

lemma clear_running: "P h \<Longrightarrow> P (clearTrustedRemoteRetryRunning skis h)"
  unfolding clearTrustedRemoteRetryRunning_def
  by (induction skis arbitrary: h) (auto intro: running)

lemma discard: "P h \<Longrightarrow> P (discardTransientPINProvider ski p h)"
  by (auto simp: discardTransientPINProvider_def emit split: option.split)

lemma discard_all: "P h \<Longrightarrow> P (discardTransientPINProviders ps h)"
  unfolding discardTransientPINProviders_def
  by (induction ps arbitrary: h) (auto intro: discard split: prod.split)

lemma drain: "P h \<Longrightarrow> P (drainPairingNotifications h)"
proof (induction h rule: drainPairingNotifications.induct)
  case (1 h)
  obtain t h' where t: "takePairingNotification h = (t, h')" by fastforce
  have "P h'" using step [OF 1 (2) st_notified] t by simp
  then show ?case
    using 1 (1) [OF t [symmetric]]
    by (subst drainPairingNotifications.simps) (auto simp: t emit split: option.split)
qed

lemma publish: "P h \<Longrightarrow> P (publishPairingDetail ski d h)"
  using step [OF _ st_notify, of h "[(ski, snapshotPairingDetail (details h d))]"]
  by (auto simp: publishPairingDetail_def drain split: prod.split)

lemma reannounce: "P h \<Longrightarrow> P (checkAutoReannounce h)"
  by (simp add: checkAutoReannounce_def emit)

lemma block_all: "P h \<Longrightarrow> P (blockOutboundAttemptCallbacks c h)"
proof -
  have "P h \<Longrightarrow> P (fold (\<lambda>r h. snd (blockCallbacks (Some r) h)) rs h)" for rs h
    by (induction rs arbitrary: h) (auto intro: step [OF _ st_block])
  then show "P h \<Longrightarrow> ?thesis" by (simp add: blockOutboundAttemptCallbacks_def split: option.split)
qed

lemma take_pin: "P h \<Longrightarrow> takeTransientPINProviderLocked ski h = (p, h') \<Longrightarrow> P h'"
  using step [OF _ st_take_pin, of h ski] by simp

lemma take_pin_for: "P h \<Longrightarrow> takeTransientPINProviderForAuthorityLocked ski a h = (p, h') \<Longrightarrow> P h'"
  using step [OF _ st_take_pin_for, of h ski a] by simp

lemma with_pin: "P h \<Longrightarrow> P (snd (WithTransientPIN ski h))"
  by (auto simp: WithTransientPIN_def Let_def intro: take_pin emit split: prod.split option.split)

lemma discard_pin: "P h \<Longrightarrow> P (DiscardTransientPIN ski h)"
  by (auto simp: DiscardTransientPIN_def Let_def intro: take_pin discard split: prod.split)

lemma with_pin_for: "P h \<Longrightarrow> P (snd (withTransientPINForAuthority ski a h))"
  by (auto simp: withTransientPINForAuthority_def Let_def intro: take_pin_for emit split: prod.split option.split)

lemma discard_pin_for: "P h \<Longrightarrow> P (discardTransientPINForAuthority ski a h)"
  by (auto simp: discardTransientPINForAuthority_def Let_def intro: take_pin_for discard split: prod.split)

lemma retire_locked: "P h \<Longrightarrow> retireActivePairingCandidateLocked ski q a h = (t, h') \<Longrightarrow> P h'"
  using step [OF _ st_retire, of h ski q a] by simp

lemma finish_retirement: "P h \<Longrightarrow> P (finishPairingCandidateRetirement t h)"
  by (auto simp: finishPairingCandidateRetirement_def Let_def intro!: publish discard uncount)

lemma finish_retirements: "P h \<Longrightarrow> P (finishPairingCandidateRetirements ts h)"
  unfolding finishPairingCandidateRetirements_def
  by (induction ts arbitrary: h) (auto intro: finish_retirement)

lemma retire: "P h \<Longrightarrow> P (retirePairingCandidate ski q a h)"
  by (auto simp: retirePairingCandidate_def intro: retire_locked
      intro!: finish_retirements cancel_all remove_conns dest: remove_regs [OF retire_locked] split: prod.split option.split)

lemma inbound: "P h \<Longrightarrow> pendingConnection c h \<Longrightarrow> P (snd (registerInboundConnection c h))"
  using step [OF _ st_inbound, of h c]
  by (auto simp: registerInboundConnection_def intro!: emit block_all split: prod.split option.split)

lemma reserved: "P h \<Longrightarrow> pendingConnection c h \<Longrightarrow> P (snd (registerReservedInboundPairingConnection c r h))"
  using step [OF _ st_reserved, of h c "the r"]
  by (cases r) (auto simp: registerReservedInboundPairingConnection_def intro!: block_all split: prod.split)

lemma outgoing: "P h \<Longrightarrow> pendingConnection c h \<Longrightarrow> P (snd (registerOutgoingConnection c b a h))"
  using step [OF _ st_outgoing, of h c b a]
  by (auto simp: registerOutgoingConnection_def intro!: emit block_all split: prod.split option.split)

lemma claim: "P h \<Longrightarrow> claimClosedConnectionState c h = (x, h') \<Longrightarrow> P h'"
  using step [OF _ st_claim, of h c] by simp

lemma abandon: "P h \<Longrightarrow> P (abandonInboundPairingReservation ski p h)"
  using step [OF _ st_abandon, of h ski p]
  by (auto simp: abandonInboundPairingReservation_def Let_def intro!: retire)

lemma closed: "P h \<Longrightarrow> P (HandleConnectionClosed c b h)"
proof -
  assume P: "P h"
  obtain r sup won h1 where c: "claimClosedConnectionState c h = ((r, sup, won), h1)" by (metis prod.exhaust)
  have 1: "P h1" by (rule claim [OF P c])
  define h4 where "h4 = hemit (HDisconnected (connSKI h c))
    (if b then removeConnectionAttemptCounter (connSKI h c) (DiscardTransientPIN (connSKI h c) h1)
     else DiscardTransientPIN (connSKI h c) h1)"
  have 4: "P h4" using 1 by (auto simp: h4_def intro!: emit uncount discard_pin)
  obtain s h5 where s: "ServiceForSKI (connSKI h c) h4 = (s, h5)" by fastforce
  have 5: "P h5" by (rule service [OF 4 s])
  show ?thesis
    using 1 5 by (auto simp: HandleConnectionClosed_def c Let_def h4_def [symmetric] s
        intro!: retire reannounce split: option.split)
qed

lemma claim_attempt: "P h \<Longrightarrow> P (snd (claimClosedOutboundAttempt ski c md h))"
proof -
  assume P: "P h"
  obtain r sup won h1 where c: "claimClosedConnectionState c h = ((r, sup, won), h1)" by (metis prod.exhaust)
  obtain rs a h2 where rl: "releaseOutboundAttemptForConnectionLocked ski c md h1 = (rs, a, h2)" by (metis prod.exhaust)
  have 2: "P h2" using step [OF claim [OF P c] st_release, of ski c md] rl by simp
  obtain p h3 where p: "takeTransientPINProviderForAuthorityLocked ski a h2 = (p, h3)" by fastforce
  obtain t h4 where t: "retireActivePairingCandidateLocked ski None a h3 = (t, h4)" by fastforce
  have 4: "P h4" by (rule retire_locked [OF take_pin_for [OF 2 p] t])
  show ?thesis
    using 2 4 by (auto simp: claimClosedOutboundAttempt_def claimClosedConnection_def c rl p t Let_def
        intro!: cancel_all discard)
qed

lemma closed_attempt: "P h \<Longrightarrow> P (HandleConnectionClosedWithAttempt c b md h)"
proof -
  assume P: "P h"
  obtain t sup h1 where c: "claimClosedOutboundAttempt (connSKI h c) c md h = ((t, sup), h1)" by (metis prod.exhaust)
  define h2 where "h2 = (case t of None \<Rightarrow> h1 | Some t \<Rightarrow> finishPairingCandidateRetirements [t] h1)"
  have 1: "P h1" using claim_attempt [OF P, of "connSKI h c" c md] c by simp
  then have 2: "P h2" by (auto simp: h2_def intro: finish_retirements split: option.split)
  have paired: "P h' \<Longrightarrow> P (let (x, h'') = IsRemoteServiceForSKIPaired ski h' in if x then checkAutoReannounce h'' else h'')" for ski h'
    by (auto simp: IsRemoteServiceForSKIPaired_def Let_def intro: reannounce service split: prod.split)
  show ?thesis
    using 1 2 by (auto simp: HandleConnectionClosedWithAttempt_def c Let_def h2_def [symmetric]
        intro!: reannounce emit uncount closed paired [unfolded Let_def])
qed

lemma gate: "P h \<Longrightarrow> P (snd (SetOutgoingAttemptGate g h))"
proof -
  assume P: "P h"
  have retire_all: "P h \<Longrightarrow> P (snd (fold (\<lambda>ski (ts, h). case retireActivePairingCandidateLocked ski None None h of
             (None, h') \<Rightarrow> (ts, h') | (Some t, h') \<Rightarrow> (ts @ [t], h')) ks (ts, h)))" for ks ts h
  proof (induction ks arbitrary: ts h)
    case (Cons k ks)
    obtain t h' where t: "retireActivePairingCandidateLocked k None None h = (t, h')" by fastforce
    show ?case using Cons.IH [OF retire_locked [OF Cons.prems t]] by (cases t) (simp_all add: t)
  qed simp
  have rot: "P h \<Longrightarrow> P (snd (fold (\<lambda>ski (ks, h). (let h1 = snd (rotateOutboundAuthorityLocked ski h) in
         (ks @ [ski], h1\<lparr>activeTrustedRemoteRetries := AList.delete ski (activeTrustedRemoteRetries h1)\<rparr>)))
      ks (ts, h)))" for ks ts h
    by (induction ks arbitrary: ts h) (auto simp: Let_def intro: step [OF rotate st_retry_done])
  define h1 where "h1 = h\<lparr>outgoingAttemptGate := (case g of Gate g \<Rightarrow> Some g | _ \<Rightarrow> None),
                    outgoingGateEpoch := outgoingGateEpoch h + 1\<rparr>"
  obtain ts h2 where r: "retireAll h1 = (ts, h2)" by fastforce
  obtain ks h3 where k: "rotateRetries h2 = (ks, h3)" by fastforce
  obtain rs h4 where d: "removeAllOutboundAttemptRegistrationsLocked h3 = (rs, h4)" by fastforce
  have "P h1" unfolding h1_def by (rule step [OF P st_gate])
  then have "P h2" using retire_all [of h1 "map fst (activePairingCandidates h1)" "[]"] r by (simp add: retireAll_def)
  then have "P h3" using rot [of h2 "map fst (activeTrustedRemoteRetries h2)" "[]"] k by (simp add: rotateRetries_def)
  then have "P h4" using remove_all_regs [of h3] d by simp
  then show ?thesis
    using P by (simp add: SetOutgoingAttemptGate_def h1_def [symmetric] r k d clear_running
        finish_retirements cancel_all remove_conns)
qed

lemma revoke: "P h \<Longrightarrow> map_of (remoteServices h) ski = Some s \<Longrightarrow> P (revokeOutboundAttempts ski s h)"
  using step [OF _ st_revoke, of h ski s]
  by (auto simp: revokeOutboundAttempts_def Let_def intro!: running cancel_all discard remove_conns split: prod.split)

lemma shutdown_providers: "P h \<Longrightarrow> P (shutdownProviders h)"
  using step [OF _ st_take_pins, of h] by (auto simp: shutdownProviders_def intro: discard_all split: prod.split)

lemma begin_shutdown: "P h \<Longrightarrow> P (snd (beginShutdown h))"
proof -
  assume P: "P h"
  obtain cs h1 where c: "shutdownConnections h = (cs, h1)" by fastforce
  obtain rs h2 where r: "shutdownAttempts h1 = (rs, h2)" by fastforce
  have 1: "P h1" using step [OF P st_shutdown] c by simp
  then have "P h2" using step [OF 1 st_shutdown_attempts] r by simp
  with 1 show ?thesis by (auto simp: beginShutdown_def c r shutdown_providers split: option.split)
qed

lemma shutdown: "P h \<Longrightarrow> P (Shutdown b h)"
proof -
  assume P: "P h"
  obtain x h1 where x: "beginShutdown h = (x, h1)" by fastforce
  have "P h1" using begin_shutdown [OF P] x by simp
  moreover have "P h \<Longrightarrow> P (fold (\<lambda>c. hemit (HCloseConnection c False 0 [])) cs h)" for cs h
    by (induction cs arbitrary: h) (auto intro: emit)
  ultimately show ?thesis
    by (auto simp: Shutdown_def x Let_def intro!: emit cancel_all split: option.split)
qed

lemma gate_snapshot: "P h \<Longrightarrow> P (snd (outgoingAttemptGateSnapshot s a h))"
  using current [of h "svcSKI (services h s)"] by (auto simp: outgoingAttemptGateSnapshot_def Let_def split: prod.split)

lemma reconnect_authority: "P h \<Longrightarrow> outboundReconnectAuthority s h = (a, h') \<Longrightarrow> P h'"
  using current [of h "NormalizeSKI (svcSKI (services h (the s)))"]
  by (auto simp: outboundReconnectAuthority_def Let_def split: option.splits if_splits prod.splits)

lemma state_update:
  assumes "P h" "NormalizeSKI ski = ski"
  shows "P (HandleShipHandshakeStateUpdate ski st h)"
proof -
  obtain s0 h0 where s0: "ServiceForSKI ski h = (s0, h0)" by fastforce
  have m: "map_of (remoteServices h0) ski = Some s0"
    using service_mapped [OF s0] assms(2) by simp
  define h1 where "h1 = (if suState st = SmeHelloStateOk then trustService ski s0 h0 else h)"
  have 1: "P h1" using assms(1) step [OF service [OF assms(1) s0] st_trust [OF m]] by (simp add: h1_def)
  obtain s h2 where s: "ServiceForSKI ski h1 = (s, h2)" by fastforce
  obtain p h3 where d: "SetConnectionStateDetail s (detailFor st (serviceState s h2)) h2 = (p, h3)" by fastforce
  have 2: "P h2" by (rule service [OF 1 s])
  then have 3: "P h3" using step [OF 2 st_detail, of s "detailFor st (serviceState s h2)"] d by simp
  have h1: "(if suState st = SmeHelloStateOk then let (s, h') = ServiceForSKI ski h in trustService ski s h' else h) = h1"
    by (simp add: h1_def s0)
  show ?thesis
    unfolding HandleShipHandshakeStateUpdate_def h1 using 2 3 by (simp add: s d emit Let_def)
qed

lemma internal_update: "P h \<Longrightarrow> P (handleInternalShipHandshakeStateUpdate ski st md h)"
proof -
  assume P: "P h"
  show ?thesis
  proof (cases "map_of (remoteServices h) (NormalizeSKI ski)")
    case (Some s)
    then show ?thesis
      using P step [OF P st_detail, of s "detailFor st (serviceState s h)"]
      by (auto simp: handleInternalShipHandshakeStateUpdate_def Let_def intro!: emit split: prod.split)
  qed (use P in \<open>simp add: handleInternalShipHandshakeStateUpdate_def Let_def\<close>)
qed

lemma attempt_update:
  "P h \<Longrightarrow> NormalizeSKI ski = ski \<Longrightarrow> P (HandleShipHandshakeStateUpdateWithAttempt ski st md h)"
  by (simp add: HandleShipHandshakeStateUpdateWithAttempt_def internal_update emit state_update)

lemma publish_delayed: "P h \<Longrightarrow> P (publishCurrentPairingDetailAfterDelay ski d md b h)"
  by (auto simp: publishCurrentPairingDetailAfterDelay_def publish split: option.split)

lemma guarded: "P h \<Longrightarrow> (\<And>h. P h \<Longrightarrow> P (body h)) \<Longrightarrow> P (guardedCallback r body h)"
proof -
  assume P: "P h" and body: "\<And>h. P h \<Longrightarrow> P (body h)"
  obtain ok h1 where b: "beginCallback r h = (ok, h1)" by fastforce
  have "P h1" using step [OF P st_begin, of r] b by simp
  then show ?thesis
    using P b by (cases r) (auto simp: guardedCallback_def intro: step [OF _ st_end] body split: bool.split)
qed

lemma provider_ship_id: "P h \<Longrightarrow> P (provider_ReportServiceShipID r ski i h)"
  by (simp add: provider_ReportServiceShipID_def guarded ReportServiceShipID_def emit)

lemma provider_update:
  "P h \<Longrightarrow> NormalizeSKI ski = ski \<Longrightarrow> P (provider_HandleShipHandshakeStateUpdateWithAttempt r ski st md h)"
  by (simp add: provider_HandleShipHandshakeStateUpdateWithAttempt_def guarded attempt_update)

lemma provider_pin: "P h \<Longrightarrow> P (provider_WithTransientPIN r ski h)"
  by (simp add: provider_WithTransientPIN_def guarded with_pin_for)

lemma provider_discard: "P h \<Longrightarrow> P (provider_DiscardTransientPIN r ski h)"
  by (simp add: provider_DiscardTransientPIN_def discard_pin_for split: option.split)

lemma launch: "P h \<Longrightarrow> P (launchPairingCandidate ski s q h)"
  by (simp add: launchPairingCandidate_def emit publish)

lemma admit: "P h \<Longrightarrow> P (snd (admitPairingCandidate token ref ski b h))"
proof -
  assume P: "P h"
  obtain s h1 where s: "candidateService ski h = (s, h1)" by fastforce
  have 1: "P h1" using step [OF P st_candidate_service, of ski] s by simp
  have m: "map_of (remoteServices h1) ski = Some s"
    using s by (auto simp: candidateService_def NewServiceDetails_def Let_def split: option.splits)
  have inst: "P (snd (installCandidate t ref ski e host b s h1))"
    if "\<not> svcTrusted (services h1 s)" "map_of (activePairingCandidates h1) ski = None" for t e host
    by (rule step [OF 1 st_admit [OF m that]])
  show ?thesis
  proof (cases "validPairingCandidateSKI ski")
    case (Some ski')
    then have v: "validPairingCandidateSKI ski = Some ski"
      by (auto simp: validPairingCandidateSKI_def split: if_splits option.splits)
    show ?thesis
    proof (cases "token = None \<or> map_of (visiblePairingCandidates h) ref = None")
      case True
      then show ?thesis using P by (cases token) (auto simp: admitPairingCandidate_def v)
    next
      case False
      then obtain t e where te: "token = Some t" "map_of (visiblePairingCandidates h) ref = Some e" by auto
      show ?thesis
      proof (cases "pairingCandidateAddress (pcoScopedAddresses e) (pcoAddresses e)")
        case None
        then show ?thesis using P by (simp add: admitPairingCandidate_def v te)
      next
        case (Some host)
        obtain q h2 where i: "installCandidate t ref ski e host b s h1 = (q, h2)" by fastforce
        then have "\<not> svcTrusted (services h1 s) \<Longrightarrow> map_of (activePairingCandidates h1) ski = None \<Longrightarrow> P h2"
          using inst [of t e host] by simp
        then show ?thesis using P 1 by (simp add: admitPairingCandidate_def v te Some s i publish)
      qed
    qed
  qed (use P in \<open>simp add: admitPairingCandidate_def\<close>)
qed

lemma queue: "P h \<Longrightarrow> P (snd (QueuePairingCandidate token ref ski h))"
  using admit [of h token ref ski True]
  by (auto simp: QueuePairingCandidate_def intro: launch split: prod.split sum.split)

lemma select: "P h \<Longrightarrow> P (snd (SelectPairingCandidate token ref ski h))"
  using admit [of h token ref ski False]
  by (auto simp: SelectPairingCandidate_def split: prod.split sum.split)

lemma connect:
  assumes "P h" "distinct (map fst (activePairingCandidates h))"
  shows "P (snd (connectPairingCandidate reservation provider h))"
proof (cases "find (\<lambda>(ski, q). reservationMatches (candReservation (candidates h q)) reservation)
                 (activePairingCandidates h)")
  case None
  then show ?thesis using assms by (simp add: connectPairingCandidate_def)
next
  case (Some kq)
  obtain ski q where kq: "kq = (ski, q)" by fastforce
  have "map_of (activePairingCandidates h) ski = Some q"
    using Some assms(2) by (auto simp: kq find_Some_iff in_set_conv_nth)
  then show ?thesis
    using assms(1) step [OF assms(1) st_connect, of ski q provider]
    by (auto simp: connectPairingCandidate_def Some kq Let_def intro!: launch)
qed

lemma dialed: "P h \<Longrightarrow> P (candidateDialed ski q res h)"
  by (simp add: candidateDialed_def retire)

lemma register_remote: "P h \<Longrightarrow> P (RegisterRemoteSKI ski h)"
proof -
  assume P: "P h"
  define k where "k = NormalizeSKI ski"
  obtain s h1 where s: "ServiceForSKI k h = (s, h1)" by fastforce
  define h3 where "h3 = trustService k s h1"
  have "NormalizeSKI k = k" by (simp add: k_def NormalizeSKI_idem)
  then have 3: "P h3"
    unfolding h3_def using service_mapped [OF s] by (intro step [OF service [OF P s] st_trust]) simp
  then have "P (SetState ConnectionStateQueued s h3)" by (rule state)
  with 3 show ?thesis
    unfolding RegisterRemoteSKI_def k_def [symmetric] Let_def s prod.case h3_def [symmetric]
    by (simp add: emit reannounce publish split: option.split)
qed

lemma revoke_remote:
  "P h \<Longrightarrow> ServiceForSKI (NormalizeSKI ski) h = (s, h1) \<Longrightarrow> P (revokeOutboundAttempts (NormalizeSKI ski) s h1)"
  using revoke [OF service, of h "NormalizeSKI ski" s h1 "NormalizeSKI ski" s] service_mapped [of "NormalizeSKI ski" h s h1]
  by (simp add: NormalizeSKI_idem)

lemma unregister_remote: "P h \<Longrightarrow> P (UnregisterRemoteSKI ski h)"
proof -
  assume P: "P h"
  obtain s h1 where s: "ServiceForSKI (NormalizeSKI ski) h = (s, h1)" by fastforce
  define h2 where "h2 = removeConnectionAttemptCounter (NormalizeSKI ski) (revokeOutboundAttempts (NormalizeSKI ski) s h1)"
  define h3 where "h3 = publishPairingDetail (NormalizeSKI ski) (svcDetail (services h2 s)) h2"
  have "P h3" unfolding h3_def h2_def by (intro publish uncount revoke_remote [OF P s])
  then show ?thesis
    unfolding UnregisterRemoteSKI_def Let_def s prod.case h2_def [symmetric] h3_def [symmetric]
    by (simp add: emit split: option.split)
qed

lemma cancel_pairing: "P h \<Longrightarrow> P (CancelPairingWithSKI ski h)"
proof -
  assume P: "P h"
  obtain s h1 where s: "ServiceForSKI (NormalizeSKI ski) h = (s, h1)" by fastforce
  define h2 where "h2 = removeConnectionAttemptCounter (NormalizeSKI ski) (revokeOutboundAttempts (NormalizeSKI ski) s h1)"
  have "P h2" unfolding h2_def by (intro uncount revoke_remote [OF P s])
  then show ?thesis
    unfolding CancelPairingWithSKI_def Let_def s prod.case h2_def [symmetric]
    by (simp add: emit publish split: option.split)
qed

lemma disconnect: "P h \<Longrightarrow> P (DisconnectSKI ski reason h)"
  by (simp add: DisconnectSKI_def emit split: option.split)

lemma serve:
  assumes P: "P h" and al: "connsAllocated h"
  shows "P (snd (ServeHTTP ski h))"
proof -
  define k where "k = NormalizeSKI ski"
  obtain s h1 where s: "ServiceForSKI k h = (s, h1)" by fastforce
  obtain r h2 where r: "reserveInboundPairingConnection k h1 = (r, h2)" by fastforce
  obtain c h3 where c: "newConnection k h2 = (c, h3)" by fastforce
  obtain rep ok h4 where g: "registerReservedInboundPairingConnection c r h3 = ((rep, ok), h4)" by (metis prod.exhaust)
  obtain d h5 where d: "newConnection k h1 = (d, h5)" by fastforce
  obtain ok' h6 where i: "registerInboundConnection d h5 = (ok', h6)" by fastforce
  have 1: "P h1" by (rule service [OF P s])
  have 2: "P h2" using step [OF 1 st_reserve, of k] r by simp
  have 3: "P h3" using step [OF 2 st_connection, of k] c by simp
  have 4: "P h4" using reserved [OF 3 pending_new [OF connsAllocated_reserve [OF connsAllocated_service [OF al s] r] c], of r] g by simp
  have 5: "P h5" using step [OF 1 st_connection, of k] d by simp
  have 6: "P h6" using inbound [OF 5 pending_new [OF connsAllocated_service [OF al s] d]] i by simp
  have 7: "P (hemit (HRun c) (publishPairingDetail ski (svcDetail (services h' s)) h'))"
    if "h' = SetState ConnectionStateReceivedPairingRequest s
      (case rep of None \<Rightarrow> h4 | Some e \<Rightarrow> hemit (HCloseConnection e False 0 replacedReason) h4)" for h'
    using 4 unfolding that by (intro emit publish state) (simp add: emit split: option.split)
  show ?thesis
    unfolding ServeHTTP_def k_def [symmetric] Let_def s prod.case r d i
    using 1 2 6 7 [OF refl] 4 c g by (cases r) (auto intro: abandon emit simp: Let_def)
qed

lemma coordinate: "P h \<Longrightarrow> P (coordinateConnectionInitations rnd ski e h)"
proof -
  assume P: "P h"
  obtain x h1 where x: "getConnectionInitiationDelayTime (rnd ski) ski (setConnectionAttemptRunning ski True h) = (x, h1)"
    by fastforce
  have "h1 = snd (increaseConnectionAttemptCounter ski (setConnectionAttemptRunning ski True h))"
    using x by (auto simp: getConnectionInitiationDelayTime_def Let_def split: prod.splits)
  then have 1: "P h1" using step [OF running [OF P] st_count] by simp
  obtain s h2 where s: "ServiceForSKI ski h1 = (s, h2)" by fastforce
  have "P h2" by (rule service [OF 1 s])
  with P 1 show ?thesis
    by (auto simp: coordinateConnectionInitations_def x s emit split: option.split)
qed

lemma prepare: "P h \<Longrightarrow> P (snd (prepareConnectionInitation ski n h))"
proof -
  assume P: "P h"
  define h1 where "h1 = setConnectionAttemptRunning ski False h"
  obtain s h2 where s: "ServiceForSKI ski h1 = (s, h2)" by fastforce
  obtain a h3 where a: "outboundReconnectAuthority (Some s) h2 = (a, h3)" by fastforce
  have 1: "P h1" unfolding h1_def by (rule running [OF P])
  have 2: "P h2" by (rule service [OF 1 s])
  have 3: "P h3" by (rule reconnect_authority [OF 2 a])
  show ?thesis
    unfolding prepareConnectionInitation_def h1_def [symmetric] Let_def
    using 1 2 3 by (auto simp: s a reannounce split: option.split)
qed

lemma invalidate: "P h \<Longrightarrow> P (snd (invalidateTrustedRemoteRetriesLocked obs h))"
proof -
  have "P (snd st) \<Longrightarrow> P (snd (fold (invalidateRetry obs) kps st))" for kps st
  proof (induction kps arbitrary: st)
    case (Cons kp kps)
    obtain ski p where kp: "kp = (ski, p)" by fastforce
    obtain rs skis h where st: "st = ((rs, skis), h)" by (metis prod.exhaust)
    obtain rs' h2 where r: "removeOutboundAttemptRegistrationsLocked ski (snd (rotateOutboundAuthorityLocked ski h)) = (rs', h2)"
      by fastforce
    have "P h" using Cons.prems by (simp add: st)
    then have "P (h2\<lparr>activeTrustedRemoteRetries := AList.delete ski (activeTrustedRemoteRetries h2)\<rparr>)"
      by (intro step [OF remove_regs [OF rotate r] st_retry_done])
    then show ?case
      using Cons.IH Cons.prems by (simp add: invalidateRetry_def kp st r Let_def)
  qed simp
  from this [of "(([], []), h)"] show "P h \<Longrightarrow> ?thesis" by (simp add: invalidateTrustedRemoteRetriesLocked_def)
qed

lemma reconnect_entry: "P h \<Longrightarrow> P (reconnectEntry rnd e h)"
proof (cases e)
  case (Some x)
  assume P: "P h"
  obtain s h1 where s: "ServiceForSKI (meSki x) h = (s, h1)" by fastforce
  have "P h1" by (rule service [OF P s])
  then show ?thesis using P by (simp add: reconnectEntry_def Some s coordinate step [OF _ st_autoaccept])
qed (simp add: reconnectEntry_def)

lemma retire_invisible: "P (snd st) \<Longrightarrow> P (snd (fold retireInvisible kqs st))"
proof (induction kqs arbitrary: st)
  case (Cons kq kqs)
  obtain ski q where kq: "kq = (ski, q)" by fastforce
  obtain ts h where st: "st = (ts, h)" by fastforce
  obtain t h' where t: "retireActivePairingCandidateLocked ski (Some q) (Some (candAuthority (candidates h q))) h = (t, h')"
    by fastforce
  have "P h'" using Cons.prems retire_locked [OF _ t] by (simp add: st)
  then have "P (snd (retireInvisible kq st))"
    using Cons.prems by (cases t) (auto simp: retireInvisible_def kq st t split: option.split)
  then show ?case using Cons.IH by simp
qed simp

lemma reconnect_entries: "P h \<Longrightarrow> P (fold (reconnectEntry rnd) es h)"
  by (induction es arbitrary: h) (auto intro: reconnect_entry)

lemma retry: "P h \<Longrightarrow> P (snd (RetryTrustedRemote ski h))"
proof -
  assume P: "P h"
  have r: "P (setConnectionAttemptRunning k b h)" for k b by (rule running [OF P])
  then have rr: "P (setConnectionAttemptRunning k b (setConnectionAttemptRunning k b' h))" for k b b' by (rule running)
  have s: "P h3" if "currentOutboundAuthorityLocked k (setConnectionAttemptRunning k True h) = (a, h2)"
      "startRetry k s a obs h2 = (p, h3)" for k s a obs p h2 h3
  proof -
    have "P h2" using current [OF r [of k True], of k] that(1) by simp
    then show ?thesis using step [OF _ st_retry [of h2 k s a obs]] that(2) by simp
  qed
  show ?thesis
    using P rr s by (auto simp: RetryTrustedRemote_def Let_def intro!: emit split: option.split prod.split)
qed

lemma finish_retry: "P h \<Longrightarrow> P (finishTrustedRemoteRetry ski p h)"
  by (simp add: finishTrustedRemoteRetry_def running step [OF _ st_retry_done])

lemma run_retry: "P h \<Longrightarrow> P (snd (runTrustedRemoteRetry p h))"
  by (simp add: runTrustedRemoteRetry_def Let_def finish_retry)

end

section \<open>Reachable states\<close>

locale hub_observing = hub_closed +
  assumes applied: "P h \<Longrightarrow> P (h\<lparr>mdnsAppliedAdmission := w\<rparr>)"
    and observed: "P h \<Longrightarrow> P (observe w v obs refs vis h)"
begin

lemma report: "P h \<Longrightarrow> P (reportMdnsSnapshot rnd sn h)"
proof -
  assume P: "P h"
  show ?thesis
  proof (cases "snapRevision sn < latestPairingObservationRevision h")
    case True
    obtain rs skis h1 where i: "invalidateTrustedRemoteRetriesLocked [] (h\<lparr>mdnsAppliedAdmission := snapAdmission sn\<rparr>) = ((rs, skis), h1)"
      by (metis prod.exhaust)
    have "P h1" using invalidate [OF applied [OF P, of "snapAdmission sn"], of "[]"] i by simp
    then show ?thesis using True by (simp add: reportMdnsSnapshot_def i clear_running cancel_all remove_conns)
  next
    case False
    define obs where "obs = trustedRemoteObservations (snapEntries sn) (snapRevision sn) (snapAdmission sn)"
    define h1 where "h1 = h\<lparr>latestPairingObservationRevision := snapRevision sn,
                   mdnsAppliedAdmission := snapAdmission sn,
                   visibleTrustedRemoteObservations := obs,
                   consumedPairingCandidates :=
                     filter (\<lambda>r. r \<in> CandidateRef ` set (snapCandidates sn)) (consumedPairingCandidates h),
                   visiblePairingCandidates := visibleCandidates (snapCandidates sn) (snapRevision sn)\<rparr>"
    obtain ts h2 where r: "fold retireInvisible (activePairingCandidates h1) ([], h1) = (ts, h2)" by fastforce
    obtain rs skis h3 where i: "invalidateTrustedRemoteRetriesLocked obs h2 = ((rs, skis), h3)" by (metis prod.exhaust)
    have 1: "P h1" unfolding h1_def by (rule observed [OF P, unfolded observe_def])
    have 2: "P h2" using retire_invisible [of "([], h1)" "activePairingCandidates h1"] 1 r by simp
    have 3: "P h3" using invalidate [OF 2, of obs] i by simp
    show ?thesis
      unfolding reportMdnsSnapshot_def Let_def obs_def [symmetric] h1_def [symmetric] r i prod.case
      using False 3 by (simp add: emit clear_running cancel_all finish_retirements remove_conns reconnect_entries)
  qed
qed

end

text \<open>A set of states that is also closed under admitting and taking snapshots holds all that is
  reachable from one of its states.\<close>

locale hub_invariant = hub_observing +
  assumes snapshot: "P h \<Longrightarrow> P (snd (admitMdnsSnapshot entries b cs w h))"
    and taken: "P h \<Longrightarrow> P (snd (takeSnapshot h))"
begin

lemma reachable: "hub_reachable h0 h \<Longrightarrow> P h0 \<Longrightarrow> P h"
  by (induction rule: hub_reachable.induct) (auto intro: step applied observed snapshot taken)

end

lemma observe_frame [simp]:
  "connections (observe w v obs refs vis h) = connections h"
  "hasShutdown (observe w v obs refs vis h) = hasShutdown h"
  "connectionAttemptCounter (observe w v obs refs vis h) = connectionAttemptCounter h"
  "supersededConnections (observe w v obs refs vis h) = supersededConnections h"
  "outboundAuthorities (observe w v obs refs vis h) = outboundAuthorities h"
  "activePairingCandidates (observe w v obs refs vis h) = activePairingCandidates h"
  "transientPINProviders (observe w v obs refs vis h) = transientPINProviders h"
  "remoteServices (observe w v obs refs vis h) = remoteServices h"
  "connSKI (observe w v obs refs vis h) = connSKI h"
  "services (observe w v obs refs vis h) = services h"
  "authorityEpoch (observe w v obs refs vis h) = authorityEpoch h"
  "candidates (observe w v obs refs vis h) = candidates h"
  "nextPtr (observe w v obs refs vis h) = nextPtr h"
  "outboundShutdown (observe w v obs refs vis h) = outboundShutdown h"
  "outboundAttempts (observe w v obs refs vis h) = outboundAttempts h"
  "registrations (observe w v obs refs vis h) = registrations h"
  by (simp_all add: observe_def)

lemma admitMdnsSnapshot_frame [simp]:
  "connections (snd (admitMdnsSnapshot entries b cs w h)) = connections h"
  "hasShutdown (snd (admitMdnsSnapshot entries b cs w h)) = hasShutdown h"
  "connectionAttemptCounter (snd (admitMdnsSnapshot entries b cs w h)) = connectionAttemptCounter h"
  "supersededConnections (snd (admitMdnsSnapshot entries b cs w h)) = supersededConnections h"
  "outboundAuthorities (snd (admitMdnsSnapshot entries b cs w h)) = outboundAuthorities h"
  "activePairingCandidates (snd (admitMdnsSnapshot entries b cs w h)) = activePairingCandidates h"
  "transientPINProviders (snd (admitMdnsSnapshot entries b cs w h)) = transientPINProviders h"
  "remoteServices (snd (admitMdnsSnapshot entries b cs w h)) = remoteServices h"
  "connSKI (snd (admitMdnsSnapshot entries b cs w h)) = connSKI h"
  "services (snd (admitMdnsSnapshot entries b cs w h)) = services h"
  "authorityEpoch (snd (admitMdnsSnapshot entries b cs w h)) = authorityEpoch h"
  "candidates (snd (admitMdnsSnapshot entries b cs w h)) = candidates h"
  "nextPtr (snd (admitMdnsSnapshot entries b cs w h)) = nextPtr h"
  "outboundShutdown (snd (admitMdnsSnapshot entries b cs w h)) = outboundShutdown h"
  "outboundAttempts (snd (admitMdnsSnapshot entries b cs w h)) = outboundAttempts h"
  "registrations (snd (admitMdnsSnapshot entries b cs w h)) = registrations h"
  by (simp_all add: admitMdnsSnapshot_def enqueueSnapshots_def split_beta Let_def)

lemma takeSnapshot_frame [simp]:
  "connections (snd (takeSnapshot h)) = connections h"
  "hasShutdown (snd (takeSnapshot h)) = hasShutdown h"
  "connectionAttemptCounter (snd (takeSnapshot h)) = connectionAttemptCounter h"
  "supersededConnections (snd (takeSnapshot h)) = supersededConnections h"
  "outboundAuthorities (snd (takeSnapshot h)) = outboundAuthorities h"
  "activePairingCandidates (snd (takeSnapshot h)) = activePairingCandidates h"
  "transientPINProviders (snd (takeSnapshot h)) = transientPINProviders h"
  "remoteServices (snd (takeSnapshot h)) = remoteServices h"
  "connSKI (snd (takeSnapshot h)) = connSKI h"
  "services (snd (takeSnapshot h)) = services h"
  "authorityEpoch (snd (takeSnapshot h)) = authorityEpoch h"
  "candidates (snd (takeSnapshot h)) = candidates h"
  "nextPtr (snd (takeSnapshot h)) = nextPtr h"
  "outboundShutdown (snd (takeSnapshot h)) = outboundShutdown h"
  "outboundAttempts (snd (takeSnapshot h)) = outboundAttempts h"
  "registrations (snd (takeSnapshot h)) = registrations h"
  by (simp_all add: takeSnapshot_def split: list.split)

interpretation reach: hub_invariant "hub_reachable h0" for h0
  by unfold_locales (rule hr_step hr_applied hr_observed hr_snapshot hr_take; assumption)+

text \<open>Steps leave the snapshot queue and the admission counter alone, so applying a snapshot does
  too and the drain loop ends.\<close>

lemmas region_defs = hemit_def beginCallback_def endCallback_def blockCallbacks_def cancelRegistration_def
  bindOutboundAttemptConnection_def rotateOutboundAuthorityLocked_def installRegistration_def
  registerOutboundAttemptForLaunch_def registerInternalOutboundAttemptForLaunch_def
  releaseOutboundAttemptForConnectionLocked_def releaseOutboundAttemptRegistration_def
  removeOutboundAttemptRegistrationsLocked_def removeExactConnection_def
  takeTransientPINProviderLocked_def takeTransientPINProviderForAuthorityLocked_def
  takeAllTransientPINProvidersLocked_def SetState_def ServiceForSKI_def NewServiceDetails_def
  candidateService_def updService_def SetConnectionStateDetail_def enqueuePairingDetails_def
  takePairingNotification_def removeConnectionAttemptCounter_def increaseConnectionAttemptCounter_def
  setConnectionAttemptRunning_def newConnection_def registerConnection_def setConnection_def
  supersede_def admitInbound_def admitReserved_def admitOutgoing_def
  reserveInboundPairingConnection_def claimClosedConnectionState_def
  retireActivePairingCandidateLocked_def revokeLocked_def SetTrusted_def trustService_def
  startRetry_def shutdownConnections_def
  installCandidate_def issueConnect_def updReg_def

lemma remove_regs_fold:
  "\<exists>z. snd (fold (\<lambda>ski (rs, h). let (rs', h') = removeOutboundAttemptRegistrationsLocked ski h in (rs @ rs', h')) ks (rs, h))
     = h\<lparr>outboundAttempts := z\<rparr>"
proof (induction ks arbitrary: rs h)
  case Nil
  have "h = h\<lparr>outboundAttempts := outboundAttempts h\<rparr>" by simp
  then show ?case by (simp only: fold.simps id_apply snd_conv) blast
next
  case (Cons k ks)
  obtain rs' h' where r: "removeOutboundAttemptRegistrationsLocked k h = (rs', h')" by fastforce
  then have "h'\<lparr>outboundAttempts := z\<rparr> = h\<lparr>outboundAttempts := z\<rparr>" for z
    by (auto simp: removeOutboundAttemptRegistrationsLocked_def split: option.splits list.splits)
  then show ?case using Cons.IH [of "rs @ rs'" h'] r by simp
qed

lemma shutdownAttempts_eq:
  "\<exists>z. snd (shutdownAttempts h) = h\<lparr>outboundShutdown := True, outgoingGateEpoch := outgoingGateEpoch h + 1,
     outboundAttempts := z\<rparr>"
  unfolding shutdownAttempts_def removeAllOutboundAttemptRegistrationsLocked_def by (rule remove_regs_fold)

lemma shutdownAttempts_frame [simp]:
  "connections (snd (shutdownAttempts h)) = connections h"
  "hasShutdown (snd (shutdownAttempts h)) = hasShutdown h"
  "connectionAttemptCounter (snd (shutdownAttempts h)) = connectionAttemptCounter h"
  "connectionAttemptRunning (snd (shutdownAttempts h)) = connectionAttemptRunning h"
  "connectionsInitiating (snd (shutdownAttempts h)) = connectionsInitiating h"
  "inboundPairingReservations (snd (shutdownAttempts h)) = inboundPairingReservations h"
  "supersededConnections (snd (shutdownAttempts h)) = supersededConnections h"
  "localSKI (snd (shutdownAttempts h)) = localSKI h"
  "readerHandlesAttempts (snd (shutdownAttempts h)) = readerHandlesAttempts h"
  "outgoingAttemptGate (snd (shutdownAttempts h)) = outgoingAttemptGate h"
  "outboundEpoch (snd (shutdownAttempts h)) = outboundEpoch h"
  "internalAttemptEpoch (snd (shutdownAttempts h)) = internalAttemptEpoch h"
  "outboundAuthorities (snd (shutdownAttempts h)) = outboundAuthorities h"
  "consumedPairingCandidates (snd (shutdownAttempts h)) = consumedPairingCandidates h"
  "activePairingCandidates (snd (shutdownAttempts h)) = activePairingCandidates h"
  "activeTrustedRemoteRetries (snd (shutdownAttempts h)) = activeTrustedRemoteRetries h"
  "transientPINProviders (snd (shutdownAttempts h)) = transientPINProviders h"
  "remoteServices (snd (shutdownAttempts h)) = remoteServices h"
  "mdnsSnapshotQueue (snd (shutdownAttempts h)) = mdnsSnapshotQueue h"
  "mdnsSnapshotAdmission (snd (shutdownAttempts h)) = mdnsSnapshotAdmission h"
  "mdnsAppliedAdmission (snd (shutdownAttempts h)) = mdnsAppliedAdmission h"
  "connSKI (snd (shutdownAttempts h)) = connSKI h"
  "services (snd (shutdownAttempts h)) = services h"
  "authorityEpoch (snd (shutdownAttempts h)) = authorityEpoch h"
  "registrations (snd (shutdownAttempts h)) = registrations h"
  "reservations (snd (shutdownAttempts h)) = reservations h"
  "candidates (snd (shutdownAttempts h)) = candidates h"
  "retries (snd (shutdownAttempts h)) = retries h"
  "nextPtr (snd (shutdownAttempts h)) = nextPtr h"
  "hubTrace (snd (shutdownAttempts h)) = hubTrace h"
  using shutdownAttempts_eq [of h] by auto

interpretation snapshot_frame: hub_observing "\<lambda>h. mdnsSnapshotQueue h = q \<and> mdnsSnapshotAdmission h = w" for q w
proof unfold_locales
  fix h h'
  assume "mdnsSnapshotQueue h = q \<and> mdnsSnapshotAdmission h = w" and "hub_step h h'"
  from this(2,1) show "mdnsSnapshotQueue h' = q \<and> mdnsSnapshotAdmission h' = w"
    by (induction rule: hub_step.induct)
       (auto simp: region_defs Let_def split: option.splits prod.splits list.splits if_splits)
qed (simp_all add: observe_def)

interpretation applied_frame: hub_closed "\<lambda>h. mdnsAppliedAdmission h = w" for w
proof unfold_locales
  fix h h'
  assume "mdnsAppliedAdmission h = w" and "hub_step h h'"
  from this(2,1) show "mdnsAppliedAdmission h' = w"
    by (induction rule: hub_step.induct)
       (auto simp: region_defs Let_def split: option.splits prod.splits list.splits if_splits)
qed

lemmas report_queue [simp] = snapshot_frame.report [OF conjI [OF refl refl], THEN conjunct1]
lemmas report_admission [simp] = snapshot_frame.report [OF conjI [OF refl refl], THEN conjunct2]

function drainMdnsSnapshots :: "(bytes \<Rightarrow> nat) \<Rightarrow> hub \<Rightarrow> hub" where
  "drainMdnsSnapshots rnd h =
    (case takeSnapshot h of
       (None, h') \<Rightarrow> h'
     | (Some sn, h') \<Rightarrow> drainMdnsSnapshots rnd (reportMdnsSnapshot rnd sn h'))"
  by pat_completeness auto

termination
  by (relation "measure (\<lambda>(rnd, h). length (mdnsSnapshotQueue h))")
    (auto simp: takeSnapshot_def split: list.splits)

declare drainMdnsSnapshots.simps [simp del]

text \<open>\<open>enqueueMdnsSnapshot\<close>: the caller that finds nobody draining applies every queued snapshot.\<close>

definition enqueueMdnsSnapshot ::
  "(bytes \<Rightarrow> nat) \<Rightarrow> (bytes \<times> MdnsEntry option) list \<Rightarrow> bool \<Rightarrow> apiCandidate list \<Rightarrow> uint64 \<Rightarrow> hub \<Rightarrow> hub" where
  "enqueueMdnsSnapshot rnd entries newEntries cs revision h =
    (let (owner, h') = admitMdnsSnapshot entries newEntries cs revision h in
     if owner then drainMdnsSnapshots rnd h' else h')"

definition ReportMdnsEntries :: "(bytes \<Rightarrow> nat) \<Rightarrow> (bytes \<times> MdnsEntry option) list \<Rightarrow> bool \<Rightarrow> hub \<Rightarrow> hub" where
  "ReportMdnsEntries rnd entries newEntries h = enqueueMdnsSnapshot rnd entries newEntries [] 0 h"

lemma drain_reachable: "hub_reachable h0 h \<Longrightarrow> hub_reachable h0 (drainMdnsSnapshots rnd h)"
proof (induction rnd h rule: drainMdnsSnapshots.induct)
  case (1 rnd h)
  obtain t h' where t: "takeSnapshot h = (t, h')" by fastforce
  have "hub_reachable h0 h'" using hr_take [OF 1 (2)] t by simp
  then show ?case
    using 1 (1) [OF t [symmetric]] by (subst drainMdnsSnapshots.simps) (auto simp: t reach.report split: option.split)
qed

lemma enqueue_reachable: "hub_reachable h0 h \<Longrightarrow> hub_reachable h0 (enqueueMdnsSnapshot rnd es b cs w h)"
  using hr_snapshot [of h0 h es b cs w]
  by (auto simp: enqueueMdnsSnapshot_def drain_reachable split: prod.split)

end
