(* ===== verification/Hub_Invariants.thy ===== *)
theory Hub_Invariants
  imports Hub_Steps
begin

text \<open>
  Invariants of the hub, each an interpretation of \<open>hub_closed\<close>: proved for the regions and so
  valid for every operation and every interleaving.
\<close>

section \<open>The connection registry\<close>

definition registryInv :: "hub \<Rightarrow> bool" where
  "registryInv h =
    ((\<forall>k c. map_of (connections h) k = Some c \<longrightarrow>
        connSKI h c = k \<and> c < nextPtr h \<and> c \<notin> set (supersededConnections h))
     \<and> (\<forall>c \<in> set (supersededConnections h). c < nextPtr h)
     \<and> distinct (map fst (connections h))
     \<and> (hasShutdown h \<longrightarrow> connections h = []))"

lemma registryInv_frame:
  assumes "registryInv h" "connections h' = connections h" "supersededConnections h' = supersededConnections h"
    "hasShutdown h' = hasShutdown h" "nextPtr h \<le> nextPtr h'"
    "\<And>c. c < nextPtr h \<Longrightarrow> connSKI h' c = connSKI h c"
  shows "registryInv h'"
  using assms unfolding registryInv_def by (metis order_less_le_trans)

lemma registryInv_drop:
  "registryInv h \<Longrightarrow> registryInv (h\<lparr>connections := AList.delete k (connections h), inboundPairingReservations := rs\<rparr>)"
  by (auto simp: registryInv_def distinct_delete)

lemma registryInv_set:
  assumes "registryInv h" "pendingConnection c h" "\<not> hasShutdown h"
  shows "registryInv (setConnection c (h\<lparr>reservations := rs\<rparr>))"
  using assms by (auto simp: registryInv_def pendingConnection_def setConnection_def distinct_update split: if_splits)

lemma registryInv_supersede:
  assumes "registryInv h" "pendingConnection c h" "\<not> hasShutdown h" "map_of (connections h) (connSKI h c) = Some e"
  shows "registryInv (supersede e (setConnection c (h\<lparr>reservations := rs\<rparr>)))"
proof -
  have "e \<noteq> c" using assms by (auto simp: pendingConnection_def)
  moreover have "connSKI h e = connSKI h c" using assms by (auto simp: registryInv_def)
  ultimately show ?thesis
    using assms by (auto simp: registryInv_def pendingConnection_def supersede_def setConnection_def distinct_update split: if_splits) metis
qed

lemma registryInv_handoff: "registryInv h \<Longrightarrow> pendingConnection c h \<Longrightarrow> registryInv (supersede c h)"
  by (auto simp: registryInv_def pendingConnection_def supersede_def)

lemmas registryInv_set' = registryInv_set [where rs = "reservations h" and h = h for h, simplified]
lemmas registryInv_supersede' = registryInv_supersede [where rs = "reservations h" and h = h for h, simplified]

lemma supersede_set: "setConnection c (supersede e h) = supersede e (setConnection c h)"
  by (simp add: supersede_def setConnection_def)

lemma registryInv_step: "hub_step h h' \<Longrightarrow> registryInv h \<Longrightarrow> registryInv h'"
proof (induction rule: hub_step.induct)
  case (st_claim h c)
  have "registryInv (h\<lparr>supersededConnections := removeAll c (supersededConnections h)\<rparr>)"
    using st_claim by (auto simp: registryInv_def)
  then show ?case
    using st_claim registryInv_drop [OF st_claim] by (simp add: claimClosedConnectionState_def Let_def)
next
  case (st_remove_conn h c)
  then show ?case using registryInv_drop [where rs = "inboundPairingReservations h" and h = h]
    by (simp add: removeExactConnection_def)
next
  case (st_register c h)
  then show ?case using registryInv_frame [of h]
    by (auto simp: registerConnection_def hemit_def intro: registryInv_set')
next
  case (st_inbound c h)
  then show ?case
    by (auto simp: admitInbound_def Let_def intro: registryInv_set' registryInv_supersede' split: option.split)
next
  case (st_reserved c h p)
  then show ?case
    by (auto simp: admitReserved_def Let_def intro: registryInv_set registryInv_supersede split: option.split)
next
  case (st_outgoing c h b a)
  then show ?case
    by (auto simp: admitOutgoing_def Let_def supersede_set
        intro: registryInv_set' registryInv_supersede' registryInv_handoff split: option.split)
next
  case (st_shutdown h)
  then show ?case by (auto simp: shutdownConnections_def registryInv_def)
qed (erule registryInv_frame; auto simp: region_defs Let_def split: option.splits prod.splits list.splits if_splits)+

interpretation registry: hub_invariant registryInv
  by unfold_locales (rule registryInv_step, assumption+, (erule registryInv_frame; simp)+)

section \<open>Authorities\<close>

definition authorityInv :: "hub \<Rightarrow> bool" where
  "authorityInv h =
    ((\<forall>k a. map_of (outboundAuthorities h) k = Some a \<longrightarrow> a < nextPtr h \<and> authorityEpoch h a \<noteq> 0)
     \<and> (\<forall>k k' a. map_of (outboundAuthorities h) k = Some a \<longrightarrow> map_of (outboundAuthorities h) k' = Some a \<longrightarrow> k = k'))"

lemma authorityInv_frame:
  "authorityInv h \<Longrightarrow> outboundAuthorities h' = outboundAuthorities h \<Longrightarrow> nextPtr h \<le> nextPtr h' \<Longrightarrow>
     authorityEpoch h' = authorityEpoch h \<Longrightarrow> authorityInv h'"
  unfolding authorityInv_def by (metis order_less_le_trans)

lemma authorityInv_rotate:
  assumes "authorityInv h" "outboundAuthorities h' = AList.update ski (nextPtr h) (outboundAuthorities h)"
    "nextPtr h < nextPtr h'" "authorityEpoch h' = (authorityEpoch h)(nextPtr h := nextEpoch e)"
  shows "authorityInv h'"
  using assms by (fastforce simp: authorityInv_def nextEpoch_nonzero split: if_splits)

lemma authorityInv_step: "hub_step h h' \<Longrightarrow> authorityInv h \<Longrightarrow> authorityInv h'"
proof (induction rule: hub_step.induct)
  case (st_rotate h ski)
  then show ?case by (rule authorityInv_rotate) (simp_all add: rotateOutboundAuthorityLocked_def Let_def)
next
  case (st_retire h ski r a)
  show ?case
  proof (cases "fst (retireActivePairingCandidateLocked ski r a h)")
    case None
    then have "snd (retireActivePairingCandidateLocked ski r a h) = h"
      by (auto simp: retireActivePairingCandidateLocked_def Let_def split: option.splits prod.splits if_splits)
    then show ?thesis using st_retire by simp
  next
    case (Some t)
    then show ?thesis
      by (intro authorityInv_rotate [OF st_retire, where ski = ski and e = "outboundEpoch h"])
         (auto simp: region_defs Let_def split: option.splits prod.splits if_splits)
  qed
next
  case (st_revoke h ski s)
  show ?case
    by (intro authorityInv_rotate [OF st_revoke (2), where ski = ski and e = "outboundEpoch h"])
       (auto simp: region_defs Let_def split: option.splits prod.splits list.splits if_splits)
next
  case (st_admit h ski s token ref entry host b)
  show ?case
    by (intro authorityInv_rotate [OF st_admit (4), where ski = ski and e = "outboundEpoch h"])
       (auto simp: region_defs Let_def)
qed (erule authorityInv_frame; auto simp: region_defs Let_def split: option.splits prod.splits list.splits if_splits)+

interpretation authority: hub_invariant authorityInv
  by unfold_locales (rule authorityInv_step, assumption+, (erule authorityInv_frame; simp)+)

text \<open>An authority that is no longer current for any SKI.\<close>

definition deadAuthority :: "ptr \<Rightarrow> hub \<Rightarrow> bool" where
  "deadAuthority a h = (a < nextPtr h \<and> (\<forall>k. map_of (outboundAuthorities h) k \<noteq> Some a))"

lemma deadAuthority_rotate:
  "deadAuthority a h \<Longrightarrow> outboundAuthorities h' = AList.update ski (nextPtr h) (outboundAuthorities h) \<Longrightarrow>
     nextPtr h < nextPtr h' \<Longrightarrow> deadAuthority a h'"
  by (auto simp: deadAuthority_def)

lemma deadAuthority_step: "hub_step h h' \<Longrightarrow> deadAuthority a h \<Longrightarrow> deadAuthority a h'"
proof (induction rule: hub_step.induct)
  case (st_rotate h ski)
  then show ?case by (rule deadAuthority_rotate) (simp_all add: rotateOutboundAuthorityLocked_def Let_def)
next
  case (st_revoke h ski s)
  show ?case
    by (intro deadAuthority_rotate [OF st_revoke (2), where ski = ski])
       (auto simp: region_defs Let_def split: option.splits prod.splits list.splits if_splits)
qed (auto simp: deadAuthority_def region_defs Let_def split: option.splits prod.splits list.splits if_splits)+

interpretation dead: hub_invariant "deadAuthority a" for a
  by unfold_locales (rule deadAuthority_step, assumption+, simp_all add: deadAuthority_def)

lemma rotate_dead:
  assumes "authorityInv h" "map_of (outboundAuthorities h) ski = Some a"
    "outboundAuthorities h' = AList.update ski (nextPtr h) (outboundAuthorities h)" "nextPtr h < nextPtr h'"
  shows "deadAuthority a h'"
proof -
  have "a < nextPtr h" using assms(1,2) by (simp add: authorityInv_def)
  moreover from this assms(4) have "a < nextPtr h'" by simp
  ultimately show ?thesis using assms(1-3) by (auto simp: authorityInv_def deadAuthority_def)
qed

section \<open>Attempt counters\<close>

definition counterInv :: "hub \<Rightarrow> bool" where
  "counterInv h = (\<forall>k n. map_of (connectionAttemptCounter h) k = Some n \<longrightarrow> 0 \<le> n \<and> n \<le> 2)"

lemma counterInv_step: "hub_step h h' \<Longrightarrow> counterInv h \<Longrightarrow> counterInv h'"
proof (induction rule: hub_step.induct)
  case (st_count h ski)
  then show ?case
    by (auto simp: increaseConnectionAttemptCounter_def counterInv_def connectionInitiationDelayTimeRanges_def Let_def
        split: option.splits if_splits)
qed (auto simp: counterInv_def region_defs Let_def split: option.splits prod.splits list.splits if_splits)+

interpretation counter: hub_invariant counterInv
  by unfold_locales (rule counterInv_step, assumption+, simp_all add: counterInv_def)

section \<open>PIN providers\<close>

text \<open>A PIN provider waits only for an attempt that was issued under its authority, or for a
  remote that has meanwhile been trusted.\<close>

definition servicesInv :: "hub \<Rightarrow> bool" where
  "servicesInv h =
    ((\<forall>k s. map_of (remoteServices h) k = Some s \<longrightarrow> s < nextPtr h)
     \<and> (\<forall>k k' s. map_of (remoteServices h) k = Some s \<longrightarrow> map_of (remoteServices h) k' = Some s \<longrightarrow> k = k')
     \<and> (\<forall>k q. map_of (activePairingCandidates h) k = Some q \<longrightarrow>
          q < nextPtr h \<and> map_of (remoteServices h) k = Some (candService (candidates h q)))
     \<and> (\<forall>k k' q. map_of (activePairingCandidates h) k = Some q \<longrightarrow> map_of (activePairingCandidates h) k' = Some q \<longrightarrow> k = k')
     \<and> distinct (map fst (activePairingCandidates h)))"

definition providerOwned :: "hub \<Rightarrow> bytes \<Rightarrow> ptr \<Rightarrow> bool" where
  "providerOwned h k a =
    ((\<exists>q. map_of (activePairingCandidates h) k = Some q \<and> candAuthority (candidates h q) = a
        \<and> candConnectIssued (candidates h q))
     \<or> (\<exists>s. map_of (remoteServices h) k = Some s \<and> svcTrusted (services h s)))"

definition providerInv :: "hub \<Rightarrow> bool" where
  "providerInv h =
    (servicesInv h \<and> (\<forall>k a p. map_of (transientPINProviders h) k = Some (a, p) \<longrightarrow> providerOwned h k a))"

lemma providerInv_frame:
  assumes "providerInv h" "\<And>k x. map_of (transientPINProviders h') k = Some x \<Longrightarrow> map_of (transientPINProviders h) k = Some x"
    "activePairingCandidates h' = activePairingCandidates h" "candidates h' = candidates h"
    "remoteServices h' = remoteServices h" "\<And>s. svcTrusted (services h' s) = svcTrusted (services h s)"
    "nextPtr h \<le> nextPtr h'"
  shows "providerInv h'"
proof -
  have "servicesInv h'"
    using assms(1,3,4,5) order_less_le_trans [OF _ assms(7)] unfolding providerInv_def servicesInv_def by simp
  with assms show ?thesis by (auto simp: providerInv_def providerOwned_def)
qed

text \<open>The candidate of an SKI leaves; its provider is taken with it, or the service is trusted.\<close>

lemma providerInv_leave:
  assumes inv: "providerInv h"
    and prov: "\<And>k x. map_of (transientPINProviders h') k = Some x \<Longrightarrow> map_of (transientPINProviders h) k = Some x"
    and act: "activePairingCandidates h' = AList.delete ski (activePairingCandidates h)"
    and frame: "candidates h' = candidates h" "remoteServices h' = remoteServices h" "nextPtr h \<le> nextPtr h'"
    and others: "\<And>k s. k \<noteq> ski \<Longrightarrow> map_of (remoteServices h) k = Some s \<Longrightarrow> svcTrusted (services h' s) = svcTrusted (services h s)"
    and gone: "map_of (transientPINProviders h') ski = None
      \<or> (\<exists>s. map_of (remoteServices h) ski = Some s \<and> svcTrusted (services h' s))"
  shows "providerInv h'"
proof -
  have sv: "servicesInv h'"
    using inv act frame unfolding providerInv_def servicesInv_def
    by (auto simp: distinct_delete dest: order_less_le_trans split: if_splits) (metis order_less_le_trans)+
  have "providerOwned h' k a" if p: "map_of (transientPINProviders h') k = Some (a, p)" for k a p
  proof (cases "k = ski")
    case True
    then show ?thesis using gone p frame by (auto simp: providerOwned_def)
  next
    case False
    have "providerOwned h k a" using inv prov [OF p] by (auto simp: providerInv_def)
    then show ?thesis using False act frame others by (auto simp: providerOwned_def)
  qed
  with sv show ?thesis by (simp add: providerInv_def)
qed

lemma providerInv_trust:
  assumes "providerInv h" "map_of (remoteServices h) ski = Some s"
  shows "providerInv (trustService ski s h)"
proof (rule providerInv_leave [OF assms(1), where ski = ski])
  fix k s' assume "k \<noteq> ski" "map_of (remoteServices h) k = Some s'"
  then have "s' \<noteq> s" using assms by (auto simp: providerInv_def servicesInv_def)
  then show "svcTrusted (services (trustService ski s h) s') = svcTrusted (services h s')"
    by (simp add: trustService_def SetTrusted_def updService_def Let_def)
qed (use assms in \<open>simp_all add: trustService_def SetTrusted_def updService_def Let_def\<close>)

lemma providerInv_revoke:
  assumes "providerInv h" "map_of (remoteServices h) ski = Some s"
  shows "providerInv (snd (revokeLocked ski s h))"
proof (rule providerInv_leave [OF assms(1), where ski = ski])
  fix k s' assume "k \<noteq> ski" "map_of (remoteServices h) k = Some s'"
  then have "s' \<noteq> s" using assms by (auto simp: providerInv_def servicesInv_def)
  then show "svcTrusted (services (snd (revokeLocked ski s h)) s') = svcTrusted (services h s')"
    by (auto simp: region_defs Let_def split: option.splits prod.splits list.splits if_splits)
qed (auto simp: region_defs Let_def split: option.splits prod.splits list.splits if_splits)

lemma providerInv_retire:
  assumes "providerInv h"
  shows "providerInv (snd (retireActivePairingCandidateLocked ski r a h))"
proof (cases "fst (retireActivePairingCandidateLocked ski r a h)")
  case None
  then have "snd (retireActivePairingCandidateLocked ski r a h) = h"
    by (auto simp: retireActivePairingCandidateLocked_def Let_def split: option.splits prod.splits if_splits)
  then show ?thesis using assms by simp
next
  case (Some t)
  then obtain q where q: "map_of (activePairingCandidates h) ski = Some q"
      "\<not> svcTrusted (services h (candService (candidates h q)))"
    by (auto simp: retireActivePairingCandidateLocked_def Let_def split: option.splits if_splits)
  have own: "x = candAuthority (candidates h q)" if "map_of (transientPINProviders h) ski = Some (x, p)" for x p
  proof -
    have "providerOwned h ski x" using assms that by (simp add: providerInv_def)
    moreover have "map_of (remoteServices h) ski = Some (candService (candidates h q))"
      using assms q(1) by (simp add: providerInv_def servicesInv_def)
    ultimately show ?thesis using q by (auto simp: providerOwned_def)
  qed
  show ?thesis
    by (rule providerInv_leave [OF assms, where ski = ski])
       (use Some q own in \<open>auto simp: region_defs Let_def split: option.splits prod.splits if_splits\<close>)
qed

lemma providerInv_admit:
  assumes "providerInv h" "map_of (remoteServices h) ski = Some s" "\<not> svcTrusted (services h s)"
    "map_of (activePairingCandidates h) ski = None"
  shows "providerInv (snd (installCandidate token ref ski entry host b s h))"
proof -
  let ?h = "snd (installCandidate token ref ski entry host b s h)"
  let ?q = "Suc (nextPtr h)"
  have f: "activePairingCandidates ?h = AList.update ski ?q (activePairingCandidates h)"
      "remoteServices ?h = remoteServices h" "nextPtr ?h = Suc ?q" "transientPINProviders ?h = transientPINProviders h"
      "\<And>x. svcTrusted (services ?h x) = svcTrusted (services h x)" "candService (candidates ?h ?q) = s"
      "\<And>q. q \<noteq> ?q \<Longrightarrow> candidates ?h q = candidates h q"
    by (auto simp: region_defs Let_def)
  have old: "q < nextPtr h \<and> map_of (remoteServices h) k = Some (candService (candidates h q))"
    if "map_of (activePairingCandidates h) k = Some q" for k q
    using assms(1) that by (auto simp: providerInv_def servicesInv_def)
  have keep: "candidates ?h q = candidates h q" if "map_of (activePairingCandidates h) k = Some q" for k q
    using old [OF that] f(7) by simp
  have none: "map_of (transientPINProviders h) ski = None"
  proof (rule ccontr)
    assume "map_of (transientPINProviders h) ski \<noteq> None"
    then obtain x p where "map_of (transientPINProviders h) ski = Some (x, p)" by auto
    then have "providerOwned h ski x" using assms(1) by (simp add: providerInv_def)
    then show False using assms by (simp add: providerOwned_def)
  qed
  have "servicesInv ?h"
    using assms(1,2) old keep f(1-3,6) unfolding providerInv_def servicesInv_def
    by (auto simp: distinct_update less_Suc_eq split: if_splits)
  moreover have "providerOwned ?h k a" if "map_of (transientPINProviders h) k = Some (a, p)" for k a p
  proof -
    have "k \<noteq> ski" using none that by auto
    moreover have "providerOwned h k a" using assms(1) that by (auto simp: providerInv_def)
    ultimately show ?thesis using f keep by (auto simp: providerOwned_def)
  qed
  ultimately show ?thesis using f(4) by (simp add: providerInv_def)
qed

lemma providerInv_connect:
  assumes "providerInv h" "map_of (activePairingCandidates h) ski = Some q"
  shows "providerInv (issueConnect ski q r h)"
proof -
  let ?h = "issueConnect ski q r h"
  have f: "activePairingCandidates ?h = activePairingCandidates h" "remoteServices ?h = remoteServices h"
      "nextPtr ?h = nextPtr h" "services ?h = services h"
      "\<And>x. candService (candidates ?h x) = candService (candidates h x)"
      "\<And>x. candAuthority (candidates ?h x) = candAuthority (candidates h x)"
      "\<And>x. candConnectIssued (candidates ?h x) = (candConnectIssued (candidates h x) \<or> x = q)"
    by (auto simp: region_defs Let_def split: option.splits)
  have p: "map_of (transientPINProviders ?h) k =
      (if k = ski \<and> r \<noteq> None then Some (candAuthority (candidates h q), the r) else map_of (transientPINProviders h) k)" for k
    by (auto simp: region_defs Let_def split: option.splits)
  have "servicesInv ?h" using assms(1) f by (auto simp: providerInv_def servicesInv_def)
  moreover have "providerOwned h k a \<Longrightarrow> providerOwned ?h k a" for k a
    using f by (auto simp: providerOwned_def)
  moreover have "providerOwned ?h ski (candAuthority (candidates h q))"
    using f assms(2) by (auto simp: providerOwned_def)
  ultimately show ?thesis using assms(1) p by (auto simp: providerInv_def split: if_splits)
qed

lemma providerInv_new_service:
  assumes inv: "providerInv h" and new: "map_of (remoteServices h) k = None"
    and f: "remoteServices h' = AList.update k p (remoteServices h)" "nextPtr h \<le> p" "p < nextPtr h'"
      "activePairingCandidates h' = activePairingCandidates h" "candidates h' = candidates h"
      "transientPINProviders h' = transientPINProviders h" "\<And>s. s < nextPtr h \<Longrightarrow> services h' s = services h s"
  shows "providerInv h'"
proof -
  have old: "s < nextPtr h" if "map_of (remoteServices h) x = Some s" for x s
    using inv that by (auto simp: providerInv_def servicesInv_def)
  then have other: "map_of (remoteServices h) x \<noteq> Some p" for x using f(2) by (metis not_less)
  have up: "n < nextPtr h \<Longrightarrow> n < nextPtr h'" for n using f(2,3) by simp
  have "servicesInv h'"
    using inv new f old other up unfolding providerInv_def servicesInv_def
    by (auto simp del: map_of_eq_Some_iff split: if_splits) (metis up)+
  moreover have "providerOwned h' x a" if "providerOwned h x a" for x a
    using that new f old by (auto simp: providerOwned_def)
  ultimately show ?thesis using inv f(6) by (auto simp: providerInv_def)
qed

lemma providerInv_service: "providerInv h \<Longrightarrow> providerInv (snd (ServiceForSKI ski h))"
proof (cases "map_of (remoteServices h) (NormalizeSKI ski)")
  case None
  assume "providerInv h"
  from this None show ?thesis
    by (rule providerInv_new_service [where p = "Suc (nextPtr h)"])
       (simp_all add: ServiceForSKI_def NewServiceDetails_def SetState_def Let_def None)
qed (simp add: ServiceForSKI_def)

lemma providerInv_candidate_service: "providerInv h \<Longrightarrow> providerInv (snd (candidateService ski h))"
proof (cases "map_of (remoteServices h) ski")
  case None
  assume "providerInv h"
  from this None show ?thesis
    by (rule providerInv_new_service [where p = "Suc (nextPtr h)"])
       (simp_all add: candidateService_def NewServiceDetails_def Let_def None)
qed (simp add: candidateService_def)

lemma providerInv_step: "hub_step h h' \<Longrightarrow> providerInv h \<Longrightarrow> providerInv h'"
proof (induction rule: hub_step.induct)
  case (st_trust h ski s)
  then show ?case by (rule providerInv_trust [rotated])
next
  case (st_revoke h ski s)
  then show ?case by (rule providerInv_revoke [rotated])
next
  case (st_retire h ski r a)
  then show ?case by (rule providerInv_retire)
next
  case (st_admit h ski s)
  then show ?case by (intro providerInv_admit)
next
  case (st_connect h ski q r)
  then show ?case by (intro providerInv_connect)
next
  case (st_service h ski)
  then show ?case by (rule providerInv_service)
next
  case (st_candidate_service h ski)
  then show ?case by (rule providerInv_candidate_service)
qed (erule providerInv_frame; auto simp: region_defs Let_def split: option.splits prod.splits list.splits if_splits)+

interpretation provider: hub_invariant providerInv
  by unfold_locales (rule providerInv_step, assumption+, (erule providerInv_frame; simp)+)

end
