(* ===== verification/Hub_Properties.thy ===== *)
theory Hub_Properties
  imports Hub_Invariants
begin

text \<open>
  Properties of the hub: the connection registry with the SKI ordering rule, shutdown, revocation
  of authorities, PIN providers, candidates, discovery snapshots and retries.
\<close>

section \<open>Reachable states satisfy the invariants\<close>

lemma NewHub_invariants:
  "registryInv (NewHub ski b d)" "authorityInv (NewHub ski b d)" "counterInv (NewHub ski b d)"
  "providerInv (NewHub ski b d)"
  by (simp_all add: NewHub_def registryInv_def authorityInv_def counterInv_def providerInv_def servicesInv_def)

section \<open>An example hub\<close>

definition exampleSKI :: bytes where
  "exampleSKI = replicate 40 (CHR ''b'')"

definition exampleHub :: hub where
  "exampleHub = NewHub (replicate 40 (CHR ''a'')) True (\<lambda>_. True)"

text \<open>A hub that serves one inbound connection of the example SKI.\<close>

definition exampleServed :: hub where
  "exampleServed = snd (ServeHTTP exampleSKI exampleHub)"

lemma exampleHub_allocated: "connsAllocated exampleHub"
  by (simp add: connsAllocated_def exampleHub_def NewHub_def)

lemma exampleServed_reachable: "hub_reachable exampleHub exampleServed"
  unfolding exampleServed_def by (rule reach.serve [OF hr_start exampleHub_allocated])

section \<open>The connection registry\<close>

text \<open>C2: in every state the hub can reach, under every interleaving of its regions: a registered
  connection stands under its own remote SKI, at most one per SKI, and is not one of the superseded
  ones; a hub that was shut down has no connection left.\<close>

theorem registry_consistent:
  assumes "hub_reachable (NewHub ski b d) h"
  shows "(\<forall>k c. map_of (connections h) k = Some c \<longrightarrow> connSKI h c = k \<and> c \<notin> set (supersededConnections h))
    \<and> distinct (map fst (connections h)) \<and> (hasShutdown h \<longrightarrow> connections h = [])"
  using registry.reachable [OF assms NewHub_invariants(1)] by (auto simp: registryInv_def)

theorem registry_consistent_witness:
  "connections exampleServed = [(exampleSKI, 3)] \<and> connSKI exampleServed 3 = exampleSKI"
proof -
  have c: "connections exampleServed = [(exampleSKI, 3)]" by code_simp
  show ?thesis
    using registry_consistent [OF exampleServed_reachable [unfolded exampleHub_def]] c by simp
qed

text \<open>C14: both ends of a double connection keep the same one. When two hubs already have a
  connection to each other and the second hub dials again, the first hub accepts the new inbound
  connection exactly when the second one accepts it as outgoing, namely when the dialling side has
  the greater SKI.\<close>

theorem double_connection_agreement:
  assumes "\<not> hasShutdown ha" "\<not> hasShutdown hb" "localSKI ha \<noteq> localSKI hb"
    and "connSKI ha ca = localSKI hb" "connSKI hb cb = localSKI ha"
    and "map_of (connections ha) (localSKI hb) = Some ea" "map_of (connections hb) (localSKI ha) = Some eb"
    and "supersededConnectionCountForSKILocked (localSKI hb) ha < 128"
    and "supersededConnectionCountForSKILocked (localSKI ha) hb < 128"
    and "map_of (inboundPairingReservations hb) (localSKI ha) = None"
  shows "(fst (registerInboundConnection ca ha) \<longleftrightarrow> localSKI ha < localSKI hb)
    \<and> (fst (registerOutgoingConnection cb False a hb) = outgoingConnectionRegistrationAccepted
         \<longleftrightarrow> localSKI ha < localSKI hb)"
proof -
  have "localSKI hb \<le> localSKI ha \<longleftrightarrow> \<not> localSKI ha < localSKI hb" by auto
  then show ?thesis
    using assms by (simp add: registerInboundConnection_def admitInbound_def registerOutgoingConnection_def
        admitOutgoing_def maximumSupersededConnectionsPerSKI_def Let_def)
qed

definition exampleConnected :: "bytes \<Rightarrow> bytes \<Rightarrow> hub" where
  "exampleConnected self other =
    (let (c, h) = newConnection other (NewHub self True (\<lambda>_. True));
         h1 = snd (registerInboundConnection c h)
     in snd (newConnection other h1))"

theorem double_connection_agreement_witness:
  "fst (registerInboundConnection 2 (exampleConnected ''a'' ''b''))
   \<and> fst (registerOutgoingConnection 2 False None (exampleConnected ''b'' ''a'')) = outgoingConnectionRegistrationAccepted"
proof -
  have "\<not> hasShutdown (exampleConnected ''a'' ''b'')" "\<not> hasShutdown (exampleConnected ''b'' ''a'')"
    "localSKI (exampleConnected ''a'' ''b'') = ''a''" "localSKI (exampleConnected ''b'' ''a'') = ''b''"
    "connSKI (exampleConnected ''a'' ''b'') 2 = ''b''" "connSKI (exampleConnected ''b'' ''a'') 2 = ''a''"
    "map_of (connections (exampleConnected ''a'' ''b'')) ''b'' = Some 1"
    "map_of (connections (exampleConnected ''b'' ''a'')) ''a'' = Some 1"
    "supersededConnectionCountForSKILocked ''b'' (exampleConnected ''a'' ''b'') < 128"
    "supersededConnectionCountForSKILocked ''a'' (exampleConnected ''b'' ''a'') < 128"
    "map_of (inboundPairingReservations (exampleConnected ''b'' ''a'')) ''a'' = None"
    "''a'' < ''b''" by code_simp+
  then show ?thesis
    using double_connection_agreement [of "exampleConnected ''a'' ''b''" "exampleConnected ''b'' ''a''" 2 2 1 1 None] by simp
qed

end
