(* ===== verification/Hub_Lifecycle.thy ===== *)
theory Hub_Lifecycle
  imports Hub_Properties
begin

text \<open>
  The end of things in the hub: replaced connections, shutdown, revoked authorities, and what a
  notification can change.
\<close>

section \<open>Publishing changes only the notification queue and the trace\<close>

definition unnotified :: "hub \<Rightarrow> hub" where
  "unnotified h = h\<lparr>pairingNotificationQueue := [], pairingNotificationDraining := False, hubTrace := []\<rparr>"

lemma unnotified_drain: "unnotified (drainPairingNotifications h) = unnotified h"
proof (induction h rule: drainPairingNotifications.induct)
  case (1 h)
  obtain t h' where t: "takePairingNotification h = (t, h')" by fastforce
  then have "unnotified h' = unnotified h"
    by (auto simp: takePairingNotification_def unnotified_def split: list.splits)
  then show ?case
    using 1 [OF t [symmetric]]
    by (subst drainPairingNotifications.simps) (auto simp: t unnotified_def hemit_def split: option.split)
qed

lemma publish_frame: "unnotified (publishPairingDetail ski d h) = unnotified h"
  by (auto simp: publishPairingDetail_def enqueuePairingDetails_def unnotified_drain) (simp_all add: unnotified_def)

lemma unnotified_eq: "unnotified h = unnotified h' \<Longrightarrow>
    h = h'\<lparr>pairingNotificationQueue := pairingNotificationQueue h,
      pairingNotificationDraining := pairingNotificationDraining h, hubTrace := hubTrace h\<rparr>"
  by (cases h, cases h') (simp add: unnotified_def)

lemma publish_simps [simp]:
  "activePairingCandidates (publishPairingDetail ski d h) = activePairingCandidates h"
  "consumedPairingCandidates (publishPairingDetail ski d h) = consumedPairingCandidates h"
  "candidates (publishPairingDetail ski d h) = candidates h"
  "services (publishPairingDetail ski d h) = services h"
  "details (publishPairingDetail ski d h) = details h"
  "remoteServices (publishPairingDetail ski d h) = remoteServices h"
  "outgoingAttemptGate (publishPairingDetail ski d h) = outgoingAttemptGate h"
  "mdnsAppliedAdmission (publishPairingDetail ski d h) = mdnsAppliedAdmission h"
  "mdnsSnapshotAdmission (publishPairingDetail ski d h) = mdnsSnapshotAdmission h"
  "transientPINProviders (publishPairingDetail ski d h) = transientPINProviders h"
  "connections (publishPairingDetail ski d h) = connections h"
  "outboundAuthorities (publishPairingDetail ski d h) = outboundAuthorities h"
  by (subst unnotified_eq [OF publish_frame], simp)+

section \<open>Replaced connections\<close>

lemma block_fold:
  "(fold (\<lambda>r h. snd (blockCallbacks (Some r) h)) rs h)\<lparr>registrations := g\<rparr> = h\<lparr>registrations := g\<rparr>"
  by (induction rs arbitrary: h) (simp_all add: blockCallbacks_def updReg_def)

lemma block_frame: "(blockOutboundAttemptCallbacks c h)\<lparr>registrations := g\<rparr> = h\<lparr>registrations := g\<rparr>"
  by (simp add: blockOutboundAttemptCallbacks_def block_fold Let_def split: option.split)

lemma registrations_eq: "h\<lparr>registrations := g\<rparr> = h'\<lparr>registrations := g\<rparr> \<Longrightarrow> h = h'\<lparr>registrations := registrations h\<rparr>"
  by (cases h, cases h') simp

lemma block_simps [simp]:
  "connections (blockOutboundAttemptCallbacks c h) = connections h"
  "supersededConnections (blockOutboundAttemptCallbacks c h) = supersededConnections h"
  "connSKI (blockOutboundAttemptCallbacks c h) = connSKI h"
  "hubTrace (blockOutboundAttemptCallbacks c h) = hubTrace h"
  by (subst registrations_eq [OF block_frame], simp)+

lemma superseded_close: "c \<in> set (supersededConnections h) \<Longrightarrow>
    HandleConnectionClosed c b h = h\<lparr>supersededConnections := removeAll c (supersededConnections h)\<rparr>"
  by (simp add: HandleConnectionClosed_def claimClosedConnectionState_def Let_def)

lemma foreign_close: "c \<notin> set (supersededConnections h) \<Longrightarrow> map_of (connections h) (connSKI h c) \<noteq> Some c \<Longrightarrow>
    HandleConnectionClosed c b h = h"
  by (simp add: HandleConnectionClosed_def claimClosedConnectionState_def Let_def)


definition exampleBusy :: hub where
  "exampleBusy = exampleConnected ''a'' ''b''"

lemma exampleBusy_reachable: "hub_reachable (NewHub ''a'' True (\<lambda>_. True)) exampleBusy"
proof -
  have "pendingConnection 1 (snd (newConnection ''b'' (NewHub ''a'' True (\<lambda>_. True))))"
    by (simp add: pendingConnection_def newConnection_def NewHub_def)
  from hr_step [OF reach.inbound [OF hr_step [OF hr_start st_connection] this] st_connection]
  show ?thesis by (simp add: exampleBusy_def exampleConnected_def newConnection_def Let_def NewHub_def)
qed


section \<open>Shutdown\<close>

text \<open>The regions of \<open>beginShutdown\<close> are over.\<close>

definition shutDown :: "hub \<Rightarrow> bool" where
  "shutDown h = (hasShutdown h \<and> outboundShutdown h \<and> connections h = [])"

lemma shutdownAttempts_closed [simp]: "outboundShutdown (snd (shutdownAttempts h))"
  using shutdownAttempts_eq [of h] by auto

lemma shutDown_step: "hub_step h h' \<Longrightarrow> shutDown h \<Longrightarrow> shutDown h'"
  by (induction rule: hub_step.induct)
     (auto simp: shutDown_def region_defs Let_def split: option.splits prod.splits list.splits if_splits)

interpretation shut: hub_invariant shutDown
  by unfold_locales (rule shutDown_step, assumption+, simp_all add: shutDown_def)

lemma beginShutdown_shutDown:
  assumes "\<not> hasShutdown h"
  shows "shutDown (snd (beginShutdown h))"
proof -
  let ?h = "snd (shutdownAttempts (h\<lparr>hasShutdown := True, connections := []\<rparr>))"
  have "shutDown (shutdownProviders ?h)"
    by (rule shut.shutdown_providers) (simp add: shutDown_def)
  then show ?thesis using assms by (simp add: beginShutdown_def shutdownConnections_def split_beta)
qed

lemma shutDown_serve:
  assumes "shutDown h"
  shows "fst (ServeHTTP ski h) = None"
proof -
  obtain s h1 where s: "ServiceForSKI (NormalizeSKI ski) h = (s, h1)" by fastforce
  have "shutDown h1" by (rule shut.service [OF assms s])
  then show ?thesis
    unfolding ServeHTTP_def Let_def s prod.case
    by (simp add: shutDown_def reserveInboundPairingConnection_def newConnection_def
        registerInboundConnection_def admitInbound_def Let_def split_beta)
qed

text \<open>C28: shutdown is final. Once the hub has begun its shutdown, in every later state and whatever
  goroutines are still under way: no connection is registered, no inbound or outgoing connection is
  accepted, no attempt is launched, no reconnect gets an authority, no trusted remote is retried, and
  a second shutdown does nothing.\<close>

theorem shutdown_final:
  assumes "\<not> hasShutdown h" "hub_reachable (snd (beginShutdown h)) h'"
  shows "connections h' = [] \<and> fst (ServeHTTP ski h') = None
    \<and> fst (registerOutgoingConnection c x r h') = outgoingConnectionRegistrationRejected
    \<and> fst (registerOutboundAttemptForLaunch ski g r md y h') = None
    \<and> fst (registerInternalOutboundAttemptForLaunch ski r h') = None
    \<and> fst (outboundReconnectAuthority s h') = None
    \<and> fst (RetryTrustedRemote ski h') \<noteq> None
    \<and> beginShutdown h' = (None, h')"
proof -
  have "shutDown h'" by (rule shut.reachable [OF assms(2) beginShutdown_shutDown [OF assms(1)]])
  then show ?thesis using shutDown_serve [of h' ski]
    by (auto simp: shutDown_def registerOutgoingConnection_def admitOutgoing_def RetryTrustedRemote_def
        registerOutboundAttemptForLaunch_def registerInternalOutboundAttemptForLaunch_def Let_def
        outboundReconnectAuthority_def beginShutdown_def shutdownConnections_def split: option.split)
qed

theorem shutdown_final_witness:
  "\<not> hasShutdown exampleServed \<and> connections exampleServed \<noteq> []
   \<and> connections (snd (beginShutdown exampleServed)) = []
   \<and> fst (ServeHTTP exampleSKI (snd (beginShutdown exampleServed))) = None"
proof -
  have "\<not> hasShutdown exampleServed" "connections exampleServed \<noteq> []" by code_simp+
  then show ?thesis using shutdown_final [OF _ hr_start, of exampleServed] by simp
qed

section \<open>Revocation\<close>

lemma ServiceForSKI_authorities: "ServiceForSKI ski h = (s, h1) \<Longrightarrow> outboundAuthorities h1 = outboundAuthorities h"
  by (auto simp: ServiceForSKI_def NewServiceDetails_def SetState_def Let_def split: option.splits)

lemma revoke_kills:
  assumes "authorityInv h" "map_of (outboundAuthorities h) ski = Some a"
  shows "deadAuthority a (revokeOutboundAttempts ski s h)"
proof -
  have "deadAuthority a (snd (revokeLocked ski s h))"
    by (rule rotate_dead [OF assms])
       (auto simp: region_defs Let_def split: option.splits prod.splits list.splits if_splits)
  then show ?thesis
    by (auto simp: revokeOutboundAttempts_def Let_def intro!: dead.running dead.cancel_all dead.discard dead.remove_conns
        split: prod.split)
qed

lemma user_revoke_kills:
  assumes "authorityInv h" "map_of (outboundAuthorities h) (NormalizeSKI ski) = Some a"
  shows "deadAuthority a (UnregisterRemoteSKI ski h)" "deadAuthority a (CancelPairingWithSKI ski h)"
proof -
  obtain s h1 where s: "ServiceForSKI (NormalizeSKI ski) h = (s, h1)" by fastforce
  define h2 where "h2 = removeConnectionAttemptCounter (NormalizeSKI ski) (revokeOutboundAttempts (NormalizeSKI ski) s h1)"
  have "map_of (outboundAuthorities h1) (NormalizeSKI ski) = Some a"
    using assms(2) ServiceForSKI_authorities [OF s] by simp
  then have 2: "deadAuthority a h2"
    unfolding h2_def using revoke_kills [OF authority.service [OF assms(1) s]] by (intro dead.uncount)
  show "deadAuthority a (UnregisterRemoteSKI ski h)"
    unfolding UnregisterRemoteSKI_def Let_def s prod.case h2_def [symmetric]
    using dead.publish [OF 2] by (simp add: dead.emit split: option.split)
  show "deadAuthority a (CancelPairingWithSKI ski h)"
    unfolding CancelPairingWithSKI_def Let_def s prod.case h2_def [symmetric]
    using 2 by (auto simp: dead.emit intro!: dead.publish split: option.split)
qed

text \<open>C15: revocation is final for what was under way. After the user has unregistered a remote or
  cancelled its pairing, the authority of that moment is never valid again, so an attempt that was
  prepared under it cannot be launched, in any later state, for any SKI and by either launch path.\<close>

theorem revoked_authority_dead:
  assumes "hub_reachable (NewHub own x d) h" "map_of (outboundAuthorities h) (NormalizeSKI ski) = Some a"
    and "h1 = UnregisterRemoteSKI ski h \<or> h1 = CancelPairingWithSKI ski h" "hub_reachable h1 h'"
  shows "registerOutboundAttemptForLaunch k g (Some a) md y h' = (None, h')
    \<and> registerInternalOutboundAttemptForLaunch k (Some a) h' = (None, h')"
proof -
  have "authorityInv h" by (rule authority.reachable [OF assms(1) NewHub_invariants(2)])
  then have "deadAuthority a h1" using user_revoke_kills assms(2,3) by blast
  then have "deadAuthority a h'" by (rule dead.reachable [OF assms(4)])
  then show ?thesis
    by (simp add: deadAuthority_def registerOutboundAttemptForLaunch_def registerInternalOutboundAttemptForLaunch_def)
qed

definition exampleGranted :: hub where
  "exampleGranted = snd (rotateOutboundAuthorityLocked exampleSKI exampleHub)"

theorem revoked_authority_dead_witness:
  "fst (registerInternalOutboundAttemptForLaunch exampleSKI (Some 1) exampleGranted) \<noteq> None
   \<and> fst (registerInternalOutboundAttemptForLaunch exampleSKI (Some 1) (UnregisterRemoteSKI exampleSKI exampleGranted)) = None"
proof -
  have "hub_reachable exampleHub exampleGranted"
    unfolding exampleGranted_def by (rule hr_step [OF hr_start st_rotate])
  moreover have "map_of (outboundAuthorities exampleGranted) (NormalizeSKI exampleSKI) = Some 1"
    "fst (registerInternalOutboundAttemptForLaunch exampleSKI (Some 1) exampleGranted) \<noteq> None" by code_simp+
  ultimately show ?thesis
    using revoked_authority_dead [OF _ _ _ hr_start, of _ _ _ exampleGranted exampleSKI 1
        "UnregisterRemoteSKI exampleSKI exampleGranted" exampleSKI]
    unfolding exampleHub_def by fastforce
qed

end
