(* ===== verification/Hub_Discovery.thy ===== *)
theory Hub_Discovery
  imports Hub_Lifecycle
begin

text \<open>
  Discovery and pairing in the hub: PIN providers, candidates, the order in which snapshots take
  effect, retries of trusted remotes, and handshake updates.
\<close>

section \<open>An example of a discovered remote\<close>

definition exampleCandidate :: apiCandidate where
  "exampleCandidate = \<lparr>CandidateRef = ''r1'', candName = ''Heat pump'', candSKI = exampleSKI, candIdentifier = ''id'',
    candBrand = ''brand'', candType = ''type'', candModel = ''model'', candObsPath = ''/ship/'', candObsHost = ''hp.local'',
    candObsPort = 4712, candRegister = False, candAddresses = [[CHR 0xC0, CHR 0xA8, CHR 0x00, CHR 0x07]], candScopedAddresses = [],
    candUnscopedLinkLocal = False\<rparr>"

definition exampleToken :: bytes where
  "exampleToken = replicate 32 (CHR ''t'')"

text \<open>The candidate is visible, an attempt gate is set, and the candidate has been selected.\<close>

definition exampleVisible :: hub where
  "exampleVisible = snd (SetOutgoingAttemptGate (Gate 99) (enqueueMdnsSnapshot (\<lambda>_. 0) [] False [exampleCandidate] 1 exampleHub))"

definition exampleSelected :: hub where
  "exampleSelected = snd (SelectPairingCandidate (Some exampleToken) ''r1'' exampleSKI exampleVisible)"

lemma exampleVisible_reachable: "hub_reachable exampleHub exampleVisible"
  unfolding exampleVisible_def by (intro reach.gate enqueue_reachable hr_start)

lemma exampleSelected_reachable: "hub_reachable exampleHub exampleSelected"
  unfolding exampleSelected_def by (intro reach.select exampleVisible_reachable)

section \<open>PIN providers\<close>

text \<open>C29: a PIN provider is bound to its attempt. In every reachable state a waiting provider belongs
  to the authority of an active candidate that was asked to connect, or its remote is trusted by
  now; and a connect with a PIN stores its provider where none was, under the authority of its
  candidate.\<close>

theorem pin_provider_owned:
  assumes "hub_reachable (NewHub own x d) h"
  shows "(\<forall>k a p. map_of (transientPINProviders h) k = Some (a, p) \<longrightarrow>
        (\<exists>q. map_of (activePairingCandidates h) k = Some q \<and> candAuthority (candidates h q) = a
           \<and> candConnectIssued (candidates h q))
        \<or> (\<exists>s. map_of (remoteServices h) k = Some s \<and> svcTrusted (services h s)))
    \<and> (fst (connectPairingCandidate token (Some pin) h) = None \<longrightarrow>
        (\<exists>k q. map_of (activePairingCandidates h) k = Some q \<and> map_of (transientPINProviders h) k = None
           \<and> transientPINProviders (snd (connectPairingCandidate token (Some pin) h))
               = AList.update k (candAuthority (candidates h q), pin) (transientPINProviders h)))"
proof -
  have inv: "providerInv h" by (rule provider.reachable [OF assms NewHub_invariants(4)])
  have "\<exists>k q. map_of (activePairingCandidates h) k = Some q \<and> map_of (transientPINProviders h) k = None
           \<and> transientPINProviders (snd (connectPairingCandidate token (Some pin) h))
               = AList.update k (candAuthority (candidates h q), pin) (transientPINProviders h)"
    if ok: "fst (connectPairingCandidate token (Some pin) h) = None"
  proof -
    from ok obtain k q where f: "find (\<lambda>(ski, q). reservationMatches (candReservation (candidates h q)) token)
        (activePairingCandidates h) = Some (k, q)"
      by (fastforce simp: connectPairingCandidate_def split: if_splits option.splits)
    then have q: "\<not> svcTrusted (services h (candService (candidates h q)))" "\<not> candConnectIssued (candidates h q)"
      using ok by (auto simp: connectPairingCandidate_def Let_def split: if_splits)
    have m: "map_of (activePairingCandidates h) k = Some q"
      using f inv by (auto simp: providerInv_def servicesInv_def find_Some_iff in_set_conv_nth)
    have "map_of (transientPINProviders h) k = None"
    proof (rule ccontr)
      assume "map_of (transientPINProviders h) k \<noteq> None"
      then obtain a p where "map_of (transientPINProviders h) k = Some (a, p)" by auto
      then have "providerOwned h k a" using inv by (simp add: providerInv_def)
      moreover have "map_of (remoteServices h) k = Some (candService (candidates h q))"
        using inv m by (simp add: providerInv_def servicesInv_def)
      ultimately show False using q m by (auto simp: providerOwned_def)
    qed
    moreover have "transientPINProviders (snd (connectPairingCandidate token (Some pin) h))
        = AList.update k (candAuthority (candidates h q), pin) (transientPINProviders h)"
      using ok f by (auto simp: connectPairingCandidate_def launchPairingCandidate_def issueConnect_def
          hemit_def SetState_def Let_def split: if_splits)
    ultimately show ?thesis using m by blast
  qed
  then show ?thesis using inv by (auto simp: providerInv_def providerOwned_def)
qed

theorem pin_provider_owned_witness:
  "fst (connectPairingCandidate exampleToken (Some 5) exampleSelected) = None
   \<and> (\<exists>k a. map_of (transientPINProviders (snd (connectPairingCandidate exampleToken (Some 5) exampleSelected))) k = Some (a, 5))"
proof -
  have "fst (connectPairingCandidate exampleToken (Some 5) exampleSelected) = None" by code_simp
  then show ?thesis
    using pin_provider_owned [OF exampleSelected_reachable [unfolded exampleHub_def], of exampleToken 5] by fastforce
qed

section \<open>Connection attempts\<close>

text \<open>The delay before an automatic connection attempt. In every reachable state the attempt
  counter stays in range, so the delay is computed without a panic: the first attempt waits up to 3 s,
  the second 3 s to 10 s, every later one 10 s to 20 s.\<close>

theorem attempt_delay_bounds:
  assumes "hub_reachable (NewHub own x d) h"
  shows "\<exists>n t. fst (getConnectionInitiationDelayTime r ski h) = Some (n, t)
    \<and> n = (case map_of (connectionAttemptCounter h) ski of None \<Rightarrow> 0 | Some c \<Rightarrow> min 2 (c + 1))
    \<and> [0, 3, 10] ! nat n * second \<le> t \<and> t < [3, 10, 20] ! nat n * second"
proof -
  have inv: "counterInv h" by (rule counter.reachable [OF assms NewHub_invariants(3)])
  define n where "n = fst (increaseConnectionAttemptCounter ski h)"
  have n: "n = (case map_of (connectionAttemptCounter h) ski of None \<Rightarrow> 0 | Some c \<Rightarrow> min 2 (c + 1))"
    by (auto simp: n_def increaseConnectionAttemptCounter_def connectionInitiationDelayTimeRanges_def Let_def min_def
        split: option.split)
  then have "n \<in> {0, 1, 2}"
    using inv [unfolded counterInv_def, rule_format, of ski] by (cases "map_of (connectionAttemptCounter h) ski") auto
  then show ?thesis
    using n by (auto simp: getConnectionInitiationDelayTime_def n_def [symmetric] split_beta Let_def
        connectionInitiationDelayTimeRanges_def millisecond_def second_def)
qed

theorem attempt_delay_bounds_witness:
  "\<exists>t. fst (getConnectionInitiationDelayTime 4242 exampleSKI exampleServed) = Some (0, t) \<and> 0 \<le> t \<and> t < 3 * second"
proof -
  have "map_of (connectionAttemptCounter exampleServed) exampleSKI = None" by code_simp
  then show ?thesis
    using attempt_delay_bounds [OF exampleServed_reachable [unfolded exampleHub_def], of 4242 exampleSKI] by simp
qed

section \<open>Candidates\<close>

lemma valid_ski_same: "validPairingCandidateSKI ski = Some k \<Longrightarrow> k = ski"
  by (auto simp: validPairingCandidateSKI_def split: if_splits option.splits)

lemma admit_consumes:
  assumes "admitPairingCandidate token ref ski b h = (Inr r, h1)"
  shows "ref \<in> set (consumedPairingCandidates h1) \<and> mdnsAppliedAdmission h1 = mdnsSnapshotAdmission h1"
  using assms
  by (auto simp: admitPairingCandidate_def installCandidate_def rotateOutboundAuthorityLocked_def candidateService_def
      NewServiceDetails_def SetState_def updService_def Let_def split: option.splits if_splits prod.splits)

lemma connect_issues:
  assumes "connectPairingCandidate token p h = (None, h1)"
  shows "connectPairingCandidate token p' h1 = (Some ErrPairingCandidateAlreadyConnecting, h1)"
proof -
  let ?match = "\<lambda>(ski, q). reservationMatches (candReservation (candidates h q)) token"
  from assms obtain k q where f: "find ?match (activePairingCandidates h) = Some (k, q)"
    by (fastforce simp: connectPairingCandidate_def split: if_splits option.splits)
  have ok: "reservationValid token" "mdnsAppliedAdmission h = mdnsSnapshotAdmission h"
      "\<not> svcTrusted (services h (candService (candidates h q)))"
    using assms f by (auto simp: connectPairingCandidate_def Let_def split: if_splits)
  have h1: "h1 = launchPairingCandidate k (candService (candidates h q)) q (issueConnect k q p h)"
    using assms f by (auto simp: connectPairingCandidate_def Let_def split: if_splits)
  have s: "activePairingCandidates h1 = activePairingCandidates h" "services h1 = services h"
      "candidates h1 = (candidates h)(q := (candidates h q)\<lparr>candConnectIssued := True\<rparr>)"
      "mdnsAppliedAdmission h1 = mdnsAppliedAdmission h" "mdnsSnapshotAdmission h1 = mdnsSnapshotAdmission h"
    by (simp_all add: h1 launchPairingCandidate_def issueConnect_def hemit_def SetState_def Let_def split: option.split)
  then have "candReservation (candidates h1 x) = candReservation (candidates h x)" for x by simp
  then have "find (\<lambda>(ski, q). reservationMatches (candReservation (candidates h1 q)) token) (activePairingCandidates h1) = Some (k, q)"
    using f s(1) by simp
  then show ?thesis using ok s by (simp add: connectPairingCandidate_def Let_def)
qed

text \<open>C30: a selected candidate is used once. Selecting it consumes its reference, so that it cannot be
  selected again for any SKI; the reservation connects once, and a second connect is refused and
  changes nothing.\<close>

theorem candidate_used_once:
  assumes "SelectPairingCandidate token ref ski h = (Inr reservation, h1)"
  shows "fst (SelectPairingCandidate token' ref ski' h1) \<in> Inl ` {ErrInvalidRemoteSKI,
      ErrPairingCandidateReservationUnavailable, ErrPairingCandidateConsumed}
    \<and> (connectPairingCandidate reservation p h1 = (None, h2) \<longrightarrow>
        connectPairingCandidate reservation p' h2 = (Some ErrPairingCandidateAlreadyConnecting, h2))"
proof -
  obtain r where "admitPairingCandidate token ref ski False h = (Inr r, h1)"
    using assms by (auto simp: SelectPairingCandidate_def split: prod.splits sum.splits)
  from admit_consumes [OF this] show ?thesis
    using connect_issues
    by (auto simp: SelectPairingCandidate_def admitPairingCandidate_def split: option.split)
qed

theorem candidate_used_once_witness:
  "isl (fst (SelectPairingCandidate (Some exampleToken) ''r1'' exampleSKI exampleSelected))
   \<and> fst (ConnectPairingCandidate exampleToken exampleSelected) = None
   \<and> fst (ConnectPairingCandidate exampleToken (snd (ConnectPairingCandidate exampleToken exampleSelected)))
       = Some ErrPairingCandidateAlreadyConnecting"
proof -
  let ?h = "snd (connectPairingCandidate exampleToken None exampleSelected)"
  have "fst (SelectPairingCandidate (Some exampleToken) ''r1'' exampleSKI exampleVisible) = Inr exampleToken"
    and e: "fst (connectPairingCandidate exampleToken None exampleSelected) = None" by code_simp+
  then have s: "SelectPairingCandidate (Some exampleToken) ''r1'' exampleSKI exampleVisible = (Inr exampleToken, exampleSelected)"
    and c: "connectPairingCandidate exampleToken None exampleSelected = (None, ?h)"
    by (simp_all add: prod_eq_iff exampleSelected_def)
  from candidate_used_once [OF s, of "Some exampleToken" exampleSKI None ?h None] c
  have "fst (SelectPairingCandidate (Some exampleToken) ''r1'' exampleSKI exampleSelected) \<in> Inl ` {ErrInvalidRemoteSKI,
      ErrPairingCandidateReservationUnavailable, ErrPairingCandidateConsumed}"
    and d: "connectPairingCandidate exampleToken None ?h = (Some ErrPairingCandidateAlreadyConnecting, ?h)" by blast+
  then have "isl (fst (SelectPairingCandidate (Some exampleToken) ''r1'' exampleSKI exampleSelected))" by auto
  moreover have "fst (connectPairingCandidate exampleToken None ?h) = Some ErrPairingCandidateAlreadyConnecting" by (simp add: d)
  ultimately show ?thesis using e unfolding ConnectPairingCandidate_def by blast
qed

end
