(* ===== verification/Hub_Remotes.thy ===== *)
theory Hub_Remotes
  imports Hub_Discovery
begin

text \<open>
  Remotes of the hub as discovery and handshakes report them: when a snapshot takes effect, retries
  of trusted remotes, the effect of a handshake update, and the life of an inbound reservation.
\<close>

section \<open>Snapshots take effect in order\<close>

lemma report_applied [simp]: "mdnsAppliedAdmission (reportMdnsSnapshot rnd sn h) = snapAdmission sn"
proof (cases "snapRevision sn < latestPairingObservationRevision h")
  case True
  obtain rs skis h1 where i: "invalidateTrustedRemoteRetriesLocked [] (h\<lparr>mdnsAppliedAdmission := snapAdmission sn\<rparr>) = ((rs, skis), h1)"
    by (metis prod.exhaust)
  have "mdnsAppliedAdmission h1 = snapAdmission sn"
    using applied_frame.invalidate [of "h\<lparr>mdnsAppliedAdmission := snapAdmission sn\<rparr>" "snapAdmission sn" "[]"] i by simp
  then show ?thesis
    using True by (simp add: reportMdnsSnapshot_def i applied_frame.clear_running applied_frame.cancel_all
        applied_frame.remove_conns)
next
  case False
  define obs where "obs = trustedRemoteObservations (snapEntries sn) (snapRevision sn) (snapAdmission sn)"
  define h1 where "h1 = h\<lparr>latestPairingObservationRevision := snapRevision sn,
                 mdnsAppliedAdmission := snapAdmission sn, visibleTrustedRemoteObservations := obs,
                 consumedPairingCandidates :=
                   filter (\<lambda>r. r \<in> CandidateRef ` set (snapCandidates sn)) (consumedPairingCandidates h),
                 visiblePairingCandidates := visibleCandidates (snapCandidates sn) (snapRevision sn)\<rparr>"
  obtain ts h2 where r: "fold retireInvisible (activePairingCandidates h1) ([], h1) = (ts, h2)" by fastforce
  obtain rs skis h3 where i: "invalidateTrustedRemoteRetriesLocked obs h2 = ((rs, skis), h3)" by (metis prod.exhaust)
  have "mdnsAppliedAdmission h2 = snapAdmission sn"
    using applied_frame.retire_invisible [of "([], h1)" _ "activePairingCandidates h1"] r by (simp add: h1_def)
  then have "mdnsAppliedAdmission h3 = snapAdmission sn" using applied_frame.invalidate [of h2 _ obs] i by simp
  then show ?thesis
    unfolding reportMdnsSnapshot_def Let_def obs_def [symmetric] h1_def [symmetric] r i prod.case
    using False by (simp add: applied_frame.emit applied_frame.clear_running applied_frame.cancel_all
        applied_frame.finish_retirements applied_frame.remove_conns applied_frame.reconnect_entries)
qed

lemma drain_empty_snapshots: "mdnsSnapshotQueue h = [] \<Longrightarrow> drainMdnsSnapshots rnd h = h\<lparr>mdnsSnapshotDraining := False\<rparr>"
  by (subst drainMdnsSnapshots.simps) (simp add: takeSnapshot_def)

lemma drain_snapshots:
  "mdnsSnapshotQueue (drainMdnsSnapshots rnd h) = [] \<and> \<not> mdnsSnapshotDraining (drainMdnsSnapshots rnd h)
   \<and> mdnsSnapshotAdmission (drainMdnsSnapshots rnd h) = mdnsSnapshotAdmission h
   \<and> mdnsAppliedAdmission (drainMdnsSnapshots rnd h)
       = last (mdnsAppliedAdmission h # map snapAdmission (mdnsSnapshotQueue h))"
proof (induction rnd h rule: drainMdnsSnapshots.induct)
  case (1 rnd h)
  show ?case
  proof (cases "mdnsSnapshotQueue h")
    case Nil
    then show ?thesis by (simp add: drain_empty_snapshots)
  next
    case (Cons x xs)
    then have t: "takeSnapshot h = (Some x, h\<lparr>mdnsSnapshotQueue := xs\<rparr>)" by (simp add: takeSnapshot_def)
    from 1 [OF t [symmetric] refl] show ?thesis
      by (subst (1 2 3 4) drainMdnsSnapshots.simps) (simp add: t Cons)
  qed
qed

text \<open>C31: the hub never acts on an outdated picture of the network. From the moment a snapshot is
  admitted until it is applied, selecting, queueing or connecting a candidate and retrying a remote
  are refused and change nothing; the caller that queues a snapshot while nobody is draining leaves
  the hub with every snapshot applied, the newest last.\<close>

theorem discovery_linearizes:
  "(mdnsAppliedAdmission h \<noteq> mdnsSnapshotAdmission h \<longrightarrow>
      isl (fst (SelectPairingCandidate token ref ski h)) \<and> snd (SelectPairingCandidate token ref ski h) = h
      \<and> fst (QueuePairingCandidate token ref ski h) \<noteq> None \<and> snd (QueuePairingCandidate token ref ski h) = h
      \<and> connectPairingCandidate reservation p h = (Some ErrPairingCandidateReservationStale, h)
      \<and> fst (RetryTrustedRemote ski h) \<noteq> None \<and> snd (RetryTrustedRemote ski h) = h)
   \<and> (mdnsAppliedAdmission h = mdnsSnapshotAdmission h \<longrightarrow>
      mdnsAppliedAdmission (snd (admitMdnsSnapshot es b cs w h)) \<noteq> mdnsSnapshotAdmission (snd (admitMdnsSnapshot es b cs w h)))
   \<and> (\<not> mdnsSnapshotDraining h \<longrightarrow>
      mdnsAppliedAdmission (enqueueMdnsSnapshot rnd es b cs w h) = mdnsSnapshotAdmission h + 1
      \<and> mdnsSnapshotAdmission (enqueueMdnsSnapshot rnd es b cs w h) = mdnsSnapshotAdmission h + 1
      \<and> mdnsSnapshotQueue (enqueueMdnsSnapshot rnd es b cs w h) = [])"
proof (intro conjI impI)
  assume "mdnsAppliedAdmission h \<noteq> mdnsSnapshotAdmission h"
  then have 1: "\<exists>e. admitPairingCandidate token ref ski c h = (Inl e, h)" for c
    by (simp add: admitPairingCandidate_def split: option.split)
  from 1 [of False] show "isl (fst (SelectPairingCandidate token ref ski h))" "snd (SelectPairingCandidate token ref ski h) = h"
    by (auto simp: SelectPairingCandidate_def)
  from 1 [of True] show "fst (QueuePairingCandidate token ref ski h) \<noteq> None" "snd (QueuePairingCandidate token ref ski h) = h"
    by (auto simp: QueuePairingCandidate_def)
qed (simp_all add: connectPairingCandidate_def RetryTrustedRemote_def admitMdnsSnapshot_def enqueueSnapshots_def
    enqueueMdnsSnapshot_def drain_snapshots split_beta Let_def split: option.split)

theorem discovery_linearizes_witness:
  "isl (fst (SelectPairingCandidate (Some exampleToken) ''r1'' exampleSKI
      (snd (admitMdnsSnapshot [] True [exampleCandidate] 2 exampleVisible))))
   \<and> mdnsSnapshotQueue (enqueueMdnsSnapshot (\<lambda>_. 0) [] True [exampleCandidate] 2 exampleVisible) = []"
proof -
  let ?h = "snd (admitMdnsSnapshot [] True [exampleCandidate] 2 exampleVisible)"
  have "mdnsAppliedAdmission exampleVisible = mdnsSnapshotAdmission exampleVisible" "\<not> mdnsSnapshotDraining exampleVisible"
    by code_simp+
  then show ?thesis
    using discovery_linearizes [of exampleVisible] discovery_linearizes [of ?h "Some exampleToken" "''r1''" exampleSKI]
    by blast
qed

section \<open>Retries of trusted remotes\<close>

definition retryAllowed :: "bytes \<Rightarrow> hub \<Rightarrow> bool" where
  "retryAllowed ski h =
    (validPairingCandidateSKI ski = Some ski \<and> mdnsAppliedAdmission h = mdnsSnapshotAdmission h
     \<and> map_of (visibleTrustedRemoteObservations h) ski \<noteq> None
     \<and> (case map_of (remoteServices h) ski of None \<Rightarrow> False | Some s \<Rightarrow> svcTrusted (services h s))
     \<and> map_of (activeTrustedRemoteRetries h) ski = None \<and> \<not> flagSet (connectionAttemptRunning h) ski
     \<and> map_of (connections h) ski = None \<and> \<not> flagSet (connectionsInitiating h) ski
     \<and> map_of (inboundPairingReservations h) ski = None \<and> \<not> hasShutdown h \<and> \<not> outboundShutdown h)"

lemma retry_iff: "fst (RetryTrustedRemote ski h) = None \<longleftrightarrow> retryAllowed ski h"
  using valid_ski_same [of ski]
  by (auto simp: RetryTrustedRemote_def retryAllowed_def setConnectionAttemptRunning_def Let_def
      split: option.splits if_splits prod.splits)

text \<open>C32: an explicit retry is accepted exactly when the remote is trusted, freshly and unambiguously
  observed and free (no connection, reservation, attempt or other retry, no shutdown); it then starts
  one goroutine for a retry that is current, marks the remote as busy, and a second retry is refused
  as busy.\<close>

theorem retry_trusted_remote:
  "(fst (RetryTrustedRemote ski h) = None \<longleftrightarrow> retryAllowed ski h)
   \<and> (retryAllowed ski h \<longrightarrow>
      (let h' = snd (RetryTrustedRemote ski h) in
       (\<exists>p. hubTrace h' = hubTrace h @ [HGoRetry p] \<and> trustedRemoteRetryStillCurrent ski p h')
       \<and> isConnectionAttemptRunning ski h'
       \<and> RetryTrustedRemote ski h' = (Some ErrTrustedRemoteRetryBusy, h')))"
proof (intro conjI impI retry_iff)
  assume ok: "retryAllowed ski h"
  then obtain s o' where s: "map_of (remoteServices h) ski = Some s" "svcTrusted (services h s)"
      "map_of (visibleTrustedRemoteObservations h) ski = Some o'"
    by (auto simp: retryAllowed_def split: option.splits)
  obtain a h2 where a: "currentOutboundAuthorityLocked ski (setConnectionAttemptRunning ski True h) = (a, h2)" by fastforce
  have h2: "map_of (outboundAuthorities h2) ski = Some a" "hubTrace h2 = hubTrace h" "remoteServices h2 = remoteServices h"
      "services h2 = services h" "visibleTrustedRemoteObservations h2 = visibleTrustedRemoteObservations h"
      "mdnsAppliedAdmission h2 = mdnsAppliedAdmission h" "mdnsSnapshotAdmission h2 = mdnsSnapshotAdmission h"
      "hasShutdown h2 = hasShutdown h" "connections h2 = connections h" "connectionsInitiating h2 = connectionsInitiating h"
      "inboundPairingReservations h2 = inboundPairingReservations h" "outboundShutdown h2 = outboundShutdown h"
      "flagSet (connectionAttemptRunning h2) ski"
    using a by (auto simp: currentOutboundAuthorityLocked_def rotateOutboundAuthorityLocked_def
        setConnectionAttemptRunning_def flagSet_def Let_def split: option.splits)
  have r: "snd (RetryTrustedRemote ski h) = hemit (HGoRetry (nextPtr h2)) (snd (startRetry ski s a o' h2))"
    using ok s a by (simp add: RetryTrustedRemote_def retryAllowed_def setConnectionAttemptRunning_def startRetry_def Let_def)
  show "let h' = snd (RetryTrustedRemote ski h) in
       (\<exists>p. hubTrace h' = hubTrace h @ [HGoRetry p] \<and> trustedRemoteRetryStillCurrent ski p h')
       \<and> isConnectionAttemptRunning ski h'
       \<and> RetryTrustedRemote ski h' = (Some ErrTrustedRemoteRetryBusy, h')"
    using ok s h2 unfolding r Let_def
    by (auto simp: startRetry_def hemit_def trustedRemoteRetryStillCurrent_def retryCurrent_def retryAllowed_def
        isConnectionAttemptRunning_def RetryTrustedRemote_def Let_def)
qed

definition exampleEntry :: MdnsEntry where
  "exampleEntry = \<lparr>meName = ''Heat pump'', meSki = exampleSKI, meIdentifier = ''id'', mePath = ''/ship/'', meRegister = False,
    meBrand = ''brand'', meType = ''type'', meModel = ''model'', meHost = ''hp.local'', mePort = 4712,
    meAddresses = [[CHR 0xC0, CHR 0xA8, CHR 0x00, CHR 0x07]], meScopedAddresses = [], meUnscopedLinkLocalObserved = False\<rparr>"

definition exampleObserved :: hub where
  "exampleObserved = RegisterRemoteSKI exampleSKI (ReportMdnsEntries (\<lambda>_. 0) [(''hp'', Some exampleEntry)] True exampleHub)"

theorem retry_trusted_remote_witness:
  "fst (RetryTrustedRemote exampleSKI exampleObserved) = None
   \<and> fst (RetryTrustedRemote exampleSKI (snd (RetryTrustedRemote exampleSKI exampleObserved))) = Some ErrTrustedRemoteRetryBusy"
proof -
  have "retryAllowed exampleSKI exampleObserved" by code_simp
  then show ?thesis using retry_trusted_remote [of exampleSKI exampleObserved] by (auto simp: Let_def)
qed

section \<open>Handshake updates\<close>

lemma ServiceForSKI_again: "ServiceForSKI ski h = (s, h1) \<Longrightarrow> remoteServices h2 = remoteServices h1 \<Longrightarrow> ServiceForSKI ski h2 = (s, h2)"
  using service_mapped [of ski h s h1] by (simp add: ServiceForSKI_def)

lemma pinEqual_clone: "pinEqual a (pinClone (pinClone b)) \<Longrightarrow> a = b"
  by (simp add: pinEqual_iff)

text \<open>The effect of a reported handshake state. Afterwards the service of the SKI has the mapped
  connection state with an error that matches the reported one; it is trusted exactly when it was or the
  hello phase succeeded, and in that case its candidate is gone; every other service keeps its
  trust. An update that changes nothing is not published.\<close>

theorem handshake_update_effect:
  assumes "ServiceForSKI ski h = (s, h1)"
  shows "let h' = HandleShipHandshakeStateUpdate ski st h in
      map_of (remoteServices h') (NormalizeSKI ski) = Some s
      \<and> cdState (serviceState s h') = pairingStateFor st \<and> errorsIs (cdError (serviceState s h')) (suError st)
      \<and> (\<forall>x. svcTrusted (services h' x)
           = (svcTrusted (services h1 x) \<or> (x = s \<and> suState st = SmeHelloStateOk)))
      \<and> (suState st = SmeHelloStateOk \<longrightarrow> map_of (activePairingCandidates h') ski = None)
      \<and> (hubTrace h' = hubTrace h \<longleftrightarrow> \<not> detailChanged st (serviceState s h1))"
proof -
  define h2 where "h2 = (if suState st = SmeHelloStateOk then trustService ski s h1 else h1)"
  have rs: "remoteServices h2 = remoteServices h1" "serviceState s h2 = serviceState s h1" "hubTrace h2 = hubTrace h"
      "\<And>x. svcTrusted (services h2 x) = (svcTrusted (services h1 x) \<or> (x = s \<and> suState st = SmeHelloStateOk))"
      "suState st = SmeHelloStateOk \<Longrightarrow> map_of (activePairingCandidates h2) ski = None"
    using assms by (auto simp: h2_def trustService_def SetTrusted_def updService_def serviceState_def Let_def
        ServiceForSKI_def NewServiceDetails_def SetState_def split: option.splits)
  have "HandleShipHandshakeStateUpdate ski st h =
      (if detailChanged st (serviceState s h1) then
         (let (p, h3) = SetConnectionStateDetail s (detailFor st (serviceState s h1)) h2
          in hemit (HGoPublish ski p zeroMetadata False) h3)
       else h2)"
    using assms ServiceForSKI_again [OF assms rs(1)] rs(2) ServiceForSKI_again [OF assms refl]
    by (cases "suState st = SmeHelloStateOk") (auto simp: HandleShipHandshakeStateUpdate_def h2_def Let_def)
  moreover have "map_of (remoteServices h2) (NormalizeSKI ski) = Some s"
    using service_mapped [OF assms] rs(1) by simp
  ultimately show ?thesis
    using rs by (auto simp: SetConnectionStateDetail_def updService_def hemit_def serviceState_def detailFor_def
        detailChanged_def NewConnectionStateDetail_def Let_def)
qed

theorem handshake_update_effect_witness:
  "svcTrusted (services (HandleShipHandshakeStateUpdate exampleSKI
     \<lparr>suState = SmeHelloStateOk, suError = None, suPIN = None\<rparr> exampleSelected) 2)
   \<and> map_of (activePairingCandidates exampleSelected) exampleSKI \<noteq> None
   \<and> map_of (activePairingCandidates (HandleShipHandshakeStateUpdate exampleSKI
     \<lparr>suState = SmeHelloStateOk, suError = None, suPIN = None\<rparr> exampleSelected)) exampleSKI = None"
proof -
  have s: "ServiceForSKI exampleSKI exampleSelected = (2, exampleSelected)"
  proof -
    have "map_of (remoteServices exampleSelected) (NormalizeSKI exampleSKI) = Some 2" by code_simp
    then show ?thesis by (simp add: ServiceForSKI_def)
  qed
  have "map_of (activePairingCandidates exampleSelected) exampleSKI \<noteq> None" by code_simp
  then show ?thesis
    using handshake_update_effect [OF s, of "\<lparr>suState = SmeHelloStateOk, suError = None, suPIN = None\<rparr>"]
    by (simp add: Let_def)
qed

section \<open>A leaked reservation\<close>

text \<open>The remote dials twice while the user accepts it: the first request has passed the check for a
  reservation when the second one reserves, wins and runs; then the first registers and replaces the
  second by the SKI ordering; later both close.\<close>

definition leakStart :: hub where
  "leakStart = (NewHub ''a'' True (\<lambda>_. True))\<lparr>hasStarted := True\<rparr>"

definition leakFirst :: "ptr \<times> hub" where
  "leakFirst = newConnection ''b'' (snd (ServiceForSKI ''b'' leakStart))"

definition leakSecond :: "ptr option \<times> hub" where
  "leakSecond = ServeHTTP ''b'' (RegisterRemoteSKI ''b'' (snd leakFirst))"

definition leakEnd :: hub where
  "leakEnd = HandleConnectionClosed (fst leakFirst) False
     (HandleConnectionClosed (the (fst leakSecond)) False
       (snd (registerInboundConnection (fst leakFirst) (snd leakSecond))))"

text \<open>An inbound reservation can outlive its connection. In this run the winner of a reservation
  is replaced before it closes, and neither close releases the reservation: with no connection left,
  every further inbound connection of this SKI is refused, and so is every outgoing one.\<close>

theorem reservation_leak:
  "fst leakSecond \<noteq> None
   \<and> connections leakEnd = [] \<and> supersededConnections leakEnd = []
   \<and> hasInboundPairingReservation ''b'' leakEnd
   \<and> fst (ServeHTTP ''b'' leakEnd) = None
   \<and> fst (registerOutgoingConnection (fst (newConnection ''b'' leakEnd)) False None
            (snd (newConnection ''b'' leakEnd))) = outgoingConnectionRegistrationRejected"
  by code_simp

end
