(* ===== verification/Ws_Connection.thy ===== *)
theory Ws_Connection
  imports Ship_Messages
begin

text \<open>
  The websocket transport of a connection (\<open>src/ws/websocket.go\<close>).

  The goroutines of a connection (the two pumps, callers that write or close) interleave at the
  granularity of \<open>ws_step\<close>. The websocket library is outside: the outcome of each of its calls is
  an argument of the operation that makes the call (\<open>r\<close>: the error of \<open>WriteMessage\<close>, \<open>d\<close>: the
  error of \<open>SetWriteDeadline\<close>, \<open>res\<close>: the result of \<open>ReadMessage\<close>). Read deadlines and the pong
  handler have no effect on the modelled state. \<open>shipWriteChannel\<close> is a list of at most one message;
  it is never nil and never closed.
\<close>

section \<open>State\<close>

text \<open>Message types of RFC 6455, as \<open>gorilla/websocket\<close> names them.\<close>

definition BinaryMessage :: nat where "BinaryMessage = 2"
definition CloseMessage :: nat where "CloseMessage = 8"
definition PingMessage :: nat where "PingMessage = 9"

datatype wsEvent =
    WsFrame nat bytes bool         \<comment> \<open>\<open>conn.WriteMessage\<close> and whether it succeeded\<close>
  | WsSensitiveFrame bytes bool    \<comment> \<open>the same, for a sensitive message\<close>
  | WsQueued bytes                 \<comment> \<open>a message enters \<open>shipWriteChannel\<close>\<close>
  | WsCloseChannel                 \<comment> \<open>\<open>close(closeChannel)\<close>\<close>
  | WsConnClose                    \<comment> \<open>\<open>conn.Close()\<close>\<close>
  | WsNilConn                      \<comment> \<open>a call on a nil \<open>conn\<close>\<close>
  | WsReportError goError          \<comment> \<open>\<open>ReportConnectionError\<close>\<close>
  | WsNilReader                    \<comment> \<open>the same call on a nil \<open>dataProcessing\<close>: a panic\<close>
  | WsIncoming bytes               \<comment> \<open>\<open>HandleIncomingWebsocketMessage\<close>\<close>
  | WsLog bytes                    \<comment> \<open>a message text written to the trace log\<close>
  | WsGoRead | WsGoWrite           \<comment> \<open>a pump is started\<close>

datatype writePump = WAbsent | WIdle | WTaken bytes | WStopped
datatype readPump = RAbsent | RRunning | RStopped

record ws_conn =
  hasConn :: bool
  dataProcessing :: bool
  closeChannelClosed :: bool
  shipWriteChannel :: "bytes list"
  connectionClosed :: bool
  connectionClosedError :: "goError option"
  runOnce :: bool
  shutdownOnce :: bool
  writeShipPump :: writePump
  readShipPump :: readPump
  wsTrace :: "wsEvent list"

definition connIsClosedError :: goError where
  "connIsClosedError = ErrNew ''connection is closed''"

definition NewWebsocketConnection :: "bool \<Rightarrow> ws_conn" where
  "NewWebsocketConnection conn =
    \<lparr>hasConn = conn, dataProcessing = False, closeChannelClosed = False, shipWriteChannel = [],
     connectionClosed = False, connectionClosedError = None, runOnce = False, shutdownOnce = False,
     writeShipPump = WAbsent, readShipPump = RAbsent, wsTrace = []\<rparr>"

definition wemit :: "wsEvent \<Rightarrow> ws_conn \<Rightarrow> ws_conn" where
  "wemit e w = w\<lparr>wsTrace := wsTrace w @ [e]\<rparr>"

section \<open>Closing\<close>

definition setConnClosedError :: "goError option \<Rightarrow> ws_conn \<Rightarrow> ws_conn" where
  "setConnClosedError err w =
    w\<lparr>connectionClosed := True,
      connectionClosedError := (case err of None \<Rightarrow> connectionClosedError w | Some e \<Rightarrow> Some e)\<rparr>"

definition closeWs :: "ws_conn \<Rightarrow> ws_conn" where
  "closeWs w =
    (if shutdownOnce w then w
     else
       (let w1 = w\<lparr>shutdownOnce := True\<rparr> in
        if connectionClosed w1 then w1
        else
          (let w2 = wemit WsCloseChannel ((setConnClosedError None w1)\<lparr>closeChannelClosed := True\<rparr>)
           in if hasConn w2 then wemit WsConnClose w2 else w2)))"

text \<open>The call of \<open>ReportConnectionError\<close> on the reader, if there is one.\<close>

definition reportEvent :: "goError \<Rightarrow> ws_conn \<Rightarrow> wsEvent" where
  "reportEvent err w = (if dataProcessing w then WsReportError err else WsNilReader)"

definition closeWithError :: "goError \<Rightarrow> ws_conn \<Rightarrow> ws_conn" where
  "closeWithError err w = wemit (reportEvent err w) (setConnClosedError (Some err) (closeWs w))"

definition run :: "ws_conn \<Rightarrow> ws_conn" where
  "run w =
    (if runOnce w then w
     else
       (let w1 = w\<lparr>runOnce := True\<rparr> in
        if connectionClosed w1 then w1
        else wemit WsGoWrite (wemit WsGoRead (w1\<lparr>readShipPump := RRunning, writeShipPump := WIdle\<rparr>))))"

definition InitDataProcessing :: "ws_conn \<Rightarrow> ws_conn" where
  "InitDataProcessing w = run (w\<lparr>dataProcessing := True\<rparr>)"

definition IsDataConnectionClosed :: "ws_conn \<Rightarrow> bool \<times> goError option" where
  "IsDataConnectionClosed w =
    (connectionClosed w,
     if connectionClosed w \<and> connectionClosedError w = None then Some connIsClosedError
     else connectionClosedError w)"

section \<open>Frames\<close>

definition writeMessageWithoutErrorHandling ::
  "goError option \<Rightarrow> nat \<Rightarrow> bytes \<Rightarrow> ws_conn \<Rightarrow> goError option \<times> ws_conn" where
  "writeMessageWithoutErrorHandling r typ data w =
    (if connectionClosed w then (Some connIsClosedError, w)
     else if \<not> hasConn w then (Some connIsClosedError, wemit WsNilConn w)
     else (r, wemit (WsFrame typ data (r = None)) w))"

definition writeMessage :: "goError option \<Rightarrow> nat \<Rightarrow> bytes \<Rightarrow> ws_conn \<Rightarrow> bool \<times> ws_conn" where
  "writeMessage r typ data w =
    (if connectionClosed w then (False, w)
     else case writeMessageWithoutErrorHandling r typ data w of
       (None, w1) \<Rightarrow> (True, w1)
     | (Some err, w1) \<Rightarrow> (False, closeWithError err w1))"

definition handlePing :: "goError option \<Rightarrow> ws_conn \<Rightarrow> ws_conn" where
  "handlePing r w = (if connectionClosed w then w else snd (writeMessage r PingMessage [] w))"

definition writeMessageWithFreshDeadline ::
  "goError option \<Rightarrow> goError option \<Rightarrow> bytes \<Rightarrow> ws_conn \<Rightarrow> goError option \<times> ws_conn" where
  "writeMessageWithFreshDeadline d r data w =
    (if connectionClosed w then (Some connIsClosedError, w)
     else if \<not> hasConn w then (Some connIsClosedError, w)
     else case d of
       Some e \<Rightarrow> (Some e, w)
     | None \<Rightarrow> (r, wemit (WsSensitiveFrame data (r = None)) w))"

definition writeSensitiveMessage ::
  "goError option \<Rightarrow> goError option \<Rightarrow> bytes \<Rightarrow> ws_conn \<Rightarrow> bool \<times> ws_conn" where
  "writeSensitiveMessage d r data w =
    (if connectionClosed w then (False, w)
     else case writeMessageWithFreshDeadline d r data w of
       (None, w1) \<Rightarrow> (True, w1)
     | (Some err, w1) \<Rightarrow> (False, closeWithError err w1))"

definition WriteSensitiveMessageToWebsocketConnection ::
  "goError option \<Rightarrow> goError option \<Rightarrow> bytes \<Rightarrow> ws_conn \<Rightarrow> goError option \<times> ws_conn" where
  "WriteSensitiveMessageToWebsocketConnection d r message w =
    (if connectionClosed w then (Some connIsClosedError, w)
     else case writeSensitiveMessage d r message w of
       (True, w1) \<Rightarrow> (None, w1)
     | (False, w1) \<Rightarrow> (Some connIsClosedError, w1))"

text \<open>\<open>frame\<close> is \<open>websocket.FormatCloseMessage(closeCode, reason)\<close>.\<close>

definition CloseDataConnection :: "goError option \<Rightarrow> bytes \<Rightarrow> bytes \<Rightarrow> ws_conn \<Rightarrow> ws_conn" where
  "CloseDataConnection r frame reason w =
    closeWs (if reason \<noteq> [] then snd (writeMessageWithoutErrorHandling r CloseMessage frame w) else w)"

section \<open>Log texts\<close>

definition jsonHexNibble :: "char \<Rightarrow> nat option" where
  "jsonHexNibble c =
    (let n = byteVal c in
     if 48 \<le> n \<and> n \<le> 57 then Some (n - 48)
     else if 97 \<le> n \<and> n \<le> 102 then Some (n - 97 + 10)
     else if 65 \<le> n \<and> n \<le> 70 then Some (n - 65 + 10)
     else None)"

text \<open>\<open>nextJSONTokenByte\<close> on the rest of the data from \<open>index\<close> on: the byte and what follows it. The
  loop over the four digits is written out; the first two have to be zero.\<close>

definition nextJSONTokenByte :: "bytes \<Rightarrow> (char \<times> bytes) option" where
  "nextJSONTokenByte data =
    (case data of
       [] \<Rightarrow> None
     | c # cs \<Rightarrow>
         if c \<noteq> CHR 0x5C then Some (c, cs)
         else (case cs of
             u # d1 # d2 # d3 # d4 # rest \<Rightarrow>
               if u \<noteq> CHR ''u'' then None
               else (case (jsonHexNibble d1, jsonHexNibble d2, jsonHexNibble d3, jsonHexNibble d4) of
                   (Some n1, Some n2, Some n3, Some n4) \<Rightarrow>
                     if n1 \<noteq> 0 \<or> n2 \<noteq> 0 then None else Some (char_of (n3 * 16 + n4), rest)
                 | _ \<Rightarrow> None)
           | _ \<Rightarrow> None))"

text \<open>The inner loop of \<open>containsJSONToken\<close>: whether the data starts with the target.\<close>

fun matchJSONToken :: "bytes \<Rightarrow> bytes \<Rightarrow> bool" where
  "matchJSONToken data [] = True"
| "matchJSONToken data (t # ts) =
    (case nextJSONTokenByte data of
       None \<Rightarrow> False
     | Some (c, rest) \<Rightarrow> c = t \<and> matchJSONToken rest ts)"

fun containsJSONToken :: "bytes \<Rightarrow> bytes \<Rightarrow> bool" where
  "containsJSONToken [] target = False"
| "containsJSONToken (c # cs) target =
    (target \<noteq> [] \<and> (matchJSONToken (c # cs) target \<or> containsJSONToken cs target))"

definition redactedText :: bytes where
  "redactedText = ''ship control: connectionPinInput [redacted]''"

definition textFromMessage :: "bytes \<Rightarrow> bytes" where
  "textFromMessage msg =
    (if 2 < length msg then
       (if hd msg = typeByte MsgTypeControl \<and> containsJSONToken (tl msg) ''connectionPinInput''
        then redactedText else tl msg)
     else if msg = ShipInit then ''ship init'' else ''unknown single byte'')"

section \<open>The pumps and the write queue\<close>

definition checkWebsocketMessage :: "nat \<Rightarrow> bytes \<Rightarrow> goError option" where
  "checkWebsocketMessage msgType data =
    (if msgType \<noteq> BinaryMessage then Some (ErrNew ''message is not a binary message'')
     else if length data < 2 then Some (ErrNew ''invalid ship message length'')
     else None)"

definition readWebsocketMessage :: "goError + nat \<times> bytes \<Rightarrow> ws_conn \<Rightarrow> goError + bytes" where
  "readWebsocketMessage res w =
    (if \<not> hasConn w then Inl (ErrNew ''connection is not initialized'')
     else case res of
       Inl e \<Rightarrow> Inl e
     | Inr (typ, b) \<Rightarrow> (case checkWebsocketMessage typ b of Some e \<Rightarrow> Inl e | None \<Rightarrow> Inr b))"

text \<open>One turn of \<open>readShipPump\<close>, from the moment the blocking read has returned.\<close>

definition readTurn :: "goError + nat \<times> bytes \<Rightarrow> ws_conn \<Rightarrow> ws_conn" where
  "readTurn res w =
    (if connectionClosed w then w\<lparr>readShipPump := RStopped\<rparr>
     else case readWebsocketMessage res w of
       Inl err \<Rightarrow> (closeWithError err w)\<lparr>readShipPump := RStopped\<rparr>
     | Inr message \<Rightarrow> wemit (WsIncoming message) (wemit (WsLog (textFromMessage message)) w))"

text \<open>\<open>writeShipPump\<close> after it has taken a message.\<close>

definition writeTurn :: "goError option \<Rightarrow> bytes \<Rightarrow> ws_conn \<Rightarrow> ws_conn" where
  "writeTurn r message w =
    (if connectionClosed w then w\<lparr>writeShipPump := WStopped\<rparr>
     else case writeMessage r BinaryMessage message w of
       (False, w1) \<Rightarrow> w1\<lparr>writeShipPump := WStopped\<rparr>
     | (True, w1) \<Rightarrow> wemit (WsLog (textFromMessage message)) (w1\<lparr>writeShipPump := WIdle\<rparr>))"

text \<open>\<open>WriteMessageToWebsocketConnection\<close> in its regions: the send on the channel, which needs room,
  and the check after it that decides what the caller is told.\<close>

definition queueMessage :: "bytes \<Rightarrow> ws_conn \<Rightarrow> ws_conn" where
  "queueMessage message w = wemit (WsQueued message) (w\<lparr>shipWriteChannel := shipWriteChannel w @ [message]\<rparr>)"

definition queueResult :: "ws_conn \<Rightarrow> goError option" where
  "queueResult w = (if connectionClosed w \<or> closeChannelClosed w then Some connIsClosedError else None)"

text \<open>The operation without interruption; \<open>preferClose\<close> is the choice of \<open>select\<close> when both cases are
  ready, and \<open>None\<close> means that the caller waits for room.\<close>

definition WriteMessageToWebsocketConnection ::
  "bool \<Rightarrow> bytes \<Rightarrow> ws_conn \<Rightarrow> (goError option \<times> ws_conn) option" where
  "WriteMessageToWebsocketConnection preferClose message w =
    (if connectionClosed w then Some (Some connIsClosedError, w)
     else if closeChannelClosed w \<and> (preferClose \<or> shipWriteChannel w \<noteq> []) then Some (Some connIsClosedError, w)
     else if shipWriteChannel w \<noteq> [] then None
     else (let w1 = queueMessage message w in Some (queueResult w1, w1)))"

text \<open>The last four rules and \<open>ws_write_late\<close> are calls whose check of \<open>isConnClosed\<close> passed before
  another goroutine closed the connection.\<close>

inductive ws_step :: "ws_conn \<Rightarrow> ws_conn \<Rightarrow> bool" where
  ws_init: "ws_step w (InitDataProcessing w)"
| ws_close: "ws_step w (closeWs w)"
| ws_close_data: "ws_step w (CloseDataConnection r frame reason w)"
| ws_sensitive: "ws_step w (snd (WriteSensitiveMessageToWebsocketConnection d r message w))"
| ws_queue: "shipWriteChannel w = [] \<Longrightarrow> ws_step w (queueMessage message w)"
| ws_take: "writeShipPump w = WIdle \<Longrightarrow> shipWriteChannel w = message # ms \<Longrightarrow>
    ws_step w (w\<lparr>writeShipPump := WTaken message, shipWriteChannel := ms\<rparr>)"
| ws_write: "writeShipPump w = WTaken message \<Longrightarrow> ws_step w (writeTurn r message w)"
| ws_write_late: "writeShipPump w = WTaken message \<Longrightarrow> connectionClosed w \<Longrightarrow>
    ws_step w ((wemit (WsFrame BinaryMessage message ok) w)\<lparr>writeShipPump := WStopped\<rparr>)"
| ws_ping: "writeShipPump w = WIdle \<Longrightarrow> ws_step w (handlePing r w)"
| ws_stop: "writeShipPump w = WIdle \<Longrightarrow> closeChannelClosed w \<Longrightarrow> ws_step w (w\<lparr>writeShipPump := WStopped\<rparr>)"
| ws_read: "readShipPump w = RRunning \<Longrightarrow> ws_step w (readTurn res w)"
| ws_late_frame: "typ \<noteq> BinaryMessage \<Longrightarrow> connectionClosed w \<Longrightarrow> ws_step w (wemit (WsFrame typ data ok) w)"
| ws_late_sensitive: "connectionClosed w \<Longrightarrow> ws_step w (wemit (WsSensitiveFrame data ok) w)"
| ws_late_error: "connectionClosed w \<Longrightarrow> ws_step w (closeWithError e w)"

inductive ws_reachable :: "ws_conn \<Rightarrow> bool" where
  wr_start: "ws_reachable (NewWebsocketConnection b)"
| wr_step: "ws_reachable w \<Longrightarrow> ws_step w w' \<Longrightarrow> ws_reachable w'"

lemmas ws_defs = InitDataProcessing_def run_def closeWs_def CloseDataConnection_def closeWithError_def setConnClosedError_def
  WriteSensitiveMessageToWebsocketConnection_def writeSensitiveMessage_def writeMessageWithFreshDeadline_def
  queueMessage_def writeTurn_def writeMessage_def writeMessageWithoutErrorHandling_def handlePing_def
  readTurn_def wemit_def

end
