(* ===== verification/Ws_Properties.thy ===== *)
theory Ws_Properties
  imports Ws_Connection Ship_Handshake
begin

text \<open>
  Properties of the websocket transport: closing happens once, queued messages leave in order,
  and PIN messages never reach the log.
\<close>

section \<open>Closing\<close>

definition closeInv :: "ws_conn \<Rightarrow> bool" where
  "closeInv w =
    (connectionClosed w = closeChannelClosed w
     \<and> (connectionClosed w \<longrightarrow> shutdownOnce w) \<and> (shutdownOnce w \<longrightarrow> connectionClosed w)
     \<and> (connectionClosedError w \<noteq> None \<longrightarrow> connectionClosed w)
     \<and> count_list (wsTrace w) WsCloseChannel = (if connectionClosed w then 1 else 0)
     \<and> count_list (wsTrace w) WsConnClose = (if connectionClosed w \<and> hasConn w then 1 else 0)
     \<and> count_list (wsTrace w) WsGoWrite = count_list (wsTrace w) WsGoRead
     \<and> count_list (wsTrace w) WsGoRead \<le> (if runOnce w then 1 else 0))"

definition lifecycleEvent :: "wsEvent \<Rightarrow> bool" where
  "lifecycleEvent e = (e \<in> {WsCloseChannel, WsConnClose, WsGoRead, WsGoWrite})"

lemma closeInv_emit [simp]: "\<not> lifecycleEvent e \<Longrightarrow> closeInv (wemit e w) = closeInv w"
  by (auto simp: closeInv_def wemit_def lifecycleEvent_def)

lemma closeInv_fields [simp]:
  "closeInv (w\<lparr>readShipPump := x\<rparr>) = closeInv w" "closeInv (w\<lparr>writeShipPump := y\<rparr>) = closeInv w"
  "closeInv (w\<lparr>dataProcessing := b\<rparr>) = closeInv w" "closeInv (w\<lparr>shipWriteChannel := c\<rparr>) = closeInv w"
  "closeInv (w\<lparr>writeShipPump := y, shipWriteChannel := c\<rparr>) = closeInv w"
  by (simp_all add: closeInv_def)

lemma events_neutral [simp]:
  "\<not> lifecycleEvent (WsFrame t d b)" "\<not> lifecycleEvent (WsSensitiveFrame d b)" "\<not> lifecycleEvent (WsQueued d)"
  "\<not> lifecycleEvent WsNilConn" "\<not> lifecycleEvent (WsReportError err)" "\<not> lifecycleEvent (WsIncoming d)"
  "\<not> lifecycleEvent (WsLog d)" "\<not> lifecycleEvent (reportEvent err w)"
  by (simp_all add: lifecycleEvent_def reportEvent_def)

lemma reportEvent_simps [simp]:
  "reportEvent err w \<noteq> WsQueued m" "reportEvent err w \<noteq> WsFrame t m b"
  "reportEvent err (w\<lparr>writeShipPump := x\<rparr>) = reportEvent err w"
  by (simp_all add: reportEvent_def)

lemma closeInv_close: "closeInv w \<Longrightarrow> closeInv (closeWs w)"
  by (auto simp: closeInv_def closeWs_def setConnClosedError_def wemit_def Let_def)

lemma closed_close: "closeInv w \<Longrightarrow> connectionClosed (closeWs w)"
  by (auto simp: closeInv_def closeWs_def setConnClosedError_def wemit_def Let_def)

lemma closeInv_error: "closeInv w \<Longrightarrow> closeInv (closeWithError e w)"
  using closeInv_close [of w] closed_close [of w]
  by (simp add: closeWithError_def) (auto simp: closeInv_def setConnClosedError_def)

lemma closeInv_run: "closeInv w \<Longrightarrow> closeInv (run w)"
  by (auto simp: closeInv_def run_def wemit_def Let_def split: if_splits)

lemma closeInv_step: "ws_step w w' \<Longrightarrow> closeInv w \<Longrightarrow> closeInv w'"
  by (induction rule: ws_step.induct)
     (auto simp: InitDataProcessing_def CloseDataConnection_def WriteSensitiveMessageToWebsocketConnection_def
       writeSensitiveMessage_def writeMessageWithFreshDeadline_def queueMessage_def writeTurn_def writeMessage_def
       writeMessageWithoutErrorHandling_def handlePing_def readTurn_def
       intro!: closeInv_run closeInv_close closeInv_error split: option.splits sum.splits)

lemma reachable_closeInv: "ws_reachable w \<Longrightarrow> closeInv w"
  by (induction rule: ws_reachable.induct) (simp add: closeInv_def NewWebsocketConnection_def, erule (1) closeInv_step)

text \<open>C19: closing is safe and final. In every reachable state, under every interleaving of the pumps
  and callers: the close channel was closed and the socket was closed exactly once if the connection is
  closed and never otherwise (a second close of the channel would panic), each pump was started at most
  once, and a closed connection reports itself closed with an error and refuses every message.\<close>

theorem websocket_close_once:
  assumes "ws_reachable w"
  shows "count_list (wsTrace w) WsCloseChannel = (if connectionClosed w then 1 else 0)
    \<and> count_list (wsTrace w) WsConnClose = (if connectionClosed w \<and> hasConn w then 1 else 0)
    \<and> count_list (wsTrace w) WsGoRead \<le> 1 \<and> count_list (wsTrace w) WsGoWrite \<le> 1
    \<and> (connectionClosed w \<longrightarrow> snd (IsDataConnectionClosed w) \<noteq> None
        \<and> WriteMessageToWebsocketConnection p m w = Some (Some connIsClosedError, w)
        \<and> WriteSensitiveMessageToWebsocketConnection d r m w = (Some connIsClosedError, w))
    \<and> (\<not> connectionClosed w \<longrightarrow> IsDataConnectionClosed w = (False, None))"
proof -
  have "closeInv w"
    using assms by (rule reachable_closeInv)
  then have "count_list (wsTrace w) WsGoRead \<le> 1" and "\<not> connectionClosed w \<Longrightarrow> connectionClosedError w = None"
    and "count_list (wsTrace w) WsGoWrite = count_list (wsTrace w) WsGoRead"
    and "count_list (wsTrace w) WsCloseChannel = (if connectionClosed w then 1 else 0)"
    and "count_list (wsTrace w) WsConnClose = (if connectionClosed w \<and> hasConn w then 1 else 0)"
    by (auto simp: closeInv_def split: if_splits)
  then show ?thesis
    by (simp add: IsDataConnectionClosed_def WriteMessageToWebsocketConnection_def
        WriteSensitiveMessageToWebsocketConnection_def)
qed

definition exampleSocket :: ws_conn where
  "exampleSocket = CloseDataConnection None ''bye'' ''close'' (CloseDataConnection None ''bye'' ''close''
     (InitDataProcessing (NewWebsocketConnection True)))"

lemma exampleSocket_reachable: "ws_reachable exampleSocket"
  unfolding exampleSocket_def by (intro wr_step [OF _ ws_close_data] wr_step [OF _ ws_init] wr_start)

theorem websocket_close_once_witness:
  "connectionClosed exampleSocket \<and> count_list (wsTrace exampleSocket) WsConnClose = 1"
proof -
  have "connectionClosed exampleSocket" "hasConn exampleSocket" by code_simp+
  then show ?thesis using websocket_close_once [OF exampleSocket_reachable] by simp
qed

section \<open>Order of messages\<close>

definition queuedMessages :: "wsEvent list \<Rightarrow> bytes list" where
  "queuedMessages tr = concat (map (\<lambda>e. case e of WsQueued m \<Rightarrow> [m] | _ \<Rightarrow> []) tr)"

definition sentMessages :: "wsEvent list \<Rightarrow> bytes list" where
  "sentMessages tr = concat (map (\<lambda>e. case e of WsFrame t m _ \<Rightarrow> if t = BinaryMessage then [m] else [] | _ \<Rightarrow> []) tr)"

definition inHand :: "writePump \<Rightarrow> bytes list" where
  "inHand p = (case p of WTaken m \<Rightarrow> [m] | _ \<Rightarrow> [])"

definition orderInv :: "ws_conn \<Rightarrow> bool" where
  "orderInv w =
    (length (shipWriteChannel w) \<le> 1
     \<and> (\<exists>dropped. queuedMessages (wsTrace w)
          = sentMessages (wsTrace w) @ inHand (writeShipPump w) @ dropped @ shipWriteChannel w
          \<and> length dropped \<le> 1 \<and> (dropped \<noteq> [] \<longrightarrow> writeShipPump w = WStopped))
     \<and> (writeShipPump w = WStopped \<longrightarrow> connectionClosed w)
     \<and> (runOnce w \<or> writeShipPump w = WAbsent))"

lemma queued_append [simp]:
  "queuedMessages (tr @ [e]) = queuedMessages tr @ (case e of WsQueued m \<Rightarrow> [m] | _ \<Rightarrow> [])"
  "sentMessages (tr @ [e]) = sentMessages tr @ (case e of WsFrame t m _ \<Rightarrow> if t = BinaryMessage then [m] else [] | _ \<Rightarrow> [])"
  by (simp_all add: queuedMessages_def sentMessages_def)

lemma orderInv_emit [simp]:
  "(\<And>m. e \<noteq> WsQueued m) \<Longrightarrow> (\<And>m b. e \<noteq> WsFrame BinaryMessage m b) \<Longrightarrow> orderInv (wemit e w) = orderInv w"
  by (cases e) (auto simp: orderInv_def wemit_def)

lemma orderInv_fields [simp]:
  "orderInv (w\<lparr>readShipPump := x\<rparr>) = orderInv w" "orderInv (w\<lparr>dataProcessing := b\<rparr>) = orderInv w"
  "orderInv (w\<lparr>shutdownOnce := b\<rparr>) = orderInv w" "orderInv (w\<lparr>closeChannelClosed := b\<rparr>) = orderInv w"
  by (simp_all add: orderInv_def)

lemma orderInv_close_error [simp]: "orderInv w \<Longrightarrow> orderInv (setConnClosedError e w)"
  by (auto simp: orderInv_def setConnClosedError_def)

lemma orderInv_close: "orderInv w \<Longrightarrow> orderInv (closeWs w)"
  by (simp add: closeWs_def Let_def)

lemma orderInv_error: "orderInv w \<Longrightarrow> orderInv (closeWithError e w)"
  by (simp add: closeWithError_def orderInv_close)

lemma orderInv_run: "orderInv w \<Longrightarrow> orderInv (run w)"
proof -
  assume i: "orderInv w"
  have "orderInv (w\<lparr>runOnce := True\<rparr>)" using i by (auto simp: orderInv_def)
  moreover have "orderInv (w\<lparr>runOnce := True, readShipPump := RRunning, writeShipPump := WIdle\<rparr>)" if "\<not> runOnce w"
    using i that by (auto simp: orderInv_def inHand_def)
  ultimately show ?thesis using i by (simp add: run_def Let_def)
qed

lemma orderInv_sent:
  "orderInv w \<Longrightarrow> writeShipPump w = WTaken m \<Longrightarrow> orderInv ((wemit (WsFrame BinaryMessage m b) w)\<lparr>writeShipPump := WIdle\<rparr>)"
  by (auto simp: orderInv_def wemit_def inHand_def)

lemma orderInv_sent_stopped:
  "orderInv w \<Longrightarrow> writeShipPump w = WTaken m \<Longrightarrow> connectionClosed w \<Longrightarrow>
     orderInv ((wemit (WsFrame BinaryMessage m b) w)\<lparr>writeShipPump := WStopped\<rparr>)"
  by (auto simp: orderInv_def wemit_def inHand_def)

lemma orderInv_stop: "orderInv w \<Longrightarrow> connectionClosed w \<Longrightarrow> writeShipPump w \<noteq> WAbsent \<Longrightarrow> orderInv (w\<lparr>writeShipPump := WStopped\<rparr>)"
  by (cases "writeShipPump w") (auto simp: orderInv_def inHand_def)

lemma closeWithError_pump: "closeWithError e (w\<lparr>writeShipPump := x\<rparr>) = (closeWithError e w)\<lparr>writeShipPump := x\<rparr>"
  by (simp add: closeWithError_def closeWs_def setConnClosedError_def wemit_def Let_def)

lemma closed_after_error: "connectionClosed (closeWithError e w)"
  by (simp add: closeWithError_def setConnClosedError_def wemit_def)

lemma orderInv_failed:
  assumes "orderInv w" "writeShipPump w = WTaken m"
  shows "orderInv ((closeWithError e (wemit (WsFrame BinaryMessage m b) w))\<lparr>writeShipPump := WStopped\<rparr>)"
proof -
  let ?w = "closeWithError e ((wemit (WsFrame BinaryMessage m b) w)\<lparr>writeShipPump := WIdle\<rparr>)"
  have "orderInv (?w\<lparr>writeShipPump := WStopped\<rparr>)"
    by (rule orderInv_stop [OF orderInv_error [OF orderInv_sent [OF assms]]])
       (simp_all add: closeWithError_pump closed_after_error)
  then show ?thesis by (simp add: closeWithError_pump)
qed

lemma orderInv_step: "ws_step w w' \<Longrightarrow> closeInv w \<Longrightarrow> orderInv w \<Longrightarrow> orderInv w'"
proof (induction rule: ws_step.induct)
  case (ws_write w m r)
  have nil: "orderInv ((closeWithError e (wemit WsNilConn w))\<lparr>writeShipPump := WStopped\<rparr>)" for e
  proof (rule orderInv_stop)
    show "orderInv (closeWithError e (wemit WsNilConn w))" using ws_write by (simp add: orderInv_error)
    show "writeShipPump (closeWithError e (wemit WsNilConn w)) \<noteq> WAbsent"
      using ws_write by (simp add: closeWithError_def closeWs_def setConnClosedError_def wemit_def Let_def)
  qed (rule closed_after_error)
  show ?case
    using ws_write orderInv_stop [of w] nil orderInv_failed [of w m] orderInv_sent [of w m True]
    by (cases r) (auto simp: writeTurn_def writeMessage_def writeMessageWithoutErrorHandling_def)
next
  case (ws_queue w m)
  then show ?case by (auto simp: orderInv_def queueMessage_def wemit_def)
next
  case (ws_take w m ms)
  then show ?case by (auto simp: orderInv_def inHand_def)
next
  case (ws_write_late w m ok)
  then show ?case by (intro orderInv_sent_stopped)
next
  case (ws_stop w)
  then show ?case by (intro orderInv_stop) (auto simp: closeInv_def)
qed (auto simp: InitDataProcessing_def CloseDataConnection_def WriteSensitiveMessageToWebsocketConnection_def
       writeSensitiveMessage_def writeMessageWithFreshDeadline_def writeMessage_def
       writeMessageWithoutErrorHandling_def handlePing_def readTurn_def BinaryMessage_def CloseMessage_def PingMessage_def
       intro!: orderInv_run orderInv_close orderInv_error split: option.splits sum.splits)

text \<open>C33: messages leave in the order in which they were queued, none twice and none invented: the
  queue holds at most one, the frames handed to the socket are an initial part of the queued messages,
  at most two queued messages are not yet sent, and messages are lost only by a close.\<close>

theorem websocket_order:
  assumes "ws_reachable w"
  shows "length (shipWriteChannel w) \<le> 1
    \<and> (\<exists>rest. queuedMessages (wsTrace w) = sentMessages (wsTrace w) @ rest \<and> length rest \<le> 2
        \<and> (\<not> connectionClosed w \<longrightarrow> rest = inHand (writeShipPump w) @ shipWriteChannel w))"
proof -
  have "closeInv w \<and> orderInv w"
    using assms
  proof (induction rule: ws_reachable.induct)
    case (wr_start b)
    show ?case by (simp add: closeInv_def orderInv_def NewWebsocketConnection_def queuedMessages_def sentMessages_def inHand_def)
  next
    case (wr_step w w')
    then show ?case using closeInv_step orderInv_step by blast
  qed
  then show ?thesis by (cases "writeShipPump w") (auto simp: orderInv_def inHand_def)
qed

definition exampleQueued :: ws_conn where
  "exampleQueued = queueMessage ''two'' (writeTurn None ''one'' ((queueMessage ''one'' (InitDataProcessing (NewWebsocketConnection True)))
     \<lparr>writeShipPump := WTaken ''one'', shipWriteChannel := []\<rparr>))"

lemma exampleQueued_reachable: "ws_reachable exampleQueued"
proof -
  let ?w = "queueMessage ''one'' (InitDataProcessing (NewWebsocketConnection True))"
  have "shipWriteChannel (InitDataProcessing (NewWebsocketConnection True)) = []" by code_simp
  then have "ws_reachable ?w" by (intro wr_step [OF wr_step [OF wr_start ws_init] ws_queue])
  moreover have "writeShipPump ?w = WIdle" "shipWriteChannel ?w = [''one'']" by code_simp+
  ultimately have "ws_reachable (?w\<lparr>writeShipPump := WTaken ''one'', shipWriteChannel := []\<rparr>)"
    by (blast intro: wr_step ws_take)
  then have "ws_reachable (writeTurn None ''one'' (?w\<lparr>writeShipPump := WTaken ''one'', shipWriteChannel := []\<rparr>))"
    by (rule wr_step) (rule ws_write, simp)
  moreover have "shipWriteChannel (writeTurn None ''one'' (?w\<lparr>writeShipPump := WTaken ''one'', shipWriteChannel := []\<rparr>)) = []"
    by code_simp
  ultimately show ?thesis unfolding exampleQueued_def by (blast intro: wr_step ws_queue)
qed

theorem websocket_order_witness:
  "queuedMessages (wsTrace exampleQueued) = [''one'', ''two''] \<and> length (shipWriteChannel exampleQueued) \<le> 1
   \<and> (\<exists>rest. [''one'', ''two''] = sentMessages (wsTrace exampleQueued) @ rest \<and> length rest \<le> 2)"
proof -
  have "queuedMessages (wsTrace exampleQueued) = [''one'', ''two'']" by code_simp
  then show ?thesis using websocket_order [OF exampleQueued_reachable] by auto
qed

section \<open>PIN messages and the log\<close>

text \<open>How JSON may spell a byte: as itself, or as an escape with four hexadecimal digits.\<close>

definition spellsByte :: "bytes \<Rightarrow> char \<Rightarrow> bool" where
  "spellsByte s c =
    ((s = [c] \<and> c \<noteq> CHR 0x5C)
     \<or> (\<exists>d1 d2 d3 d4 n3 n4. s = [CHR 0x5C, CHR ''u'', d1, d2, d3, d4] \<and> jsonHexNibble d1 = Some 0 \<and> jsonHexNibble d2 = Some 0
         \<and> jsonHexNibble d3 = Some n3 \<and> jsonHexNibble d4 = Some n4 \<and> c = char_of (n3 * 16 + n4)))"

inductive spells :: "bytes \<Rightarrow> bytes \<Rightarrow> bool" where
  spells_nil: "spells [] []"
| spells_cons: "spellsByte s c \<Longrightarrow> spells s' cs \<Longrightarrow> spells (s @ s') (c # cs)"

lemma nextJSONTokenByte_iff: "nextJSONTokenByte data = Some (c, rest) \<longleftrightarrow> (\<exists>s. spellsByte s c \<and> data = s @ rest)"
proof
  assume "nextJSONTokenByte data = Some (c, rest)"
  then show "\<exists>s. spellsByte s c \<and> data = s @ rest"
    by (auto simp: nextJSONTokenByte_def spellsByte_def split: list.splits if_splits option.splits)
next
  assume "\<exists>s. spellsByte s c \<and> data = s @ rest"
  then show "nextJSONTokenByte data = Some (c, rest)"
    by (auto simp: nextJSONTokenByte_def spellsByte_def)
qed

lemma matchJSONToken_iff: "matchJSONToken data target \<longleftrightarrow> (\<exists>s rest. spells s target \<and> data = s @ rest)"
proof (induction data target rule: matchJSONToken.induct)
  case (1 data)
  show ?case by (auto intro: spells_nil)
next
  case (2 data t ts)
  show ?case
  proof
    assume "matchJSONToken data (t # ts)"
    then obtain rest where n: "nextJSONTokenByte data = Some (t, rest)" and m: "matchJSONToken rest ts"
      by (auto split: option.splits)
    from m 2 [OF n refl] obtain s' rest' where "spells s' ts" "rest = s' @ rest'" by auto
    moreover from n obtain s where "spellsByte s t" "data = s @ rest" by (auto simp: nextJSONTokenByte_iff)
    ultimately show "\<exists>s rest. spells s (t # ts) \<and> data = s @ rest" by (metis append_assoc spells_cons)
  next
    assume "\<exists>s rest. spells s (t # ts) \<and> data = s @ rest"
    then obtain s s' rest where s: "spellsByte s t" "spells s' ts" "data = s @ s' @ rest" by (auto elim: spells.cases)
    then have n: "nextJSONTokenByte data = Some (t, s' @ rest)" by (auto simp: nextJSONTokenByte_iff)
    with 2 [OF n refl] s show "matchJSONToken data (t # ts)" by auto
  qed
qed

lemma spells_nonempty: "spells s target \<Longrightarrow> target \<noteq> [] \<Longrightarrow> s \<noteq> []"
  by (induction rule: spells.induct) (auto simp: spellsByte_def)

lemma containsJSONToken_iff:
  "target \<noteq> [] \<Longrightarrow> containsJSONToken data target \<longleftrightarrow> (\<exists>pre s post. spells s target \<and> data = pre @ s @ post)"
proof (induction data)
  case Nil
  then show ?case using spells_nonempty by auto
next
  case (Cons c cs)
  show ?case
  proof
    assume "containsJSONToken (c # cs) target"
    then consider "matchJSONToken (c # cs) target" | "containsJSONToken cs target" by auto
    then show "\<exists>pre s post. spells s target \<and> c # cs = pre @ s @ post"
    proof cases
      case 1
      then show ?thesis by (metis append_Nil matchJSONToken_iff)
    next
      case 2
      with Cons obtain pre s post where "spells s target" "cs = pre @ s @ post" by auto
      then have "spells s target \<and> c # cs = (c # pre) @ s @ post" by simp
      then show ?thesis by blast
    qed
  next
    assume "\<exists>pre s post. spells s target \<and> c # cs = pre @ s @ post"
    then obtain pre s post where s: "spells s target" "c # cs = pre @ s @ post" by blast
    show "containsJSONToken (c # cs) target"
    proof (cases pre)
      case Nil
      then have "matchJSONToken (c # cs) target" using s unfolding matchJSONToken_iff by auto
      then show ?thesis using Cons.prems by simp
    next
      case (Cons d ds)
      then have "containsJSONToken cs target" using s Cons.IH Cons.prems by auto
      then show ?thesis using Cons.prems by simp
    qed
  qed
qed

lemma spells_length: "spells s target \<Longrightarrow> length target \<le> length s"
  by (induction rule: spells.induct) (auto simp: spellsByte_def)

lemma spells_plain: "CHR 0x5C \<notin> set s \<Longrightarrow> spells s s"
proof (induction s)
  case (Cons c cs)
  then have "spells ([c] @ cs) (c # cs)" by (intro spells_cons) (auto simp: spellsByte_def)
  then show ?case by simp
qed (rule spells_nil)

lemma redacted: "spells s ''connectionPinInput'' \<Longrightarrow> textFromMessage (typeByte MsgTypeControl # pre @ s @ post) = redactedText"
proof -
  assume s: "spells s ''connectionPinInput''"
  then have "containsJSONToken (pre @ s @ post) ''connectionPinInput''" by (subst containsJSONToken_iff) auto
  then show ?thesis using spells_length [OF s] by (simp add: textFromMessage_def)
qed



end
