(* ===== verification/Mdns_Manager.thy ===== *)
theory Mdns_Manager
  imports Hub_State
begin

unbundle bit_operations_syntax

text \<open>
  The mDNS manager (\<open>src/mdns/mdns.go\<close>, \<open>src/mdns/helper.go\<close>, \<open>src/mdns/listener_policy.go\<close>): the
  table of DNS-SD observations with their candidate references, the snapshots reported to the hub,
  announcements and the one-shot life cycle.

  Outside the model, as arguments: \<open>mac\<close>, the text of the HMAC of a message under the random secret of
  the process; the network interfaces; whether a provider starts and whether an announcement
  succeeds. A provider is a number; what the manager asks of it is in \<open>mmTrace\<close>, and so are the
  goroutines that report to the hub.
\<close>

section \<open>TXT records and observation keys\<close>

text \<open>\<open>strings.Split\<close> with a separator of one byte.\<close>

fun splitBytes :: "char \<Rightarrow> bytes \<Rightarrow> bytes list" where
  "splitBytes c [] = [[]]"
| "splitBytes c (x # xs) =
    (if x = c then [] # splitBytes c xs
     else case splitBytes c xs of [] \<Rightarrow> [[x]] | y # ys \<Rightarrow> (x # y) # ys)"

definition parseTxt :: "bytes list \<Rightarrow> (bytes \<times> bytes) list" where
  "parseTxt txt =
    fold (\<lambda>item m. case splitBytes (CHR ''='') item of [k, v] \<Rightarrow> AList.update k v m | _ \<Rightarrow> m) txt []"

text \<open>A read of a missing element gives the empty string.\<close>

definition element :: "(bytes \<times> bytes) list \<Rightarrow> bytes \<Rightarrow> bytes" where
  "element el k = (case map_of el k of None \<Rightarrow> [] | Some v \<Rightarrow> v)"

definition keyField :: "bytes \<Rightarrow> bytes" where
  "keyField v = itoa (int (length v)) @ '':'' @ v"

definition mdnsObservationKey :: "bytes \<Rightarrow> bytes \<Rightarrow> int \<Rightarrow> (bytes \<times> bytes) list \<Rightarrow> bytes" where
  "mdnsObservationKey name host port el =
    concat (map keyField [name, host, itoa port, element el ''ski'', element el ''id'', element el ''path''])"

definition validMdnsSKI :: "bytes \<Rightarrow> bool" where
  "validMdnsSKI ski =
    (length ski = 40 \<and>
     (case hexDecode ski of None \<Rightarrow> False | Some decoded \<Rightarrow> length decoded = 20 \<and> ski = hexEncode decoded))"

section \<open>Addresses of an observation\<close>

definition bytesOfWord :: "nat \<Rightarrow> 'a::len word \<Rightarrow> bytes" where
  "bytesOfWord n w = map (\<lambda>i. char_of (unat (drop_bit (8 * i) w AND 0xFF))) (rev [0..<n])"

fun addrAsSlice :: "Addr \<Rightarrow> bytes" where
  "addrAsSlice AddrZero = []"
| "addrAsSlice (Addr4 w) = bytesOfWord 4 w"
| "addrAsSlice (Addr6 w z) = bytesOfWord 16 w"

text \<open>\<open>net.IP.Equal\<close>: an IPv4 address equals its IPv6-mapped form.\<close>

definition ipEqual :: "bytes \<Rightarrow> bytes \<Rightarrow> bool" where
  "ipEqual a b =
    (if length a = length b then a = b
     else (length a = 4 \<and> length b = 16 \<and> ipTo4 b = Some a) \<or> (length a = 16 \<and> length b = 4 \<and> ipTo4 a = Some b))"

definition sameIPList :: "bytes list \<Rightarrow> bytes list \<Rightarrow> bool" where
  "sameIPList l r = (length l = length r \<and> list_all2 ipEqual l r)"

definition sameScopedIPList :: "Addr list \<Rightarrow> Addr list \<Rightarrow> bool" where
  "sameScopedIPList l r = (l = r)"

definition scopedAddressSetLost :: "Addr list \<Rightarrow> Addr list \<Rightarrow> bool" where
  "scopedAddressSetLost previous current = list_ex (\<lambda>a. \<not> list_ex (\<lambda>b. a = b) current) previous"

text \<open>One turn of the loop of \<open>normalizeMdnsAddresses\<close>, on the slices \<open>scoped\<close> and \<open>legacy\<close> and the flag;
  \<open>seen\<close> holds the elements of \<open>scoped\<close>.\<close>

definition normalizeMdnsAddress :: "Addr \<Rightarrow> Addr list \<times> bytes list \<times> bool \<Rightarrow> Addr list \<times> bytes list \<times> bool" where
  "normalizeMdnsAddress address st =
    (case st of (scoped, legacy, unscopedLinkLocal) \<Rightarrow>
      if \<not> addrIsValid address then st
      else
        (let a = addrUnmap address; linkLocalIPv6 = (addrIs6 a \<and> addrIsLinkLocalUnicast a) in
         if linkLocalIPv6 \<and> addrZone a = [] then (scoped, legacy, True)
         else
           (let b = (if \<not> linkLocalIPv6 \<and> addrZone a \<noteq> [] then addrWithZone a [] else a) in
            if b \<in> set scoped then st
            else (scoped @ [b], if linkLocalIPv6 then legacy else legacy @ [addrAsSlice b], unscopedLinkLocal))))"

definition normalizeMdnsAddresses :: "Addr list \<Rightarrow> Addr list \<times> bytes list \<times> bool" where
  "normalizeMdnsAddresses addresses = fold normalizeMdnsAddress addresses ([], [], False)"

section \<open>State\<close>

datatype mdnsReporter = NoReporter | PlainReporter | CandidateReporter

datatype MdnsProviderSelection =
    MdnsProviderSelectionAll | MdnsProviderSelectionAvahiOnly | MdnsProviderSelectionGoZeroConfOnly
  | MdnsProviderSelectionUnknown

datatype providerKind = AvahiKind | ZeroconfKind | ScopedZeroconfKind

datatype mdnsEvent =
    MdnsReportCandidates "(bytes \<times> MdnsEntry) list" bool "apiCandidate list" uint64
  | MdnsReportEntries "(bytes \<times> MdnsEntry) list" bool
  | MdnsProviderStart nat providerKind bool      \<comment> \<open>provider, kind, whether it started\<close>
  | MdnsProviderShutdown nat
  | MdnsAnnounce nat bytes int "bytes list" bool
  | MdnsUnannounce nat

record mdnsManager =
  mmSki :: bytes
  deviceBrand :: bytes
  deviceModel :: bytes
  deviceType :: bytes
  mmIdentifier :: bytes
  serviceName :: bytes
  mmPort :: int
  providerSelection :: MdnsProviderSelection
  mmAutoaccept :: bool
  pairingRegistration :: bool
  isAnnounced :: bool
  mdnsEntries :: "(bytes \<times> MdnsEntry) list"
  candidateRefs :: "(bytes \<times> bytes) list"
  candidateGeneration :: uint64
  observationRevision :: uint64
  mmReport :: mdnsReporter
  mdnsProvider :: "nat option"
  mmShutdownOnce :: bool
  startClaimed :: bool
  mmTerminal :: bool
  mmListenerPolicy :: "ListenerPolicy option"
  signalHandler :: bool
  nextProvider :: nat
  mmTrace :: "mdnsEvent list"

definition NewMDNS :: "bytes \<Rightarrow> bytes \<Rightarrow> bytes \<Rightarrow> bytes \<Rightarrow> bytes \<Rightarrow> bytes \<Rightarrow> int \<Rightarrow> MdnsProviderSelection \<Rightarrow> mdnsManager" where
  "NewMDNS ski brand model typ shipIdentifier name port selection =
    \<lparr>mmSki = ski, deviceBrand = brand, deviceModel = model, deviceType = typ, mmIdentifier = shipIdentifier,
     serviceName = name, mmPort = port, providerSelection = selection, mmAutoaccept = False,
     pairingRegistration = False, isAnnounced = False, mdnsEntries = [], candidateRefs = [],
     candidateGeneration = 0, observationRevision = 0, mmReport = NoReporter, mdnsProvider = None,
     mmShutdownOnce = False, startClaimed = False, mmTerminal = False, mmListenerPolicy = None,
     signalHandler = False, nextProvider = 0, mmTrace = []\<rparr>"

definition memit :: "mdnsEvent \<Rightarrow> mdnsManager \<Rightarrow> mdnsManager" where
  "memit e m = m\<lparr>mmTrace := mmTrace m @ [e]\<rparr>"

section \<open>Candidate references\<close>

definition candidateRefFor :: "(bytes \<Rightarrow> bytes) \<Rightarrow> uint64 \<Rightarrow> bytes \<Rightarrow> bytes" where
  "candidateRefFor mac generation key = ''shipc_'' @ mac (itoa (uint generation) @ [CHR 0x00] @ key)"

definition nextCandidateRefLocked :: "(bytes \<Rightarrow> bytes) \<Rightarrow> bytes \<Rightarrow> mdnsManager \<Rightarrow> mdnsManager" where
  "nextCandidateRefLocked mac key m =
    (let g = nextEpoch (candidateGeneration m) in
     m\<lparr>candidateGeneration := g, candidateRefs := AList.update key (candidateRefFor mac g key) (candidateRefs m)\<rparr>)"

section \<open>Snapshots\<close>

text \<open>One entry per SKI, the one with the least observation key.\<close>

definition copyEntry :: "mdnsManager \<Rightarrow> bytes \<Rightarrow> (bytes \<times> MdnsEntry) list \<Rightarrow> (bytes \<times> MdnsEntry) list" where
  "copyEntry m key copied =
    (case map_of (mdnsEntries m) key of
       None \<Rightarrow> copied
     | Some v \<Rightarrow> if meSki v = [] \<or> map_of copied (meSki v) \<noteq> None then copied else copied @ [(meSki v, v)])"

definition copyMdnsEntriesLocked :: "mdnsManager \<Rightarrow> (bytes \<times> MdnsEntry) list" where
  "copyMdnsEntriesLocked m = fold (copyEntry m) (sort (map fst (mdnsEntries m))) []"

definition candidateOf :: "bytes \<Rightarrow> MdnsEntry \<Rightarrow> apiCandidate" where
  "candidateOf ref e =
    \<lparr>CandidateRef = ref, candName = meName e, candSKI = meSki e, candIdentifier = meIdentifier e,
     candBrand = meBrand e, candType = meType e, candModel = meModel e, candObsPath = mePath e,
     candObsHost = meHost e, candObsPort = mePort e, candRegister = meRegister e,
     candAddresses = meAddresses e, candScopedAddresses = meScopedAddresses e,
     candUnscopedLinkLocal = meUnscopedLinkLocalObserved e\<rparr>"

definition copyPairingCandidatesLocked :: "mdnsManager \<Rightarrow> apiCandidate list" where
  "copyPairingCandidatesLocked m =
    sort_key CandidateRef
      (concat (map (\<lambda>(key, ref). case map_of (mdnsEntries m) key of
                     None \<Rightarrow> [] | Some e \<Rightarrow> if ref = [] then [] else [candidateOf ref e])
                   (candidateRefs m)))"

definition reportEntries ::
  "(bytes \<times> MdnsEntry) list \<Rightarrow> apiCandidate list \<Rightarrow> bool \<Rightarrow> uint64 \<Rightarrow> mdnsManager \<Rightarrow> mdnsManager" where
  "reportEntries entries cs newEntries revision m =
    (case mmReport m of
       NoReporter \<Rightarrow> m
     | CandidateReporter \<Rightarrow> memit (MdnsReportCandidates entries newEntries cs revision) m
     | PlainReporter \<Rightarrow> memit (MdnsReportEntries entries newEntries) m)"

definition RequestMdnsEntries :: "mdnsManager \<Rightarrow> mdnsManager" where
  "RequestMdnsEntries m =
    (if mmReport m = NoReporter then m
     else reportEntries (copyMdnsEntriesLocked m) (copyPairingCandidatesLocked m) False (observationRevision m) m)"

section \<open>Observations\<close>

definition mandatoryElements :: "bytes list" where
  "mandatoryElements = [''txtvers'', ''id'', ''path'', ''ski'', ''register'']"

text \<open>What the checks before the table is touched accept.\<close>

definition acceptedElements :: "mdnsManager \<Rightarrow> (bytes \<times> bytes) list \<Rightarrow> bool" where
  "acceptedElements m el =
    (list_all (\<lambda>k. map_of el k \<noteq> None) mandatoryElements \<and> element el ''txtvers'' = ''1''
     \<and> validMdnsSKI (element el ''ski'') \<and> element el ''ski'' \<noteq> mmSki m
     \<and> (element el ''register'' = ''true'' \<or> element el ''register'' = ''false''))"

definition newEntry ::
  "(bytes \<times> bytes) list \<Rightarrow> bytes \<Rightarrow> bytes \<Rightarrow> int \<Rightarrow> Addr list \<times> bytes list \<times> bool \<Rightarrow> MdnsEntry" where
  "newEntry el name host port addrs =
    (case addrs of (scoped, legacy, unscoped) \<Rightarrow>
      \<lparr>meName = name, meSki = element el ''ski'', meIdentifier = element el ''id'', mePath = element el ''path'',
       meRegister = (element el ''register'' = ''true''), meBrand = element el ''brand'', meType = element el ''type'',
       meModel = element el ''model'', meHost = host, mePort = port, meAddresses = legacy,
       meScopedAddresses = scoped, meUnscopedLinkLocalObserved = unscoped\<rparr>)"

text \<open>Whether a repeated observation changes its entry, and whether the change takes its candidate
  reference away.\<close>

definition entryChanged :: "MdnsEntry \<Rightarrow> MdnsEntry \<Rightarrow> bool" where
  "entryChanged e n =
    (\<not> sameIPList (meAddresses e) (meAddresses n) \<or> \<not> sameScopedIPList (meScopedAddresses e) (meScopedAddresses n)
     \<or> meUnscopedLinkLocalObserved e \<noteq> meUnscopedLinkLocalObserved n \<or> meRegister e \<noteq> meRegister n
     \<or> meBrand e \<noteq> meBrand n \<or> meType e \<noteq> meType n \<or> meModel e \<noteq> meModel n)"

definition rotateCandidate :: "MdnsEntry \<Rightarrow> MdnsEntry \<Rightarrow> bool" where
  "rotateCandidate e n =
    (scopedAddressSetLost (meScopedAddresses e) (meScopedAddresses n) \<or> meRegister e \<noteq> meRegister n
     \<or> meBrand e \<noteq> meBrand n \<or> meType e \<noteq> meType n \<or> meModel e \<noteq> meModel n)"

definition updateEntry :: "MdnsEntry \<Rightarrow> MdnsEntry \<Rightarrow> MdnsEntry" where
  "updateEntry e n =
    e\<lparr>meAddresses := meAddresses n, meScopedAddresses := meScopedAddresses n,
      meUnscopedLinkLocalObserved := meUnscopedLinkLocalObserved n, meRegister := meRegister n,
      meBrand := meBrand n, meType := meType n, meModel := meModel n\<rparr>"

text \<open>The switch under \<open>mux\<close>: whether the table was updated.\<close>

definition applyObservation :: "(bytes \<Rightarrow> bytes) \<Rightarrow> bytes \<Rightarrow> MdnsEntry \<Rightarrow> bool \<Rightarrow> mdnsManager \<Rightarrow> bool \<times> mdnsManager" where
  "applyObservation mac key n remove m =
    (case map_of (mdnsEntries m) key of
       Some e \<Rightarrow>
         if remove then
           (True, m\<lparr>mdnsEntries := AList.delete key (mdnsEntries m), candidateRefs := AList.delete key (candidateRefs m)\<rparr>)
         else if entryChanged e n then
           (let m1 = m\<lparr>mdnsEntries := AList.update key (updateEntry e n) (mdnsEntries m)\<rparr>
            in (True, if rotateCandidate e n then nextCandidateRefLocked mac key m1 else m1))
         else (False, m)
     | None \<Rightarrow>
         if remove then (False, m)
         else (True, nextCandidateRefLocked mac key (m\<lparr>mdnsEntries := AList.update key n (mdnsEntries m)\<rparr>)))"

definition processScopedMdnsEntry ::
  "(bytes \<Rightarrow> bytes) \<Rightarrow> (bytes \<times> bytes) list \<Rightarrow> bytes \<Rightarrow> bytes \<Rightarrow> Addr list \<Rightarrow> int \<Rightarrow> bool \<Rightarrow> mdnsManager \<Rightarrow> mdnsManager" where
  "processScopedMdnsEntry mac el name host addresses port remove m =
    (if \<not> acceptedElements m el then m
     else
       (let n = newEntry el name host port (normalizeMdnsAddresses addresses);
            key = mdnsObservationKey name host port el;
            (updated, m1) = applyObservation mac key n remove m;
            m2 = (if updated then m1\<lparr>observationRevision := nextEpoch (observationRevision m1)\<rparr> else m1)
        in if updated then reportEntries (copyMdnsEntriesLocked m2) (copyPairingCandidatesLocked m2) True (observationRevision m2) m2
           else m2))"

definition processMdnsEntry ::
  "(bytes \<Rightarrow> bytes) \<Rightarrow> (bytes \<times> bytes) list \<Rightarrow> bytes \<Rightarrow> bytes \<Rightarrow> bytes list \<Rightarrow> int \<Rightarrow> bool \<Rightarrow> mdnsManager \<Rightarrow> mdnsManager" where
  "processMdnsEntry mac el name host addresses port remove m =
    processScopedMdnsEntry mac el name host
      (concat (map (\<lambda>ip. case addrFromSlice ip of None \<Rightarrow> [] | Some a \<Rightarrow> [addrUnmap a]) addresses)) port remove m"

section \<open>Announcements\<close>

definition registrationAvailable :: "mdnsManager \<Rightarrow> bool" where
  "registrationAvailable m = (mmAutoaccept m \<or> pairingRegistration m)"

definition announceTxt :: "mdnsManager \<Rightarrow> bytes list" where
  "announceTxt m =
    [''txtvers=1'', ''path=/ship/'', ''id='' @ mmIdentifier m, ''ski='' @ mmSki m, ''brand='' @ deviceBrand m,
     ''model='' @ deviceModel m, ''type='' @ deviceType m,
     ''register='' @ (if registrationAvailable m then ''true'' else ''false'')]"

text \<open>\<open>ok\<close>: the provider announces successfully. The result is false for an error.\<close>

definition AnnounceMdnsEntry :: "bool \<Rightarrow> mdnsManager \<Rightarrow> bool \<times> mdnsManager" where
  "AnnounceMdnsEntry ok m =
    (case mdnsProvider m of
       None \<Rightarrow> (True, m)
     | Some p \<Rightarrow>
         (let m1 = memit (MdnsAnnounce p (serviceName m) (mmPort m) (announceTxt m) ok) m in
          if ok then (True, m1\<lparr>isAnnounced := True\<rparr>) else (False, m1)))"

definition UnannounceMdnsEntry :: "mdnsManager \<Rightarrow> mdnsManager" where
  "UnannounceMdnsEntry m =
    (if \<not> isAnnounced m then m
     else case mdnsProvider m of
       None \<Rightarrow> m
     | Some p \<Rightarrow> (memit (MdnsUnannounce p) m)\<lparr>isAnnounced := False\<rparr>)"

definition mdnsSetAutoAccept :: "bool \<Rightarrow> bool \<Rightarrow> mdnsManager \<Rightarrow> mdnsManager" where
  "mdnsSetAutoAccept ok accept m =
    (let m1 = m\<lparr>mmAutoaccept := accept\<rparr> in if isAnnounced m1 then snd (AnnounceMdnsEntry ok m1) else m1)"

definition SetPairingRegistration :: "bool \<Rightarrow> bool \<Rightarrow> mdnsManager \<Rightarrow> bool \<times> mdnsManager" where
  "SetPairingRegistration ok available m =
    (let m1 = m\<lparr>pairingRegistration := available\<rparr> in if isAnnounced m1 then AnnounceMdnsEntry ok m1 else (True, m1))"

section \<open>Life cycle\<close>

text \<open>A network interface; \<open>niAddrs\<close> is \<open>None\<close> when its addresses cannot be read.\<close>

record netInterface =
  niName :: bytes
  niUp :: bool
  niMulticast :: bool
  niAddrs :: "bytes list option"

definition interfaceHasAddress :: "netInterface \<Rightarrow> Addr \<Rightarrow> bool option" where
  "interfaceHasAddress iface target =
    (case niAddrs iface of
       None \<Rightarrow> None
     | Some ips \<Rightarrow> Some (list_ex (\<lambda>ip. case addrFromSlice ip of None \<Rightarrow> False | Some a \<Rightarrow> addrUnmap a = target) ips))"

text \<open>\<open>listenerPolicyInterface\<close> over the allowed interfaces: the first usable one that has the address,
  \<open>None\<close> for an error.\<close>

fun listenerPolicyInterface :: "Addr \<Rightarrow> netInterface list \<Rightarrow> netInterface option" where
  "listenerPolicyInterface address [] = None"
| "listenerPolicyInterface address (iface # ifaces) =
    (if addrZone address \<noteq> [] \<and> niName iface \<noteq> addrZone address then listenerPolicyInterface address ifaces
     else if \<not> niUp iface \<or> \<not> niMulticast iface then listenerPolicyInterface address ifaces
     else case interfaceHasAddress iface (addrWithZone address []) of
       None \<Rightarrow> None
     | Some True \<Rightarrow> Some iface
     | Some False \<Rightarrow> listenerPolicyInterface address ifaces)"

definition mdnsValidateListenerPolicy :: "ListenerPolicy \<Rightarrow> mdnsManager \<Rightarrow> bool" where
  "mdnsValidateListenerPolicy policy m =
    (DiscoveryEnabled policy \<and> addrIsValid (lpAddr policy) \<and> lpPort policy \<noteq> 0 \<and> \<not> addrIs4In6 (lpAddr policy)
     \<and> \<not> addrIsUnspecified (lpAddr policy) \<and> \<not> addrIsMulticast (lpAddr policy)
     \<and> listenerPolicyAddressIsUnicast (lpAddr policy) \<and> uint (lpPort policy) = mmPort m
     \<and> providerSelection m \<noteq> MdnsProviderSelectionAvahiOnly)"

definition ConfigureListenerPolicy :: "ListenerPolicy \<Rightarrow> mdnsManager \<Rightarrow> bool \<times> mdnsManager" where
  "ConfigureListenerPolicy policy m =
    (if \<not> mdnsValidateListenerPolicy policy m \<or> startClaimed m \<or> mmTerminal m then (False, m)
     else (True, m\<lparr>mmListenerPolicy := Some policy\<rparr>))"

text \<open>What the system answers during a start: whether the configured interfaces exist, the allowed
  interfaces for a policy (\<open>None\<close>: an error), whether the host name is known, and which kinds of
  provider start.\<close>

record startEnv =
  seInterfaces :: bool
  sePolicyInterfaces :: "netInterface list option"
  seHostname :: bool
  seStarts :: "providerKind \<Rightarrow> bool"
  seAnnounces :: bool

definition claimStart :: "mdnsReporter \<Rightarrow> mdnsManager \<Rightarrow> bool \<times> mdnsManager" where
  "claimStart cb m =
    (if mmTerminal m \<or> startClaimed m then (False, m) else (True, m\<lparr>startClaimed := True, mmReport := cb\<rparr>))"

text \<open>Creates a provider and starts it; one that does not start is shut down.\<close>

definition tryProvider :: "startEnv \<Rightarrow> providerKind \<Rightarrow> mdnsManager \<Rightarrow> nat option \<times> mdnsManager" where
  "tryProvider env kind m =
    (let p = nextProvider m; m1 = memit (MdnsProviderStart p kind (seStarts env kind)) (m\<lparr>nextProvider := Suc p\<rparr>) in
     if seStarts env kind then (Some p, m1) else (None, memit (MdnsProviderShutdown p) m1))"

definition startProvider :: "startEnv \<Rightarrow> mdnsManager \<Rightarrow> nat option \<times> mdnsManager" where
  "startProvider env m =
    (case mmListenerPolicy m of
       Some policy \<Rightarrow>
         if providerSelection m = MdnsProviderSelectionAvahiOnly then (None, m)
         else (case sePolicyInterfaces env of
             None \<Rightarrow> (None, m)
           | Some ifaces \<Rightarrow>
               (case listenerPolicyInterface (lpAddr policy) ifaces of
                  None \<Rightarrow> (None, m)
                | Some _ \<Rightarrow> if \<not> seHostname env then (None, m) else tryProvider env ScopedZeroconfKind m))
     | None \<Rightarrow>
         if \<not> seInterfaces env then (None, m)
         else (case providerSelection m of
             MdnsProviderSelectionAll \<Rightarrow>
               (case tryProvider env AvahiKind m of
                  (Some p, m1) \<Rightarrow> (Some p, m1)
                | (None, m1) \<Rightarrow> tryProvider env ZeroconfKind m1)
           | MdnsProviderSelectionAvahiOnly \<Rightarrow> tryProvider env AvahiKind m
           | MdnsProviderSelectionGoZeroConfOnly \<Rightarrow> tryProvider env ZeroconfKind m
           | MdnsProviderSelectionUnknown \<Rightarrow> (None, m)))"

definition installProvider :: "nat \<Rightarrow> mdnsManager \<Rightarrow> bool \<times> mdnsManager" where
  "installProvider p m =
    (if mmTerminal m then (False, memit (MdnsProviderShutdown p) m) else (True, m\<lparr>mdnsProvider := Some p\<rparr>))"

definition installSignalHandler :: "mdnsManager \<Rightarrow> bool \<times> mdnsManager" where
  "installSignalHandler m = (if mmTerminal m then (False, m) else (True, m\<lparr>signalHandler := True\<rparr>))"

text \<open>\<open>Start\<close> without interruption; its regions are steps of their own below.\<close>

definition mdnsStart :: "startEnv \<Rightarrow> mdnsReporter \<Rightarrow> mdnsManager \<Rightarrow> bool \<times> mdnsManager" where
  "mdnsStart env cb m =
    (case claimStart cb m of
       (False, m1) \<Rightarrow> (False, m1)
     | (True, m1) \<Rightarrow>
         (case startProvider env m1 of
            (None, m2) \<Rightarrow> (False, m2)
          | (Some p, m2) \<Rightarrow>
              (case installProvider p m2 of
                 (False, m3) \<Rightarrow> (False, m3)
               | (True, m3) \<Rightarrow>
                   (case AnnounceMdnsEntry (seAnnounces env) m3 of
                      (False, m4) \<Rightarrow> (False, m4)
                    | (True, m4) \<Rightarrow> installSignalHandler m4))))"

definition mdnsShutdown :: "mdnsManager \<Rightarrow> mdnsManager" where
  "mdnsShutdown m =
    (if mmShutdownOnce m then m
     else
       (let m1 = m\<lparr>mmShutdownOnce := True, mmTerminal := True, mdnsProvider := None, signalHandler := False\<rparr> in
        case mdnsProvider m of
          None \<Rightarrow> m1
        | Some p \<Rightarrow>
            (let m2 = (if isAnnounced m1 then (memit (MdnsUnannounce p) m1)\<lparr>isAnnounced := False\<rparr> else m1)
             in memit (MdnsProviderShutdown p) m2)))"

end
