(* ===== verification/Mdns_Properties.thy ===== *)
theory Mdns_Properties
  imports Mdns_Manager
begin

text \<open>
  Properties of the mDNS manager: observation keys, TXT records, the table of observations with its
  candidate references, snapshots, and the life cycle of providers.
\<close>

section \<open>Observation keys can be read back\<close>

definition splitField :: "bytes \<Rightarrow> bytes \<times> bytes" where
  "splitField s =
    (let d = takeWhile (\<lambda>c. c \<noteq> CHR '':'') s; n = decValue d; r = drop (Suc (length d)) s in (take n r, drop n r))"

fun splitFields :: "nat \<Rightarrow> bytes \<Rightarrow> bytes list" where
  "splitFields 0 s = []"
| "splitFields (Suc n) s = (let (v, r) = splitField s in v # splitFields n r)"

lemma itoa_nat: "itoa (int n) = decDigits n"
  by (simp add: itoa_def)

lemma colon_not_digit: "CHR '':'' \<notin> set (decDigits n)"
proof
  assume "CHR '':'' \<in> set (decDigits n)"
  then have "byteVal (CHR '':'') \<le> 57" using decDigits_digits by blast
  moreover have "byteVal (CHR '':'') = 58" by code_simp
  ultimately show False by simp
qed

lemma splitField_keyField: "splitField (keyField v @ r) = (v, r)"
proof -
  have "takeWhile (\<lambda>c. c \<noteq> CHR '':'') (keyField v @ r) = decDigits (length v)"
    using colon_not_digit [of "length v"] by (auto simp: keyField_def itoa_nat takeWhile_tail)
  then show ?thesis by (simp add: splitField_def keyField_def itoa_nat)
qed

lemma splitFields_keyFields: "splitFields (length vs) (concat (map keyField vs)) = vs"
  by (induction vs) (simp_all add: splitField_keyField)

lemma itoa_inj: "itoa a = itoa b \<Longrightarrow> a = b"
proof -
  have m: "CHR ''-'' \<notin> set (decDigits n)" for n
  proof
    assume "CHR ''-'' \<in> set (decDigits n)"
    then have "48 \<le> byteVal (CHR ''-'')" using decDigits_digits by blast
    moreover have "byteVal (CHR ''-'') = 45" by code_simp
    ultimately show False by simp
  qed
  have n: "decDigits n \<noteq> CHR ''-'' # s" for n s using m [of n] by (metis list.set_intros(1))
  assume "itoa a = itoa b"
  then show "a = b" using n n [symmetric] by (auto simp: itoa_def decDigits_inj split: if_splits)
qed

text \<open>C37: the observation key identifies the observation. The key is a concatenation of length-prefixed
  fields from which name, host, port, SKI, identifier and path can be read back, so two observations
  share a key only if they agree in all of them, whatever bytes the fields contain.\<close>

theorem observation_key_roundtrip:
  "splitFields 6 (mdnsObservationKey name host port el)
     = [name, host, itoa port, element el ''ski'', element el ''id'', element el ''path'']
   \<and> (mdnsObservationKey name host port el = mdnsObservationKey name' host' port' el'
      \<longleftrightarrow> name = name' \<and> host = host' \<and> port = port' \<and> element el ''ski'' = element el' ''ski''
        \<and> element el ''id'' = element el' ''id'' \<and> element el ''path'' = element el' ''path'')"
proof -
  have s: "splitFields 6 (mdnsObservationKey n h p e)
      = [n, h, itoa p, element e ''ski'', element e ''id'', element e ''path'']" for n h p e
    using splitFields_keyFields [of "[n, h, itoa p, element e ''ski'', element e ''id'', element e ''path'']"]
    by (simp add: mdnsObservationKey_def numeral_eq_Suc)
  have "name = name' \<and> host = host' \<and> port = port' \<and> element el ''ski'' = element el' ''ski''
        \<and> element el ''id'' = element el' ''id'' \<and> element el ''path'' = element el' ''path''"
    if eq: "mdnsObservationKey name host port el = mdnsObservationKey name' host' port' el'"
    using s [of name host port el] s [of name' host' port' el'] itoa_inj unfolding eq by auto
  then show ?thesis using s by (auto simp: mdnsObservationKey_def)
qed

section \<open>Announced records are understood\<close>

lemma splitBytes_plain: "c \<notin> set v \<Longrightarrow> splitBytes c v = [v]"
  by (induction v) auto

lemma splitBytes_field: "c \<notin> set k \<Longrightarrow> c \<notin> set v \<Longrightarrow> splitBytes c (k @ c # v) = [k, v]"
  by (induction k) (auto simp: splitBytes_plain)

definition plainText :: "bytes \<Rightarrow> bool" where
  "plainText v = (CHR ''='' \<notin> set v)"

lemma parseTxt_fields:
  "(\<forall>(k, v) \<in> set kvs. plainText k \<and> plainText v) \<Longrightarrow>
     parseTxt (map (\<lambda>(k, v). k @ CHR ''='' # v) kvs) = fold (\<lambda>(k, v). AList.update k v) kvs []"
proof -
  have "\<forall>(k, v) \<in> set kvs. plainText k \<and> plainText v \<Longrightarrow>
     fold (\<lambda>item m. case splitBytes (CHR ''='') item of [k, v] \<Rightarrow> AList.update k v m | _ \<Rightarrow> m)
       (map (\<lambda>(k, v). k @ CHR ''='' # v) kvs) m = fold (\<lambda>(k, v). AList.update k v) kvs m" for m
    by (induction kvs arbitrary: m) (auto simp: splitBytes_field plainText_def)
  then show "(\<forall>(k, v) \<in> set kvs. plainText k \<and> plainText v) \<Longrightarrow> ?thesis" by (simp add: parseTxt_def)
qed

definition announcedFields :: "mdnsManager \<Rightarrow> (bytes \<times> bytes) list" where
  "announcedFields m =
    [(''txtvers'', ''1''), (''path'', ''/ship/''), (''id'', mmIdentifier m), (''ski'', mmSki m),
     (''brand'', deviceBrand m), (''model'', deviceModel m), (''type'', deviceType m),
     (''register'', if registrationAvailable m then ''true'' else ''false'')]"

lemma parse_announced:
  assumes "plainText (mmIdentifier m)" "plainText (mmSki m)" "plainText (deviceBrand m)" "plainText (deviceModel m)"
    "plainText (deviceType m)"
  shows "parseTxt (announceTxt m) = announcedFields m"
proof -
  have "announceTxt m = map (\<lambda>(k, v). k @ CHR ''='' # v) (announcedFields m)"
    by (simp add: announceTxt_def announcedFields_def)
  moreover have "\<forall>(k, v) \<in> set (announcedFields m). plainText k \<and> plainText v"
    using assms by (simp add: announcedFields_def plainText_def)
  ultimately have "parseTxt (announceTxt m) = fold (\<lambda>(k, v). AList.update k v) (announcedFields m) []"
    using parseTxt_fields by simp
  then show ?thesis by (simp add: announcedFields_def)
qed

lemma validMdnsSKI_iff: "validMdnsSKI ski \<longleftrightarrow> length ski = 40 \<and> list_all lowerHex ski"
proof (cases "hexDecode ski")
  case None
  then show ?thesis using hexDecode_lowerHex [of ski] by (auto simp: validMdnsSKI_def)
next
  case (Some bs)
  with hexDecode_roundtrip [OF Some] show ?thesis by (auto simp: validMdnsSKI_def)
qed

lemma validMdnsSKI_plain: "validMdnsSKI ski \<Longrightarrow> plainText ski"
proof -
  assume "validMdnsSKI ski"
  then have "list_all lowerHex ski" by (simp add: validMdnsSKI_iff)
  moreover have "\<not> lowerHex (CHR ''='')" by code_simp
  ultimately show ?thesis by (auto simp: plainText_def list_all_iff)
qed

text \<open>C36: what one manager announces, another one understands. If no announced text contains an equals
  sign, the TXT record is parsed back to the announced values, and a manager that has not seen this
  service before stores exactly one new entry with them: name, SKI, identifier, path, brand, type,
  model, host, port and whether registration is possible.\<close>

theorem announce_roundtrip:
  assumes "validMdnsSKI (mmSki m)" "mmSki m \<noteq> mmSki m2"
    and "plainText (mmIdentifier m)" "plainText (deviceBrand m)" "plainText (deviceModel m)" "plainText (deviceType m)"
    and "map_of (mdnsEntries m2) key = None" "key = mdnsObservationKey (serviceName m) host (mmPort m) (announcedFields m)"
  shows "let el = parseTxt (announceTxt m);
      (scoped, legacy, unscoped) = normalizeMdnsAddresses addresses;
      m' = processScopedMdnsEntry mac el (serviceName m) host addresses (mmPort m) False m2
    in el = announcedFields m
      \<and> mdnsEntries m' = AList.update key
          \<lparr>meName = serviceName m, meSki = mmSki m, meIdentifier = mmIdentifier m, mePath = ''/ship/'',
           meRegister = registrationAvailable m, meBrand = deviceBrand m, meType = deviceType m,
           meModel = deviceModel m, meHost = host, mePort = mmPort m, meAddresses = legacy,
           meScopedAddresses = scoped, meUnscopedLinkLocalObserved = unscoped\<rparr> (mdnsEntries m2)
      \<and> observationRevision m' = nextEpoch (observationRevision m2)"
proof -
  have p: "parseTxt (announceTxt m) = announcedFields m"
    using assms validMdnsSKI_plain by (intro parse_announced)
  have a: "acceptedElements m2 (announcedFields m)"
    using assms(1,2) by (simp add: acceptedElements_def announcedFields_def mandatoryElements_def element_def)
  obtain scoped legacy unscoped where n: "normalizeMdnsAddresses addresses = (scoped, legacy, unscoped)"
    by (metis prod.exhaust)
  have e: "newEntry (announcedFields m) (serviceName m) host (mmPort m) (scoped, legacy, unscoped) =
      \<lparr>meName = serviceName m, meSki = mmSki m, meIdentifier = mmIdentifier m, mePath = ''/ship/'',
       meRegister = registrationAvailable m, meBrand = deviceBrand m, meType = deviceType m,
       meModel = deviceModel m, meHost = host, mePort = mmPort m, meAddresses = legacy,
       meScopedAddresses = scoped, meUnscopedLinkLocalObserved = unscoped\<rparr>"
    by (simp add: newEntry_def announcedFields_def element_def)
  show ?thesis
    using a assms(7,8)
    by (simp add: p n e processScopedMdnsEntry_def applyObservation_def nextCandidateRefLocked_def reportEntries_def
        memit_def Let_def split: mdnsReporter.split)
qed

theorem announce_roundtrip_witness:
  "parseTxt (announceTxt (NewMDNS (replicate 40 (CHR ''b'')) ''brand'' ''model'' ''type'' ''id2'' ''Remote'' 4713 MdnsProviderSelectionAll))
     = announcedFields (NewMDNS (replicate 40 (CHR ''b'')) ''brand'' ''model'' ''type'' ''id2'' ''Remote'' 4713 MdnsProviderSelectionAll)"
proof -
  let ?m = "NewMDNS (replicate 40 (CHR ''b'')) ''brand'' ''model'' ''type'' ''id2'' ''Remote'' 4713 MdnsProviderSelectionAll"
  let ?m2 = "NewMDNS (replicate 40 (CHR ''a'')) ''brand'' ''model'' ''type'' ''id'' ''Service'' 4712 MdnsProviderSelectionAll"
  have "validMdnsSKI (mmSki ?m)" "mmSki ?m \<noteq> mmSki ?m2" "plainText (mmIdentifier ?m)" "plainText (deviceBrand ?m)"
    "plainText (deviceModel ?m)" "plainText (deviceType ?m)" by code_simp+
  moreover have "map_of (mdnsEntries ?m2) k = None" for k by (simp add: NewMDNS_def)
  ultimately show ?thesis
    using announce_roundtrip [of ?m ?m2 "mdnsObservationKey (serviceName ?m) ''host'' (mmPort ?m) (announcedFields ?m)" "''host''" "[]" id]
    by (auto simp: Let_def split: prod.splits)
qed

section \<open>Steps of the manager\<close>

text \<open>How far the one call of \<open>Start\<close> that claimed the manager has come.\<close>

datatype startPhase = NotStarted | StartClaimed | ProviderStarted nat | ProviderInstalled | Announced | StartOver

text \<open>The regions of the manager's operations; a second \<open>Start\<close> fails in \<open>claimStart\<close> and changes
  nothing. The provider's own calls are observations.\<close>

inductive mdns_step :: "mdnsManager \<times> startPhase \<Rightarrow> mdnsManager \<times> startPhase \<Rightarrow> bool" where
  ms_request: "mdns_step (m, ph) (RequestMdnsEntries m, ph)"
| ms_announce: "mdns_step (m, ph) (snd (AnnounceMdnsEntry ok m), ph)"
| ms_unannounce: "mdns_step (m, ph) (UnannounceMdnsEntry m, ph)"
| ms_autoaccept: "mdns_step (m, ph) (mdnsSetAutoAccept ok b m, ph)"
| ms_registration: "mdns_step (m, ph) (snd (SetPairingRegistration ok b m), ph)"
| ms_configure: "mdns_step (m, ph) (snd (ConfigureListenerPolicy policy m), ph)"
| ms_shutdown: "mdns_step (m, ph) (mdnsShutdown m, ph)"
| ms_claim: "claimStart cb m = (True, m') \<Longrightarrow> mdns_step (m, ph) (m', StartClaimed)"
| ms_provider: "startProvider env m = (r, m') \<Longrightarrow>
    mdns_step (m, StartClaimed) (m', case r of None \<Rightarrow> StartOver | Some p \<Rightarrow> ProviderStarted p)"
| ms_install: "installProvider p m = (ok, m') \<Longrightarrow>
    mdns_step (m, ProviderStarted p) (m', if ok then ProviderInstalled else StartOver)"
| ms_first_announce: "AnnounceMdnsEntry b m = (ok, m') \<Longrightarrow>
    mdns_step (m, ProviderInstalled) (m', if ok then Announced else StartOver)"
| ms_signal: "mdns_step (m, Announced) (snd (installSignalHandler m), StartOver)"

text \<open>Reachable states, with the number of observations processed so far.\<close>

inductive mdns_reachable :: "(bytes \<Rightarrow> bytes) \<Rightarrow> nat \<Rightarrow> mdnsManager \<times> startPhase \<Rightarrow> bool" for mac where
  mr_start: "mdns_reachable mac 0 (NewMDNS ski brand model typ ident name port selection, NotStarted)"
| mr_step: "mdns_reachable mac n s \<Longrightarrow> mdns_step s s' \<Longrightarrow> mdns_reachable mac n s'"
| mr_observe: "mdns_reachable mac n (m, ph) \<Longrightarrow>
    mdns_reachable mac (Suc n) (processScopedMdnsEntry mac el name host addresses port remove m, ph)"

lemmas mdns_op_defs = RequestMdnsEntries_def reportEntries_def AnnounceMdnsEntry_def UnannounceMdnsEntry_def
  mdnsSetAutoAccept_def SetPairingRegistration_def ConfigureListenerPolicy_def mdnsShutdown_def claimStart_def
  installProvider_def installSignalHandler_def memit_def

lemma tryProvider_frame: "mdnsEntries (snd (tryProvider env k m)) = mdnsEntries m"
  "candidateRefs (snd (tryProvider env k m)) = candidateRefs m"
  "candidateGeneration (snd (tryProvider env k m)) = candidateGeneration m" "mmSki (snd (tryProvider env k m)) = mmSki m"
  by (simp_all add: tryProvider_def memit_def Let_def)

lemma startProvider_rule:
  assumes m: "P m" and tried: "\<And>k m. P m \<Longrightarrow> P (snd (tryProvider env k m))"
  shows "P (snd (startProvider env m))"
proof -
  obtain r m1 where a: "tryProvider env AvahiKind m = (r, m1)" by fastforce
  then have "P m1" using tried [OF m, of AvahiKind] by simp
  then show ?thesis
    using m tried by (simp add: startProvider_def a split: option.split MdnsProviderSelection.split)
qed

lemma startProvider_frame: "mdnsEntries (snd (startProvider env m)) = mdnsEntries m"
  "candidateRefs (snd (startProvider env m)) = candidateRefs m"
  "candidateGeneration (snd (startProvider env m)) = candidateGeneration m" "mmSki (snd (startProvider env m)) = mmSki m"
  by (rule startProvider_rule; simp add: tryProvider_frame)+

lemma mdns_step_frame:
  "mdns_step s s' \<Longrightarrow> mdnsEntries (fst s') = mdnsEntries (fst s) \<and> candidateRefs (fst s') = candidateRefs (fst s)
     \<and> candidateGeneration (fst s') = candidateGeneration (fst s) \<and> mmSki (fst s') = mmSki (fst s)"
proof (induction rule: mdns_step.induct)
  case (ms_provider env m r m')
  then show ?case using startProvider_frame [of env m] by simp
qed (auto simp: mdns_op_defs Let_def split: option.splits if_splits mdnsReporter.splits)

section \<open>An example\<close>

definition exampleManager :: mdnsManager where
  "exampleManager = NewMDNS (replicate 40 (CHR ''a'')) ''brand'' ''model'' ''type'' ''id'' ''Service'' 4712 MdnsProviderSelectionAll"

definition exampleRemote :: mdnsManager where
  "exampleRemote = NewMDNS (replicate 40 (CHR ''b'')) ''brand'' ''model'' ''type'' ''id2'' ''Remote'' 4713 MdnsProviderSelectionAll"

text \<open>The example manager has seen the remote with one address; a mac that does not collide is enough here.\<close>

definition exampleSeen :: mdnsManager where
  "exampleSeen = processScopedMdnsEntry id (announcedFields exampleRemote) ''Remote'' ''host'' [Addr4 0xC0A80007] 4713 False exampleManager"

definition exampleKey :: bytes where
  "exampleKey = mdnsObservationKey ''Remote'' ''host'' 4713 (announcedFields exampleRemote)"

lemma exampleSeen_reachable: "mdns_reachable id 1 (exampleSeen, NotStarted)"
  using mr_observe [OF mr_start] unfolding exampleSeen_def exampleManager_def by simp

section \<open>The table of observations\<close>

definition linkLocal6 :: "Addr \<Rightarrow> bool" where
  "linkLocal6 a = (addrIs6 a \<and> addrIsLinkLocalUnicast a)"

definition addressesOk :: "Addr list \<Rightarrow> bytes list \<Rightarrow> bool" where
  "addressesOk scoped legacy =
    (distinct scoped \<and> (\<forall>a \<in> set scoped. addrIsValid a \<and> \<not> addrIs4In6 a \<and> (addrZone a \<noteq> [] \<longleftrightarrow> linkLocal6 a))
     \<and> legacy = map addrAsSlice (filter (\<lambda>a. \<not> linkLocal6 a) scoped))"

lemma linkLocal6_zone: "linkLocal6 (addrWithZone a z) = linkLocal6 a" "addrIs4In6 (addrWithZone a z) = addrIs4In6 a"
  "addrIsValid (addrWithZone a z) = addrIsValid a" "addrZone (addrWithZone a []) = []"
  by (cases a; simp add: linkLocal6_def)+

lemma unmap_props: "\<not> addrIs4In6 (addrUnmap a)" "addrIsValid (addrUnmap a) = addrIsValid a"
  by (cases a; simp add: not_mapped_unmap)+

lemma zone_linkLocal: "\<not> linkLocal6 a \<Longrightarrow> \<not> addrIs6 a \<or> \<not> addrIsLinkLocalUnicast a" by (simp add: linkLocal6_def)

lemma normalizeMdnsAddress_ok:
  "addressesOk scoped legacy \<Longrightarrow> normalizeMdnsAddress a (scoped, legacy, u) = (scoped', legacy', u') \<Longrightarrow> addressesOk scoped' legacy'"
  by (auto simp: normalizeMdnsAddress_def addressesOk_def linkLocal6_def [symmetric] linkLocal6_zone unmap_props Let_def
      split: if_splits)

lemma normalizeMdnsAddresses_ok: "normalizeMdnsAddresses as = (scoped, legacy, u) \<Longrightarrow> addressesOk scoped legacy"
proof -
  have "addressesOk s l \<Longrightarrow> fold normalizeMdnsAddress as (s, l, u0) = (scoped, legacy, u) \<Longrightarrow> addressesOk scoped legacy" for s l u0
  proof (induction as arbitrary: s l u0)
    case (Cons a as)
    obtain s' l' u' where n: "normalizeMdnsAddress a (s, l, u0) = (s', l', u')" by (metis prod.exhaust)
    show ?case using Cons.IH [OF normalizeMdnsAddress_ok [OF Cons.prems(1) n]] Cons.prems(2) n by simp
  qed simp
  from this [of "[]" "[]" False] show "normalizeMdnsAddresses as = (scoped, legacy, u) \<Longrightarrow> ?thesis"
    by (simp add: normalizeMdnsAddresses_def addressesOk_def)
qed

definition entryOk :: "bytes \<Rightarrow> bytes \<Rightarrow> MdnsEntry \<Rightarrow> bool" where
  "entryOk own key e =
    (key = concat (map keyField [meName e, meHost e, itoa (mePort e), meSki e, meIdentifier e, mePath e])
     \<and> validMdnsSKI (meSki e) \<and> meSki e \<noteq> own \<and> addressesOk (meScopedAddresses e) (meAddresses e))"

definition tableInv :: "mdnsManager \<Rightarrow> bool" where
  "tableInv m =
    (distinct (map fst (mdnsEntries m)) \<and> distinct (map fst (candidateRefs m))
     \<and> fst ` set (candidateRefs m) = fst ` set (mdnsEntries m)
     \<and> (\<forall>k e. map_of (mdnsEntries m) k = Some e \<longrightarrow> entryOk (mmSki m) k e))"

lemma newEntry_ok:
  "acceptedElements m el \<Longrightarrow>
     entryOk (mmSki m) (mdnsObservationKey name host port el) (newEntry el name host port (normalizeMdnsAddresses as))"
  using normalizeMdnsAddresses_ok [of as]
  by (auto simp: entryOk_def newEntry_def mdnsObservationKey_def acceptedElements_def split: prod.split)

lemma updateEntry_ok: "entryOk own key e \<Longrightarrow> entryOk own key n \<Longrightarrow> entryOk own key (updateEntry e n)"
  by (simp add: entryOk_def updateEntry_def)

lemma tableInv_fields: "mdnsEntries m' = mdnsEntries m \<Longrightarrow> candidateRefs m' = candidateRefs m \<Longrightarrow> mmSki m' = mmSki m \<Longrightarrow>
    tableInv m \<Longrightarrow> tableInv m'"
  by (simp add: tableInv_def)

lemma keys_update: "fst ` set (AList.update k v xs) = insert k (fst ` set xs)"
  by (induction xs) auto

lemma keys_delete: "fst ` set (AList.delete k xs) = fst ` set xs - {k}"
  by (induction xs) auto

lemma tableInv_insert:
  "tableInv m \<Longrightarrow> entryOk (mmSki m) key x \<Longrightarrow>
     tableInv (m\<lparr>mdnsEntries := AList.update key x (mdnsEntries m), candidateGeneration := g,
       candidateRefs := AList.update key r (candidateRefs m)\<rparr>)"
  by (simp add: tableInv_def keys_update distinct_update del: map_of_eq_Some_iff)

lemma tableInv_change:
  assumes "tableInv m" "entryOk (mmSki m) key x" "map_of (mdnsEntries m) key = Some e"
  shows "tableInv (m\<lparr>mdnsEntries := AList.update key x (mdnsEntries m)\<rparr>)"
proof -
  have "insert key (fst ` set (mdnsEntries m)) = fst ` set (mdnsEntries m)"
    using assms(3) by (metis image_eqI insert_absorb map_of_SomeD fst_conv)
  then show ?thesis using assms(1,2) by (simp add: tableInv_def keys_update distinct_update del: map_of_eq_Some_iff)
qed

lemma tableInv_remove:
  "tableInv m \<Longrightarrow> tableInv (m\<lparr>mdnsEntries := AList.delete key (mdnsEntries m), candidateRefs := AList.delete key (candidateRefs m)\<rparr>)"
  by (simp add: tableInv_def keys_delete distinct_delete del: map_of_eq_Some_iff)

lemma applyObservation_table:
  assumes "tableInv m" "entryOk (mmSki m) key n" "applyObservation mac key n remove m = (u, m')"
  shows "tableInv m' \<and> mmSki m' = mmSki m \<and> mmReport m' = mmReport m"
proof (cases "map_of (mdnsEntries m) key")
  case None
  then show ?thesis
    using assms tableInv_insert [OF assms(1,2)]
    by (auto simp: applyObservation_def nextCandidateRefLocked_def Let_def split: if_splits)
next
  case (Some e)
  have "entryOk (mmSki m) key e" using assms(1) Some by (simp add: tableInv_def)
  then have ok: "entryOk (mmSki m) key (updateEntry e n)" using assms(2) by (rule updateEntry_ok)
  show ?thesis
    using assms Some tableInv_insert [OF assms(1) ok] tableInv_change [OF assms(1) ok Some] tableInv_remove [OF assms(1)]
    by (auto simp: applyObservation_def nextCandidateRefLocked_def Let_def split: if_splits)
qed

lemma tableInv_process:
  assumes "tableInv m"
  shows "tableInv (processScopedMdnsEntry mac el name host as port remove m)"
proof (cases "acceptedElements m el")
  case True
  obtain u m1 where a: "applyObservation mac (mdnsObservationKey name host port el)
      (newEntry el name host port (normalizeMdnsAddresses as)) remove m = (u, m1)" by fastforce
  have "tableInv m1" using applyObservation_table [OF assms newEntry_ok [OF True] a] by simp
  then show ?thesis
    using True by (simp add: processScopedMdnsEntry_def a Let_def) (auto simp: reportEntries_def memit_def tableInv_def split: mdnsReporter.split)
qed (use assms in \<open>simp add: processScopedMdnsEntry_def\<close>)

lemma reachable_table: "mdns_reachable mac n s \<Longrightarrow> tableInv (fst s)"
proof (induction rule: mdns_reachable.induct)
  case (mr_start ski brand model t ident name port selection)
  show ?case by (simp add: tableInv_def NewMDNS_def)
next
  case (mr_step n s s')
  then show ?case using mdns_step_frame [of s s'] tableInv_fields by metis
next
  case (mr_observe n m ph el name host addresses port remove)
  then show ?case by (simp add: tableInv_process)
qed

text \<open>C17: in every reachable state the table is sound: every entry stands under the key of its own
  fields, has a valid SKI other than the manager's own, and only usable addresses (each once, never
  IPv4-mapped, with a zone exactly when link-local, the legacy list being the rest); exactly the
  entries have a candidate reference.\<close>

theorem mdns_table_sound:
  assumes "mdns_reachable mac n (m, ph)"
  shows "distinct (map fst (mdnsEntries m)) \<and> dom (map_of (candidateRefs m)) = dom (map_of (mdnsEntries m))
    \<and> (\<forall>k e. map_of (mdnsEntries m) k = Some e \<longrightarrow>
        k = concat (map keyField [meName e, meHost e, itoa (mePort e), meSki e, meIdentifier e, mePath e])
        \<and> validMdnsSKI (meSki e) \<and> meSki e \<noteq> mmSki m
        \<and> distinct (meScopedAddresses e)
        \<and> (\<forall>a \<in> set (meScopedAddresses e). addrIsValid a \<and> \<not> addrIs4In6 a \<and> (addrZone a \<noteq> [] \<longleftrightarrow> linkLocal6 a))
        \<and> meAddresses e = map addrAsSlice (filter (\<lambda>a. \<not> linkLocal6 a) (meScopedAddresses e)))"
  using reachable_table [OF assms]
  by (simp add: tableInv_def entryOk_def addressesOk_def dom_map_of_conv_image_fst del: map_of_eq_Some_iff)

theorem mdns_table_sound_witness:
  "map_of (mdnsEntries exampleSeen) exampleKey \<noteq> None \<and> map_of (candidateRefs exampleSeen) exampleKey \<noteq> None"
proof -
  have "map_of (mdnsEntries exampleSeen) exampleKey \<noteq> None" by code_simp
  moreover from this have "exampleKey \<in> dom (map_of (candidateRefs exampleSeen))"
    using mdns_table_sound [OF exampleSeen_reachable] by (auto simp: dom_def)
  ultimately show ?thesis by blast
qed

section \<open>Candidate references\<close>

lemma refText_inj:
  "itoa (uint g) @ [CHR 0x00] @ k = itoa (uint g') @ [CHR 0x00] @ k' \<Longrightarrow> g = g' \<and> k = k'"
  for g g' :: uint64
proof -
  have d: "itoa (uint x) = decDigits (unat x)" for x :: uint64
    by (simp add: itoa_def unat_eq_nat_uint del: nat_uint_eq)
  have z: "CHR 0x00 \<notin> set (decDigits n)" for n
  proof
    assume "CHR 0x00 \<in> set (decDigits n)"
    then have "48 \<le> byteVal (CHR 0x00)" using decDigits_digits by blast
    then show False by (simp add: byteVal_def)
  qed
  assume eq: "itoa (uint g) @ [CHR 0x00] @ k = itoa (uint g') @ [CHR 0x00] @ k'"
  then have "takeWhile (\<lambda>c. c \<noteq> CHR 0x00) (decDigits (unat g) @ CHR 0x00 # k)
      = takeWhile (\<lambda>c. c \<noteq> CHR 0x00) (decDigits (unat g') @ CHR 0x00 # k')" by (simp add: d)
  moreover have "takeWhile (\<lambda>c. c \<noteq> CHR 0x00) (decDigits x @ CHR 0x00 # y) = decDigits x" for x y
    using z [of x] by (auto simp: takeWhile_tail)
  ultimately have "decDigits (unat g) = decDigits (unat g')" by simp
  then have "g = g'" by (simp add: decDigits_inj word_unat_eq_iff)
  with eq show ?thesis by simp
qed

text \<open>The finitely many messages that references for the given observation keys are computed from.\<close>

definition macInputs :: "bytes set \<Rightarrow> bytes set" where
  "macInputs ks = {itoa (uint g) @ [CHR 0x00] @ k | (g :: uint64) k. k \<in> ks}"

lemma candidateRefFor_inj:
  assumes "inj_on mac (macInputs ks)" "k \<in> ks" "k' \<in> ks"
  shows "candidateRefFor mac g k = candidateRefFor mac g' k' \<longleftrightarrow> g = g' \<and> k = k'"
proof -
  have "itoa (uint g) @ [CHR 0x00] @ k \<in> macInputs ks" "itoa (uint g') @ [CHR 0x00] @ k' \<in> macInputs ks"
    using assms(2,3) by (auto simp: macInputs_def)
  then show ?thesis
    using refText_inj [of g k g' k'] inj_onD [OF assms(1)] by (auto simp: candidateRefFor_def)
qed

definition refInv :: "(bytes \<Rightarrow> bytes) \<Rightarrow> nat \<Rightarrow> mdnsManager \<Rightarrow> bool" where
  "refInv mac n m =
    (unat (candidateGeneration m) \<le> n \<and>
     (\<exists>gen. inj_on gen (dom (map_of (candidateRefs m))) \<and>
       (\<forall>k r. map_of (candidateRefs m) k = Some r \<longrightarrow> r = candidateRefFor mac (gen k) k \<and> gen k \<le> candidateGeneration m)))"

lemma refInv_next:
  assumes "refInv mac n m" "Suc n < 2 ^ 64"
  shows "refInv mac (Suc n) (nextCandidateRefLocked mac key m)"
proof -
  obtain gen where g: "inj_on gen (dom (map_of (candidateRefs m)))"
      "\<forall>k r. map_of (candidateRefs m) k = Some r \<longrightarrow> r = candidateRefFor mac (gen k) k \<and> gen k \<le> candidateGeneration m"
    using assms(1) by (auto simp: refInv_def)
  let ?g = "nextEpoch (candidateGeneration m)"
  have u: "unat ?g = unat (candidateGeneration m) + 1"
    using assms by (intro nextEpoch_unat) (simp add: refInv_def)
  then have lt: "x \<le> candidateGeneration m \<Longrightarrow> x < ?g" for x by (simp add: word_less_nat_alt word_le_nat_alt)
  have "inj_on (gen(key := ?g)) (dom (map_of (AList.update key (candidateRefFor mac ?g key) (candidateRefs m))))"
    using g lt by (fastforce simp: inj_on_def dom_def)
  moreover have "gen k \<le> ?g" if "map_of (candidateRefs m) k = Some r" for k r
    using g(2) that lt less_imp_le by blast
  ultimately show ?thesis
    using g(2) u assms(1) unfolding refInv_def nextCandidateRefLocked_def
    by (intro conjI exI [of _ "gen(key := ?g)"]) (auto simp: Let_def split: if_splits)
qed

lemma refInv_mono: "refInv mac n m \<Longrightarrow> refInv mac (Suc n) m"
  by (auto simp: refInv_def)

lemma refInv_fields: "candidateRefs m' = candidateRefs m \<Longrightarrow> candidateGeneration m' = candidateGeneration m \<Longrightarrow>
    refInv mac n m' = refInv mac n m"
  by (simp add: refInv_def)

lemma refInv_delete: "refInv mac n m \<Longrightarrow> refInv mac n (m\<lparr>mdnsEntries := es, candidateRefs := AList.delete key (candidateRefs m)\<rparr>)"
  unfolding refInv_def by (auto simp: inj_on_def dom_def split: if_splits) (metis (no_types))

lemma refInv_apply:
  assumes "refInv mac n m" "Suc n < 2 ^ 64" "applyObservation mac key e remove m = (u, m')"
  shows "refInv mac (Suc n) m'"
proof -
  have up: "refInv mac n (m\<lparr>mdnsEntries := es\<rparr>)" for es using assms(1) by (simp add: refInv_def)
  show ?thesis
    using assms(3) refInv_mono [OF assms(1)] refInv_mono [OF refInv_delete [OF assms(1)]]
      refInv_next [OF up assms(2)] refInv_mono [OF up]
    by (auto simp: applyObservation_def Let_def split: option.splits if_splits)
qed

lemma refInv_process:
  assumes "refInv mac n m" "Suc n < 2 ^ 64"
  shows "refInv mac (Suc n) (processScopedMdnsEntry mac el name host as port remove m)"
proof (cases "acceptedElements m el")
  case True
  obtain u m1 where a: "applyObservation mac (mdnsObservationKey name host port el)
      (newEntry el name host port (normalizeMdnsAddresses as)) remove m = (u, m1)" by fastforce
  have "refInv mac (Suc n) m1" by (rule refInv_apply [OF assms a])
  then show ?thesis
    using True by (simp add: processScopedMdnsEntry_def a Let_def)
      (auto simp: reportEntries_def memit_def refInv_def split: mdnsReporter.split)
qed (use refInv_mono [OF assms(1)] in \<open>simp add: processScopedMdnsEntry_def\<close>)

lemma reachable_refs: "mdns_reachable mac n s \<Longrightarrow> n < 2 ^ 64 \<Longrightarrow> refInv mac n (fst s)"
proof (induction rule: mdns_reachable.induct)
  case (mr_start ski brand model t ident name port selection)
  show ?case by (simp add: refInv_def NewMDNS_def)
next
  case (mr_step n s s')
  then show ?case using mdns_step_frame [of s s'] refInv_fields by metis
next
  case (mr_observe n m ph el name host addresses port remove)
  then show ?case by (simp add: refInv_process)
qed

lemma refs_distinct:
  assumes "refInv mac n m" "inj_on mac (macInputs (dom (map_of (candidateRefs m))))"
    and "map_of (candidateRefs m) k = Some r" "map_of (candidateRefs m) k' = Some r"
  shows "k = k'"
  using assms candidateRefFor_inj [OF assms(2), of k k'] unfolding refInv_def by (metis domI)

lemma next_ref_fresh:
  assumes "refInv mac n m" "inj_on mac (macInputs (dom (map_of (candidateRefs m))))" "Suc n < 2 ^ 64"
    and "map_of (candidateRefs m) k = Some r" "key \<in> dom (map_of (candidateRefs m))"
  shows "r \<noteq> candidateRefFor mac (nextEpoch (candidateGeneration m)) key"
proof -
  obtain g where g: "r = candidateRefFor mac g k" "g \<le> candidateGeneration m"
    using assms(1,4) by (auto simp: refInv_def)
  have "unat (nextEpoch (candidateGeneration m)) = unat (candidateGeneration m) + 1"
    using assms by (intro nextEpoch_unat) (simp add: refInv_def)
  then have "g \<noteq> nextEpoch (candidateGeneration m)" using g(2) by (auto simp: word_le_nat_alt)
  then show ?thesis using g(1) candidateRefFor_inj [OF assms(2) _ assms(5), of k] assms(4) by (simp add: domIff)
qed



section \<open>Snapshots\<close>

definition skiOf :: "mdnsManager \<Rightarrow> bytes \<Rightarrow> bytes option" where
  "skiOf m k = map_option meSki (map_of (mdnsEntries m) k)"

lemma copy_fold:
  assumes "\<forall>k e. map_of (mdnsEntries m) k = Some e \<longrightarrow> meSki e \<noteq> []"
  shows "map_of (fold (copyEntry m) ks c) ski =
    (case map_of c ski of
       Some e \<Rightarrow> Some e
     | None \<Rightarrow> (case find (\<lambda>k. skiOf m k = Some ski) ks of None \<Rightarrow> None | Some k \<Rightarrow> map_of (mdnsEntries m) k))"
proof (induction ks arbitrary: c)
  case Nil
  show ?case by (simp split: option.split)
next
  case (Cons k ks)
  show ?case
  proof (cases "map_of (mdnsEntries m) k")
    case None
    then have "copyEntry m k c = c" "skiOf m k \<noteq> Some ski" by (simp_all add: copyEntry_def skiOf_def)
    then show ?thesis using Cons [of c] by (simp split: option.split)
  next
    case (Some e)
    then have "meSki e \<noteq> []" using assms by blast
    then have "copyEntry m k c = (if map_of c (meSki e) = None then c @ [(meSki e, e)] else c)"
      and "skiOf m k = Some ski \<longleftrightarrow> meSki e = ski"
      using Some by (auto simp: copyEntry_def skiOf_def)
    then show ?thesis using Cons Some by (auto simp: map_add_def split: option.splits)
  qed
qed

lemma find_sorted_least:
  "sorted ks \<Longrightarrow> find P ks = Some k \<Longrightarrow> P k \<and> k \<in> set ks \<and> (\<forall>k' \<in> set ks. P k' \<longrightarrow> k \<le> k')"
  by (induction ks) (auto split: if_splits)

text \<open>A snapshot lists every discovered SKI once, with the entry whose observation key is the least
  among the entries of this SKI; in particular the choice does not depend on the order in which the
  observations came in.\<close>

theorem mdns_snapshot_least:
  assumes "mdns_reachable mac n (m, ph)"
  shows "map_of (copyMdnsEntriesLocked m) ski = Some e \<longleftrightarrow>
    (\<exists>k. map_of (mdnsEntries m) k = Some e \<and> meSki e = ski
       \<and> (\<forall>k' e'. map_of (mdnsEntries m) k' = Some e' \<and> meSki e' = ski \<longrightarrow> k \<le> k'))"
proof -
  have inv: "tableInv m" using reachable_table [OF assms] by simp
  then have ne: "\<forall>k e. map_of (mdnsEntries m) k = Some e \<longrightarrow> meSki e \<noteq> []"
    by (fastforce simp: tableInv_def entryOk_def validMdnsSKI_iff simp del: map_of_eq_Some_iff)
  define ks where "ks = sort (map fst (mdnsEntries m))"
  have ks: "sorted ks" "k \<in> set ks \<longleftrightarrow> map_of (mdnsEntries m) k \<noteq> None" for k
    by (simp_all add: ks_def map_of_eq_None_iff)
  have c: "map_of (copyMdnsEntriesLocked m) ski =
      (case find (\<lambda>k. skiOf m k = Some ski) ks of None \<Rightarrow> None | Some k \<Rightarrow> map_of (mdnsEntries m) k)"
    using copy_fold [OF ne, of ks "[]" ski] by (simp add: copyMdnsEntriesLocked_def ks_def)
  show ?thesis
  proof
    assume "map_of (copyMdnsEntriesLocked m) ski = Some e"
    then obtain k where f: "find (\<lambda>k. skiOf m k = Some ski) ks = Some k" and e: "map_of (mdnsEntries m) k = Some e"
      by (auto simp: c split: option.splits)
    have "meSki e' = ski \<Longrightarrow> map_of (mdnsEntries m) k' = Some e' \<Longrightarrow> k \<le> k'" for k' e'
      using find_sorted_least [OF ks(1) f] ks(2) [of k'] by (auto simp: skiOf_def)
    moreover have "meSki e = ski" using find_sorted_least [OF ks(1) f] e by (simp add: skiOf_def)
    ultimately show "\<exists>k. map_of (mdnsEntries m) k = Some e \<and> meSki e = ski
       \<and> (\<forall>k' e'. map_of (mdnsEntries m) k' = Some e' \<and> meSki e' = ski \<longrightarrow> k \<le> k')" using e by blast
  next
    assume "\<exists>k. map_of (mdnsEntries m) k = Some e \<and> meSki e = ski
       \<and> (\<forall>k' e'. map_of (mdnsEntries m) k' = Some e' \<and> meSki e' = ski \<longrightarrow> k \<le> k')"
    then obtain k where k: "map_of (mdnsEntries m) k = Some e" "meSki e = ski"
      "\<And>k' e'. map_of (mdnsEntries m) k' = Some e' \<Longrightarrow> meSki e' = ski \<Longrightarrow> k \<le> k'" by blast
    then have "find (\<lambda>k. skiOf m k = Some ski) ks \<noteq> None" using ks(2) [of k] by (auto simp: find_None_iff skiOf_def)
    then obtain k' where f: "find (\<lambda>k. skiOf m k = Some ski) ks = Some k'" by blast
    have "skiOf m k' = Some ski" "k' \<le> k" using find_sorted_least [OF ks(1) f] k ks(2) [of k] by (auto simp: skiOf_def)
    then have "k' = k" using k(3) by (auto simp: skiOf_def intro: antisym)
    then show "map_of (copyMdnsEntriesLocked m) ski = Some e" using c f k(1) by simp
  qed
qed

theorem mdns_snapshot_least_witness:
  "\<exists>e k. map_of (copyMdnsEntriesLocked exampleSeen) (replicate 40 (CHR ''b'')) = Some e \<and> map_of (mdnsEntries exampleSeen) k = Some e"
proof -
  have "map_of (copyMdnsEntriesLocked exampleSeen) (replicate 40 (CHR ''b'')) \<noteq> None" by code_simp
  then show ?thesis using mdns_snapshot_least [OF exampleSeen_reachable, of "replicate 40 (CHR ''b'')"] by blast
qed

section \<open>The life cycle of providers\<close>

definition liveProvider :: "nat \<Rightarrow> mdnsManager \<Rightarrow> startPhase \<Rightarrow> bool" where
  "liveProvider p m ph = (mdnsProvider m = Some p \<or> ph = ProviderStarted p)"

definition shutdowns :: "nat \<Rightarrow> mdnsManager \<Rightarrow> nat" where
  "shutdowns p m = count_list (mmTrace m) (MdnsProviderShutdown p)"

definition lifeInv :: "mdnsManager \<times> startPhase \<Rightarrow> bool" where
  "lifeInv s =
    (case s of (m, ph) \<Rightarrow>
      (\<forall>p. shutdowns p m = (if p < nextProvider m \<and> \<not> liveProvider p m ph then 1 else 0))
      \<and> (\<forall>p. liveProvider p m ph \<longrightarrow> p < nextProvider m)
      \<and> (\<forall>p. ph = ProviderStarted p \<longrightarrow> mdnsProvider m = None)
      \<and> (isAnnounced m \<longrightarrow> mdnsProvider m \<noteq> None)
      \<and> (mmTerminal m \<longrightarrow> mdnsProvider m = None) \<and> (mmTerminal m = mmShutdownOnce m)
      \<and> (startClaimed m \<longleftrightarrow> ph \<noteq> NotStarted)
      \<and> (ph = NotStarted \<or> ph = StartClaimed \<longrightarrow> mdnsProvider m = None))"

lemma shutdowns_emit: "shutdowns p (memit e m) = shutdowns p m + (if e = MdnsProviderShutdown p then 1 else 0)"
  by (simp add: shutdowns_def memit_def)

lemma lifeInv_frame:
  "nextProvider m' = nextProvider m \<Longrightarrow> mdnsProvider m' = mdnsProvider m \<Longrightarrow> isAnnounced m' = isAnnounced m \<Longrightarrow>
   mmTerminal m' = mmTerminal m \<Longrightarrow> mmShutdownOnce m' = mmShutdownOnce m \<Longrightarrow> startClaimed m' = startClaimed m \<Longrightarrow>
   (\<And>p. shutdowns p m' = shutdowns p m) \<Longrightarrow> lifeInv (m', ph) = lifeInv (m, ph)"
  by (simp add: lifeInv_def liveProvider_def)

text \<open>The parts of the manager that observations do not touch.\<close>

definition lifeParts :: "mdnsManager \<Rightarrow> mdnsManager" where
  "lifeParts m = m\<lparr>mdnsEntries := [], candidateRefs := [], candidateGeneration := 0, observationRevision := 0,
     mmTrace := filter (\<lambda>e. \<exists>p. e = MdnsProviderShutdown p) (mmTrace m)\<rparr>"

lemma lifeParts_apply: "lifeParts (snd (applyObservation mac key n remove m)) = lifeParts m"
  by (simp add: applyObservation_def nextCandidateRefLocked_def lifeParts_def Let_def split: option.split)

lemma lifeParts_report: "lifeParts (reportEntries es cs b w m) = lifeParts m"
  by (simp add: reportEntries_def memit_def lifeParts_def split: mdnsReporter.split)

lemma lifeParts_process: "lifeParts (processScopedMdnsEntry mac el name host as port remove m) = lifeParts m"
proof -
  have r: "lifeParts (m\<lparr>observationRevision := w\<rparr>) = lifeParts m" for m w by (simp add: lifeParts_def)
  obtain u m1 where a: "applyObservation mac (mdnsObservationKey name host port el)
      (newEntry el name host port (normalizeMdnsAddresses as)) remove m = (u, m1)" by fastforce
  then have "lifeParts m1 = lifeParts m" using lifeParts_apply by (metis snd_conv)
  then show ?thesis by (simp add: processScopedMdnsEntry_def a r lifeParts_report Let_def)
qed

lemma lifeInv_parts: "lifeParts m' = lifeParts m \<Longrightarrow> lifeInv (m, ph) \<Longrightarrow> lifeInv (m', ph)"
proof -
  assume eq: "lifeParts m' = lifeParts m" and inv: "lifeInv (m, ph)"
  have c: "shutdowns p x = count_list (mmTrace (lifeParts x)) (MdnsProviderShutdown p)" for p x
    unfolding shutdowns_def lifeParts_def by (simp add: count_list_eq_length_filter) (metis (no_types, lifting))
  have f: "f (lifeParts x) = f x" if "f \<in> {isAnnounced, mmTerminal, mmShutdownOnce, startClaimed}" for f x
    using that by (auto simp: lifeParts_def)
  have "nextProvider (lifeParts x) = nextProvider x" "mdnsProvider (lifeParts x) = mdnsProvider x" for x
    by (simp_all add: lifeParts_def)
  then show ?thesis using inv eq f c by (intro iffD2 [OF lifeInv_frame inv]) (metis insertI1 insertI2)+
qed

lemma announce_life: "lifeInv (m, ph) \<Longrightarrow> lifeInv (snd (AnnounceMdnsEntry ok m), ph)"
  by (auto simp: AnnounceMdnsEntry_def lifeInv_def liveProvider_def shutdowns_def memit_def Let_def split: option.split)

lemma tryProvider_life:
  assumes "lifeInv (m, StartClaimed)" "tryProvider env k m = (r, m')"
  shows "lifeInv (m', case r of None \<Rightarrow> StartClaimed | Some p \<Rightarrow> ProviderStarted p)"
proof (cases "seStarts env k")
  case True
  then have "r = Some (nextProvider m)"
    and "m' = memit (MdnsProviderStart (nextProvider m) k True) (m\<lparr>nextProvider := Suc (nextProvider m)\<rparr>)"
    using assms(2) by (auto simp: tryProvider_def Let_def)
  then show ?thesis using assms(1)
    by (auto simp: lifeInv_def liveProvider_def shutdowns_def memit_def less_Suc_eq)
next
  case False
  then have "r = None" and "m' = memit (MdnsProviderShutdown (nextProvider m))
      (memit (MdnsProviderStart (nextProvider m) k False) (m\<lparr>nextProvider := Suc (nextProvider m)\<rparr>))"
    using assms(2) by (auto simp: tryProvider_def Let_def)
  then show ?thesis using assms(1)
    by (auto simp: lifeInv_def liveProvider_def shutdowns_def memit_def less_Suc_eq)
qed

lemma startProvider_life:
  assumes "lifeInv (m, StartClaimed)" "startProvider env m = (r, m')"
  shows "lifeInv (m', case r of None \<Rightarrow> StartOver | Some p \<Rightarrow> ProviderStarted p)"
proof -
  have over: "lifeInv (x, StartClaimed) \<Longrightarrow> lifeInv (x, StartOver)" for x by (auto simp: lifeInv_def liveProvider_def)
  have one: "lifeInv (y, case q of None \<Rightarrow> StartOver | Some p \<Rightarrow> ProviderStarted p)"
    if "lifeInv (x, StartClaimed)" "tryProvider env k x = (q, y)" for x k q y
    using tryProvider_life [OF that] over [of y] by (cases q) simp_all
  obtain q y where a: "tryProvider env AvahiKind m = (q, y)" by fastforce
  have two: "lifeInv (y', case q' of None \<Rightarrow> StartOver | Some p \<Rightarrow> ProviderStarted p)"
    if "q = None" "tryProvider env ZeroconfKind y = (q', y')" for q' y'
    using one [OF _ that(2)] tryProvider_life [OF assms(1) a] that(1) by simp
  have "(r = None \<and> m' = m) \<or> (\<exists>k. tryProvider env k m = (r, m')) \<or> (q = None \<and> tryProvider env ZeroconfKind y = (r, m'))"
    using assms(2) a by (cases q) (auto simp: startProvider_def split: option.splits if_splits MdnsProviderSelection.splits)
  then show ?thesis using over [OF assms(1)] one [OF assms(1)] two by fastforce
qed

lemma lifeInv_step: "mdns_step s s' \<Longrightarrow> lifeInv s \<Longrightarrow> lifeInv s'"
proof (induction rule: mdns_step.induct)
  case (ms_provider env m r m')
  then show ?case by (intro startProvider_life)
next
  case (ms_announce m ph ok)
  show ?case by (rule announce_life [OF ms_announce])
next
  case (ms_first_announce b m ok m')
  then have "lifeInv (m', ProviderInstalled)" using announce_life [of m ProviderInstalled b] by simp
  then show ?case by (auto simp: lifeInv_def liveProvider_def)
next
  case (ms_autoaccept m ph ok b)
  then show ?case
    using announce_life [of "m\<lparr>mmAutoaccept := b\<rparr>" ph ok] lifeInv_frame [of "m\<lparr>mmAutoaccept := b\<rparr>" m ph]
    by (simp add: mdnsSetAutoAccept_def Let_def shutdowns_def)
next
  case (ms_registration m ph ok b)
  then show ?case
    using announce_life [of "m\<lparr>pairingRegistration := b\<rparr>" ph ok] lifeInv_frame [of "m\<lparr>pairingRegistration := b\<rparr>" m ph]
    by (simp add: SetPairingRegistration_def Let_def shutdowns_def)
next
  case (ms_request m ph)
  have "lifeInv (RequestMdnsEntries m, ph) = lifeInv (m, ph)"
    by (rule lifeInv_frame) (simp_all add: RequestMdnsEntries_def reportEntries_def memit_def shutdowns_def split: mdnsReporter.split)
  with ms_request show ?case by simp
next
  case (ms_configure m ph policy)
  have "lifeInv (snd (ConfigureListenerPolicy policy m), ph) = lifeInv (m, ph)"
    by (rule lifeInv_frame) (simp_all add: ConfigureListenerPolicy_def shutdowns_def)
  with ms_configure show ?case by simp
next
  case (ms_signal m)
  have "lifeInv (snd (installSignalHandler m), Announced) = lifeInv (m, Announced)"
    by (rule lifeInv_frame) (simp_all add: installSignalHandler_def shutdowns_def)
  with ms_signal show ?case by (simp add: lifeInv_def liveProvider_def)
next
  case (ms_unannounce m ph)
  then show ?case
    by (cases "mdnsProvider m") (auto simp: UnannounceMdnsEntry_def lifeInv_def liveProvider_def shutdowns_def memit_def)
next
  case (ms_claim cb m m' ph)
  then have "m' = m\<lparr>startClaimed := True, mmReport := cb\<rparr>" "ph = NotStarted"
    by (auto simp: claimStart_def lifeInv_def split: if_splits)
  with ms_claim show ?case by (auto simp: lifeInv_def liveProvider_def shutdowns_def)
next
  case (ms_install p m ok m')
  show ?case
  proof (cases "mmTerminal m")
    case True
    then have "m' = memit (MdnsProviderShutdown p) m" "\<not> ok" using ms_install by (simp_all add: installProvider_def)
    with ms_install True show ?thesis by (auto simp: lifeInv_def liveProvider_def shutdowns_def memit_def)
  next
    case False
    then have "m' = m\<lparr>mdnsProvider := Some p\<rparr>" "ok" using ms_install by (simp_all add: installProvider_def)
    with ms_install False show ?thesis by (auto simp: lifeInv_def liveProvider_def shutdowns_def)
  qed
next
  case (ms_shutdown m ph)
  show ?case
  proof (cases "mmShutdownOnce m \<or> mdnsProvider m = None")
    case True
    then consider "mmShutdownOnce m" | "\<not> mmShutdownOnce m" "mdnsProvider m = None" by auto
    then show ?thesis
    proof cases
      case 1
      with ms_shutdown show ?thesis by (simp add: mdnsShutdown_def)
    next
      case 2
      with ms_shutdown show ?thesis by (auto simp: mdnsShutdown_def lifeInv_def liveProvider_def shutdowns_def)
    qed
  next
    case False
    then obtain p where p: "mdnsProvider m = Some p" "\<not> mmShutdownOnce m" by auto
    then have "shutdowns q (mdnsShutdown m) = shutdowns q m + (if q = p then 1 else 0)" for q
      by (simp add: mdnsShutdown_def shutdowns_def memit_def Let_def)
    moreover have "mdnsProvider (mdnsShutdown m) = None" "mmTerminal (mdnsShutdown m)" "mmShutdownOnce (mdnsShutdown m)"
      "nextProvider (mdnsShutdown m) = nextProvider m" "startClaimed (mdnsShutdown m) = startClaimed m" "\<not> isAnnounced (mdnsShutdown m)"
      using p by (simp_all add: mdnsShutdown_def memit_def Let_def)
    ultimately show ?thesis using ms_shutdown p by (auto simp: lifeInv_def liveProvider_def)
  qed
qed

lemma reachable_life: "mdns_reachable mac n s \<Longrightarrow> lifeInv s"
proof (induction rule: mdns_reachable.induct)
  case (mr_start ski brand model t ident name port selection)
  show ?case by (simp add: lifeInv_def liveProvider_def shutdowns_def NewMDNS_def)
next
  case (mr_step n s s')
  from mr_step(2,3) show ?case using lifeInv_step by blast
next
  case (mr_observe n m ph el name host addresses port remove)
  show ?case by (rule lifeInv_parts [OF lifeParts_process mr_observe(2)])
qed

text \<open>C35: no provider is leaked. In every reachable state, every provider the manager created has been shut
  down exactly once, except the installed one and the one a start still in progress holds, which have
  not been; the manager starts at most once; a manager that was shut down has no provider, announces
  nothing any more and shuts a late provider down.\<close>

theorem mdns_provider_lifecycle:
  assumes "mdns_reachable mac n (m, ph)"
  shows "(\<forall>p < nextProvider m. count_list (mmTrace m) (MdnsProviderShutdown p)
        = (if mdnsProvider m = Some p \<or> ph = ProviderStarted p then 0 else 1))
    \<and> (isAnnounced m \<longrightarrow> mdnsProvider m \<noteq> None)
    \<and> (startClaimed m \<longrightarrow> claimStart cb m = (False, m))
    \<and> (mmTerminal m \<longrightarrow> mdnsProvider m = None \<and> \<not> isAnnounced m \<and> AnnounceMdnsEntry ok m = (True, m)
        \<and> claimStart cb m = (False, m) \<and> installProvider q m = (False, memit (MdnsProviderShutdown q) m)
        \<and> mdnsShutdown m = m)"
proof -
  have inv: "lifeInv (m, ph)" by (rule reachable_life [OF assms])
  then have "\<forall>p < nextProvider m. count_list (mmTrace m) (MdnsProviderShutdown p)
        = (if mdnsProvider m = Some p \<or> ph = ProviderStarted p then 0 else 1)"
    by (simp add: lifeInv_def liveProvider_def shutdowns_def)
  moreover have "isAnnounced m \<longrightarrow> mdnsProvider m \<noteq> None" "mmTerminal m \<longrightarrow> mdnsProvider m = None"
    "mmTerminal m \<longrightarrow> mmShutdownOnce m" using inv by (auto simp: lifeInv_def)
  ultimately show ?thesis
    by (cases "mmTerminal m") (simp_all add: claimStart_def AnnounceMdnsEntry_def installProvider_def mdnsShutdown_def)
qed

definition exampleStarted :: mdnsManager where
  "exampleStarted = snd (claimStart CandidateReporter exampleManager)"

lemma exampleStarted_reachable: "mdns_reachable id 0 (exampleStarted, StartClaimed)"
proof -
  have "claimStart CandidateReporter exampleManager = (True, exampleStarted)"
    by (simp add: claimStart_def exampleStarted_def exampleManager_def NewMDNS_def)
  then show ?thesis using mr_step [OF mr_start ms_claim] unfolding exampleManager_def by blast
qed

theorem mdns_provider_lifecycle_witness:
  "startClaimed exampleStarted \<and> claimStart PlainReporter exampleStarted = (False, exampleStarted)"
proof -
  have "startClaimed exampleStarted" by code_simp
  then show ?thesis using mdns_provider_lifecycle [OF exampleStarted_reachable] by blast
qed

end
