(* ===== verification/Hub_Dial.thy ===== *)
theory Hub_Dial
  imports Hub_Steps
begin

text \<open>
  The dial path of the hub (\<open>src/hub/hub_connections.go\<close>) and the certificate checks it rests on
  (\<open>src/cert/cert.go\<close>): one attempt asks the gate, registers, dials, checks the certificate of the
  peer, and hands the socket to a SHIP connection or settles the attempt as failed.

  Outside the model, as fields of \<open>dialEnv\<close>: the attempt gate, the TLS and websocket libraries
  (\<open>deDial\<close>, given the verifier of the peer's certificates), X.509 parsing and SHA-1, and whether the
  reader's callback panics. \<open>deOthers k\<close> is what the other goroutines do to the hub at the \<open>k\<close>-th gap
  between two atomic regions; it is an arbitrary function here, and theorems state what they
  assume of it. \<open>dLog\<close> records the calls of the attempt to the outside.
\<close>

section \<open>Certificates (src/cert/cert.go)\<close>

text \<open>A key that is not a P-256 key, or a P-256 key with its uncompressed point, \<open>None\<close> for a point
  that \<open>ECDH()\<close> refuses.\<close>

datatype publicKey = OtherKey | P256Key "nat list option"

record certificate =
  SubjectKeyId :: "nat list option"
  PublicKey :: publicKey

datatype certError = CertMissing | CertWithoutSKI | CertWithoutP256Key | CertInvalidKey | CertSKIMismatch

definition SkiFromCertificate :: "(nat list \<Rightarrow> nat list) \<Rightarrow> certificate option \<Rightarrow> certError + bytes" where
  "SkiFromCertificate sha1 cert =
    (case cert of
       None \<Rightarrow> Inl CertMissing
     | Some c \<Rightarrow>
         (let subjectKeyId = (case SubjectKeyId c of None \<Rightarrow> [] | Some k \<Rightarrow> k) in
          if length subjectKeyId \<noteq> 20 then Inl CertWithoutSKI
          else case PublicKey c of
            OtherKey \<Rightarrow> Inl CertWithoutP256Key
          | P256Key None \<Rightarrow> Inl CertInvalidKey
          | P256Key (Some point) \<Rightarrow>
              if subjectKeyId \<noteq> sha1 point then Inl CertSKIMismatch else Inr (hexEncode subjectKeyId)))"

datatype verifyError = CertificateUnparsable | NoValidSKI | CertificateMissing | SKINotDerivable certError | SKINotExpected

text \<open>The check of the server: some certificate of the chain has to provide an SKI.\<close>

fun verifyPeerCertificate :: "(bytes \<Rightarrow> certificate option) \<Rightarrow> (nat list \<Rightarrow> nat list) \<Rightarrow> bytes list \<Rightarrow> verifyError option" where
  "verifyPeerCertificate parse sha1 [] = Some NoValidSKI"
| "verifyPeerCertificate parse sha1 (v # vs) =
    (case parse v of
       None \<Rightarrow> Some CertificateUnparsable
     | Some c \<Rightarrow> (case SkiFromCertificate sha1 (Some c) of Inr _ \<Rightarrow> None | Inl _ \<Rightarrow> verifyPeerCertificate parse sha1 vs))"

text \<open>The check of a pinned dial: the leaf has to provide exactly the expected SKI.\<close>

definition verifyExpectedSKI ::
  "(bytes \<Rightarrow> certificate option) \<Rightarrow> (nat list \<Rightarrow> nat list) \<Rightarrow> bytes \<Rightarrow> bytes list \<Rightarrow> verifyError option" where
  "verifyExpectedSKI parse sha1 expectedSKI rawCerts =
    (case rawCerts of
       [] \<Rightarrow> Some CertificateMissing
     | v # _ \<Rightarrow>
         (case parse v of
            None \<Rightarrow> Some CertificateUnparsable
          | Some leaf \<Rightarrow>
              (case SkiFromCertificate sha1 (Some leaf) of
                 Inl e \<Rightarrow> Some (SKINotDerivable e)
               | Inr observedSKI \<Rightarrow> if observedSKI \<noteq> expectedSKI then Some SKINotExpected else None)))"

section \<open>The surroundings of an attempt\<close>

datatype 'a call = Panics | Returns 'a

record OutgoingAttemptRequest =
  reqRemoteSKI :: bytes
  reqHost :: bytes
  reqPort :: nat
  reqPath :: bytes

text \<open>A context is its identity (dynamic type and value); \<open>==\<close> on contexts of a type that is not
  comparable would panic.\<close>

record attemptContext =
  ctxIdent :: nat
  ctxComparable :: bool

datatype OutgoingAttemptDecision = OutgoingAttemptDecisionPermit | OutgoingAttemptDecisionDeny | OutgoingAttemptDecisionOther
datatype OutgoingAttemptReason = OutgoingAttemptReasonAuthorized | OutgoingAttemptReasonPolicyDenied
  | OutgoingAttemptReasonStaleHandle | OutgoingAttemptReasonOther

record OutgoingAttemptPermit =
  pmDecision :: OutgoingAttemptDecision
  pmReason :: OutgoingAttemptReason
  pmMetadata :: OutgoingAttemptMetadata
  pmContext :: "attemptContext option"

text \<open>A handle: what its methods return, the context possibly nil.\<close>

record OutgoingAttemptHandle =
  hdMethods :: "(OutgoingAttemptMetadata \<times> attemptContext option) call"

record dialTarget =
  dtHost :: bytes        \<comment> \<open>host and port of the URL\<close>
  dtPath :: bytes

text \<open>A websocket connection: whether it runs over TLS, and the peer's certificates.\<close>

record socket =
  sockTLS :: bool
  sockCerts :: "certificate list"

record dialEnv =
  deOthers :: "nat \<Rightarrow> hub \<Rightarrow> hub"
  dePrepare :: "OutgoingAttemptRequest \<Rightarrow> (OutgoingAttemptHandle option \<times> bool) call"
  deAuthorize :: "OutgoingAttemptHandle \<Rightarrow> (OutgoingAttemptPermit \<times> bool) call"
  dePermitCanceled :: bool
  deReaderPanics :: bool
  deDial :: "(bytes list \<Rightarrow> bool) \<Rightarrow> dialTarget \<Rightarrow> (socket option \<times> bool) call"
  dePins :: bool         \<comment> \<open>the dialer is an \<open>expectedSKIOutgoingAttemptDialer\<close>\<close>
  deParse :: "bytes \<Rightarrow> certificate option"
  deSha1 :: "nat list \<Rightarrow> nat list"

datatype dialEvent =
    DPrepare OutgoingAttemptRequest bool   \<comment> \<open>\<open>Prepare\<close>, and whether it returned a handle\<close>
  | DAuthorize "OutgoingAttemptDecision option"   \<comment> \<open>\<open>None\<close>: an error\<close>
  | DAbort
  | DPermit OutgoingAttemptMetadata      \<comment> \<open>the attempt now has to be settled\<close>
  | DDial dialTarget bytes
  | DTerminal OutgoingAttemptMetadata    \<comment> \<open>settled as a failure\<close>
  | DOwned ptr socket OutgoingAttemptMetadata   \<comment> \<open>the SHIP connection owns attempt and socket\<close>
  | DSocket | DSocketClosed              \<comment> \<open>the dialer returned a connection; it is closed\<close>
  | DSocketToCloser                      \<comment> \<open>it is left to \<open>sendWSCloseMessage\<close>\<close>

record dialing =
  dHub :: hub
  dLog :: "dialEvent list"

definition logD :: "dialEvent \<Rightarrow> dialing \<Rightarrow> dialing" where
  "logD e d = d\<lparr>dLog := dLog d @ [e]\<rparr>"

definition onHub :: "(hub \<Rightarrow> hub) \<Rightarrow> dialing \<Rightarrow> dialing" where
  "onHub f d = d\<lparr>dHub := f (dHub d)\<rparr>"

definition closeSocket :: "socket option \<Rightarrow> dialing \<Rightarrow> dialing" where
  "closeSocket conn d = (if conn = None then d else logD DSocketClosed d)"

text \<open>The errors of a dial: \<open>outgoingAttemptDeniedError\<close>, \<open>inboundPairingDirectionHandoffError\<close>,
  \<open>errOutgoingAttemptFailed\<close>, the dialer's error, and the ones made from texts.\<close>

datatype dialError = Denied | Handoff | AttemptFailed | DialFailed | PinningUnsupported | NoRemoteSKI
  | InvalidSKI certError | SKIMismatch | IgnoredConnection

definition isOutgoingAttemptDenied :: "dialError option \<Rightarrow> bool" where
  "isOutgoingAttemptDenied err = (err = Some Denied)"

definition isInboundPairingDirectionHandoff :: "dialError option \<Rightarrow> bool" where
  "isInboundPairingDirectionHandoff err = (err = Some Handoff)"

section \<open>Settling an attempt\<close>

record authorizedOutgoingAttempt =
  atRemoteSKI :: bytes
  atMetadata :: OutgoingAttemptMetadata
  atRegistration :: "ptr option"
  atInternal :: bool
  atTerminal :: "bool option"    \<comment> \<open>\<open>terminal\<close> has run, and \<open>terminalSucceeded\<close>\<close>

definition reportOutgoingAttemptTerminalFailure ::
  "dialEnv \<Rightarrow> bytes \<Rightarrow> OutgoingAttemptMetadata \<Rightarrow> dialing \<Rightarrow> bool \<times> dialing" where
  "reportOutgoingAttemptTerminalFailure env remoteSKI metadata d =
    (if \<not> readerHandlesAttempts (dHub d) then (False, d)
     else (\<not> deReaderPanics env, onHub (hemit (HAttemptClosed remoteSKI False metadata)) d))"

definition terminalFailure ::
  "dialEnv \<Rightarrow> authorizedOutgoingAttempt \<Rightarrow> dialing \<Rightarrow> bool \<times> authorizedOutgoingAttempt \<times> dialing" where
  "terminalFailure env a d =
    (case atTerminal a of
       Some succeeded \<Rightarrow> (succeeded, a, d)
     | None \<Rightarrow>
         (let d1 = logD (DTerminal (atMetadata a))
                (onHub (releaseOutboundAttemptRegistration (atRemoteSKI a) (atRegistration a)) d);
              (succeeded, d2) = (if atInternal a then (True, d1)
                else reportOutgoingAttemptTerminalFailure env (atRemoteSKI a) (atMetadata a) d1)
          in (succeeded, a\<lparr>atTerminal := Some succeeded\<rparr>, d2)))"

text \<open>\<open>attempt.context.Err() != nil\<close>.\<close>

definition attemptContextCanceled :: "authorizedOutgoingAttempt \<Rightarrow> hub \<Rightarrow> bool" where
  "attemptContextCanceled a h = (case atRegistration a of None \<Rightarrow> False | Some r \<Rightarrow> regCanceled (registrations h r))"

section \<open>Asking the gate\<close>

definition prepareOutgoingAttempt :: "dialEnv \<Rightarrow> OutgoingAttemptRequest \<Rightarrow> OutgoingAttemptHandle option \<times> bool" where
  "prepareOutgoingAttempt env request = (case dePrepare env request of Panics \<Rightarrow> (None, True) | Returns x \<Rightarrow> x)"

definition zeroPermit :: OutgoingAttemptPermit where
  "zeroPermit = \<lparr>pmDecision = OutgoingAttemptDecisionOther, pmReason = OutgoingAttemptReasonOther,
     pmMetadata = zeroMetadata, pmContext = None\<rparr>"

definition authorizeOutgoingAttempt :: "dialEnv \<Rightarrow> OutgoingAttemptHandle \<Rightarrow> OutgoingAttemptPermit \<times> bool" where
  "authorizeOutgoingAttempt env handle =
    (case deAuthorize env handle of Panics \<Rightarrow> (zeroPermit, True) | Returns x \<Rightarrow> x)"

definition outgoingAttemptHandleSnapshot ::
  "OutgoingAttemptHandle \<Rightarrow> (OutgoingAttemptMetadata \<times> attemptContext) option" where
  "outgoingAttemptHandleSnapshot handle =
    (case hdMethods handle of
       Returns (metadata, Some ctx) \<Rightarrow>
         if AttemptID metadata \<noteq> [] \<and> Scope metadata \<noteq> [] then Some (metadata, ctx) else None
     | _ \<Rightarrow> None)"

definition sameOutgoingAttemptContext :: "attemptContext option \<Rightarrow> attemptContext option \<Rightarrow> bool" where
  "sameOutgoingAttemptContext ctx1 ctx2 =
    (case (ctx1, ctx2) of (Some a, Some b) \<Rightarrow> ctxComparable a \<and> a = b | _ \<Rightarrow> False)"

text \<open>The part of \<open>gatedDialContextWithExpectedSKI\<close> with a gate: a launched attempt (\<open>Inr\<close>), or the
  attempt to return with the denial.\<close>

definition launchWithGate ::
  "dialEnv \<Rightarrow> OutgoingAttemptRequest \<Rightarrow> uint64 \<Rightarrow> ptr option \<Rightarrow> dialing
    \<Rightarrow> (authorizedOutgoingAttempt option + authorizedOutgoingAttempt) \<times> dialing" where
  "launchWithGate env request generation authority d =
    (let (handle, prepareErr) = prepareOutgoingAttempt env request;
         d1 = logD (DPrepare request (handle \<noteq> None)) d in
     if prepareErr then (Inl None, if handle = None then d1 else logD DAbort d1)
     else case handle of
       None \<Rightarrow> (Inl None, d1)
     | Some lease \<Rightarrow>
         (case outgoingAttemptHandleSnapshot lease of
            None \<Rightarrow> (Inl None, logD DAbort d1)
          | Some (metadata, ctx) \<Rightarrow>
              (let (permit, authorizeErr) = authorizeOutgoingAttempt env lease;
                   d2 = logD (DAuthorize (if authorizeErr then None else Some (pmDecision permit))) d1 in
               if authorizeErr then (Inl None, logD DAbort d2)
               else case pmDecision permit of
                 OutgoingAttemptDecisionDeny \<Rightarrow> (Inl None, d2)
               | OutgoingAttemptDecisionOther \<Rightarrow> (Inl None, logD DAbort d2)
               | OutgoingAttemptDecisionPermit \<Rightarrow>
                   (let a = \<lparr>atRemoteSKI = reqRemoteSKI request, atMetadata = metadata, atRegistration = None,
                             atInternal = False, atTerminal = None\<rparr>;
                        d3 = logD (DPermit metadata) d2 in
                    if pmReason permit \<noteq> OutgoingAttemptReasonAuthorized \<or> pmMetadata permit \<noteq> metadata
                       \<or> \<not> sameOutgoingAttemptContext (pmContext permit) (Some ctx)
                    then (let (_, a', d4) = terminalFailure env a d3 in (Inl (Some a'), d4))
                    else
                      (let d4 = onHub (deOthers env 1) d3 in
                       case registerOutboundAttemptForLaunch (reqRemoteSKI request) generation authority metadata
                              (dePermitCanceled env) (dHub d4) of
                         (None, h) \<Rightarrow> (let (_, a', d5) = terminalFailure env a (d4\<lparr>dHub := h\<rparr>) in (Inl (Some a'), d5))
                       | (Some r, h) \<Rightarrow> (Inr (a\<lparr>atRegistration := Some r\<rparr>), d4\<lparr>dHub := h\<rparr>))))))"

text \<open>The part without a gate.\<close>

definition launchInternal ::
  "dialEnv \<Rightarrow> bytes \<Rightarrow> ptr option \<Rightarrow> dialing
    \<Rightarrow> (authorizedOutgoingAttempt option + authorizedOutgoingAttempt) \<times> dialing" where
  "launchInternal env ski authority d =
    (let d1 = onHub (deOthers env 1) d in
     case registerInternalOutboundAttemptForLaunch ski authority (dHub d1) of
       (None, h) \<Rightarrow> (Inl None, d1\<lparr>dHub := h\<rparr>)
     | (Some (r, metadata), h) \<Rightarrow>
         (Inr \<lparr>atRemoteSKI = ski, atMetadata = metadata, atRegistration = Some r, atInternal = True, atTerminal = None\<rparr>,
          logD (DPermit metadata) (d1\<lparr>dHub := h\<rparr>)))"

definition launchAttempt ::
  "dialEnv \<Rightarrow> ptr option \<Rightarrow> OutgoingAttemptRequest \<Rightarrow> uint64 \<Rightarrow> ptr option \<Rightarrow> dialing
    \<Rightarrow> (authorizedOutgoingAttempt option + authorizedOutgoingAttempt) \<times> dialing" where
  "launchAttempt env gate request generation authority d =
    (if gate \<noteq> None then launchWithGate env request generation authority d
     else launchInternal env (reqRemoteSKI request) authority d)"

section \<open>Dialling\<close>

text \<open>\<open>strconv.ParseUint(port, 10, 16)\<close> with the test for zero.\<close>

definition parsePort :: "bytes \<Rightarrow> nat option" where
  "parsePort s =
    (if s = [] \<or> \<not> list_all (\<lambda>c. 48 \<le> byteVal c \<and> byteVal c \<le> 57) s then None
     else if decValue s < 65536 \<and> decValue s \<noteq> 0 then Some (decValue s) else None)"

definition JoinHostPort :: "bytes \<Rightarrow> bytes \<Rightarrow> bytes" where
  "JoinHostPort host port =
    (if CHR '':'' \<in> set host then ''['' @ host @ '']:'' @ port else host @ '':'' @ port)"

definition DialContext :: "dialEnv \<Rightarrow> dialTarget \<Rightarrow> (socket option \<times> bool) call" where
  "DialContext env target = deDial env (\<lambda>_. True) target"

definition DialContextExpectedSKI :: "dialEnv \<Rightarrow> dialTarget \<Rightarrow> bytes \<Rightarrow> (socket option \<times> bool) call" where
  "DialContextExpectedSKI env target expectedSKI =
    deDial env (\<lambda>rawCerts. verifyExpectedSKI (deParse env) (deSha1 env) expectedSKI rawCerts = None) target"

text \<open>The dial of a launched attempt, from the call of the dialer on.\<close>

definition dialLaunched ::
  "dialEnv \<Rightarrow> authorizedOutgoingAttempt \<Rightarrow> dialTarget \<Rightarrow> bytes \<Rightarrow> dialing
    \<Rightarrow> (socket option \<times> authorizedOutgoingAttempt option \<times> dialError option) \<times> dialing" where
  "dialLaunched env a target expectedSKI d =
    (let supported = (expectedSKI = [] \<or> dePins env);
         result = (if expectedSKI = [] then DialContext env target
                   else if dePins env then DialContextExpectedSKI env target expectedSKI
                   else Returns (None, True));
         d1 = onHub (deOthers env 2) (if supported then logD (DDial target expectedSKI) d else d) in
     case result of
       Panics \<Rightarrow>
         (let (ok, a', d2) = terminalFailure env a d1 in
          ((None, Some a', Some (if ok then AttemptFailed else Denied)), d2))
     | Returns (connection, failed) \<Rightarrow>
         (let d2 = (if connection = None then d1 else logD DSocket d1) in
          if attemptContextCanceled a (dHub d2) then
            (let (_, a', d3) = terminalFailure env a (closeSocket connection d2) in ((None, Some a', Some Denied), d3))
          else if failed then
            (let (ok, a', d3) = terminalFailure env a (closeSocket connection d2) in
             ((None, Some a', Some (if \<not> ok then Denied else if supported then DialFailed else PinningUnsupported)), d3))
          else case connection of
            None \<Rightarrow>
              (let (ok, a', d3) = terminalFailure env a d2 in
               ((None, Some a', Some (if ok then AttemptFailed else Denied)), d3))
          | Some conn \<Rightarrow> ((Some conn, Some a, None), d2)))"

definition gatedDialContextWithExpectedSKI ::
  "dialEnv \<Rightarrow> ptr \<Rightarrow> bytes \<Rightarrow> bytes \<Rightarrow> bytes \<Rightarrow> bytes \<Rightarrow> bytes \<Rightarrow> ptr option \<Rightarrow> dialing
    \<Rightarrow> (socket option \<times> authorizedOutgoingAttempt option \<times> dialError option) \<times> dialing" where
  "gatedDialContextWithExpectedSKI env s ski host0 port path expectedSKI requiredAuthority d0 =
    (let d = onHub (deOthers env 0) d0 in
     case (validatedOutgoingAttemptHost host0, parsePort port) of
       (Some host, Some parsedPort) \<Rightarrow>
         (let ((gate, generation, authority, active), h1) = outgoingAttemptGateSnapshot s requiredAuthority (dHub d);
              d1 = d\<lparr>dHub := h1\<rparr> in
          if \<not> active then ((None, None, Some Denied), d1)
          else case launchAttempt env gate \<lparr>reqRemoteSKI = ski, reqHost = host, reqPort = parsedPort, reqPath = path\<rparr>
                      generation authority d1 of
            (Inl a, d2) \<Rightarrow> ((None, a, Some Denied), d2)
          | (Inr a, d2) \<Rightarrow> dialLaunched env a \<lparr>dtHost = JoinHostPort host port, dtPath = path\<rparr> expectedSKI d2)
     | _ \<Rightarrow> ((None, None, Some Denied), d))"

section \<open>From a socket to a connection\<close>

text \<open>The first region of \<open>connectFoundServiceWithLoggingOptions\<close>: the value to return at once, or
  \<open>None\<close> after this call became the one that dials the SKI.\<close>

definition claimInitiating :: "bytes \<Rightarrow> bytes \<Rightarrow> ptr option \<Rightarrow> hub \<Rightarrow> dialError option option \<times> hub" where
  "claimInitiating ski expectedSKI requiredAuthority h =
    (if hasShutdown h then (Some (Some Denied), h)
     else
       (let connection = map_of (connections h) ski; reservation = map_of (inboundPairingReservations h) ski in
        if connection \<noteq> None \<or> flagSet (connectionsInitiating h) ski \<or> reservation \<noteq> None then
          (let inboundPairingHandoff = (expectedSKI = ski \<and> requiredAuthority \<noteq> None
                 \<and> (case reservation of
                      None \<Rightarrow> False
                    | Some p \<Rightarrow> resAuthority (reservations h p) = requiredAuthority
                                \<and> (resWinner (reservations h p) = None \<or> connection = resWinner (reservations h p))))
           in (Some (if inboundPairingHandoff then Some Handoff else if expectedSKI \<noteq> [] then Some Denied else None), h))
        else (None, h\<lparr>connectionsInitiating := AList.update ski True (connectionsInitiating h)\<rparr>)))"

definition releaseInitiating :: "bytes \<Rightarrow> hub \<Rightarrow> hub" where
  "releaseInitiating ski h = h\<lparr>connectionsInitiating := AList.delete ski (connectionsInitiating h)\<rparr>"

definition failBeforeConnection ::
  "dialEnv \<Rightarrow> socket option \<Rightarrow> authorizedOutgoingAttempt \<Rightarrow> dialError \<Rightarrow> dialing \<Rightarrow> dialError option \<times> dialing" where
  "failBeforeConnection env conn a connectionErr d =
    (let (ok, _, d1) = terminalFailure env a (closeSocket conn d) in (Some (if ok then connectionErr else Denied), d1))"

text \<open>The SKI of the peer, from the state of the TLS connection.\<close>

definition peerSKI :: "dialEnv \<Rightarrow> socket \<Rightarrow> dialError + bytes" where
  "peerSKI env conn =
    (if \<not> sockTLS conn then Inl AttemptFailed
     else case sockCerts conn of
       [] \<Rightarrow> Inl NoRemoteSKI
     | c # _ \<Rightarrow>
         (case SubjectKeyId c of
            None \<Rightarrow> Inl NoRemoteSKI
          | Some k \<Rightarrow> (case SkiFromCertificate (deSha1 env) (Some c) of
               Inl e \<Rightarrow> Inl (InvalidSKI e) | Inr _ \<Rightarrow> Inr (hexEncode k))))"

text \<open>The handler refuses a configuration without identifier or scope; the context is never nil here.\<close>

definition configurationInvalid :: "OutgoingAttemptMetadata \<Rightarrow> bool" where
  "configurationInvalid metadata = (AttemptID metadata = [] \<or> Scope metadata = [])"

definition rejectedReason :: bytes where
  "rejectedReason = ''connection registration rejected''"

text \<open>The last part: the SHIP connection is created, bound to the attempt, registered and run.\<close>

definition startConnection ::
  "dialEnv \<Rightarrow> bytes \<Rightarrow> ptr option \<Rightarrow> socket \<Rightarrow> authorizedOutgoingAttempt \<Rightarrow> dialing \<Rightarrow> dialError option \<times> dialing" where
  "startConnection env ski requiredAuthority conn a d0 =
    (let d = onHub (deOthers env 4) d0 in
     if attemptContextCanceled a (dHub d) then failBeforeConnection env (Some conn) a Denied d
     else if configurationInvalid (atMetadata a) then failBeforeConnection env (Some conn) a AttemptFailed d
     else
       (let (c, h1) = newConnection ski (dHub d);
            (bound, h2) = bindOutboundAttemptConnection ski (atRegistration a) (Some c) (deOthers env 5 h1) in
        if \<not> bound then failBeforeConnection env (Some conn) a Denied (d\<lparr>dHub := h2\<rparr>)
        else
          (let h3 = deOthers env 6 h2;
               (res, h4) = registerOutgoingConnection c (attemptContextCanceled a h3) requiredAuthority h3;
               d1 = logD (DOwned c conn (atMetadata a)) (d\<lparr>dHub := deOthers env 7 h4\<rparr>) in
           if res \<noteq> outgoingConnectionRegistrationAccepted then
             (Some (if res = outgoingConnectionRegistrationInboundHandoff then Handoff else Denied),
              onHub (hemit (HCloseConnection c False 0 rejectedReason)) d1)
           else
             (let d2 = onHub (deOthers env 8) (onHub (hemit (HRun c)) d1) in
              (if attemptContextCanceled a (dHub d2) then Some Denied else None, d2)))))"

definition finishConnection ::
  "dialEnv \<Rightarrow> bytes \<Rightarrow> ptr option \<Rightarrow> socket \<Rightarrow> authorizedOutgoingAttempt \<Rightarrow> dialing \<Rightarrow> dialError option \<times> dialing" where
  "finishConnection env ski requiredAuthority conn a d0 =
    (let d = onHub (deOthers env 3) d0 in
     if attemptContextCanceled a (dHub d) then failBeforeConnection env (Some conn) a Denied d
     else case peerSKI env conn of
       Inl e \<Rightarrow> failBeforeConnection env (Some conn) a e d
     | Inr remoteSKI \<Rightarrow>
         if remoteSKI \<noteq> ski then failBeforeConnection env (Some conn) a SKIMismatch d
         else
           (let (keep, h1) = keepThisConnection True False ski (dHub d); d1 = d\<lparr>dHub := h1\<rparr> in
            if \<not> keep then failBeforeConnection env None a IgnoredConnection (logD DSocketToCloser d1)
            else startConnection env ski requiredAuthority conn a d1))"

text \<open>\<open>env\<close> and \<open>env'\<close> are the surroundings of the first attempt and of the one with an empty path. The
  SKI of a service never changes, so it is read once.\<close>

definition dialService ::
  "dialEnv \<Rightarrow> dialEnv \<Rightarrow> ptr \<Rightarrow> bytes \<Rightarrow> bytes \<Rightarrow> bytes \<Rightarrow> bytes \<Rightarrow> bytes \<Rightarrow> bool \<Rightarrow> ptr option \<Rightarrow> dialing
    \<Rightarrow> dialError option \<times> dialing" where
  "dialService env env' s ski host port path expectedSKI allowEmptyPathFallback requiredAuthority d =
    (case gatedDialContextWithExpectedSKI env s ski host port path expectedSKI requiredAuthority d of
       ((Some conn, Some a, None), d1) \<Rightarrow> finishConnection env ski requiredAuthority conn a d1
     | ((_, _, err), d1) \<Rightarrow>
         if \<not> allowEmptyPathFallback \<or> isOutgoingAttemptDenied err then (err, d1)
         else
           (case gatedDialContextWithExpectedSKI env' s ski host port [] [] requiredAuthority d1 of
              ((Some conn, Some a, None), d2) \<Rightarrow> finishConnection env' ski requiredAuthority conn a d2
            | ((_, _, err'), d2) \<Rightarrow> (err', d2)))"

definition connectFoundServiceWithLoggingOptions ::
  "dialEnv \<Rightarrow> dialEnv \<Rightarrow> ptr \<Rightarrow> bytes \<Rightarrow> bytes \<Rightarrow> bytes \<Rightarrow> bytes \<Rightarrow> bool \<Rightarrow> ptr option \<Rightarrow> dialing
    \<Rightarrow> dialError option \<times> dialing" where
  "connectFoundServiceWithLoggingOptions env env' s host port path expectedSKI allowEmptyPathFallback requiredAuthority d =
    (let ski = svcSKI (services (dHub d) s) in
     if ski = [] then dialService env env' s ski host port path expectedSKI allowEmptyPathFallback requiredAuthority d
     else case claimInitiating ski expectedSKI requiredAuthority (dHub d) of
       (Some result, h1) \<Rightarrow> (result, d\<lparr>dHub := h1\<rparr>)
     | (None, h1) \<Rightarrow>
         (let (err, d2) = dialService env env' s ski host port path expectedSKI allowEmptyPathFallback requiredAuthority
                            (d\<lparr>dHub := h1\<rparr>)
          in (err, onHub (releaseInitiating ski) (onHub (deOthers env 9) d2))))"

text \<open>Automatic connections, and pinned connections to a pairing candidate.\<close>

definition connectFoundService ::
  "dialEnv \<Rightarrow> dialEnv \<Rightarrow> ptr \<Rightarrow> bytes \<Rightarrow> bytes \<Rightarrow> bytes \<Rightarrow> ptr option \<Rightarrow> dialing \<Rightarrow> dialError option \<times> dialing" where
  "connectFoundService env env' s host port path requiredAuthority d =
    connectFoundServiceWithLoggingOptions env env' s host port path [] True requiredAuthority d"

definition connectFoundPairingCandidate ::
  "dialEnv \<Rightarrow> ptr \<Rightarrow> bytes \<Rightarrow> bytes \<Rightarrow> bytes \<Rightarrow> bytes \<Rightarrow> ptr option \<Rightarrow> dialing \<Rightarrow> dialError option \<times> dialing" where
  "connectFoundPairingCandidate env s host port path expectedSKI candidateAuthority d =
    connectFoundServiceWithLoggingOptions env env s host port path expectedSKI False candidateAuthority d"

section \<open>The goroutines that dial\<close>

text \<open>\<open>initateConnectionWithError\<close> over the endpoints, each with its own surroundings.\<close>

fun tryEndpoints ::
  "(nat \<Rightarrow> dialEnv) \<Rightarrow> nat \<Rightarrow> ptr \<Rightarrow> bytes \<Rightarrow> bytes \<Rightarrow> ptr option \<Rightarrow> bytes list \<Rightarrow> dialError option \<Rightarrow> dialing
    \<Rightarrow> (bool \<times> dialError option) \<times> dialing" where
  "tryEndpoints envs n s port path authority [] err d = ((False, err), d)"
| "tryEndpoints envs n s port path authority (host # hosts) err d =
    (case connectFoundService (envs n) (envs (Suc n)) s host port path authority d of
       (None, d1) \<Rightarrow> ((True, None), d1)
     | (Some e, d1) \<Rightarrow>
         if isOutgoingAttemptDenied (Some e) then ((False, Some e), d1)
         else tryEndpoints envs (n + 2) s port path authority hosts (Some e) d1)"

definition initateConnectionWithError ::
  "(nat \<Rightarrow> dialEnv) \<Rightarrow> ptr \<Rightarrow> MdnsEntry \<Rightarrow> dialing \<Rightarrow> (bool \<times> dialError option) \<times> dialing" where
  "initateConnectionWithError envs s entry d =
    (case outboundReconnectAuthority (Some s) (dHub d) of
       (None, h1) \<Rightarrow> ((False, None), d\<lparr>dHub := h1\<rparr>)
     | (Some a, h1) \<Rightarrow>
         tryEndpoints envs 0 s (itoa (mePort entry)) (mePath entry) (Some a) (connectionEndpoints entry) None (d\<lparr>dHub := h1\<rparr>))"

text \<open>The goroutine of \<open>coordinateConnectionInitations\<close>.\<close>

definition runConnectionInitation ::
  "(nat \<Rightarrow> dialEnv) \<Rightarrow> bytes \<Rightarrow> int \<Rightarrow> MdnsEntry \<Rightarrow> dialing \<Rightarrow> dialing" where
  "runConnectionInitation envs ski counter entry d =
    (let h1 = setConnectionAttemptRunning ski False (dHub d) in
     if getCurrentConnectionAttemptCounter ski h1 \<noteq> Some counter then d\<lparr>dHub := h1\<rparr>
     else
       (let (s, h2) = ServiceForSKI ski h1 in
        if \<not> svcTrusted (services h2 s) \<and> cdState (serviceState s h2) \<noteq> ConnectionStateQueued then d\<lparr>dHub := h2\<rparr>
        else if isSkiConnected ski h2 then d\<lparr>dHub := h2\<rparr>
        else
          (let ((success, err), d1) = initateConnectionWithError envs s entry (d\<lparr>dHub := h2\<rparr>)
           in if \<not> success \<and> \<not> isOutgoingAttemptDenied err then onHub checkAutoReannounce d1 else d1)))"

text \<open>The goroutine of \<open>launchPairingCandidate\<close>.\<close>

definition runPairingCandidate :: "dialEnv \<Rightarrow> bytes \<Rightarrow> ptr \<Rightarrow> ptr \<Rightarrow> dialing \<Rightarrow> dialing" where
  "runPairingCandidate env ski s q d =
    (if \<not> candidateMayDial ski q (dHub d) then d
     else
       (let a = candidates (dHub d) q;
            (err, d1) = connectFoundPairingCandidate env s (candHost a) (candPort a) (candPath a) ski (Some (candAuthority a)) d
        in if err \<noteq> None \<and> \<not> isInboundPairingDirectionHandoff err
           then onHub (retirePairingCandidate ski (Some q) None) d1 else d1))"

text \<open>The goroutine of \<open>launchTrustedRemoteRetry\<close>.\<close>

definition runRetry :: "dialEnv \<Rightarrow> ptr \<Rightarrow> dialing \<Rightarrow> dialing" where
  "runRetry env p d =
    (let active = retries (dHub d) p; ski = svcSKI (services (dHub d) (retService active)) in
     case runTrustedRemoteRetry p (dHub d) of
       (None, h1) \<Rightarrow> d\<lparr>dHub := h1\<rparr>
     | (Some host, h1) \<Rightarrow>
         onHub (finishTrustedRemoteRetry ski p)
           (snd (connectFoundServiceWithLoggingOptions env env (retService active) host (itoa (obsPort (retObservation active)))
                  (obsPath (retObservation active)) [] False (Some (retAuthority active)) (d\<lparr>dHub := h1\<rparr>))))"

end
