(* ===== verification/Hub_Attempts.thy ===== *)
theory Hub_Attempts
  imports Hub_Dial Hub_Discovery
begin

text \<open>
  Properties of the dial path: it follows the protocol of the attempt gate, only authenticated
  peers get a connection, one call dials an SKI at a time, and a dial is a sequence of the
  atomic steps of the hub, so the invariants of the hub hold throughout.
\<close>

section \<open>An example\<close>

text \<open>A service whose certificate hashes to its SKI, reached over an address at the first attempt. No
  gate is set and no other goroutine interferes.\<close>

definition exampleDialSKI :: bytes where
  "exampleDialSKI = hexEncode (replicate 20 (0::nat))"

definition exampleSocketTLS :: socket where
  "exampleSocketTLS = \<lparr>sockTLS = True,
     sockCerts = [\<lparr>SubjectKeyId = Some (replicate 20 0), PublicKey = P256Key (Some [4])\<rparr>]\<rparr>"

definition exampleDialEnv :: dialEnv where
  "exampleDialEnv = \<lparr>deOthers = (\<lambda>_ h. h), dePrepare = (\<lambda>_. Panics), deAuthorize = (\<lambda>_. Panics),
     dePermitCanceled = False, deReaderPanics = False, deDial = (\<lambda>_ _. Returns (Some exampleSocketTLS, False)),
     dePins = True, deParse = (\<lambda>_. None), deSha1 = (\<lambda>_. replicate 20 0)\<rparr>"

definition exampleDialing :: dialing where
  "exampleDialing = \<lparr>dHub = snd (ServiceForSKI exampleDialSKI (NewHub ''a'' True (\<lambda>_. True))), dLog = []\<rparr>"

definition exampleDialed :: "dialError option \<times> dialing" where
  "exampleDialed = connectFoundServiceWithLoggingOptions exampleDialEnv exampleDialEnv 2 ''192.0.2.1'' ''4711'' ''/ship/''
     exampleDialSKI False None exampleDialing"

lemma exampleDialed_run:
  "connectFoundServiceWithLoggingOptions exampleDialEnv exampleDialEnv 2 ''192.0.2.1'' ''4711'' ''/ship/''
     exampleDialSKI False None exampleDialing = (fst exampleDialed, snd exampleDialed)"
  by (simp add: exampleDialed_def)

section \<open>The protocol of an attempt\<close>

text \<open>The obligations of an attempt as an automaton: a handle has to be authorised or aborted, a permit
  settled, a socket closed or given to a connection. \<open>Resting\<close> is the only state without an
  obligation.\<close>

datatype attemptPhase = Resting | Leased | MustAbort | MayLaunch | Permitted OutgoingAttemptMetadata
  | Dialed OutgoingAttemptMetadata | Connected OutgoingAttemptMetadata | Disposed OutgoingAttemptMetadata

primrec protocolStep :: "attemptPhase \<Rightarrow> dialEvent \<Rightarrow> attemptPhase option" where
  "protocolStep Resting e =
    (case e of DPrepare r leased \<Rightarrow> Some (if leased then Leased else Resting) | DPermit m \<Rightarrow> Some (Permitted m) | _ \<Rightarrow> None)"
| "protocolStep Leased e =
    (case e of
       DAbort \<Rightarrow> Some Resting
     | DAuthorize decision \<Rightarrow> Some (case decision of
         None \<Rightarrow> MustAbort
       | Some OutgoingAttemptDecisionDeny \<Rightarrow> Resting
       | Some OutgoingAttemptDecisionPermit \<Rightarrow> MayLaunch
       | Some OutgoingAttemptDecisionOther \<Rightarrow> MustAbort)
     | _ \<Rightarrow> None)"
| "protocolStep MustAbort e = (case e of DAbort \<Rightarrow> Some Resting | _ \<Rightarrow> None)"
| "protocolStep MayLaunch e = (case e of DPermit m \<Rightarrow> Some (Permitted m) | _ \<Rightarrow> None)"
| "protocolStep (Permitted m) e =
    (case e of DDial t p \<Rightarrow> Some (Dialed m) | DTerminal m' \<Rightarrow> (if m = m' then Some Resting else None) | _ \<Rightarrow> None)"
| "protocolStep (Dialed m) e =
    (case e of DTerminal m' \<Rightarrow> (if m = m' then Some Resting else None) | DSocket \<Rightarrow> Some (Connected m) | _ \<Rightarrow> None)"
| "protocolStep (Connected m) e =
    (case e of
       DSocketClosed \<Rightarrow> Some (Disposed m)
     | DSocketToCloser \<Rightarrow> Some (Disposed m)
     | DOwned c s m' \<Rightarrow> (if m = m' then Some Resting else None)
     | _ \<Rightarrow> None)"
| "protocolStep (Disposed m) e = (case e of DTerminal m' \<Rightarrow> (if m = m' then Some Resting else None) | _ \<Rightarrow> None)"

fun runProtocol :: "attemptPhase \<Rightarrow> dialEvent list \<Rightarrow> attemptPhase option" where
  "runProtocol p [] = Some p"
| "runProtocol p (e # es) = (case protocolStep p e of None \<Rightarrow> None | Some p' \<Rightarrow> runProtocol p' es)"

lemma runProtocol_append:
  "runProtocol p (xs @ ys) = (case runProtocol p xs of None \<Rightarrow> None | Some p' \<Rightarrow> runProtocol p' ys)"
  by (induction xs arbitrary: p) (auto split: option.split)

definition phase :: "dialing \<Rightarrow> attemptPhase option" where
  "phase d = runProtocol Resting (dLog d)"

lemma phase_simps [simp]:
  "phase (logD e d) = (case phase d of None \<Rightarrow> None | Some p \<Rightarrow> protocolStep p e)"
  "phase (onHub f d) = phase d" "phase (d\<lparr>dHub := h\<rparr>) = phase d"
  by (simp_all add: phase_def logD_def onHub_def runProtocol_append split: option.split)

lemma phase_close [simp]: "phase (closeSocket conn d) = (if conn = None then phase d else phase (logD DSocketClosed d))"
  by (simp add: closeSocket_def)

lemma phase_terminal:
  assumes "terminalFailure env a d = (ok, a', d')" "atTerminal a = None"
  shows "phase d' = phase (logD (DTerminal (atMetadata a)) d)"
  using assms by (auto simp: terminalFailure_def reportOutgoingAttemptTerminalFailure_def
      Let_def split: if_splits prod.splits)

text \<open>An attempt that was launched is permitted and not settled; one that was refused leaves nothing open.\<close>

definition launched :: "authorizedOutgoingAttempt option + authorizedOutgoingAttempt \<Rightarrow> dialing \<Rightarrow> bool" where
  "launched x d =
    (case x of Inl a \<Rightarrow> phase d = Some Resting
     | Inr a \<Rightarrow> phase d = Some (Permitted (atMetadata a)) \<and> atTerminal a = None \<and> atRegistration a \<noteq> None)"

lemma launchWithGate_protocol:
  assumes "launchWithGate env request g au d = (x, d')" "phase d = Some Resting"
  shows "launched x d'"
  using assms
  unfolding launchWithGate_def launched_def
  by (auto simp: Let_def split: prod.splits option.splits if_splits OutgoingAttemptDecision.splits dest!: phase_terminal)

lemma launchInternal_protocol:
  assumes "launchInternal env ski au d = (x, d')" "phase d = Some Resting"
  shows "launched x d'"
  using assms
  by (auto simp: launchInternal_def launched_def Let_def split: prod.splits option.splits)

lemma dialLaunched_protocol:
  assumes "dialLaunched env a target ski d = ((conn, at, err), d')"
    and "phase d = Some (Permitted (atMetadata a))" "atTerminal a = None"
  shows "(err \<noteq> None \<and> phase d' = Some Resting)
    \<or> (err = None \<and> conn \<noteq> None \<and> at = Some a \<and> phase d' = Some (Connected (atMetadata a)))"
  using assms unfolding dialLaunched_def
  by (auto simp: Let_def split: prod.splits option.splits if_splits call.splits dest!: phase_terminal)

lemma gatedDial_protocol:
  assumes "gatedDialContextWithExpectedSKI env s ski host port path expected ra d = ((conn, at, err), d')"
    and "phase d = Some Resting"
  shows "(err \<noteq> None \<and> phase d' = Some Resting)
    \<or> (\<exists>a. err = None \<and> conn \<noteq> None \<and> at = Some a \<and> atTerminal a = None \<and> phase d' = Some (Connected (atMetadata a)))"
proof -
  have l: "launched x d2" if "launchAttempt env g req gen au d1 = (x, d2)" "phase d1 = Some Resting" for g req gen au d1 x d2
    using that launchWithGate_protocol launchInternal_protocol by (auto simp: launchAttempt_def split: if_splits)
  show ?thesis
    using assms unfolding gatedDialContextWithExpectedSKI_def
    by (fastforce simp: Let_def launched_def split: prod.splits option.splits if_splits sum.splits
        dest!: l dialLaunched_protocol)
qed

lemma failBefore_protocol:
  assumes "failBeforeConnection env conn a e d = (err, d')" "atTerminal a = None"
  shows "phase d' = phase (logD (DTerminal (atMetadata a)) (closeSocket conn d)) \<and> err \<noteq> None"
  using assms by (auto simp: failBeforeConnection_def split: prod.splits dest!: phase_terminal)

lemma startConnection_protocol:
  assumes "startConnection env ski ra conn a d = (err, d')" "phase d = Some (Connected (atMetadata a))" "atTerminal a = None"
  shows "phase d' = Some Resting"
  using assms unfolding startConnection_def
  by (auto simp: Let_def split: prod.splits if_splits dest!: failBefore_protocol)

lemma finishConnection_protocol:
  assumes "finishConnection env ski ra conn a d = (err, d')" "phase d = Some (Connected (atMetadata a))" "atTerminal a = None"
  shows "phase d' = Some Resting"
  using assms unfolding finishConnection_def
  by (auto simp: Let_def split: prod.splits if_splits sum.splits dest!: failBefore_protocol elim: startConnection_protocol)

lemma dialService_protocol:
  assumes "dialService env env' s ski host port path expected fb ra d = (err, d')" "phase d = Some Resting"
  shows "phase d' = Some Resting"
proof -
  obtain conn at e d1 where 1: "gatedDialContextWithExpectedSKI env s ski host port path expected ra d = ((conn, at, e), d1)"
    by (metis prod.exhaust)
  obtain conn2 at2 e2 d2 where 2: "gatedDialContextWithExpectedSKI env' s ski host port [] [] ra d1 = ((conn2, at2, e2), d2)"
    by (metis prod.exhaust)
  have s: "phase d' = Some Resting" if "gatedDialContextWithExpectedSKI en s ski host port pa ex ra da = ((co, att, er), db)"
      "phase da = Some Resting" "(case (co, att, er) of (Some conn, Some a, None) \<Rightarrow> finishConnection en ski ra conn a db
        | (_, _, err) \<Rightarrow> (err, db)) = (err, d')" for en pa ex da co att er db
    using gatedDial_protocol [OF that(1,2)] that(3)
    by (auto split: option.splits elim: finishConnection_protocol)
  show ?thesis
    using gatedDial_protocol [OF 1 assms(2)] assms(1) s [OF 1 assms(2)] s [OF 2]
    by (cases conn; cases at; cases e) (auto simp: dialService_def 1 2 split: if_splits)
qed

lemma connect_protocol:
  assumes "connectFoundServiceWithLoggingOptions env env' s host port path expected fb ra d = (err, d')" "phase d = Some Resting"
  shows "phase d' = Some Resting"
  using assms unfolding connectFoundServiceWithLoggingOptions_def
  by (auto simp: Let_def split: if_splits prod.splits option.splits dest: dialService_protocol)

lemma endpoints_protocol:
  "tryEndpoints envs n s port path au hosts err d = (r, d') \<Longrightarrow> phase d = Some Resting \<Longrightarrow> phase d' = Some Resting"
  by (induction envs n s port path au hosts err d rule: tryEndpoints.induct)
     (auto simp: connectFoundService_def split: prod.splits option.splits if_splits dest!: connect_protocol)

section \<open>What the protocol gives\<close>

definition permits :: "OutgoingAttemptMetadata \<Rightarrow> dialEvent list \<Rightarrow> nat" where
  "permits m es = count_list es (DPermit m)"

definition settled :: "OutgoingAttemptMetadata \<Rightarrow> dialEvent list \<Rightarrow> nat" where
  "settled m es = length (filter (\<lambda>e. e = DTerminal m \<or> (\<exists>c s. e = DOwned c s m)) es)"

definition socketsOpened :: "dialEvent list \<Rightarrow> nat" where
  "socketsOpened es = count_list es DSocket"

definition socketsDisposed :: "dialEvent list \<Rightarrow> nat" where
  "socketsDisposed es = length (filter (\<lambda>e. e = DSocketClosed \<or> e = DSocketToCloser \<or> (\<exists>c s m. e = DOwned c s m)) es)"

definition openAttempt :: "OutgoingAttemptMetadata \<Rightarrow> attemptPhase \<Rightarrow> nat" where
  "openAttempt m p = (if p \<in> {Permitted m, Dialed m, Connected m, Disposed m} then 1 else 0)"

definition openSocket :: "attemptPhase \<Rightarrow> nat" where
  "openSocket p = (case p of Connected m \<Rightarrow> 1 | _ \<Rightarrow> 0)"

lemma protocol_balance:
  "runProtocol p es = Some q \<Longrightarrow>
     permits m es + openAttempt m p = settled m es + openAttempt m q
     \<and> socketsOpened es + openSocket p = socketsDisposed es + openSocket q"
proof (induction es arbitrary: p)
  case Nil
  then show ?case by (simp add: permits_def settled_def socketsOpened_def socketsDisposed_def)
next
  case (Cons e es)
  then obtain p' where s: "protocolStep p e = Some p'" and r: "runProtocol p' es = Some q"
    by (auto split: option.splits)
  show ?case
    using Cons.IH [OF r] s
    by (cases p; cases e)
       (auto simp: permits_def settled_def socketsOpened_def socketsDisposed_def openAttempt_def openSocket_def
         split: if_splits option.splits OutgoingAttemptDecision.splits)
qed

lemma dial_permitted: "protocolStep p (DDial t x) = Some q \<Longrightarrow> \<exists>m. p = Permitted m"
  by (cases p) auto

lemma protocol_dials:
  "runProtocol p (es @ DDial t x # es') = Some q \<Longrightarrow> \<exists>m. runProtocol p es = Some (Permitted m)"
  by (auto simp: runProtocol_append split: option.splits dest: dial_permitted)

text \<open>C3: the dial path refines the protocol of the attempt gate, whatever the gate, the dialer (panics
  included) and the other goroutines do. Every handle is authorised or aborted, every permitted attempt
  is settled exactly once, as a failure or by a connection that owns it, every socket is closed or
  owned, and the dialer is called only while one permitted attempt is open.\<close>

theorem dial_protocol:
  assumes "connectFoundServiceWithLoggingOptions env env' s host port path expected fallback authority d = (err, d')"
    and "phase d = Some Resting"
  shows "phase d' = Some Resting
    \<and> (\<forall>m. permits m (dLog d') = settled m (dLog d')) \<and> socketsOpened (dLog d') = socketsDisposed (dLog d')
    \<and> (\<forall>es t x es'. dLog d' = es @ DDial t x # es' \<longrightarrow> (\<exists>m. permits m es = Suc (settled m es)))"
proof -
  have r: "phase d' = Some Resting" by (rule connect_protocol [OF assms])
  have p: "runProtocol Resting (dLog d') = Some Resting" using r by (simp add: phase_def)
  have "\<exists>m. permits m es = Suc (settled m es)" if eq: "dLog d' = es @ DDial t x # es'" for es t x es'
  proof -
    obtain m where "runProtocol Resting es = Some (Permitted m)" using protocol_dials [OF p [unfolded eq]] by blast
    from protocol_balance [OF this, of m] show ?thesis by (auto simp: openAttempt_def)
  qed
  with r protocol_balance [OF p] show ?thesis by (simp add: openAttempt_def openSocket_def)
qed

theorem dial_protocol_witness:
  "socketsOpened (dLog (snd exampleDialed)) = 1 \<and> socketsDisposed (dLog (snd exampleDialed)) = 1"
proof -
  have "phase exampleDialing = Some Resting" "socketsOpened (dLog (snd exampleDialed)) = 1" by code_simp+
  with dial_protocol [OF exampleDialed_run]
  show ?thesis by simp
qed

section \<open>Authenticated peers\<close>

text \<open>The peer of a socket proved to hold a P-256 key that hashes to the SKI.\<close>

definition authenticated :: "(nat list \<Rightarrow> nat list) \<Rightarrow> bytes \<Rightarrow> socket \<Rightarrow> bool" where
  "authenticated sha1 ski sock =
    (sockTLS sock \<and> (\<exists>c cs k point. sockCerts sock = c # cs \<and> SubjectKeyId c = Some k \<and> length k = 20
       \<and> PublicKey c = P256Key (Some point) \<and> k = sha1 point \<and> hexEncode k = ski))"

lemma peerSKI_authenticated: "peerSKI env conn = Inr ski \<Longrightarrow> authenticated (deSha1 env) ski conn"
  by (auto simp: peerSKI_def SkiFromCertificate_def authenticated_def Let_def
      split: if_splits list.splits option.splits sum.splits publicKey.splits)

definition owned :: "dialing \<Rightarrow> (ptr \<times> socket) list" where
  "owned d = concat (map (\<lambda>e. case e of DOwned c s m \<Rightarrow> [(c, s)] | _ \<Rightarrow> []) (dLog d))"

lemma owned_simps [simp]:
  "owned (logD e d) = owned d @ (case e of DOwned c s m \<Rightarrow> [(c, s)] | _ \<Rightarrow> [])"
  "owned (onHub f d) = owned d" "owned (d\<lparr>dHub := h\<rparr>) = owned d" "owned (closeSocket conn d) = owned d"
  by (simp_all add: owned_def logD_def onHub_def closeSocket_def)

lemma owned_terminal: "terminalFailure env a d = (ok, a', d') \<Longrightarrow> owned d' = owned d"
  by (auto simp: terminalFailure_def reportOutgoingAttemptTerminalFailure_def Let_def
      split: if_splits prod.splits option.splits)

lemma owned_launch: "launchAttempt env g req gen au d = (x, d') \<Longrightarrow> owned d' = owned d"
  by (auto simp: launchAttempt_def launchWithGate_def launchInternal_def Let_def dest!: owned_terminal
      split: if_splits prod.splits option.splits OutgoingAttemptDecision.splits)

lemma owned_dialLaunched: "dialLaunched env a target ski d = (r, d') \<Longrightarrow> owned d' = owned d"
  by (auto simp: dialLaunched_def Let_def dest!: owned_terminal split: if_splits prod.splits option.splits call.splits)

lemma owned_gatedDial: "gatedDialContextWithExpectedSKI env s ski host port path expected ra d = (r, d') \<Longrightarrow> owned d' = owned d"
  by (auto simp: gatedDialContextWithExpectedSKI_def Let_def dest!: owned_launch owned_dialLaunched
      split: if_splits prod.splits option.splits sum.splits)

lemma owned_failBefore: "failBeforeConnection env conn a e d = (err, d') \<Longrightarrow> owned d' = owned d"
  by (auto simp: failBeforeConnection_def dest!: owned_terminal split: prod.splits)

lemma owned_startConnection:
  "startConnection env ski ra conn a d = (err, d') \<Longrightarrow> x \<in> set (owned d') \<Longrightarrow> x \<in> set (owned d) \<or> snd x = conn"
  unfolding startConnection_def by (auto simp: Let_def dest!: owned_failBefore split: if_splits prod.splits)

lemma owned_finishConnection:
  assumes "finishConnection env ski ra conn a d = (err, d')" "x \<in> set (owned d')"
  shows "x \<in> set (owned d) \<or> authenticated (deSha1 env) ski (snd x)"
proof (cases "peerSKI env conn = Inr ski")
  case True
  have "x \<in> set (owned d) \<or> snd x = conn"
    using assms True unfolding finishConnection_def Let_def
    by (auto dest!: owned_failBefore dest: owned_startConnection split: if_splits prod.splits)
  with peerSKI_authenticated [OF True] show ?thesis by blast
next
  case False
  then have "owned d' = owned d"
    using assms(1) unfolding finishConnection_def Let_def
    by (auto dest!: owned_failBefore split: if_splits prod.splits sum.splits)
  with assms(2) show ?thesis by simp
qed

lemma owned_dialService:
  assumes "dialService env env' s ski host port path expected fb ra d = (err, d')" "deSha1 env' = deSha1 env"
    and "x \<in> set (owned d')"
  shows "x \<in> set (owned d) \<or> authenticated (deSha1 env) ski (snd x)"
proof -
  obtain conn at e d1 where 1: "gatedDialContextWithExpectedSKI env s ski host port path expected ra d = ((conn, at, e), d1)"
    by (metis prod.exhaust)
  obtain conn2 at2 e2 d2 where 2: "gatedDialContextWithExpectedSKI env' s ski host port [] [] ra d1 = ((conn2, at2, e2), d2)"
    by (metis prod.exhaust)
  have o: "owned d1 = owned d" "owned d2 = owned d" using owned_gatedDial [OF 1] owned_gatedDial [OF 2] by simp_all
  have "(\<exists>conn a. finishConnection env ski ra conn a d1 = (err, d')) \<or> (\<exists>conn a. finishConnection env' ski ra conn a d2 = (err, d'))
      \<or> d' = d1 \<or> d' = d2"
    using assms(1) by (auto simp: dialService_def 1 2 split: option.splits if_splits)
  then show ?thesis
    using owned_finishConnection [OF _ assms(3)] assms(2,3) o by metis
qed

text \<open>C6: only authenticated peers get a connection. If a dial hands a socket to a SHIP connection, the
  peer presented, over TLS, a certificate for a P-256 key whose SHA-1 hash is the subject key
  identifier and in hexadecimal the SKI of the service that was dialled; this holds for pinned dials
  and for the fallback with an empty path as well.\<close>

theorem dial_authenticated:
  assumes "connectFoundServiceWithLoggingOptions env env' s host port path expected fallback authority d = (err, d')"
    and "deSha1 env' = deSha1 env" "owned d = []" "(c, sock) \<in> set (owned d')"
  shows "authenticated (deSha1 env) (svcSKI (services (dHub d) s)) sock"
  using assms(1,3,4) owned_dialService [OF _ assms(2)]
  unfolding connectFoundServiceWithLoggingOptions_def
  by (fastforce simp: Let_def split: if_splits prod.splits option.splits)

theorem dial_authenticated_witness:
  "owned (snd exampleDialed) = [(5, exampleSocketTLS)] \<and> authenticated (\<lambda>_. replicate 20 0) exampleDialSKI exampleSocketTLS"
proof -
  have o: "owned (snd exampleDialed) = [(5, exampleSocketTLS)]" "owned exampleDialing = []"
    "svcSKI (services (dHub exampleDialing) 2) = exampleDialSKI" by code_simp+
  moreover have "deSha1 exampleDialEnv = (\<lambda>_. replicate 20 0)" by (simp add: exampleDialEnv_def)
  ultimately show ?thesis
    using dial_authenticated [OF exampleDialed_run refl,
        of 5 exampleSocketTLS] by simp
qed

section \<open>One dial per SKI\<close>

text \<open>One call at a time dials an SKI. A call that finds the SKI connected, being dialled or reserved
  for an inbound connection, or the hub shut down, returns at once and touches neither the hub nor the
  gate nor the network; the answer is the handoff exactly when the reservation belongs to the same
  authority. Every other call marks the SKI while it dials and has removed the mark when it returns.\<close>

theorem dial_single_flight:
  assumes "connectFoundServiceWithLoggingOptions env env' s host port path expected fallback authority d = (err, d')"
    and "ski = svcSKI (services (dHub d) s)" "ski \<noteq> []"
    and "busy \<longleftrightarrow> isSkiConnected ski (dHub d) \<or> flagSet (connectionsInitiating (dHub d)) ski
           \<or> hasInboundPairingReservation ski (dHub d)"
  shows "(hasShutdown (dHub d) \<longrightarrow> d' = d \<and> err = Some Denied)
    \<and> (\<not> hasShutdown (dHub d) \<and> busy \<longrightarrow> d' = d \<and> err \<in> {None, Some Denied, Some Handoff}
         \<and> (err = Some Handoff \<longrightarrow> expected = ski \<and> authority \<noteq> None
              \<and> (\<exists>p. map_of (inboundPairingReservations (dHub d)) ski = Some p \<and> resAuthority (reservations (dHub d) p) = authority))
         \<and> (err = None \<longrightarrow> expected = []))
    \<and> (\<not> hasShutdown (dHub d) \<and> \<not> busy \<longrightarrow>
         flagSet (connectionsInitiating (snd (claimInitiating ski expected authority (dHub d)))) ski
         \<and> \<not> flagSet (connectionsInitiating (dHub d')) ski)"
proof -
  have s: "dHub (onHub f x) = f (dHub x)" "\<not> flagSet (AList.delete ski z) ski" for f x z
    by (simp_all add: onHub_def flagSet_def)
  show ?thesis
    using assms(1,3,4) unfolding connectFoundServiceWithLoggingOptions_def assms(2) [symmetric] Let_def
    by (auto simp: claimInitiating_def releaseInitiating_def isSkiConnected_def hasInboundPairingReservation_def s flagSet_def
        split: prod.splits option.splits if_splits)
qed

theorem dial_single_flight_witness:
  "fst exampleDialed = None \<and> \<not> flagSet (connectionsInitiating (dHub (snd exampleDialed))) exampleDialSKI"
proof -
  have "fst exampleDialed = None" "svcSKI (services (dHub exampleDialing) 2) = exampleDialSKI" "exampleDialSKI \<noteq> []"
    "\<not> hasShutdown (dHub exampleDialing)" "\<not> isSkiConnected exampleDialSKI (dHub exampleDialing)"
    "\<not> flagSet (connectionsInitiating (dHub exampleDialing)) exampleDialSKI"
    "\<not> hasInboundPairingReservation exampleDialSKI (dHub exampleDialing)" by code_simp+
  then show ?thesis
    using dial_single_flight [OF exampleDialed_run,
        of exampleDialSKI False] by simp
qed

section \<open>Revoked authorities\<close>

text \<open>An authority that no attempt can be launched under.\<close>

definition noAuthority :: "ptr \<Rightarrow> hub \<Rightarrow> bool" where
  "noAuthority a h = (deadAuthority a h \<or> outboundShutdown h)"

lemma snapshot_inactive:
  "noAuthority a h \<Longrightarrow> \<exists>g gen au h'. outgoingAttemptGateSnapshot s (Some a) h = ((g, gen, au, False), h')"
  by (auto simp: noAuthority_def deadAuthority_def outgoingAttemptGateSnapshot_def currentOutboundAuthorityLocked_def
      rotateOutboundAuthorityLocked_def Let_def split: option.split)

lemma gatedDial_denied:
  assumes "noAuthority a (deOthers env 0 (dHub d))"
  shows "\<exists>h. gatedDialContextWithExpectedSKI env s ski host port path expected (Some a) d = ((None, None, Some Denied), d\<lparr>dHub := h\<rparr>)"
proof -
  obtain g gen au h' where "outgoingAttemptGateSnapshot s (Some a) (deOthers env 0 (dHub d)) = ((g, gen, au, False), h')"
    using snapshot_inactive [OF assms] by blast
  then show ?thesis
    by (auto simp: gatedDialContextWithExpectedSKI_def onHub_def Let_def split: option.split)
qed

text \<open>C38: a revoked authority never dials. If the authority an attempt was started for has been revoked, or
  the hub shuts down, the dial path asks no gate, calls no dialer and reports nothing, as long as the
  other goroutines do not bring the authority back (no step of the hub does).\<close>

theorem revoked_never_dials:
  assumes "connectFoundServiceWithLoggingOptions env env' s host port path expected fallback (Some a) d = (err, d')"
    and "noAuthority a (dHub d)" "\<forall>h. noAuthority a h \<longrightarrow> noAuthority a (deOthers env 0 h)"
  shows "dLog d' = dLog d \<and> owned d' = owned d"
proof -
  have d: "dLog x' = dLog x"
    if na: "dialService env env' s ski host port path expected fallback (Some a) x = (e, x')" "noAuthority a (dHub x)"
    for ski x e x'
  proof -
    obtain h where "gatedDialContextWithExpectedSKI env s ski host port path expected (Some a) x
        = ((None, None, Some Denied), x\<lparr>dHub := h\<rparr>)"
      using gatedDial_denied [of a env x] assms(3) na by blast
    then show ?thesis using na(1) by (auto simp: dialService_def isOutgoingAttemptDenied_def)
  qed
  have c: "noAuthority a h1" if "claimInitiating ski expected (Some a) (dHub d) = (v, h1)" for ski v h1
    using that assms(2) by (auto simp: claimInitiating_def noAuthority_def deadAuthority_def Let_def split: if_splits)
  have "dLog d' = dLog d"
    using assms(1,2) unfolding connectFoundServiceWithLoggingOptions_def Let_def
    by (auto simp: onHub_def dest: d dest!: c split: if_splits prod.splits option.splits)
  then show ?thesis by (simp add: owned_def)
qed

definition exampleShutDialing :: dialing where
  "exampleShutDialing = exampleDialing\<lparr>dHub := Shutdown True (dHub exampleDialing)\<rparr>"

theorem revoked_never_dials_witness:
  "dLog (snd (connectFoundServiceWithLoggingOptions exampleDialEnv exampleDialEnv 2 ''192.0.2.1'' ''4711'' []
     [] True (Some 1) exampleShutDialing)) = []"
proof -
  have "noAuthority 1 (dHub exampleShutDialing)" unfolding noAuthority_def by (rule disjI2) code_simp
  moreover have "dLog exampleShutDialing = []" by code_simp
  ultimately show ?thesis
    using revoked_never_dials [of exampleDialEnv exampleDialEnv 2 "''192.0.2.1''" "''4711''" "[]" "[]" True 1 exampleShutDialing,
        OF prod.collapse [symmetric]]
    by (simp add: exampleDialEnv_def)
qed

section \<open>A dial is a sequence of hub steps\<close>

context hub_closed
begin

lemma terminal: "P (dHub d) \<Longrightarrow> terminalFailure env a d = (ok, a', d') \<Longrightarrow> P (dHub d')"
  using step [OF _ st_release_reg, of "dHub d" "atRemoteSKI a" "atRegistration a"]
  by (auto simp: terminalFailure_def reportOutgoingAttemptTerminalFailure_def logD_def onHub_def Let_def
      intro!: emit split: if_splits prod.splits option.splits)

lemma fail_before: "P (dHub d) \<Longrightarrow> failBeforeConnection env conn a e d = (err, d') \<Longrightarrow> P (dHub d')"
  by (auto simp: failBeforeConnection_def closeSocket_def logD_def split: prod.splits if_splits dest: terminal [rotated])

lemma gate_launch:
  "P h \<Longrightarrow> registerOutboundAttemptForLaunch ski g au md b h = (r, h') \<Longrightarrow> P h'"
  using step [OF _ st_launch, of h ski g au md b] by simp

lemma internal_launch:
  "P h \<Longrightarrow> registerInternalOutboundAttemptForLaunch ski au h = (r, h') \<Longrightarrow> P h'"
  using step [OF _ st_internal, of h ski au] by simp

lemma launch_attempt:
  assumes "P (dHub d)" "\<And>k h. P h \<Longrightarrow> P (deOthers env k h)" "launchAttempt env g req gen au d = (x, d')"
  shows "P (dHub d')"
  using assms(3) unfolding launchAttempt_def launchWithGate_def launchInternal_def
  by (auto simp: Let_def logD_def onHub_def assms(1,2)
      dest!: terminal [rotated] gate_launch [rotated] internal_launch [rotated]
      split: if_splits prod.splits option.splits OutgoingAttemptDecision.splits)

lemma dial_launched:
  assumes "P (dHub d)" "\<And>k h. P h \<Longrightarrow> P (deOthers env k h)" "dialLaunched env a target ski d = (x, d')"
  shows "P (dHub d')"
  using assms(3) unfolding dialLaunched_def
  by (auto simp: Let_def logD_def onHub_def closeSocket_def assms(1,2) dest!: terminal [rotated]
      split: if_splits prod.splits option.splits call.splits)

lemma dial_snapshot: "P h \<Longrightarrow> outgoingAttemptGateSnapshot s ra h = (x, h') \<Longrightarrow> P h'"
  using current [of h "svcSKI (services h s)"]
  by (auto simp: outgoingAttemptGateSnapshot_def Let_def split: if_splits prod.splits)

lemma gated_dial:
  assumes "P (dHub d)" "\<And>k h. P h \<Longrightarrow> P (deOthers env k h)"
    and "gatedDialContextWithExpectedSKI env s ski host port path expected ra d = (x, d')"
  shows "P (dHub d')"
proof -
  have 1: "P (dHub (onHub (deOthers env 0) d))" by (simp add: onHub_def assms(1,2))
  have l: "P (dHub d2)" if "launchAttempt env g req gen au d1 = (y, d2)" "P (dHub d1)" for g req gen au d1 y d2
    by (rule launch_attempt [OF that(2) assms(2) that(1)])
  have m: "P (dHub d2)" if "dialLaunched env a target ski' d1 = (y, d2)" "P (dHub d1)" for a target ski' d1 y d2
    by (rule dial_launched [OF that(2) assms(2) that(1)])
  show ?thesis
    using assms(3) 1 unfolding gatedDialContextWithExpectedSKI_def Let_def
    by (auto dest!: dial_snapshot [OF 1] split: if_splits prod.splits option.splits sum.splits)
       (auto dest: l m)
qed

lemma start_connection:
  assumes "P (dHub d)" "\<And>k h. P h \<Longrightarrow> P (deOthers env k h)" "\<And>h. P h \<Longrightarrow> connsAllocated h"
    and "\<And>k h c. pendingConnection c h \<Longrightarrow> pendingConnection c (deOthers env k h)"
    and "startConnection env ski ra conn a d = (err, d')"
  shows "P (dHub d')"
proof -
  define d1 where "d1 = onHub (deOthers env 4) d"
  have 1: "P (dHub d1)" by (simp add: d1_def onHub_def assms(1,2))
  obtain c h1 where n: "newConnection ski (dHub d1) = (c, h1)" by fastforce
  have h1: "P h1" "pendingConnection c h1"
    using step [OF 1 st_connection, of ski] n pending_new [OF assms(3) [OF 1] n] by simp_all
  obtain b h2 where b: "bindOutboundAttemptConnection ski (atRegistration a) (Some c) (deOthers env 5 h1) = (b, h2)" by fastforce
  have h2: "P h2" using step [OF assms(2) [OF h1(1)] st_bind, of ski "atRegistration a" "Some c" 5] b by simp
  have "pendingConnection c h2"
    using assms(4) [OF h1(2), of 5] b
    by (auto simp: bindOutboundAttemptConnection_def updReg_def pendingConnection_def split: option.splits if_splits)
  then have h3: "P (deOthers env 6 h2)" "pendingConnection c (deOthers env 6 h2)" by (simp_all add: assms(2,4) h2)
  obtain res h4 where o: "registerOutgoingConnection c (attemptContextCanceled a (deOthers env 6 h2)) ra (deOthers env 6 h2) = (res, h4)"
    by fastforce
  have "P h4" using outgoing [OF h3] o by (metis snd_conv)
  then have "P (deOthers env 7 h4)" by (rule assms(2))
  then show ?thesis
    using assms(5) 1 h2 unfolding startConnection_def Let_def d1_def [symmetric] n b o prod.case
    by (auto simp: logD_def onHub_def o assms(2) emit dest: fail_before [rotated] split: if_splits)
qed

lemma keep_connection: "P h \<Longrightarrow> keepThisConnection b i ski h = (k, h') \<Longrightarrow> P h'"
  by (auto simp: keepThisConnection_def Let_def emit split: if_splits prod.splits option.splits)

text \<open>What the other goroutines may do: steps of the hub that leave connections this attempt has not
  yet registered alone.\<close>

definition benign :: "dialEnv \<Rightarrow> bool" where
  "benign env =
    (\<forall>k h. (P h \<longrightarrow> P (deOthers env k h)) \<and> (\<forall>c. pendingConnection c h \<longrightarrow> pendingConnection c (deOthers env k h)))"

lemma finish_connection:
  assumes "P (dHub d)" "benign env" "\<And>h. P h \<Longrightarrow> connsAllocated h" "finishConnection env ski ra conn a d = (err, d')"
  shows "P (dHub d')"
proof -
  have o: "\<And>k h. P h \<Longrightarrow> P (deOthers env k h)"
    "\<And>k h c. pendingConnection c h \<Longrightarrow> pendingConnection c (deOthers env k h)"
    using assms(2) by (auto simp: benign_def)
  have 1: "P (dHub (onHub (deOthers env 3) d))" by (simp add: onHub_def assms(1) o)
  have s: "P (dHub d')" if "startConnection env ski ra conn a x = (err, d')" "P (dHub x)" for x
    by (rule start_connection [OF that(2) o(1) assms(3) o(2) that(1)])
  have f: "P (dHub d')" if "failBeforeConnection env cn a e x = (err, d')" "P (dHub x)" for cn e x
    by (rule fail_before [OF that(2,1)])
  show ?thesis
    using assms(4) 1 unfolding finishConnection_def Let_def
    by (auto dest!: keep_connection [OF 1] dest: s f simp: logD_def split: if_splits prod.splits sum.splits)
qed

lemma dial_service:
  assumes "P (dHub d)" "benign env" "benign env'" "\<And>h. P h \<Longrightarrow> connsAllocated h"
    and "dialService env env' s ski host port path expected fb ra d = (err, d')"
  shows "P (dHub d')"
proof -
  obtain conn at e d1 where 1: "gatedDialContextWithExpectedSKI env s ski host port path expected ra d = ((conn, at, e), d1)"
    by (metis prod.exhaust)
  obtain conn2 at2 e2 d2 where 2: "gatedDialContextWithExpectedSKI env' s ski host port [] [] ra d1 = ((conn2, at2, e2), d2)"
    by (metis prod.exhaust)
  have d1: "P (dHub d1)" using gated_dial [OF assms(1) _ 1] assms(2) by (simp add: benign_def)
  have d2: "P (dHub d2)" using gated_dial [OF d1 _ 2] assms(3) by (simp add: benign_def)
  show ?thesis
    using assms(5) d1 d2 finish_connection [OF d1 assms(2,4)] finish_connection [OF d2 assms(3,4)]
    by (auto simp: dialService_def 1 2 split: option.splits if_splits)
qed

lemma connect_service:
  assumes "P (dHub d)" "benign env" "benign env'" "\<And>h. P h \<Longrightarrow> connsAllocated h"
    and "connectFoundServiceWithLoggingOptions env env' s host port path expected fb ra d = (err, d')"
  shows "P (dHub d')"
proof -
  have c: "P h1" if "claimInitiating ski expected ra (dHub d) = (v, h1)" for ski v h1
    using that step [OF assms(1) st_initiating] assms(1) by (auto simp: claimInitiating_def Let_def split: if_splits)
  have r: "P (releaseInitiating ski (deOthers env 9 h))" if "P h" for ski h
    using step [OF _ st_initiating] that assms(2) by (simp add: releaseInitiating_def benign_def)
  have s: "P (dHub d2)" if "dialService env env' s ski host port path expected fb ra x = (e, d2)" "P (dHub x)" for ski x e d2
    by (rule dial_service [OF that(2) assms(2,3,4) that(1)])
  show ?thesis
    using assms(1,5) unfolding connectFoundServiceWithLoggingOptions_def Let_def
    by (auto simp: onHub_def intro!: r dest!: c dest: s split: if_splits prod.splits option.splits)
qed

lemma try_endpoints:
  assumes "\<And>h. P h \<Longrightarrow> connsAllocated h"
  shows "tryEndpoints envs n s port path au hosts err d = (r, d') \<Longrightarrow> (\<And>n. benign (envs n)) \<Longrightarrow> P (dHub d) \<Longrightarrow> P (dHub d')"
proof (induction envs n s port path au hosts err d rule: tryEndpoints.induct)
  case (2 envs n s port path authority host hosts err d)
  obtain e d1 where c: "connectFoundService (envs n) (envs (Suc n)) s host port path authority d = (e, d1)" by fastforce
  have "P (dHub d1)"
    by (rule connect_service [OF 2 (4) 2 (3) 2 (3) assms c [unfolded connectFoundService_def]])
  then show ?case
    using 2 (1) [OF c [symmetric]] 2 (2,3) by (auto simp: c split: option.splits if_splits)
qed simp

lemma initiate:
  assumes "\<And>h. P h \<Longrightarrow> connsAllocated h" "\<And>n. benign (envs n)" "P (dHub d)"
    and "initateConnectionWithError envs s entry d = (r, d')"
  shows "P (dHub d')"
proof -
  obtain a h1 where a: "outboundReconnectAuthority (Some s) (dHub d) = (a, h1)" by fastforce
  have h1: "P h1" by (rule reconnect_authority [OF assms(3) a])
  have e: "P (dHub d')" if "tryEndpoints envs n s port path au hosts er x = (r, d')" "P (dHub x)" for n port path au hosts er x
    by (rule try_endpoints [OF assms(1) that(1) assms(2) that(2)])
  show ?thesis
    using assms(4) h1 by (auto simp: initateConnectionWithError_def a dest: e split: option.splits)
qed

text \<open>The three goroutines.\<close>

lemma run_initiation:
  assumes "\<And>h. P h \<Longrightarrow> connsAllocated h" "\<And>n. benign (envs n)" "P (dHub d)"
  shows "P (dHub (runConnectionInitation envs ski counter entry d))"
proof -
  define h1 where "h1 = setConnectionAttemptRunning ski False (dHub d)"
  obtain s h2 where s: "ServiceForSKI ski h1 = (s, h2)" by fastforce
  have 1: "P h1" unfolding h1_def by (rule running [OF assms(3)])
  have 2: "P h2" by (rule service [OF 1 s])
  obtain ok err d1 where i: "initateConnectionWithError envs s entry (d\<lparr>dHub := h2\<rparr>) = ((ok, err), d1)" by (metis prod.exhaust)
  have "P (dHub d1)" by (rule initiate [OF assms(1,2) _ i]) (simp_all add: 2)
  with 1 2 show ?thesis
    by (simp add: runConnectionInitation_def h1_def [symmetric] s i onHub_def reannounce Let_def)
qed

lemma run_candidate:
  assumes "\<And>h. P h \<Longrightarrow> connsAllocated h" "benign env" "P (dHub d)"
  shows "P (dHub (runPairingCandidate env ski s q d))"
proof -
  define a where "a = candidates (dHub d) q"
  obtain err d1 where c: "connectFoundPairingCandidate env s (candHost a) (candPort a) (candPath a) ski (Some (candAuthority a)) d = (err, d1)"
    by fastforce
  have "P (dHub d1)"
    by (rule connect_service [OF assms(3,2,2,1) c [unfolded connectFoundPairingCandidate_def]])
  with assms(3) show ?thesis
    by (simp add: runPairingCandidate_def a_def [symmetric] c onHub_def retire Let_def)
qed

lemma run_retry_dial:
  assumes "\<And>h. P h \<Longrightarrow> connsAllocated h" "benign env" "P (dHub d)"
  shows "P (dHub (runRetry env p d))"
proof -
  obtain x h1 where r: "runTrustedRemoteRetry p (dHub d) = (x, h1)" by fastforce
  have 1: "P h1" using run_retry [OF assms(3), of p] r by simp
  show ?thesis
  proof (cases x)
    case None
    then show ?thesis using 1 by (simp add: runRetry_def r Let_def)
  next
    case (Some host)
    let ?a = "retries (dHub d) p"
    obtain err d1 where c: "connectFoundServiceWithLoggingOptions env env (retService ?a) host (itoa (obsPort (retObservation ?a)))
        (obsPath (retObservation ?a)) [] False (Some (retAuthority ?a)) (d\<lparr>dHub := h1\<rparr>) = (err, d1)" by fastforce
    have "P (dHub d1)" by (rule connect_service [OF _ assms(2,2,1) c]) (simp_all add: 1)
    then show ?thesis by (simp add: runRetry_def r Some c onHub_def finish_retry Let_def)
  qed
qed

end

text \<open>In particular, with other goroutines that take steps of the hub, a dial leads from reachable states
  to reachable states, where the invariants of the hub hold.\<close>

lemma reachable_allocated: "hub_reachable (NewHub ski b d) h \<Longrightarrow> connsAllocated h"
  using registry.reachable [OF _ NewHub_invariants(1)] by (auto simp: registryInv_def connsAllocated_def)

lemma dial_reachable:
  assumes "hub_reachable (NewHub self b p) (dHub d)" "hub_closed.benign (hub_reachable (NewHub self b p)) env"
    and "hub_closed.benign (hub_reachable (NewHub self b p)) env'"
    and "connectFoundServiceWithLoggingOptions env env' s host port path expected fb ra d = (err, d')"
  shows "hub_reachable (NewHub self b p) (dHub d')"
  by (rule reach.connect_service [OF assms(1,2,3) reachable_allocated assms(4)])

end
