(* ===== verification/Hub_Callbacks.thy ===== *)
theory Hub_Callbacks
  imports Hub_Attempts
begin

text \<open>
  The hub towards its users: the acceptance of an inbound request before its SKI is known to the hub
  (\<open>src/hub/hub_connections.go\<close>), what the hub and the provider of an outgoing attempt answer to a
  SHIP connection (\<open>src/hub/hub_shipconnection.go\<close>, \<open>src/hub/outgoing_attempt_info_provider.go\<close>), and
  the settings and details of pairing (\<open>src/hub/hub_pairing.go\<close>).

  The websocket upgrade, the answers of the hub reader and of mDNS, and the state of a connection are
  arguments.
\<close>

section \<open>Inbound requests\<close>

text \<open>A request: whether it can be upgraded, the subprotocol of the socket and the client's certificates,
  \<open>None\<close> without TLS.\<close>

record inboundRequest =
  irUpgrades :: bool
  irSubprotocol :: bytes
  irCerts :: "certificate list option"

datatype inboundOutcome = NotUpgraded | InboundClosed | Serving ptr

definition serveRequest :: "(nat list \<Rightarrow> nat list) \<Rightarrow> inboundRequest \<Rightarrow> hub \<Rightarrow> inboundOutcome \<times> hub" where
  "serveRequest sha1 r h =
    (if \<not> irUpgrades r then (NotUpgraded, h)
     else if irSubprotocol r \<noteq> ''ship'' then (InboundClosed, h)
     else case irCerts r of
       None \<Rightarrow> (InboundClosed, h)
     | Some [] \<Rightarrow> (InboundClosed, h)
     | Some (c # _) \<Rightarrow>
         (case SkiFromCertificate sha1 (Some c) of
            Inl _ \<Rightarrow> (InboundClosed, h)
          | Inr ski \<Rightarrow>
              (case ServeHTTP ski h of
                 (None, h') \<Rightarrow> (InboundClosed, h')
               | (Some c, h') \<Rightarrow> (Serving c, h'))))"

section \<open>Answers to a connection\<close>

text \<open>\<open>AllowWaitingForTrust\<close>: the reader is asked only for a service that is not trusted; the flag says whether.\<close>

definition AllowWaitingForTrust :: "bool \<Rightarrow> bytes \<Rightarrow> hub \<Rightarrow> (bool \<times> bool) \<times> hub" where
  "AllowWaitingForTrust answer ski h =
    (let (s, h1) = ServiceForSKI ski h in
     if svcTrusted (services h1 s) then ((True, False), h1) else ((answer, True), h1))"

text \<open>What the hub gives the reader of a remote device: the connection itself, or only its writer for an
  attempt of the hub's own. The reader answers with a data reader or nil.\<close>

datatype deviceWriter = FullWriter | PublicShipDataWriter

definition SetupRemoteDevice :: "OutgoingAttemptMetadata option \<Rightarrow> deviceWriter" where
  "SetupRemoteDevice metadata =
    (case metadata of
       Some m \<Rightarrow> if Scope m = internalOutgoingAttemptScope then PublicShipDataWriter else FullWriter
     | None \<Rightarrow> FullWriter)"

text \<open>A guarded callback with a result; the default is returned when the callback is not made.\<close>

definition guardedResult :: "ptr option \<Rightarrow> 'a \<Rightarrow> (hub \<Rightarrow> 'a \<times> hub) \<Rightarrow> hub \<Rightarrow> 'a \<times> hub" where
  "guardedResult registration dflt body h =
    (case registration of
       None \<Rightarrow> (dflt, h)
     | Some r \<Rightarrow>
         (case beginCallback registration h of
            (False, h1) \<Rightarrow> (dflt, h1)
          | (True, h1) \<Rightarrow>
              if outboundAttemptRegistrationOwnsCallbacks registration h1
              then (case body h1 of (x, h2) \<Rightarrow> (x, endCallback r h2))
              else (dflt, endCallback r h1)))"

definition provider_AllowWaitingForTrust :: "ptr option \<Rightarrow> bool \<Rightarrow> bytes \<Rightarrow> hub \<Rightarrow> (bool \<times> bool) \<times> hub" where
  "provider_AllowWaitingForTrust reg answer ski h = guardedResult reg (False, False) (AllowWaitingForTrust answer ski) h"

text \<open>The result: the writer that was given to the reader, when it was asked and answered with a data reader.\<close>

definition provider_SetupRemoteDevice ::
  "ptr option \<Rightarrow> bool \<Rightarrow> OutgoingAttemptMetadata option \<Rightarrow> hub \<Rightarrow> deviceWriter option \<times> hub" where
  "provider_SetupRemoteDevice reg reads metadata h =
    guardedResult reg None (\<lambda>h. (if reads then Some (SetupRemoteDevice metadata) else None, h)) h"

text \<open>A payload for the data reader of an attempt: the payload when it is handed on.\<close>

definition HandleShipPayloadMessage :: "ptr option \<Rightarrow> bytes \<Rightarrow> hub \<Rightarrow> bytes option \<times> hub" where
  "HandleShipPayloadMessage reg message h = guardedResult reg None (\<lambda>h. (Some message, h)) h"

section \<open>Pairing settings and details\<close>

definition hubSetAutoAccept :: "bool \<Rightarrow> hub \<Rightarrow> hub" where
  "hubSetAutoAccept accept h = h\<lparr>autoaccept := accept\<rparr>"

definition IsAutoAcceptEnabled :: "hub \<Rightarrow> bool" where
  "IsAutoAcceptEnabled h = autoaccept h"

definition checkHasStarted :: "hub \<Rightarrow> bool" where
  "checkHasStarted h = hasStarted h"

text \<open>\<open>conn\<close>: the state and the error of a connection.\<close>

definition PairingDetailForSki ::
  "(ptr \<Rightarrow> ShipMessageExchangeState \<times> errorValue option) \<Rightarrow> bytes \<Rightarrow> hub \<Rightarrow> ConnectionStateDetail \<times> hub" where
  "PairingDetailForSki conn ski h =
    (let (s, h1) = ServiceForSKI ski h in
     case connectionForSKI ski h1 of
       Some c \<Rightarrow> (case conn c of (st, err) \<Rightarrow> (NewConnectionStateDetail (mapShipMessageExchangeState st) err, h1))
     | None \<Rightarrow> (serviceState s h1, h1))"

section \<open>Inbound connections are authenticated\<close>

lemma hexDigit_lower: "n < 16 \<Longrightarrow> lowerHex (hexDigit n)"
proof -
  have "list_all (\<lambda>n. lowerHex (hexDigit n)) [0..<16]" by code_simp
  then show "n < 16 \<Longrightarrow> lowerHex (hexDigit n)" by (simp add: list_all_iff)
qed

lemma lowerHex_plain: "lowerHex c \<Longrightarrow> asciiLower c = c \<and> c \<noteq> CHR '' '' \<and> c \<noteq> CHR ''-''"
  by (auto simp: lowerHex_def asciiLower_def byteVal_def Let_def)

lemma NormalizeSKI_hex: "\<forall>b \<in> set bs. b < 256 \<Longrightarrow> NormalizeSKI (hexEncode bs) = hexEncode bs"
proof -
  assume "\<forall>b \<in> set bs. b < 256"
  then have "\<forall>c \<in> set (hexEncode bs). lowerHex c"
    by (induction bs) (auto simp: hexEncode_def hexDigit_lower)
  then have "\<forall>c \<in> set (hexEncode bs). asciiLower c = c \<and> c \<noteq> CHR '' '' \<and> c \<noteq> CHR ''-''"
    using lowerHex_plain by blast
  then show ?thesis by (simp add: NormalizeSKI_eq filter_id_conv map_idI)
qed

lemma publish_connSKI [simp]: "connSKI (publishPairingDetail ski d h) = connSKI h"
  by (subst unnotified_eq [OF publish_frame], simp)+

lemma ServeHTTP_registers:
  assumes "ServeHTTP ski h = (Some c, h')"
  shows "connSKI h' c = NormalizeSKI ski \<and> map_of (connections h') (NormalizeSKI ski) = Some c"
proof -
  have i: "connSKI h2 c = connSKI h1 c \<and> map_of (connections h2) (connSKI h1 c) = Some c"
    if "registerInboundConnection c h1 = (True, h2)" for h1 h2
    using that
    by (cases "map_of (connections h1) (connSKI h1 c)")
      (auto simp: registerInboundConnection_def admitInbound_def setConnection_def supersede_def hemit_def Let_def
        split: if_splits)
  have r: "connSKI h2 c = connSKI h1 c \<and> map_of (connections h2) (connSKI h1 c) = Some c"
    if "registerReservedInboundPairingConnection c p h1 = ((x, True), h2)" for h1 h2 p x
    using that
    by (cases "map_of (connections h1) (connSKI h1 c)")
      (auto simp: registerReservedInboundPairingConnection_def admitReserved_def setConnection_def supersede_def
        Let_def split: option.splits if_splits prod.splits)
  have s: "connSKI (SetState st x h) = connSKI h" "connections (SetState st x h) = connections h" for st x h
    by (simp_all add: SetState_def Let_def)
  show ?thesis
    using assms
    by (auto simp: ServeHTTP_def Let_def newConnection_def s hemit_def dest!: i r split: prod.splits option.splits if_splits)
qed

text \<open>C7: an inbound connection belongs to the holder of the client certificate's key. If the hub serves a
  request, the socket is a websocket of the subprotocol \<open>ship\<close> over TLS, the client presented a
  certificate for a P-256 key whose SHA-1 hash is the subject key identifier, and the connection that
  runs is the one registered under the hexadecimal form of this hash.\<close>

theorem inbound_authenticated:
  assumes "serveRequest sha1 r h = (Serving c, h')" "\<And>point. \<forall>b \<in> set (sha1 point). b < 256"
  shows "irUpgrades r \<and> irSubprotocol r = ''ship''
    \<and> (\<exists>cert cs point. irCerts r = Some (cert # cs) \<and> PublicKey cert = P256Key (Some point)
         \<and> SubjectKeyId cert = Some (sha1 point) \<and> length (sha1 point) = 20
         \<and> connSKI h' c = hexEncode (sha1 point) \<and> map_of (connections h') (hexEncode (sha1 point)) = Some c)"
proof -
  obtain cert cs ski where r: "irUpgrades r" "irSubprotocol r = ''ship''" "irCerts r = Some (cert # cs)"
      "SkiFromCertificate sha1 (Some cert) = Inr ski" "ServeHTTP ski h = (Some c, h')"
    using assms(1) by (auto simp: serveRequest_def split: if_splits option.splits list.splits sum.splits prod.splits)
  from r(4) obtain point where p: "PublicKey cert = P256Key (Some point)" "SubjectKeyId cert = Some (sha1 point)"
      "length (sha1 point) = 20" "ski = hexEncode (sha1 point)"
    by (auto simp: SkiFromCertificate_def Let_def split: if_splits option.splits publicKey.splits)
  have "NormalizeSKI ski = ski" using NormalizeSKI_hex assms(2) p(4) by simp
  with ServeHTTP_registers [OF r(5)] r p show ?thesis by auto
qed

section \<open>Blocked callbacks\<close>

definition blockedReg :: "ptr \<Rightarrow> hub \<Rightarrow> bool" where
  "blockedReg r h = (r < nextPtr h \<and> callbackBlocked (registrations h r))"

lemma blockedReg_step: "hub_step h h' \<Longrightarrow> blockedReg r h \<Longrightarrow> blockedReg r h'"
  by (induction rule: hub_step.induct)
     (auto simp: blockedReg_def region_defs Let_def split: option.splits prod.splits list.splits if_splits)

interpretation blocked: hub_invariant "blockedReg r" for r
  by unfold_locales (rule blockedReg_step, assumption+, simp_all add: blockedReg_def)

lemma blocked_guard: "blockedReg r h \<Longrightarrow> guardedCallback (Some r) body h = h"
  by (simp add: guardedCallback_def beginCallback_def blockedReg_def)

lemma blocked_result: "blockedReg r h \<Longrightarrow> guardedResult (Some r) x body h = (x, h)"
  by (simp add: guardedResult_def beginCallback_def blockedReg_def)

text \<open>C16: once the callbacks of an outgoing attempt are blocked (its connection was replaced, its authority
  revoked or the hub shut down), in every later state of the hub none of them gets through: no state
  update, no SHIP id and no request for the PIN reaches the hub, trust is not waited for, no remote
  device is set up and no payload is handed to its reader.\<close>

theorem blocked_callbacks_silent:
  assumes "r < nextPtr h" "hub_reachable (snd (blockCallbacks (Some r) h)) h'"
  shows "provider_HandleShipHandshakeStateUpdateWithAttempt (Some r) ski st md h' = h'
    \<and> provider_ReportServiceShipID (Some r) ski shipID h' = h'
    \<and> provider_WithTransientPIN (Some r) ski h' = h'
    \<and> provider_AllowWaitingForTrust (Some r) answer ski h' = ((False, False), h')
    \<and> provider_SetupRemoteDevice (Some r) reads metadata h' = (None, h')
    \<and> HandleShipPayloadMessage (Some r) message h' = (None, h')"
proof -
  have "blockedReg r (snd (blockCallbacks (Some r) h))"
    using assms(1) by (simp add: blockedReg_def blockCallbacks_def updReg_def)
  then have "blockedReg r h'" by (rule blocked.reachable [OF assms(2)])
  then show ?thesis
    by (simp add: provider_HandleShipHandshakeStateUpdateWithAttempt_def provider_ReportServiceShipID_def
        provider_WithTransientPIN_def provider_AllowWaitingForTrust_def provider_SetupRemoteDevice_def
        HandleShipPayloadMessage_def blocked_guard blocked_result)
qed

section \<open>Examples\<close>

definition exampleRequest :: inboundRequest where
  "exampleRequest = \<lparr>irUpgrades = True, irSubprotocol = ''ship'', irCerts = Some (sockCerts exampleSocketTLS)\<rparr>"

definition exampleInbound :: hub where
  "exampleInbound = snd (serveRequest (\<lambda>_. replicate 20 0) exampleRequest (NewHub [] True (\<lambda>_. True)))"

theorem inbound_authenticated_witness:
  "connSKI exampleInbound 3 = exampleDialSKI \<and> map_of (connections exampleInbound) exampleDialSKI = Some 3"
proof -
  have "fst (serveRequest (\<lambda>_. replicate 20 0) exampleRequest (NewHub [] True (\<lambda>_. True))) = Serving 3" by code_simp
  then have "serveRequest (\<lambda>_. replicate 20 0) exampleRequest (NewHub [] True (\<lambda>_. True)) = (Serving 3, exampleInbound)"
    by (simp add: exampleInbound_def prod_eq_iff)
  from inbound_authenticated [OF this] show ?thesis by (auto simp: exampleDialSKI_def)
qed

text \<open>The hub of the dial example, whose attempt has the registration 4, before and after it is blocked.\<close>

theorem blocked_callbacks_silent_witness:
  "fst (HandleShipPayloadMessage (Some 4) ''p'' (dHub (snd exampleDialed))) = Some ''p''
   \<and> fst (HandleShipPayloadMessage (Some 4) ''p'' (snd (blockCallbacks (Some 4) (dHub (snd exampleDialed))))) = None"
proof -
  have "4 < nextPtr (dHub (snd exampleDialed))"
    "fst (HandleShipPayloadMessage (Some 4) ''p'' (dHub (snd exampleDialed))) = Some ''p''" by code_simp+
  with blocked_callbacks_silent [OF _ hr_start, of 4 "dHub (snd exampleDialed)"] show ?thesis by simp
qed

end
