(* ===== verification/Hub_Listener.thy ===== *)
theory Hub_Listener
  imports Hub_Lifecycle
begin

text \<open>
  The life cycle of a hub with a listener policy (\<open>src/hub/listener_policy.go\<close>): binding the
  configured endpoint, starting discovery, serving, and the termination that a shutdown, a failed
  start or the end of the server begins.

  \<open>lifecycle.mu\<close> makes the start and the claim of a termination atomic; the cleanup after a claim, the
  goroutine that serves and the hub's other goroutines interleave with them (\<open>policy_step\<close>). Listener,
  server and \<open>serveDone\<close> channel of one start share a number. Whether the endpoint can be bound and
  whether discovery starts are arguments.
\<close>

section \<open>Construction\<close>

text \<open>The argument for mDNS: nil, a typed nil, without policy support, or with it.\<close>

datatype mdnsArg = MdnsNil | MdnsTypedNil | MdnsPlain | MdnsScoped bool   \<comment> \<open>\<open>ConfigureListenerPolicy\<close> succeeds\<close>

datatype newHubError = PolicyInvalid policyError | MdnsIsTypedNil | MdnsUnsupported | MdnsNotConfigured

datatype startError = StartTerminal | StartBindFailed | StartDiscoveryFailed

datatype listenerEvent =
    isBind: LBind bytes Addr "16 word" nat     \<comment> \<open>\<open>net.ListenTCP\<close>: network, address and port\<close>
  | isCloseListener: LCloseListener nat                 \<comment> \<open>the TCP listener is closed\<close>
  | LCloseServer nat
  | isStartDiscovery: LStartDiscovery bool
  | LShutdownDiscovery
  | LTerminalDone                      \<comment> \<open>\<open>close(terminalDone)\<close>\<close>

record listenerPolicyResources =
  lrListener :: "nat option"
  lrServer :: "nat option"
  lrServeDone :: "nat option"
  lrDiscovery :: bool

text \<open>A goroutine after it has claimed the termination.\<close>

record cleanupTask =
  ctResources :: listenerPolicyResources
  ctConnections :: "ptr list"
  ctCancellations :: "ptr list"
  ctWaiting :: bool

record policyHub =
  phHub :: hub
  phPolicy :: ListenerPolicy
  phListener :: "nat option"
  phServer :: "nat option"
  phServeDone :: "nat option"
  phDiscoveryOwned :: bool
  phStarted :: bool
  phFinished :: bool            \<comment> \<open>\<open>finishOnce\<close> has run\<close>
  phClosed :: "nat list"        \<comment> \<open>listeners whose \<open>closeOnce\<close> has run\<close>
  phServerClosed :: "nat list"
  phDone :: "nat list"          \<comment> \<open>\<open>serveDone\<close> channels that are closed\<close>
  phServing :: "nat list"       \<comment> \<open>goroutines inside \<open>serveTLS\<close>\<close>
  phReturned :: "nat list"      \<comment> \<open>goroutines after it\<close>
  phTasks :: "cleanupTask list"
  phNext :: nat
  phTrace :: "listenerEvent list"

definition NewHubWithListenerPolicy ::
    "mdnsArg \<Rightarrow> int \<Rightarrow> ListenerPolicy \<Rightarrow> bytes \<Rightarrow> bool \<Rightarrow> (ptr \<Rightarrow> bool) \<Rightarrow> newHubError + policyHub" where
  "NewHubWithListenerPolicy mdns port policy ski attempts discards =
    (case validateListenerPolicy port policy of
       Some e \<Rightarrow> Inl (PolicyInvalid e)
     | None \<Rightarrow>
         if mdns = MdnsTypedNil then Inl MdnsIsTypedNil
         else if DiscoveryEnabled policy \<and> (mdns = MdnsNil \<or> mdns = MdnsPlain) then Inl MdnsUnsupported
         else if DiscoveryEnabled policy \<and> mdns = MdnsScoped False then Inl MdnsNotConfigured
         else Inr \<lparr>phHub = NewHub ski attempts discards, phPolicy = policy, phListener = None, phServer = None, phServeDone = None,
                   phDiscoveryOwned = False, phStarted = False, phFinished = False, phClosed = [],
                   phServerClosed = [], phDone = [], phServing = [], phReturned = [], phTasks = [],
                   phNext = 0, phTrace = []\<rparr>)"

definition lemit :: "listenerEvent \<Rightarrow> policyHub \<Rightarrow> policyHub" where
  "lemit e l = l\<lparr>phTrace := phTrace l @ [e]\<rparr>"

section \<open>Closing\<close>

text \<open>\<open>listenerPolicyListener.Close\<close>.\<close>

definition closeListener :: "nat \<Rightarrow> policyHub \<Rightarrow> policyHub" where
  "closeListener n l = (if n \<in> set (phClosed l) then l else lemit (LCloseListener n) (l\<lparr>phClosed := n # phClosed l\<rparr>))"

definition listenerPolicyShutdownClaimed :: "policyHub \<Rightarrow> bool" where
  "listenerPolicyShutdownClaimed l = hasShutdown (phHub l)"

definition noResources :: listenerPolicyResources where
  "noResources = \<lparr>lrListener = None, lrServer = None, lrServeDone = None, lrDiscovery = False\<rparr>"

text \<open>The claim; the result is the task of the caller, \<open>None\<close> when somebody claimed before.\<close>

definition claimListenerPolicyTerminationLocked :: "policyHub \<Rightarrow> cleanupTask option \<times> policyHub" where
  "claimListenerPolicyTerminationLocked l =
    (case beginShutdown (phHub l) of
       (None, h) \<Rightarrow> (None, l\<lparr>phHub := h\<rparr>)
     | (Some (conns, cancellations), h) \<Rightarrow>
         (Some \<lparr>ctResources = \<lparr>lrListener = phListener l, lrServer = phServer l, lrServeDone = phServeDone l,
                               lrDiscovery = phDiscoveryOwned l\<rparr>,
                ctConnections = conns, ctCancellations = cancellations, ctWaiting = False\<rparr>,
          l\<lparr>phHub := h, phListener := None, phServer := None, phServeDone := None,
            phDiscoveryOwned := False, phStarted := False\<rparr>))"

text \<open>The cleanup up to its wait for \<open>serveDone\<close>, with the cancellations before it.\<close>

definition cleanupListenerPolicy :: "cleanupTask \<Rightarrow> policyHub \<Rightarrow> policyHub" where
  "cleanupListenerPolicy t l =
    (let r = ctResources t;
         l1 = l\<lparr>phHub := cancelOutboundAttemptRegistrations (ctCancellations t) (phHub l)\<rparr>;
         l2 = (if lrDiscovery r then lemit LShutdownDiscovery l1 else l1);
         l3 = l2\<lparr>phHub := fold (\<lambda>c. hemit (HCloseConnection c False 0 [])) (ctConnections t) (phHub l2)\<rparr>;
         l4 = (case lrServer r of
                 None \<Rightarrow> l3 | Some n \<Rightarrow> lemit (LCloseServer n) (l3\<lparr>phServerClosed := n # phServerClosed l3\<rparr>))
     in (case lrListener r of None \<Rightarrow> l4 | Some n \<Rightarrow> closeListener n l4))"

definition finishListenerPolicyTermination :: "policyHub \<Rightarrow> policyHub" where
  "finishListenerPolicyTermination l =
    (let l1 = l\<lparr>phHub := (phHub l)\<lparr>hasStarted := False\<rparr>\<rparr> in
     if phFinished l1 then l1 else lemit LTerminalDone (l1\<lparr>phFinished := True\<rparr>))"

text \<open>The claim by a shutdown or by the goroutine that serves: the task joins the running ones.\<close>

definition terminateListenerPolicy :: "policyHub \<Rightarrow> policyHub" where
  "terminateListenerPolicy l =
    (case claimListenerPolicyTerminationLocked l of
       (None, l1) \<Rightarrow> l1
     | (Some t, l1) \<Rightarrow> l1\<lparr>phTasks := phTasks l1 @ [t]\<rparr>)"

section \<open>Starting and serving\<close>

definition listenerPolicyTCPNetwork :: "Addr \<Rightarrow> bytes" where
  "listenerPolicyTCPNetwork address = (if addrIs4 address then ''tcp4'' else ''tcp6'')"

definition StartWithPolicy :: "bool \<Rightarrow> bool \<Rightarrow> policyHub \<Rightarrow> startError option \<times> policyHub" where
  "StartWithPolicy binds discovers l =
    (if listenerPolicyShutdownClaimed l then (Some StartTerminal, l)
     else if phStarted l then (None, l)
     else if \<not> binds then (Some StartBindFailed, l)
     else
       (let n = phNext l; policy = phPolicy l;
            l1 = lemit (LBind (listenerPolicyTCPNetwork (lpAddr policy)) (lpAddr policy) (lpPort policy) n)
                   (l\<lparr>phListener := Some n, phServer := Some n, phNext := Suc n\<rparr>);
            l2 = (if DiscoveryEnabled policy then lemit (LStartDiscovery discovers) (l1\<lparr>phDiscoveryOwned := True\<rparr>) else l1)
        in if DiscoveryEnabled policy \<and> \<not> discovers then
             (case claimListenerPolicyTerminationLocked l2 of
                (t, l3) \<Rightarrow> (Some StartDiscoveryFailed, l3\<lparr>phTasks := phTasks l3 @
                  [(case t of Some t \<Rightarrow> t
                    | None \<Rightarrow> \<lparr>ctResources = noResources, ctConnections = [], ctCancellations = [], ctWaiting = False\<rparr>)]\<rparr>))
           else (None, l2\<lparr>phServeDone := Some n, phStarted := True, phHub := (phHub l2)\<lparr>hasStarted := True\<rparr>,
                          phServing := n # phServing l2\<rparr>)))"

text \<open>\<open>serveListenerPolicy\<close> when \<open>serveTLS\<close> has returned; \<open>closes\<close>: the server closed the listener itself.\<close>

definition serveReturned :: "bool \<Rightarrow> nat \<Rightarrow> policyHub \<Rightarrow> policyHub" where
  "serveReturned closes n l =
    (let l1 = (if closes then closeListener n l else l) in
     l1\<lparr>phDone := n # phDone l1, phServing := remove1 n (phServing l1), phReturned := n # phReturned l1\<rparr>)"

definition serveEnds :: "nat \<Rightarrow> policyHub \<Rightarrow> policyHub" where
  "serveEnds n l =
    (let l1 = l\<lparr>phReturned := remove1 n (phReturned l)\<rparr> in
     if listenerPolicyShutdownClaimed l1 then l1 else terminateListenerPolicy l1)"

section \<open>Interleaving\<close>

text \<open>\<open>serveTLS\<close> may return at any time; the wait of a cleanup ends when the channel is closed.\<close>

inductive policy_step :: "policyHub \<Rightarrow> policyHub \<Rightarrow> bool" where
  ps_start: "policy_step l (snd (StartWithPolicy binds discovers l))"
| ps_terminate: "policy_step l (terminateListenerPolicy l)"
| ps_cleanup: "phTasks l = ts @ t # ts' \<Longrightarrow> \<not> ctWaiting t \<Longrightarrow>
    policy_step l ((cleanupListenerPolicy t l)\<lparr>phTasks := ts @ t\<lparr>ctWaiting := True\<rparr> # ts'\<rparr>)"
| ps_finish: "phTasks l = ts @ t # ts' \<Longrightarrow> ctWaiting t \<Longrightarrow>
    lrServeDone (ctResources t) = None \<or> lrServeDone (ctResources t) \<in> Some ` set (phDone l) \<Longrightarrow>
    policy_step l ((finishListenerPolicyTermination l)\<lparr>phTasks := ts @ ts'\<rparr>)"
| ps_return: "n \<in> set (phServing l) \<Longrightarrow> policy_step l (serveReturned closes n l)"
| ps_end: "n \<in> set (phReturned l) \<Longrightarrow> policy_step l (serveEnds n l)"
| ps_hub: "hub_step (phHub l) h \<Longrightarrow> hasShutdown h = hasShutdown (phHub l) \<Longrightarrow> hasStarted h = hasStarted (phHub l) \<Longrightarrow>
    policy_step l (l\<lparr>phHub := h\<rparr>)"

inductive policy_reachable :: "policyHub \<Rightarrow> policyHub \<Rightarrow> bool" for l0 where
  pr_start: "policy_reachable l0 l0"
| pr_step: "policy_reachable l0 l \<Longrightarrow> policy_step l l' \<Longrightarrow> policy_reachable l0 l'"

section \<open>The stages of the life cycle\<close>

text \<open>What is common to all stages: at most one endpoint is ever bound, it is closed at most once, and
  \<open>terminalDone\<close> is closed once, by the goroutine that finishes.\<close>

definition serveStates :: "(nat list \<times> nat list \<times> nat list) set" where
  "serveStates = {([], [], []), ([0], [], []), ([], [0], [0]), ([], [], [0])}"

definition counted :: "policyHub \<Rightarrow> bool" where
  "counted l =
    (phNext l \<le> 1 \<and> length (filter isBind (phTrace l)) = phNext l
     \<and> count_list (phTrace l) LTerminalDone = (if phFinished l then 1 else 0)
     \<and> phClosed l \<in> {[], [0]} \<and> length (filter isCloseListener (phTrace l)) = length (phClosed l)
     \<and> (phServing l, phReturned l, phDone l) \<in> serveStates
     \<and> (phClosed l \<noteq> [] \<or> phServing l \<noteq> [] \<or> phDone l \<noteq> [] \<longrightarrow> phNext l = 1))"

definition discoveryStarts :: "policyHub \<Rightarrow> nat" where
  "discoveryStarts l = length (filter isStartDiscovery (phTrace l))"

definition discoveryStops :: "policyHub \<Rightarrow> nat" where
  "discoveryStops l = count_list (phTrace l) LShutdownDiscovery"

definition released :: "policyHub \<Rightarrow> bool" where
  "released l = (phListener l = None \<and> phServer l = None \<and> phServeDone l = None \<and> \<not> phDiscoveryOwned l \<and> \<not> phStarted l)"

definition freshStage :: "policyHub \<Rightarrow> bool" where
  "freshStage l =
    (released l \<and> \<not> hasShutdown (phHub l) \<and> phNext l = 0 \<and> \<not> phFinished l \<and> phTasks l = []
     \<and> discoveryStarts l = 0 \<and> discoveryStops l = 0)"

definition runningStage :: "policyHub \<Rightarrow> bool" where
  "runningStage l =
    (\<not> hasShutdown (phHub l) \<and> hasStarted (phHub l) \<and> phStarted l \<and> phNext l = 1
     \<and> phListener l = Some 0 \<and> phServer l = Some 0 \<and> phServeDone l = Some 0 \<and> \<not> phFinished l \<and> phTasks l = []
     \<and> (phServing l = [0] \<or> phReturned l = [0])
     \<and> discoveryStarts l = (if phDiscoveryOwned l then 1 else 0) \<and> discoveryStops l = 0)"

definition endingStage :: "cleanupTask \<Rightarrow> policyHub \<Rightarrow> bool" where
  "endingStage t l =
    (released l \<and> shutDown (phHub l) \<and> \<not> phFinished l \<and> phTasks l = [t]
     \<and> (let r = ctResources t in
         lrListener r = (if phNext l = 1 then Some 0 else None) \<and> lrServer r = lrListener r
         \<and> lrServeDone r = (if (phServing l, phReturned l, phDone l) = ([], [], []) then None else Some 0)
         \<and> discoveryStarts l = (if lrDiscovery r then 1 else 0)
         \<and> discoveryStops l = (if lrDiscovery r \<and> ctWaiting t then 1 else 0)
         \<and> (ctWaiting t \<longrightarrow> length (phClosed l) = phNext l)))"

definition endedStage :: "policyHub \<Rightarrow> bool" where
  "endedStage l =
    (released l \<and> shutDown (phHub l) \<and> \<not> hasStarted (phHub l) \<and> phFinished l \<and> phTasks l = []
     \<and> phServing l = [] \<and> length (phClosed l) = phNext l \<and> discoveryStops l = discoveryStarts l
     \<and> discoveryStarts l \<le> 1)"

definition policyInv :: "policyHub \<Rightarrow> bool" where
  "policyInv l = (counted l \<and> (freshStage l \<or> runningStage l \<or> (\<exists>t. endingStage t l) \<or> endedStage l))"

lemmas stage_defs = policyInv_def counted_def discoveryStarts_def discoveryStops_def released_def
  freshStage_def runningStage_def endingStage_def endedStage_def serveStates_def lemit_def

lemma beginShutdown_cases:
  "hasShutdown h \<Longrightarrow> beginShutdown h = (None, h)"
  "\<not> hasShutdown h \<Longrightarrow> \<exists>cs rs h'. beginShutdown h = (Some (cs, rs), h') \<and> shutDown h'"
proof -
  show "hasShutdown h \<Longrightarrow> beginShutdown h = (None, h)"
    by (simp add: beginShutdown_def shutdownConnections_def)
  assume n: "\<not> hasShutdown h"
  then have "\<exists>cs rs h'. beginShutdown h = (Some (cs, rs), h')"
    by (simp add: beginShutdown_def shutdownConnections_def split_beta)
  with beginShutdown_shutDown [OF n] show "\<exists>cs rs h'. beginShutdown h = (Some (cs, rs), h') \<and> shutDown h'" by auto
qed

definition claimed :: "hub \<Rightarrow> policyHub \<Rightarrow> policyHub" where
  "claimed h l = l\<lparr>phHub := h, phListener := None, phServer := None, phServeDone := None,
     phDiscoveryOwned := False, phStarted := False\<rparr>"

definition claimTask :: "ptr list \<Rightarrow> ptr list \<Rightarrow> policyHub \<Rightarrow> cleanupTask" where
  "claimTask cs rs l =
    \<lparr>ctResources = \<lparr>lrListener = phListener l, lrServer = phServer l, lrServeDone = phServeDone l, lrDiscovery = phDiscoveryOwned l\<rparr>,
     ctConnections = cs, ctCancellations = rs, ctWaiting = False\<rparr>"

lemma claim_eq:
  assumes "\<not> hasShutdown (phHub l)"
  obtains cs rs h where "claimListenerPolicyTerminationLocked l = (Some (claimTask cs rs l), claimed h l)" "shutDown h"
  using beginShutdown_cases(2) [OF assms]
  by (auto simp: claimListenerPolicyTerminationLocked_def claimTask_def claimed_def)

lemma counted_claimed: "counted l \<Longrightarrow> counted ((claimed h l)\<lparr>phTasks := ts\<rparr>)"
  unfolding counted_def claimed_def by simp

lemma claim_stage:
  assumes "counted l" "freshStage l \<or> runningStage l"
  shows "policyInv (terminateListenerPolicy l)"
proof -
  have "\<not> hasShutdown (phHub l)" using assms(2) by (auto simp: freshStage_def runningStage_def)
  then obtain cs rs h where c: "claimListenerPolicyTerminationLocked l = (Some (claimTask cs rs l), claimed h l)" "shutDown h"
    by (rule claim_eq)
  have t: "terminateListenerPolicy l = (claimed h l)\<lparr>phTasks := phTasks l @ [claimTask cs rs l]\<rparr>"
    by (simp add: terminateListenerPolicy_def c claimed_def)
  have "endingStage (claimTask cs rs l) (terminateListenerPolicy l)"
    using assms(2)
  proof
    assume "freshStage l"
    moreover from this have "(phServing l, phReturned l, phDone l) = ([], [], [])"
      using assms(1) by (auto simp: counted_def serveStates_def freshStage_def)
    ultimately show ?thesis
      using c(2) by (simp add: t endingStage_def freshStage_def released_def claimed_def claimTask_def discoveryStarts_def discoveryStops_def)
  next
    assume "runningStage l"
    then show ?thesis
      using c(2) by (auto simp: t endingStage_def runningStage_def released_def claimed_def claimTask_def discoveryStarts_def discoveryStops_def)
  qed
  moreover have "counted (terminateListenerPolicy l)" unfolding t by (rule counted_claimed [OF assms(1)])
  ultimately show ?thesis by (auto simp: policyInv_def)
qed

lemma claim_done: "hasShutdown (phHub l) \<Longrightarrow> terminateListenerPolicy l = l"
  by (simp add: terminateListenerPolicy_def claimListenerPolicyTerminationLocked_def beginShutdown_cases)

lemma shut_stage: "policyInv l \<Longrightarrow> hasShutdown (phHub l) \<longleftrightarrow> \<not> (freshStage l \<or> runningStage l)"
  by (auto simp: policyInv_def freshStage_def runningStage_def endingStage_def endedStage_def shutDown_def)

lemma terminate_inv: "policyInv l \<Longrightarrow> policyInv (terminateListenerPolicy l)"
  using claim_stage [of l] claim_done [of l] shut_stage [of l] by (auto simp: policyInv_def)

lemma start_inv:
  assumes "policyInv l"
  shows "policyInv (snd (StartWithPolicy binds discovers l))"
proof (cases "hasShutdown (phHub l) \<or> phStarted l \<or> \<not> binds")
  case True
  then show ?thesis using assms by (auto simp: StartWithPolicy_def listenerPolicyShutdownClaimed_def)
next
  case False
  then have f: "freshStage l" and b: "counted l"
    using assms by (auto simp: policyInv_def runningStage_def endingStage_def endedStage_def shutDown_def)
  then have s: "(phServing l, phReturned l, phDone l) = ([], [], [])" "phClosed l = []"
    by (auto simp: counted_def serveStates_def freshStage_def)
  define l1 where "l1 = lemit (LBind (listenerPolicyTCPNetwork (lpAddr (phPolicy l))) (lpAddr (phPolicy l)) (lpPort (phPolicy l)) 0)
      (l\<lparr>phListener := Some 0, phServer := Some 0, phNext := Suc 0\<rparr>)"
  define l2 where "l2 = (if DiscoveryEnabled (phPolicy l) then lemit (LStartDiscovery discovers) (l1\<lparr>phDiscoveryOwned := True\<rparr>) else l1)"
  have c: "counted l2"
    using b f s by (simp add: l2_def l1_def counted_def lemit_def freshStage_def serveStates_def)
  have n: "\<not> hasShutdown (phHub l2)" using f by (simp add: l2_def l1_def lemit_def freshStage_def)
  then obtain cs rs h where k: "claimListenerPolicyTerminationLocked l2 = (Some (claimTask cs rs l2), claimed h l2)" "shutDown h"
    by (rule claim_eq)
  show ?thesis
  proof (cases "DiscoveryEnabled (phPolicy l) \<and> \<not> discovers")
    case True
    have e: "snd (StartWithPolicy binds discovers l) = (claimed h l2)\<lparr>phTasks := phTasks l2 @ [claimTask cs rs l2]\<rparr>"
      using False True f k(1)
      by (simp add: StartWithPolicy_def listenerPolicyShutdownClaimed_def freshStage_def Let_def l1_def l2_def claimed_def)
    have "endingStage (claimTask cs rs l2) (snd (StartWithPolicy binds discovers l))"
      using True f s k(2) unfolding e
      by (simp add: endingStage_def released_def claimed_def claimTask_def l2_def l1_def lemit_def freshStage_def
          discoveryStarts_def discoveryStops_def)
    then show ?thesis using counted_claimed [OF c] by (auto simp: policyInv_def e)
  next
    case False': False
    let ?l = "l2\<lparr>phServeDone := Some 0, phStarted := True, phHub := (phHub l2)\<lparr>hasStarted := True\<rparr>, phServing := 0 # phServing l2\<rparr>"
    have e: "snd (StartWithPolicy binds discovers l) = ?l"
      using False False' f
      by (auto simp: StartWithPolicy_def listenerPolicyShutdownClaimed_def freshStage_def Let_def l1_def l2_def)
    have "runningStage ?l"
      using f s by (simp add: runningStage_def l2_def l1_def lemit_def freshStage_def released_def discoveryStarts_def discoveryStops_def)
    moreover have "counted ?l" using c s by (simp add: counted_def serveStates_def l2_def l1_def lemit_def)
    ultimately show ?thesis by (simp add: policyInv_def e)
  qed
qed

lemma closeListener_frame [simp]:
  "phHub (closeListener n l) = phHub l" "phListener (closeListener n l) = phListener l"
  "phServer (closeListener n l) = phServer l" "phServeDone (closeListener n l) = phServeDone l"
  "phDiscoveryOwned (closeListener n l) = phDiscoveryOwned l" "phStarted (closeListener n l) = phStarted l"
  "phFinished (closeListener n l) = phFinished l" "phDone (closeListener n l) = phDone l"
  "phServing (closeListener n l) = phServing l" "phReturned (closeListener n l) = phReturned l"
  "phTasks (closeListener n l) = phTasks l" "phNext (closeListener n l) = phNext l"
  "discoveryStarts (closeListener n l) = discoveryStarts l" "discoveryStops (closeListener n l) = discoveryStops l"
  by (simp_all add: closeListener_def lemit_def discoveryStarts_def discoveryStops_def)

lemma discovery_tasks [simp]:
  "discoveryStarts (l\<lparr>phTasks := ts\<rparr>) = discoveryStarts l" "discoveryStops (l\<lparr>phTasks := ts\<rparr>) = discoveryStops l"
  by (simp_all add: discoveryStarts_def discoveryStops_def)

lemma counted_close: "counted l \<Longrightarrow> phNext l = 1 \<Longrightarrow> counted (closeListener 0 l) \<and> phClosed (closeListener 0 l) = [0]"
  by (auto simp: counted_def closeListener_def lemit_def serveStates_def)

lemma hub_close_frame:
  "shutDown h \<Longrightarrow> shutDown (fold (\<lambda>c. hemit (HCloseConnection c False 0 [])) cs (cancelOutboundAttemptRegistrations rs h))"
proof -
  have "shutDown h \<Longrightarrow> shutDown (fold (\<lambda>c. hemit (HCloseConnection c False 0 [])) cs h)" for h
    by (induction cs arbitrary: h) (auto intro: shut.emit)
  then show "shutDown h \<Longrightarrow> ?thesis" by (simp add: shut.cancel_all)
qed

lemma cleanup_inv:
  assumes "counted l" "endingStage t l" "\<not> ctWaiting t"
  shows "endingStage (t\<lparr>ctWaiting := True\<rparr>) ((cleanupListenerPolicy t l)\<lparr>phTasks := [t\<lparr>ctWaiting := True\<rparr>]\<rparr>)
    \<and> counted ((cleanupListenerPolicy t l)\<lparr>phTasks := [t\<lparr>ctWaiting := True\<rparr>]\<rparr>)"
proof -
  define h where "h = fold (\<lambda>c. hemit (HCloseConnection c False 0 [])) (ctConnections t)
      (cancelOutboundAttemptRegistrations (ctCancellations t) (phHub l))"
  have h: "shutDown h" using assms(2) hub_close_frame by (simp add: h_def endingStage_def)
  define l1 where "l1 = (if lrDiscovery (ctResources t) then (lemit LShutdownDiscovery l)\<lparr>phHub := h\<rparr> else l\<lparr>phHub := h\<rparr>)"
  define l2 where "l2 = (case lrServer (ctResources t) of
      None \<Rightarrow> l1 | Some n \<Rightarrow> lemit (LCloseServer n) (l1\<lparr>phServerClosed := n # phServerClosed l1\<rparr>))"
  have c: "cleanupListenerPolicy t l = (case lrListener (ctResources t) of None \<Rightarrow> l2 | Some n \<Rightarrow> closeListener n l2)"
    by (auto simp: cleanupListenerPolicy_def Let_def l2_def l1_def h_def lemit_def split: option.split)
  have i: "counted l2" using assms(1) by (auto simp: counted_def l2_def l1_def lemit_def split: option.split)
  have s: "phHub l2 = h" "released l2" "phFinished l2 = phFinished l" "phNext l2 = phNext l"
    "phServing l2 = phServing l" "phReturned l2 = phReturned l" "phDone l2 = phDone l" "discoveryStarts l2 = discoveryStarts l"
    "discoveryStops l2 = (if lrDiscovery (ctResources t) then Suc (discoveryStops l) else discoveryStops l)"
    using assms(2) by (auto simp: l2_def l1_def lemit_def released_def endingStage_def discoveryStarts_def discoveryStops_def split: option.split)
  let ?l = "(cleanupListenerPolicy t l)\<lparr>phTasks := [t\<lparr>ctWaiting := True\<rparr>]\<rparr>"
  show ?thesis
  proof (cases "phNext l = 1")
    case True
    then have n: "lrListener (ctResources t) = Some 0" using assms(2) by (simp add: endingStage_def Let_def)
    have k: "counted (closeListener 0 l2)" "phClosed (closeListener 0 l2) = [0]" using counted_close [OF i] True s by simp_all
    show ?thesis
      using assms(2,3) h s k True unfolding c n
      by (simp add: endingStage_def released_def counted_def Let_def)
  next
    case False
    then have n: "lrListener (ctResources t) = None" "phNext l = 0"
      using assms(1,2) by (auto simp: endingStage_def counted_def Let_def)
    moreover have "phClosed l2 = []" using i n s by (auto simp: counted_def)
    ultimately show ?thesis
      using assms(2,3) h s i unfolding c
      by (auto simp: endingStage_def released_def counted_def Let_def)
  qed
qed

lemma finish_inv:
  assumes "counted l" "endingStage t l" "ctWaiting t"
    and "lrServeDone (ctResources t) = None \<or> lrServeDone (ctResources t) \<in> Some ` set (phDone l)"
  shows "endedStage ((finishListenerPolicyTermination l)\<lparr>phTasks := []\<rparr>)
    \<and> counted ((finishListenerPolicyTermination l)\<lparr>phTasks := []\<rparr>)"
proof -
  have "phServing l = []"
    using assms by (auto simp: counted_def serveStates_def endingStage_def Let_def split: if_splits)
  then show ?thesis
    using assms by (auto simp: finishListenerPolicyTermination_def policyInv_def endedStage_def endingStage_def counted_def
        released_def lemit_def discoveryStarts_def discoveryStops_def shutDown_def Let_def)
qed

lemma return_inv:
  assumes "policyInv l" "n \<in> set (phServing l)"
  shows "policyInv (serveReturned closes n l)"
proof -
  have c: "counted l" using assms(1) by (simp add: policyInv_def)
  then have s: "phServing l = [0]" "phReturned l = []" "phDone l = []" "n = 0" "phNext l = 1"
    using assms(2) by (auto simp: counted_def serveStates_def)
  define l1 where "l1 = (if closes then closeListener 0 l else l)"
  have i: "counted l1" "length (phClosed l) \<le> length (phClosed l1)" "phClosed l1 = phClosed l \<or> phClosed l1 = [0]"
    using c s counted_close [of l] by (auto simp: l1_def counted_def)
  have f: "phHub l1 = phHub l" "released l1 = released l" "phStarted l1 = phStarted l" "phListener l1 = phListener l"
    "phServer l1 = phServer l" "phServeDone l1 = phServeDone l" "phDiscoveryOwned l1 = phDiscoveryOwned l"
    "phFinished l1 = phFinished l" "phTasks l1 = phTasks l" "phNext l1 = 1" "phServing l1 = [0]" "phReturned l1 = []"
    "phDone l1 = []" "discoveryStarts l1 = discoveryStarts l" "discoveryStops l1 = discoveryStops l"
    using s by (simp_all add: l1_def released_def)
  let ?l = "l1\<lparr>phDone := [0], phServing := [], phReturned := [0]\<rparr>"
  have e: "serveReturned closes n l = ?l" using s f by (auto simp: serveReturned_def l1_def Let_def)
  have k: "counted ?l" using i(1) f by (simp add: counted_def serveStates_def)
  have d: "discoveryStarts ?l = discoveryStarts l" "discoveryStops ?l = discoveryStops l" "released ?l = released l"
    using f by (simp_all add: discoveryStarts_def discoveryStops_def released_def)
  have "runningStage ?l" if "runningStage l" using that f d by (simp add: runningStage_def)
  moreover have "endingStage t ?l" if "endingStage t l" for t
    using that f d i(3) s by (auto simp: endingStage_def Let_def)
  moreover have "\<not> freshStage l" "\<not> endedStage l" using s by (auto simp: freshStage_def endedStage_def)
  ultimately show ?thesis using assms(1) k unfolding e policyInv_def by blast
qed

lemma end_inv:
  assumes "policyInv l" "n \<in> set (phReturned l)"
  shows "policyInv (serveEnds n l)"
proof -
  have c: "counted l" using assms(1) by (simp add: policyInv_def)
  then have s: "phServing l = []" "phReturned l = [0]" "phDone l = [0]" "n = 0" "phNext l = 1"
    using assms(2) by (auto simp: counted_def serveStates_def)
  let ?l = "l\<lparr>phReturned := []\<rparr>"
  have e: "serveEnds n l = (if hasShutdown (phHub l) then ?l else terminateListenerPolicy ?l)"
    using s by (simp add: serveEnds_def listenerPolicyShutdownClaimed_def Let_def)
  have k: "counted ?l" using c s by (simp add: counted_def serveStates_def)
  have d: "discoveryStarts ?l = discoveryStarts l" "discoveryStops ?l = discoveryStops l" "released ?l = released l"
    by (simp_all add: discoveryStarts_def discoveryStops_def released_def)
  show ?thesis
  proof (cases "hasShutdown (phHub l)")
    case True
    have "endingStage t ?l" if "endingStage t l" for t using that d s by (auto simp: endingStage_def Let_def)
    moreover have "endedStage ?l" if "endedStage l" using that d by (simp add: endedStage_def)
    ultimately show ?thesis
      using True assms(1) k shut_stage [OF assms(1)] unfolding e policyInv_def by auto
  next
    case False
    then have "freshStage l \<or> runningStage l" using shut_stage [OF assms(1)] by simp
    moreover have "\<not> freshStage l" using s by (simp add: freshStage_def)
    ultimately have r: "runningStage l" by simp
    then obtain cs rs h where t: "claimListenerPolicyTerminationLocked ?l = (Some (claimTask cs rs ?l), claimed h ?l)" "shutDown h"
      using claim_eq [of ?l] False by auto
    have u: "terminateListenerPolicy ?l = (claimed h ?l)\<lparr>phTasks := [claimTask cs rs ?l]\<rparr>"
      using r by (simp add: terminateListenerPolicy_def t claimed_def runningStage_def)
    have "endingStage (claimTask cs rs ?l) (terminateListenerPolicy ?l)"
      using r t(2) s unfolding u
      by (simp add: endingStage_def runningStage_def released_def claimed_def claimTask_def discoveryStarts_def discoveryStops_def)
    then show ?thesis using False counted_claimed [OF k] u by (auto simp: e policyInv_def)
  qed
qed

lemma stage_task:
  assumes "policyInv l" "phTasks l = ts @ t # ts'"
  shows "ts = [] \<and> ts' = [] \<and> endingStage t l \<and> counted l"
proof -
  have "phTasks l \<noteq> []" using assms(2) by simp
  then obtain u where u: "endingStage u l" "counted l"
    using assms(1) by (auto simp: policyInv_def freshStage_def runningStage_def endedStage_def)
  then have e: "[u] = ts @ t # ts'" using assms(2) by (simp add: endingStage_def)
  then have "ts = []" by (cases ts) auto
  with e u show ?thesis by simp
qed

lemma hub_stage:
  assumes "policyInv l" "hasShutdown h = hasShutdown (phHub l)" "hasStarted h = hasStarted (phHub l)"
    and "shutDown (phHub l) \<Longrightarrow> shutDown h"
  shows "policyInv (l\<lparr>phHub := h\<rparr>)"
proof -
  let ?l = "l\<lparr>phHub := h\<rparr>"
  have d: "discoveryStarts ?l = discoveryStarts l" "discoveryStops ?l = discoveryStops l" "released ?l = released l"
    by (simp_all add: discoveryStarts_def discoveryStops_def released_def)
  have "counted ?l" using assms(1) by (simp add: policyInv_def counted_def)
  moreover have "freshStage ?l" if "freshStage l" using that assms d by (simp add: freshStage_def)
  moreover have "runningStage ?l" if "runningStage l" using that assms d by (simp add: runningStage_def)
  moreover have "endingStage t ?l" if "endingStage t l" for t using that assms d by (simp add: endingStage_def)
  moreover have "endedStage ?l" if "endedStage l" using that assms d by (simp add: endedStage_def)
  ultimately show ?thesis using assms(1) unfolding policyInv_def by blast
qed

lemma policyInv_step: "policy_step l l' \<Longrightarrow> policyInv l \<Longrightarrow> policyInv l'"
proof (induction rule: policy_step.induct)
  case (ps_start l binds discovers)
  then show ?case by (rule start_inv)
next
  case (ps_terminate l)
  then show ?case by (rule terminate_inv)
next
  case (ps_cleanup l ts t ts')
  then show ?case using stage_task [of l ts t ts'] cleanup_inv [of l t] by (auto simp: policyInv_def)
next
  case (ps_finish l ts t ts')
  then show ?case using stage_task [of l ts t ts'] finish_inv [of l t] by (auto simp: policyInv_def)
next
  case (ps_return n l closes)
  then show ?case by (intro return_inv)
next
  case (ps_end n l)
  then show ?case by (intro end_inv)
next
  case (ps_hub l h)
  then show ?case by (intro hub_stage) (auto intro: shutDown_step)
qed

lemma NewHubWithListenerPolicy_accepts:
  assumes "NewHubWithListenerPolicy mdns port policy ski attempts discards = Inr l0"
  shows "validateListenerPolicy port policy = None"
    and "l0 = \<lparr>phHub = NewHub ski attempts discards, phPolicy = policy, phListener = None, phServer = None,
      phServeDone = None, phDiscoveryOwned = False, phStarted = False, phFinished = False, phClosed = [],
      phServerClosed = [], phDone = [], phServing = [], phReturned = [], phTasks = [],
      phNext = 0, phTrace = []\<rparr>"
proof -
  show v: "validateListenerPolicy port policy = None"
    using assms by (cases "validateListenerPolicy port policy") (simp_all add: NewHubWithListenerPolicy_def)
  show "l0 = \<lparr>phHub = NewHub ski attempts discards, phPolicy = policy, phListener = None, phServer = None,
      phServeDone = None, phDiscoveryOwned = False, phStarted = False, phFinished = False, phClosed = [],
      phServerClosed = [], phDone = [], phServing = [], phReturned = [], phTasks = [],
      phNext = 0, phTrace = []\<rparr>"
    using assms v by (simp add: NewHubWithListenerPolicy_def split: if_split_asm)
qed

lemma new_inv:
  "NewHubWithListenerPolicy mdns port policy ski attempts discards = Inr l0 \<Longrightarrow> policyInv l0"
  by (drule NewHubWithListenerPolicy_accepts(2))
    (simp add: policyInv_def counted_def serveStates_def freshStage_def released_def discoveryStarts_def
      discoveryStops_def NewHub_def)

lemma reachable_policyInv:
  assumes "policy_reachable l0 l" "policyInv l0"
  shows "policyInv l"
  using assms by (induction rule: policy_reachable.induct) (auto dest: policyInv_step)

section \<open>Starting and ending once\<close>

text \<open>C8: a hub with a listener policy starts and ends once. In every state it can reach, whatever
  shutdowns, failed starts and ends of the server coincide: at most one endpoint is bound and its
  listener closed at most once; discovery is started at most once and shut down only if it was started;
  as long as nobody has finished the termination, exactly one goroutine owns the cleanup of a hub that
  is shutting down; and when \<open>terminalDone\<close> is closed (which happens once), the listener is closed, the
  server goroutine is out of \<open>serveTLS\<close>, no connection is left and the hub can never start again.\<close>

theorem listener_lifecycle:
  assumes "NewHubWithListenerPolicy mdns port policy ski attempts discards = Inr l0" "policy_reachable l0 l"
  shows "length (filter isBind (phTrace l)) \<le> 1
    \<and> length (filter isCloseListener (phTrace l)) \<le> length (filter isBind (phTrace l))
    \<and> discoveryStops l \<le> discoveryStarts l \<and> discoveryStarts l \<le> 1
    \<and> count_list (phTrace l) LTerminalDone = (if phFinished l then 1 else 0)
    \<and> (hasShutdown (phHub l) \<and> \<not> phFinished l \<longrightarrow> length (phTasks l) = 1)
    \<and> (phFinished l \<longrightarrow> length (filter isCloseListener (phTrace l)) = length (filter isBind (phTrace l))
         \<and> discoveryStops l = discoveryStarts l \<and> phServing l = [] \<and> connections (phHub l) = []
         \<and> \<not> hasStarted (phHub l) \<and> phTasks l = [] \<and> StartWithPolicy binds discovers l = (Some StartTerminal, l))"
proof -
  have i: "policyInv l" by (rule reachable_policyInv [OF assms(2) new_inv [OF assms(1)]])
  then have c: "length (phClosed l) \<le> phNext l" "counted l" by (auto simp: policyInv_def counted_def)
  have "freshStage l \<or> runningStage l \<or> (\<exists>t. endingStage t l) \<or> endedStage l" using i by (simp add: policyInv_def)
  then consider "freshStage l" | "runningStage l" | t where "endingStage t l" | "endedStage l" by blast
  then show ?thesis
  proof cases
    case 1
    then show ?thesis using c by (simp add: counted_def freshStage_def)
  next
    case 2
    then show ?thesis using c by (simp add: counted_def runningStage_def)
  next
    case 3
    then show ?thesis using c by (simp add: counted_def endingStage_def Let_def)
  next
    case 4
    then show ?thesis using c
      by (simp add: counted_def endedStage_def shutDown_def StartWithPolicy_def listenerPolicyShutdownClaimed_def released_def)
  qed
qed

text \<open>A hub that starts, is shut down, and whose server then returns.\<close>

definition loopbackPolicy :: ListenerPolicy where
  "loopbackPolicy = \<lparr>lpAddr = Addr4 0x7F000001, lpPort = 4711, DiscoveryEnabled = True\<rparr>"

definition policyHub0 :: policyHub where
  "policyHub0 = (case NewHubWithListenerPolicy (MdnsScoped True) 4711 loopbackPolicy ''a'' True (\<lambda>_. True) of Inr l \<Rightarrow> l)"

definition policyHub1 :: policyHub where
  "policyHub1 = terminateListenerPolicy (snd (StartWithPolicy True True policyHub0))"

definition policyTask :: cleanupTask where
  "policyTask = \<lparr>ctResources = \<lparr>lrListener = Some 0, lrServer = Some 0, lrServeDone = Some 0, lrDiscovery = True\<rparr>,
     ctConnections = [], ctCancellations = [], ctWaiting = False\<rparr>"

definition policyHub2 :: policyHub where
  "policyHub2 = serveReturned True 0
     ((cleanupListenerPolicy policyTask policyHub1)\<lparr>phTasks := [policyTask\<lparr>ctWaiting := True\<rparr>]\<rparr>)"

definition policyHub3 :: policyHub where
  "policyHub3 = (finishListenerPolicyTermination policyHub2)\<lparr>phTasks := []\<rparr>"

lemma policyHub0_new:
  "NewHubWithListenerPolicy (MdnsScoped True) 4711 loopbackPolicy ''a'' True (\<lambda>_. True) = Inr policyHub0"
proof -
  have "validateListenerPolicy 4711 loopbackPolicy = None" by code_simp
  then show ?thesis by (simp add: policyHub0_def NewHubWithListenerPolicy_def)
qed

lemma policyHub1_reachable: "policy_reachable policyHub0 policyHub1"
  unfolding policyHub1_def by (rule pr_step [OF pr_step [OF pr_start ps_start] ps_terminate])

lemma policyHub3_reachable: "policy_reachable policyHub0 policyHub3"
proof -
  have t: "phTasks policyHub1 = [] @ policyTask # []" "\<not> ctWaiting policyTask" by code_simp+
  from pr_step [OF policyHub1_reachable ps_cleanup [OF t]]
  have r: "policy_reachable policyHub0
      ((cleanupListenerPolicy policyTask policyHub1)\<lparr>phTasks := [policyTask\<lparr>ctWaiting := True\<rparr>]\<rparr>)" by simp
  have "policy_reachable policyHub0 policyHub2"
    unfolding policyHub2_def by (rule pr_step [OF r ps_return]) code_simp
  moreover have "phTasks policyHub2 = [] @ (policyTask\<lparr>ctWaiting := True\<rparr>) # []" "ctWaiting (policyTask\<lparr>ctWaiting := True\<rparr>)"
    "lrServeDone (ctResources (policyTask\<lparr>ctWaiting := True\<rparr>)) = Some 0" "0 \<in> set (phDone policyHub2)"
    by code_simp+
  ultimately show ?thesis
    using pr_step [OF _ ps_finish] unfolding policyHub3_def by fastforce
qed

theorem listener_lifecycle_witness:
  "phFinished policyHub3 \<and> StartWithPolicy True True policyHub3 = (Some StartTerminal, policyHub3)"
proof -
  have "phFinished policyHub3" by code_simp
  then show ?thesis using listener_lifecycle [OF policyHub0_new policyHub3_reachable] by blast
qed

section \<open>The termination completes\<close>

lemma cleanup_runs:
  assumes "endingStage t l" "counted l"
  obtains t1 l1 where "policy_step\<^sup>*\<^sup>* l l1" "endingStage t1 l1" "counted l1" "ctWaiting t1"
proof (cases "ctWaiting t")
  case True
  with assms show thesis by (intro that) auto
next
  case False
  moreover have "phTasks l = [] @ t # []" using assms(1) by (simp add: endingStage_def)
  ultimately have "policy_step l ((cleanupListenerPolicy t l)\<lparr>phTasks := [t\<lparr>ctWaiting := True\<rparr>]\<rparr>)"
    using ps_cleanup [of l "[]" t "[]"] by simp
  then show thesis
    using cleanup_inv [OF assms(2,1) False] by (intro that [OF r_into_rtranclp]) (blast+, simp)
qed

lemma serve_runs:
  assumes "endingStage t l" "counted l"
  obtains l1 where "policy_step\<^sup>*\<^sup>* l l1" "endingStage t l1" "counted l1"
    "lrServeDone (ctResources t) = None \<or> lrServeDone (ctResources t) \<in> Some ` set (phDone l1)"
proof (cases "phServing l = []")
  case True
  then have "lrServeDone (ctResources t) = None \<or> lrServeDone (ctResources t) \<in> Some ` set (phDone l)"
    using assms by (auto simp: counted_def serveStates_def endingStage_def Let_def)
  with assms show thesis by (intro that [of l]) auto
next
  case False
  then have s: "phServing l = [0]" using assms(2) by (auto simp: counted_def serveStates_def)
  let ?l = "serveReturned False 0 l"
  have f: "phTasks ?l = [t]" "phFinished ?l = phFinished l" "phHub ?l = phHub l" "0 \<in> set (phDone ?l)"
    using assms(1) by (simp_all add: serveReturned_def endingStage_def)
  have i: "policyInv ?l" using assms s by (intro return_inv) (auto simp: policyInv_def)
  then have e: "endingStage t ?l" "counted ?l" using stage_task [OF i, of "[]" t "[]"] f by simp_all
  then have "lrServeDone (ctResources t) = None \<or> lrServeDone (ctResources t) = Some 0"
    by (auto simp: endingStage_def Let_def split: if_splits)
  moreover have "policy_step l ?l" using s by (intro ps_return) simp
  ultimately show thesis using e f by (intro that [of ?l]) auto
qed

lemma finish_runs:
  assumes "endingStage t l" "counted l" "ctWaiting t"
    and "lrServeDone (ctResources t) = None \<or> lrServeDone (ctResources t) \<in> Some ` set (phDone l)"
  obtains l1 where "policy_step l l1" "endedStage l1"
proof -
  have "phTasks l = [] @ t # []" using assms(1) by (simp add: endingStage_def)
  from ps_finish [OF this assms(3,4)]
  have "policy_step l ((finishListenerPolicyTermination l)\<lparr>phTasks := []\<rparr>)" by simp
  then show thesis using finish_inv [OF assms(2,1,3,4)] by (blast intro: that)
qed



end
