(* ===== verification/Mdns_Providers.thy ===== *)
theory Mdns_Providers
  imports Mdns_Manager
begin

text \<open>
  What the two mDNS providers share: the calls of the resolve callback, what a consumer of these calls
  knows, and the contract between a provider's table of observations and its calls.
\<close>

section \<open>Calls of the resolve callback\<close>

record mdnsCall =
  clElements :: "(bytes \<times> bytes) list"
  clName :: bytes
  clHost :: bytes
  clAddresses :: "Addr list"
  clPort :: int
  clRemove :: bool

text \<open>The callback of a manager without scoped support gets the addresses as byte slices.\<close>

definition legacyMdnsCallback :: "mdnsCall \<Rightarrow> (bytes \<times> bytes) list \<times> bytes \<times> bytes \<times> bytes list \<times> int \<times> bool" where
  "legacyMdnsCallback c =
    (clElements c, clName c, clHost c, map addrAsSlice (clAddresses c), clPort c, clRemove c)"

definition callKey :: "mdnsCall \<Rightarrow> bytes" where
  "callKey c = mdnsObservationKey (clName c) (clHost c) (clPort c) (clElements c)"

section \<open>What a consumer knows\<close>

text \<open>The addresses of every observation that was reported and not removed.\<close>

definition consume :: "mdnsCall \<Rightarrow> (bytes \<rightharpoonup> Addr set) \<Rightarrow> bytes \<rightharpoonup> Addr set" where
  "consume c v = v(callKey c := (if clRemove c then None else Some (set (clAddresses c))))"

definition consumed :: "mdnsCall list \<Rightarrow> bytes \<rightharpoonup> Addr set" where
  "consumed cs = fold consume cs (\<lambda>_. None)"

lemma consumed_append [simp]: "consumed (cs @ [c]) = consume c (consumed cs)"
  by (simp add: consumed_def)

lemma consumed_Nil [simp]: "consumed [] = (\<lambda>_. None)"
  by (simp add: consumed_def)

text \<open>A provider: a table of observations, seen as the addresses of every observation key, and the
  calls made since the table was empty. A step that processes an observation makes at most one call,
  which tells the consumer the difference.\<close>

locale observation_source =
  fixes table :: "'s \<Rightarrow> bytes \<rightharpoonup> Addr set"
    and calls :: "'s \<Rightarrow> mdnsCall list"
    and step :: "'s \<Rightarrow> 's \<Rightarrow> bool"
    and fresh :: "'s \<Rightarrow> bool"
    and inv :: "'s \<Rightarrow> bool"
  assumes empty_law: "fresh s \<Longrightarrow> table s = (\<lambda>_. None) \<and> calls s = [] \<and> inv s"
    and inv_law: "step s s' \<Longrightarrow> inv s \<Longrightarrow> inv s'"
    and call_law: "step s s' \<Longrightarrow> inv s \<Longrightarrow>
      (calls s' = calls s \<and> table s' = table s)
      \<or> (\<exists>c. calls s' = calls s @ [c] \<and> table s' = consume c (table s))
      \<or> fresh s'"
begin

lemma known: "step\<^sup>*\<^sup>* s s' \<Longrightarrow> fresh s \<Longrightarrow> inv s' \<and> consumed (calls s') = table s'"
proof (induction rule: rtranclp_induct)
  case base
  then show ?case using empty_law by auto
next
  case (step s' s'')
  then have k: "inv s'" "consumed (calls s') = table s'" by simp_all
  from call_law [OF step.hyps(2) k(1)] have "consumed (calls s'') = table s''"
  proof (elim disjE exE conjE)
    assume "fresh s''"
    then show ?thesis using empty_law by auto
  qed (simp_all add: k)
  then show ?case using inv_law [OF step.hyps(2) k(1)] by simp
qed

end

section \<open>Collecting addresses\<close>

text \<open>The loops over the addresses of all observations keep the first occurrence of each.\<close>

definition collectAddress :: "Addr \<Rightarrow> Addr list \<Rightarrow> Addr list" where
  "collectAddress a as = (if a \<in> set as then as else as @ [a])"

lemma collect_set: "set (fold collectAddress xs as) = set as \<union> set xs"
  by (induction xs arbitrary: as) (auto simp: collectAddress_def)

lemma collect_distinct: "distinct as \<Longrightarrow> distinct (fold collectAddress xs as)"
  by (induction xs arbitrary: as) (auto simp: collectAddress_def)

end
