(* ===== verification/Mdns_Zeroconf.thy ===== *)
theory Mdns_Zeroconf
  imports Mdns_Providers
begin

text \<open>
  The zeroconf provider (\<open>src/mdns/zeroconf.go\<close>): browsing on every interface, the table of
  observations per interface, and the announced server.

  The zeroconf library is outside the model: which services it reports as added or removed and when,
  and whether it registers an announcement, are arguments. \<open>observationMux\<close> makes the processing of
  one service atomic, callback included; \<open>mux\<close> guards the server and the context. Servers, contexts
  and the goroutines of a context are numbers.
\<close>

section \<open>State\<close>

record netIface = netInterface +
  niIndex :: int

text \<open>The fields of a \<open>zeroconf.ServiceEntry\<close> that the code reads.\<close>

record ServiceEntry =
  seInstance :: bytes
  seHostName :: bytes
  sePort :: int
  seText :: "bytes list"
  seAddrIPv4 :: "bytes list"
  seAddrIPv6 :: "bytes list"
  seExpiry :: int

type_synonym zeroconfInterfaceScope = "int \<times> bytes"
type_synonym scopeTable = "(zeroconfInterfaceScope \<times> Addr list) list"

datatype zcEvent =
    ZcRegister nat bytes int "bytes list"                     \<comment> \<open>server, name, port, TXT\<close>
  | ZcRegisterProxy nat bytes int bytes bytes "bytes list"    \<comment> \<open>with host and address\<close>
  | ZcServerShutdown nat

record ZeroconfProvider =
  zcIfaces :: "netIface list"
  zcHost :: bytes
  zcAddress :: Addr
  zcServer :: "nat option"
  zcContext :: "nat option"                    \<comment> \<open>\<open>ctx\<close> with \<open>cancel\<close>\<close>
  serviceObservations :: "(bytes \<times> scopeTable) list"
  zcInstalling :: "nat list"                   \<comment> \<open>registered by an \<open>Announce\<close> that has not installed it yet\<close>
  zcReplaced :: "nat list"                     \<comment> \<open>replaced, to be shut down by that \<open>Announce\<close>\<close>
  zcListeners :: "nat list"                    \<comment> \<open>contexts of the \<open>chanListener\<close> goroutines, counted by \<open>wait\<close>\<close>
  zcBrowsers :: "(nat \<times> netIface) list"        \<comment> \<open>\<open>chanListenerForInterface\<close> goroutines\<close>
  zcStopping :: nat                            \<comment> \<open>\<open>Shutdown\<close> calls after \<open>Unannounce\<close>\<close>
  zcWaiting :: nat                             \<comment> \<open>\<open>Shutdown\<close> calls in \<open>wait.Wait\<close>\<close>
  zcNext :: nat
  zcCalls :: "mdnsCall list"                   \<comment> \<open>since the table was empty\<close>
  zcTrace :: "zcEvent list"

definition NewZeroconfProvider :: "netIface list \<Rightarrow> ZeroconfProvider" where
  "NewZeroconfProvider ifaces =
    \<lparr>zcIfaces = ifaces, zcHost = [], zcAddress = AddrZero, zcServer = None, zcContext = None,
     serviceObservations = [], zcInstalling = [], zcReplaced = [], zcListeners = [], zcBrowsers = [],
     zcStopping = 0, zcWaiting = 0, zcNext = 0, zcCalls = [], zcTrace = []\<rparr>"

definition newScopedZeroconfProvider :: "netIface list \<Rightarrow> bytes \<Rightarrow> Addr \<Rightarrow> ZeroconfProvider" where
  "newScopedZeroconfProvider ifaces host address =
    (NewZeroconfProvider ifaces)\<lparr>zcHost := host, zcAddress := addrWithZone address []\<rparr>"

section \<open>Observations\<close>

definition scopedServiceAddressesForZone :: "ServiceEntry \<Rightarrow> bytes \<Rightarrow> Addr list" where
  "scopedServiceAddressesForZone service zone =
    concat (map (\<lambda>ip. case addrFromSlice ip of
        None \<Rightarrow> []
      | Some a \<Rightarrow>
          (let b = addrUnmap a in
           [if addrIs6 b \<and> addrIsLinkLocalUnicast b \<and> zone \<noteq> [] then addrWithZone b zone else b]))
      (seAddrIPv4 service @ seAddrIPv6 service))"

definition scopedServiceAddresses :: "ServiceEntry \<Rightarrow> ZeroconfProvider \<Rightarrow> Addr list" where
  "scopedServiceAddresses service z =
    scopedServiceAddressesForZone service (case zcIfaces z of [i] \<Rightarrow> niName i | _ \<Rightarrow> [])"

text \<open>The order in which the map is traversed does not matter, as the addresses are sorted.\<close>

definition aggregateScopedServiceAddresses :: "scopeTable \<Rightarrow> Addr list" where
  "aggregateScopedServiceAddresses observations =
    sort (fold collectAddress (concat (map snd observations)) [])"

definition zcall :: "(bytes \<times> bytes) list \<Rightarrow> ServiceEntry \<Rightarrow> Addr list \<Rightarrow> bool \<Rightarrow> ZeroconfProvider \<Rightarrow> ZeroconfProvider" where
  "zcall el service addresses remove z =
    z\<lparr>zcCalls := zcCalls z @ [\<lparr>clElements = el, clName = seInstance service, clHost = seHostName service,
        clAddresses = addresses, clPort = sePort service, clRemove = remove\<rparr>]\<rparr>"

definition processScopedServiceForInterface ::
  "int \<Rightarrow> netIface \<Rightarrow> ServiceEntry \<Rightarrow> bool \<Rightarrow> ZeroconfProvider \<Rightarrow> ZeroconfProvider" where
  "processScopedServiceForInterface now iface service remove z =
    (let el = parseTxt (seText service);
         key = mdnsObservationKey (seInstance service) (seHostName service) (sePort service) el;
         scope = (niIndex iface, niName iface);
         observations = (case map_of (serviceObservations z) key of None \<Rightarrow> [] | Some t \<Rightarrow> t)
     in if remove then
          (if seExpiry service > now then
             (if observations = [] then z
              else zcall el service [] True (z\<lparr>serviceObservations := AList.delete key (serviceObservations z)\<rparr>))
           else if map_of observations scope = None then z
           else
             (let remaining = AList.delete scope observations in
              if remaining = [] then
                zcall el service [] True (z\<lparr>serviceObservations := AList.delete key (serviceObservations z)\<rparr>)
              else
                zcall el service (aggregateScopedServiceAddresses remaining) False
                  (z\<lparr>serviceObservations := AList.update key remaining (serviceObservations z)\<rparr>)))
        else
          (let updated = AList.update scope (scopedServiceAddressesForZone service (niName iface)) observations in
           zcall el service (aggregateScopedServiceAddresses updated) False
             (z\<lparr>serviceObservations := AList.update key updated (serviceObservations z)\<rparr>)))"

section \<open>Announcing\<close>

text \<open>\<open>Announce\<close>: the registration, the installation under \<open>mux\<close> and the shutdown of the server it replaces.\<close>

definition registerServer :: "bytes \<Rightarrow> int \<Rightarrow> bytes list \<Rightarrow> ZeroconfProvider \<Rightarrow> ZeroconfProvider" where
  "registerServer name port txt z =
    (let n = zcNext z;
         e = (if addrIsValid (zcAddress z) then ZcRegisterProxy n name port (zcHost z) (addrString (zcAddress z)) txt
              else ZcRegister n name port txt)
     in z\<lparr>zcNext := Suc n, zcInstalling := n # zcInstalling z, zcTrace := zcTrace z @ [e]\<rparr>)"

definition installServer :: "nat \<Rightarrow> ZeroconfProvider \<Rightarrow> ZeroconfProvider" where
  "installServer n z =
    z\<lparr>zcInstalling := remove1 n (zcInstalling z), zcServer := Some n,
      zcReplaced := (case zcServer z of None \<Rightarrow> zcReplaced z | Some p \<Rightarrow> p # zcReplaced z)\<rparr>"

definition shutdownServer :: "nat \<Rightarrow> ZeroconfProvider \<Rightarrow> ZeroconfProvider" where
  "shutdownServer n z = z\<lparr>zcTrace := zcTrace z @ [ZcServerShutdown n]\<rparr>"

definition shutdownReplaced :: "nat \<Rightarrow> ZeroconfProvider \<Rightarrow> ZeroconfProvider" where
  "shutdownReplaced n z = shutdownServer n (z\<lparr>zcReplaced := remove1 n (zcReplaced z)\<rparr>)"

definition zcUnannounce :: "ZeroconfProvider \<Rightarrow> ZeroconfProvider" where
  "zcUnannounce z = (case zcServer z of None \<Rightarrow> z | Some n \<Rightarrow> (shutdownServer n z)\<lparr>zcServer := None\<rparr>)"

section \<open>Browsing\<close>

definition zcStart :: "ZeroconfProvider \<Rightarrow> bool \<times> ZeroconfProvider" where
  "zcStart z =
    (case zcContext z of
       Some _ \<Rightarrow> (False, z)
     | None \<Rightarrow>
         (True, z\<lparr>zcContext := Some (zcNext z), zcNext := Suc (zcNext z), zcListeners := zcNext z # zcListeners z\<rparr>))"

definition browseInterfaces :: "netIface list \<Rightarrow> ZeroconfProvider \<Rightarrow> netIface list" where
  "browseInterfaces available z =
    (if zcIfaces z \<noteq> [] then zcIfaces z else filter (\<lambda>i. niUp i \<and> niMulticast i) available)"

text \<open>\<open>chanListener\<close>: it starts its browsers; it ends at once when it has none, and after the last one otherwise.\<close>

definition startBrowsers :: "nat \<Rightarrow> netIface list option \<Rightarrow> ZeroconfProvider \<Rightarrow> ZeroconfProvider" where
  "startBrowsers ctx available z =
    (case available of
       None \<Rightarrow> z\<lparr>zcListeners := remove1 ctx (zcListeners z)\<rparr>
     | Some av \<Rightarrow>
         (case browseInterfaces av z of
            [] \<Rightarrow> z\<lparr>zcListeners := remove1 ctx (zcListeners z)\<rparr>
          | ifaces \<Rightarrow> z\<lparr>zcBrowsers := map (Pair ctx) ifaces @ zcBrowsers z\<rparr>))"

text \<open>A browser skips entries without text.\<close>

definition browserReceives :: "int \<Rightarrow> netIface \<Rightarrow> ServiceEntry option \<Rightarrow> bool \<Rightarrow> ZeroconfProvider \<Rightarrow> ZeroconfProvider" where
  "browserReceives now iface service remove z =
    (case service of
       None \<Rightarrow> z
     | Some s \<Rightarrow> if seText s = [] then z else processScopedServiceForInterface now iface s remove z)"

definition browserEnds :: "nat \<Rightarrow> netIface \<Rightarrow> ZeroconfProvider \<Rightarrow> ZeroconfProvider" where
  "browserEnds ctx iface z =
    (let bs = remove1 (ctx, iface) (zcBrowsers z) in
     z\<lparr>zcBrowsers := bs,
       zcListeners := (if ctx \<in> fst ` set bs then zcListeners z else remove1 ctx (zcListeners z))\<rparr>)"

text \<open>\<open>Shutdown\<close>: after \<open>Unannounce\<close> it takes the context, waits for all listeners and clears the table.\<close>

definition zcShutdown :: "ZeroconfProvider \<Rightarrow> ZeroconfProvider" where
  "zcShutdown z = (zcUnannounce z)\<lparr>zcStopping := Suc (zcStopping z)\<rparr>"

definition zcCancel :: "ZeroconfProvider \<Rightarrow> ZeroconfProvider" where
  "zcCancel z = z\<lparr>zcStopping := zcStopping z - 1, zcContext := None, zcWaiting := Suc (zcWaiting z)\<rparr>"

definition zcCleared :: "ZeroconfProvider \<Rightarrow> ZeroconfProvider" where
  "zcCleared z = z\<lparr>zcWaiting := zcWaiting z - 1, serviceObservations := [], zcCalls := []\<rparr>"

section \<open>Interleaving\<close>

text \<open>A listener without browsers has not started them yet. A browser may end at any time, and may still
  receive a service after its context was cancelled.\<close>

inductive zc_step :: "ZeroconfProvider \<Rightarrow> ZeroconfProvider \<Rightarrow> bool" where
  zs_start: "zc_step z (snd (zcStart z))"
| zs_browse: "ctx \<in> set (zcListeners z) \<Longrightarrow> ctx \<notin> fst ` set (zcBrowsers z) \<Longrightarrow> zc_step z (startBrowsers ctx available z)"
| zs_receive: "(ctx, iface) \<in> set (zcBrowsers z) \<Longrightarrow> zc_step z (browserReceives now iface service remove z)"
| zs_ends: "(ctx, iface) \<in> set (zcBrowsers z) \<Longrightarrow> zc_step z (browserEnds ctx iface z)"
| zs_register: "zc_step z (registerServer name port txt z)"
| zs_install: "n \<in> set (zcInstalling z) \<Longrightarrow> zc_step z (installServer n z)"
| zs_replaced: "n \<in> set (zcReplaced z) \<Longrightarrow> zc_step z (shutdownReplaced n z)"
| zs_unannounce: "zc_step z (zcUnannounce z)"
| zs_shutdown: "zc_step z (zcShutdown z)"
| zs_cancel: "zcStopping z > 0 \<Longrightarrow> zc_step z (zcCancel z)"
| zs_cleared: "zcWaiting z > 0 \<Longrightarrow> zcListeners z = [] \<Longrightarrow> zc_step z (zcCleared z)"

section \<open>The table and the consumer\<close>

text \<open>The addresses observed for a key: the union over the interfaces.\<close>

definition scopeAddresses :: "scopeTable \<Rightarrow> Addr set" where
  "scopeAddresses t = (\<Union>(s, as) \<in> set t. set as)"

definition zcObserved :: "ZeroconfProvider \<Rightarrow> bytes \<rightharpoonup> Addr set" where
  "zcObserved z k = map_option scopeAddresses (map_of (serviceObservations z) k)"

definition zcFresh :: "ZeroconfProvider \<Rightarrow> bool" where
  "zcFresh z = (serviceObservations z = [] \<and> zcCalls z = [])"

lemma aggregate_set [simp]: "set (aggregateScopedServiceAddresses t) = scopeAddresses t"
  by (auto simp: aggregateScopedServiceAddresses_def collect_set scopeAddresses_def)

lemma aggregate_sorted: "sorted_wrt (<) (aggregateScopedServiceAddresses t)"
  by (simp add: aggregateScopedServiceAddresses_def strict_sorted_iff collect_distinct)

lemma zcObserved_update:
  "zcObserved (zcall el service as False (z\<lparr>serviceObservations := AList.update k t (serviceObservations z)\<rparr>))
    = (zcObserved z)(k := Some (scopeAddresses t))"
  "zcObserved (zcall el service as True (z\<lparr>serviceObservations := AList.delete k (serviceObservations z)\<rparr>))
    = (zcObserved z)(k := None)"
  by (simp_all add: zcObserved_def zcall_def fun_eq_iff update_conv delete_conv)

lemma zcCalls_call:
  "zcCalls (zcall el service as r z) = zcCalls z @ [\<lparr>clElements = el, clName = seInstance service,
     clHost = seHostName service, clAddresses = as, clPort = sePort service, clRemove = r\<rparr>]"
  by (simp add: zcall_def)

lemma scope_consumed:
  assumes "z' = processScopedServiceForInterface now iface service remove z"
  shows "z' = z \<or> (\<exists>c. zcCalls z' = zcCalls z @ [c] \<and> zcObserved z' = consume c (zcObserved z)
    \<and> sorted_wrt (<) (clAddresses c))"
proof -
  let ?el = "parseTxt (seText service)"
  let ?k = "mdnsObservationKey (seInstance service) (seHostName service) (sePort service) ?el"
  let ?told = "\<lambda>z'. \<exists>c. zcCalls z' = zcCalls z @ [c] \<and> zcObserved z' = consume c (zcObserved z) \<and> sorted_wrt (<) (clAddresses c)"
  have removed: "?told (zcall ?el service [] True (z\<lparr>serviceObservations := AList.delete ?k (serviceObservations z)\<rparr>))"
    by (simp add: zcCalls_call zcObserved_update consume_def callKey_def)
  have added: "?told (zcall ?el service (aggregateScopedServiceAddresses t) False
      (z\<lparr>serviceObservations := AList.update ?k t (serviceObservations z)\<rparr>))" for t
    by (simp add: zcCalls_call zcObserved_update consume_def callKey_def aggregate_sorted)
  have "z' = z \<or> z' = zcall ?el service [] True (z\<lparr>serviceObservations := AList.delete ?k (serviceObservations z)\<rparr>)
    \<or> (\<exists>t. z' = zcall ?el service (aggregateScopedServiceAddresses t) False
          (z\<lparr>serviceObservations := AList.update ?k t (serviceObservations z)\<rparr>))"
    unfolding assms processScopedServiceForInterface_def Let_def by auto
  then show ?thesis using removed added by (elim disjE exE) simp_all
qed

lemma receive_consumed:
  assumes "z' = browserReceives now iface service remove z"
  shows "z' = z \<or> (\<exists>c. zcCalls z' = zcCalls z @ [c] \<and> zcObserved z' = consume c (zcObserved z)
    \<and> sorted_wrt (<) (clAddresses c))"
  using scope_consumed [OF refl, of now iface _ remove z]
  by (auto simp: assms browserReceives_def split: option.split)

lemmas zc_defs = zcStart_def startBrowsers_def browserEnds_def registerServer_def installServer_def
  shutdownReplaced_def shutdownServer_def zcUnannounce_def zcShutdown_def zcCancel_def Let_def

lemma zc_step_observed:
  "zc_step z z' \<Longrightarrow>
    (zcCalls z' = zcCalls z \<and> serviceObservations z' = serviceObservations z)
    \<or> (\<exists>c. zcCalls z' = zcCalls z @ [c] \<and> zcObserved z' = consume c (zcObserved z) \<and> sorted_wrt (<) (clAddresses c))
    \<or> zcFresh z'"
proof (induction rule: zc_step.induct)
  case (zs_receive ctx iface z now service remove)
  then show ?case using receive_consumed [OF refl, of now iface service remove z] by auto
next
  case (zs_cleared z)
  then show ?case by (simp add: zcFresh_def zcCleared_def)
qed (auto simp: zc_defs split: option.splits list.splits)

interpretation zc: observation_source zcObserved zcCalls zc_step zcFresh "\<lambda>_. True"
proof
  show "zcFresh z \<Longrightarrow> zcObserved z = (\<lambda>_. None) \<and> zcCalls z = [] \<and> True" for z
    by (simp add: zcFresh_def zcObserved_def fun_eq_iff)
  show "zc_step z z' \<Longrightarrow> (zcCalls z' = zcCalls z \<and> zcObserved z' = zcObserved z)
      \<or> (\<exists>c. zcCalls z' = zcCalls z @ [c] \<and> zcObserved z' = consume c (zcObserved z)) \<or> zcFresh z'" for z z'
    using zc_step_observed [of z z'] by (auto simp: zcObserved_def fun_eq_iff)
qed simp

definition zcSound :: "ZeroconfProvider \<Rightarrow> bool" where
  "zcSound z = ((\<forall>c \<in> set (zcCalls z). sorted_wrt (<) (clAddresses c))
    \<and> (\<forall>k t. map_of (serviceObservations z) k = Some t \<longrightarrow> t \<noteq> []))"

lemma update_not_Nil [simp]: "AList.update k v t \<noteq> []"
  by (cases t) (auto split: if_splits)

lemma process_nonempty:
  "(\<forall>k t. map_of (serviceObservations z) k = Some t \<longrightarrow> t \<noteq> []) \<Longrightarrow>
   map_of (serviceObservations (processScopedServiceForInterface now iface service remove z)) k = Some t \<Longrightarrow> t \<noteq> []"
  by (auto simp: processScopedServiceForInterface_def Let_def zcall_def update_conv delete_conv split: if_splits)

lemma zc_step_nonempty:
  "zc_step z z' \<Longrightarrow> (\<forall>k t. map_of (serviceObservations z) k = Some t \<longrightarrow> t \<noteq> []) \<Longrightarrow>
   map_of (serviceObservations z') k = Some t \<Longrightarrow> t \<noteq> []"
proof (induction rule: zc_step.induct)
  case (zs_receive ctx iface z now service remove)
  then show ?case
    using process_nonempty [of z now iface _ remove k t]
    by (auto simp: browserReceives_def split: option.splits if_splits)
qed (auto simp: zc_defs zcCleared_def split: option.splits list.splits)

lemma zcSound_step: "zc_step z z' \<Longrightarrow> zcSound z \<Longrightarrow> zcSound z'"
  using zc_step_observed [of z z'] zc_step_nonempty [of z z'] unfolding zcSound_def zcFresh_def by fastforce

lemma zcSound_reachable: "zc_step\<^sup>*\<^sup>* z z' \<Longrightarrow> zcSound z \<Longrightarrow> zcSound z'"
  by (induction rule: rtranclp_induct) (auto intro: zcSound_step)


text \<open>A service seen on two interfaces, then lost on one of them.\<close>

definition zcEth :: netIface where
  "zcEth = \<lparr>niName = ''eth0'', niUp = True, niMulticast = True, niAddrs = None, niIndex = 1\<rparr>"

definition zcWlan :: netIface where
  "zcWlan = \<lparr>niName = ''wlan0'', niUp = True, niMulticast = True, niAddrs = None, niIndex = 2\<rparr>"

definition zcService :: "bytes \<Rightarrow> ServiceEntry" where
  "zcService ip = \<lparr>seInstance = ''n'', seHostName = ''h'', sePort = 4711, seText = [''ski=a''],
     seAddrIPv4 = [ip], seAddrIPv6 = [], seExpiry = 10\<rparr>"

definition zcIp :: "nat \<Rightarrow> bytes" where
  "zcIp n = map char_of [10, 0, 0, n]"

definition zcExample0 :: ZeroconfProvider where
  "zcExample0 = newScopedZeroconfProvider [zcEth, zcWlan] ''h'' AddrZero"

definition zcExample :: ZeroconfProvider where
  "zcExample =
    browserReceives 20 zcEth (Some (zcService (zcIp 1))) True
     (browserReceives 5 zcWlan (Some (zcService (zcIp 2))) False
       (browserReceives 5 zcEth (Some (zcService (zcIp 1))) False
         (startBrowsers 0 (Some []) (snd (zcStart zcExample0)))))"

lemma zcExample_reachable: "zc_step\<^sup>*\<^sup>* zcExample0 zcExample"
proof -
  define z1 where "z1 = snd (zcStart zcExample0)"
  define z2 where "z2 = startBrowsers 0 (Some []) z1"
  have b: "zcBrowsers z2 = [(0, zcEth), (0, zcWlan)]" unfolding z1_def z2_def by code_simp
  have keep: "zcBrowsers (browserReceives t i s r z) = zcBrowsers z" for t i s r z
    by (simp add: browserReceives_def processScopedServiceForInterface_def zcall_def Let_def split: option.split)
  have "zc_step zcExample0 z1" unfolding z1_def by (rule zs_start)
  moreover have "zc_step z1 z2" unfolding z2_def by (rule zs_browse) (unfold z1_def, code_simp+)
  ultimately have "zc_step\<^sup>*\<^sup>* zcExample0 z2" by simp
  moreover have r: "zc_step\<^sup>*\<^sup>* zcExample0 (browserReceives t i s r z)"
    if "zc_step\<^sup>*\<^sup>* zcExample0 z" "zcBrowsers z = [(0, zcEth), (0, zcWlan)]" "i = zcEth \<or> i = zcWlan" for z t i s r
    using that by (intro rtranclp.rtrancl_into_rtrancl [OF that(1) zs_receive [of 0]]) auto
  ultimately show ?thesis
    unfolding zcExample_def z1_def [symmetric] z2_def [symmetric] by (simp add: r b keep)
qed


section \<open>The announced servers\<close>

definition registrationsOf :: "nat \<Rightarrow> ZeroconfProvider \<Rightarrow> nat" where
  "registrationsOf n z =
    length (filter (\<lambda>e. case e of ZcRegister m _ _ _ \<Rightarrow> m = n | ZcRegisterProxy m _ _ _ _ _ \<Rightarrow> m = n | _ \<Rightarrow> False) (zcTrace z))"

definition shutdownsOf :: "nat \<Rightarrow> ZeroconfProvider \<Rightarrow> nat" where
  "shutdownsOf n z = count_list (zcTrace z) (ZcServerShutdown n)"

definition serverInv :: "nat \<Rightarrow> ZeroconfProvider \<Rightarrow> bool" where
  "serverInv n z = (registrationsOf n z
      = count_list (zcInstalling z) n + (if zcServer z = Some n then 1 else 0) + count_list (zcReplaced z) n + shutdownsOf n z
    \<and> registrationsOf n z \<le> 1 \<and> (zcNext z \<le> n \<longrightarrow> registrationsOf n z = 0))"

lemma serverInv_step: "zc_step z z' \<Longrightarrow> serverInv m z \<Longrightarrow> serverInv m z'"
proof (induction rule: zc_step.induct)
  case (zs_start z)
  then show ?case
    by (auto simp: serverInv_def zcStart_def registrationsOf_def shutdownsOf_def split: option.splits)
next
  case (zs_browse ctx z available)
  then show ?case
    by (auto simp: serverInv_def startBrowsers_def registrationsOf_def shutdownsOf_def split: option.splits list.splits)
next
  case (zs_receive ctx iface z now service remove)
  have "zcTrace (browserReceives now iface service remove z) = zcTrace z \<and> zcInstalling (browserReceives now iface service remove z) = zcInstalling z
    \<and> zcReplaced (browserReceives now iface service remove z) = zcReplaced z \<and> zcServer (browserReceives now iface service remove z) = zcServer z
    \<and> zcNext (browserReceives now iface service remove z) = zcNext z"
    by (simp add: browserReceives_def processScopedServiceForInterface_def zcall_def Let_def split: option.split)
  with zs_receive show ?case by (simp add: serverInv_def registrationsOf_def shutdownsOf_def)
next
  case (zs_ends ctx iface z)
  then show ?case by (simp add: serverInv_def browserEnds_def registrationsOf_def shutdownsOf_def Let_def)
next
  case (zs_register z name port items)
  then show ?case
    by (auto simp: serverInv_def registerServer_def registrationsOf_def shutdownsOf_def Let_def le_Suc_eq)
next
  case (zs_install n z)
  have "count_list (zcInstalling z) n \<noteq> 0" using zs_install(1) by (simp add: count_list_0_iff)
  with zs_install(2) show ?case
    by (auto simp: serverInv_def installServer_def registrationsOf_def shutdownsOf_def split: option.splits if_splits)
next
  case (zs_replaced n z)
  have "count_list (zcReplaced z) n \<noteq> 0" using zs_replaced(1) by (simp add: count_list_0_iff)
  with zs_replaced(2) show ?case
    by (auto simp: serverInv_def shutdownReplaced_def shutdownServer_def registrationsOf_def shutdownsOf_def)
next
  case (zs_unannounce z)
  then show ?case
    by (auto simp: serverInv_def zcUnannounce_def shutdownServer_def registrationsOf_def shutdownsOf_def split: option.splits)
next
  case (zs_shutdown z)
  then show ?case
    by (auto simp: serverInv_def zcShutdown_def zcUnannounce_def shutdownServer_def registrationsOf_def shutdownsOf_def split: option.splits)
next
  case (zs_cancel z)
  then show ?case by (simp add: serverInv_def zcCancel_def registrationsOf_def shutdownsOf_def)
next
  case (zs_cleared z)
  then show ?case by (simp add: serverInv_def zcCleared_def registrationsOf_def shutdownsOf_def)
qed

lemma serverInv_reachable: "zc_step\<^sup>*\<^sup>* z z' \<Longrightarrow> serverInv n z \<Longrightarrow> serverInv n z'"
  by (induction rule: rtranclp_induct) (auto intro: serverInv_step)

text \<open>C40: every announced server is shut down exactly once, except the current one. In every state of
  the zeroconf provider no server was shut down twice, and whenever no call of \<open>Announce\<close> is under way,
  the servers that are registered and not shut down are the one the provider holds, if any.\<close>

theorem zeroconf_server_once:
  assumes "zc_step\<^sup>*\<^sup>* (newScopedZeroconfProvider ifaces host address) z"
  shows "shutdownsOf n z \<le> 1
    \<and> (zcInstalling z = [] \<and> zcReplaced z = [] \<longrightarrow>
        (registrationsOf n z = 1 \<and> shutdownsOf n z = 0 \<longleftrightarrow> zcServer z = Some n))"
proof -
  have "serverInv n (newScopedZeroconfProvider ifaces host address)"
    by (simp add: serverInv_def newScopedZeroconfProvider_def NewZeroconfProvider_def registrationsOf_def shutdownsOf_def)
  then have i: "serverInv n z" by (rule serverInv_reachable [OF assms])
  show ?thesis
  proof (intro conjI impI)
    show "shutdownsOf n z \<le> 1" using i by (simp add: serverInv_def)
    assume "zcInstalling z = [] \<and> zcReplaced z = []"
    then have "registrationsOf n z = (if zcServer z = Some n then 1 else 0) + shutdownsOf n z" "registrationsOf n z \<le> 1"
      using i by (simp_all add: serverInv_def)
    then show "(registrationsOf n z = 1 \<and> shutdownsOf n z = 0) = (zcServer z = Some n)" by (auto split: if_splits)
  qed
qed

definition zcAnnounced :: ZeroconfProvider where
  "zcAnnounced = shutdownReplaced 0 (installServer 1 (registerServer ''s'' 4711 []
     (installServer 0 (registerServer ''s'' 4711 [] zcExample0))))"

lemma zcAnnounced_reachable: "zc_step\<^sup>*\<^sup>* zcExample0 zcAnnounced"
proof -
  let ?z1 = "registerServer ''s'' 4711 [] zcExample0"
  let ?z2 = "installServer 0 ?z1"
  let ?z3 = "registerServer ''s'' 4711 [] ?z2"
  let ?z4 = "installServer 1 ?z3"
  have "zc_step ?z1 ?z2" by (rule zs_install) code_simp
  moreover have "zc_step ?z3 ?z4" by (rule zs_install) code_simp
  moreover have "zc_step ?z4 zcAnnounced" unfolding zcAnnounced_def by (rule zs_replaced) code_simp
  ultimately show ?thesis
    using zs_register [of zcExample0 "''s''" 4711 "[]"] zs_register [of ?z2 "''s''" 4711 "[]"]
    by (meson converse_rtranclp_into_rtranclp rtranclp.rtrancl_refl)
qed

theorem zeroconf_server_once_witness:
  "zcServer zcAnnounced = Some 1 \<and> shutdownsOf 1 zcAnnounced = 0 \<and> shutdownsOf 0 zcAnnounced \<le> 1"
proof -
  have "zcServer zcAnnounced = Some 1" "zcInstalling zcAnnounced = [] \<and> zcReplaced zcAnnounced = []" by code_simp+
  then show ?thesis
    using zeroconf_server_once [OF zcAnnounced_reachable [unfolded zcExample0_def], of 1]
      zeroconf_server_once [OF zcAnnounced_reachable [unfolded zcExample0_def], of 0] by simp
qed

end
