(* ===== verification/Mdns_Avahi.thy ===== *)
theory Mdns_Avahi
  imports Mdns_Providers
begin

text \<open>
  The Avahi provider (\<open>src/mdns/avahi.go\<close>): connecting to the daemon, the listener goroutine, the
  table of observations per service, announcements, shutdown and reconnection.

  The client library and the daemon are outside the model: whether their calls succeed, what a service
  resolves to and the names of interfaces are arguments, and so are the services they report. \<open>mux\<close>
  makes the lifecycle operations atomic. The callback always belongs to the one manager that owns the
  provider. Browsers and entry groups are numbers.
\<close>

section \<open>State\<close>

text \<open>The fields of an \<open>avahi.Service\<close> that the code reads.\<close>

record avahiService =
  svInterface :: int
  svProtocol :: int
  svName :: bytes
  svType :: bytes
  svDomain :: bytes
  svHost :: bytes
  svAddress :: bytes
  svPort :: "16 word"
  svTxt :: "bytes list"

record mdnsServiceData =
  sdName :: bytes
  sdPort :: int
  sdTxt :: "bytes list"

record avahiServiceObservation =
  aoElements :: "(bytes \<times> bytes) list"
  aoName :: bytes
  aoHost :: bytes
  aoAddresses :: "Addr list"
  aoPort :: int

datatype avahiEvent =
    AvServerStart                       \<comment> \<open>\<open>Setup\<close> and \<open>Start\<close> of the client\<close>
  | AvServerShutdown
  | AvBrowserNew nat
  | AvBrowserFree nat
  | AvGroupNew nat
  | AvGroupCommit nat bytes int "bytes list"
  | AvGroupFree nat

datatype shutdownPhase = SdUnannounce | SdFinal

datatype reconnectPhase = RcCheck | RcWaiting | RcAnnounce

record AvahiProvider =
  ifaceIndexes :: "int list"
  avEntryGroup :: "nat option"
  avBrowser :: "nat option"
  autoReconnect :: bool
  manualShutdown :: bool
  setupSuccessful :: bool
  listenerRunning :: bool
  avServiceData :: "mdnsServiceData option"
  serviceElements :: "(bytes \<times> (bytes \<times> bytes) list) list"
  avObservations :: "(bytes \<times> avahiServiceObservation) list"
  avChannels :: bool                     \<comment> \<open>\<open>shutdownChan\<close>, \<open>addServiceChan\<close>, \<open>removeServiceChan\<close> are made\<close>
  avListeners :: nat                     \<comment> \<open>running \<open>chanListener\<close> goroutines\<close>
  avShutdowns :: "shutdownPhase list"    \<comment> \<open>\<open>Shutdown\<close> calls after their first region\<close>
  avReconnects :: "(mdnsServiceData option \<times> reconnectPhase) list"   \<comment> \<open>\<open>attemptReconnect\<close> goroutines\<close>
  avNext :: nat
  avCalls :: "mdnsCall list"
  avTrace :: "avahiEvent list"

definition NewAvahiProvider :: "int list \<Rightarrow> AvahiProvider" where
  "NewAvahiProvider indexes =
    \<lparr>ifaceIndexes = indexes, avEntryGroup = None, avBrowser = None, autoReconnect = False,
     manualShutdown = False, setupSuccessful = False, listenerRunning = False, avServiceData = None,
     serviceElements = [], avObservations = [], avChannels = False, avListeners = 0, avShutdowns = [],
     avReconnects = [], avNext = 0, avCalls = [], avTrace = []\<rparr>"

definition aemit :: "avahiEvent \<Rightarrow> AvahiProvider \<Rightarrow> AvahiProvider" where
  "aemit e a = a\<lparr>avTrace := avTrace a @ [e]\<rparr>"

section \<open>Observations\<close>

definition getServiceUniqueKey :: "avahiService \<Rightarrow> bytes" where
  "getServiceUniqueKey s =
    svName s @ ''-'' @ svType s @ ''-'' @ svDomain s @ ''-'' @ itoa (svProtocol s) @ ''-'' @ itoa (svInterface s)"

definition observationKeyOf :: "avahiServiceObservation \<Rightarrow> bytes" where
  "observationKeyOf o' = mdnsObservationKey (aoName o') (aoHost o') (aoPort o') (aoElements o')"

text \<open>The order in which the map is traversed does not matter, as the addresses are sorted.\<close>

definition observationAddressesLocked :: "avahiServiceObservation \<Rightarrow> AvahiProvider \<Rightarrow> Addr list" where
  "observationAddressesLocked reference a =
    sort_key addrString
      (fold collectAddress
        (concat (map (\<lambda>(k, v). if observationKeyOf v = observationKeyOf reference then aoAddresses v else [])
                     (avObservations a))) [])"

definition survivingObservationLocked ::
  "avahiServiceObservation \<Rightarrow> AvahiProvider \<Rightarrow> (avahiServiceObservation \<times> Addr list) option" where
  "survivingObservationLocked reference a =
    (case sort (map fst (filter (\<lambda>(k, v). observationKeyOf v = observationKeyOf reference) (avObservations a))) of
       [] \<Rightarrow> None
     | k # _ \<Rightarrow>
         (case map_of (avObservations a) k of
            None \<Rightarrow> None
          | Some survivor \<Rightarrow> Some (survivor, observationAddressesLocked survivor a)))"

datatype avahiError = InterfaceNotAllowed | ResolveFailed | UnusableAddress

definition acall :: "avahiServiceObservation \<Rightarrow> Addr list \<Rightarrow> bool \<Rightarrow> AvahiProvider \<Rightarrow> AvahiProvider" where
  "acall ob addresses remove a =
    a\<lparr>avCalls := avCalls a @ [\<lparr>clElements = aoElements ob, clName = aoName ob, clHost = aoHost ob,
        clAddresses = addresses, clPort = aoPort ob, clRemove = remove\<rparr>]\<rparr>"

definition processRemovedScopedService :: "avahiService \<Rightarrow> AvahiProvider \<Rightarrow> AvahiProvider" where
  "processRemovedScopedService service a =
    (let key = getServiceUniqueKey service in
     case map_of (avObservations a) key of
       None \<Rightarrow> a
     | Some observation \<Rightarrow>
         (let a1 = a\<lparr>serviceElements := AList.delete key (serviceElements a),
                     avObservations := AList.delete key (avObservations a)\<rparr>
          in case survivingObservationLocked observation a1 of
               Some (survivor, remaining) \<Rightarrow> acall survivor remaining False a1
             | None \<Rightarrow> acall observation [] True a1))"

definition processAddedScopedService :: "(int \<Rightarrow> bytes option) \<Rightarrow> avahiService \<Rightarrow> AvahiProvider \<Rightarrow> avahiError option \<times> AvahiProvider" where
  "processAddedScopedService interfaceName service a =
    (case parseAddr (svAddress service) of
       None \<Rightarrow> (Some UnusableAddress, a)
     | Some parsed \<Rightarrow>
         if addrIsUnspecified parsed then (Some UnusableAddress, a)
         else
           (let unmapped = addrUnmap parsed;
                address = (if addrIs6 unmapped \<and> addrIsLinkLocalUnicast unmapped then
                             (case interfaceName (svInterface service) of
                                Some zone \<Rightarrow> if zone \<noteq> [] then addrWithZone unmapped zone else unmapped
                              | None \<Rightarrow> unmapped)
                           else unmapped);
                el = parseTxt (svTxt service);
                observation = \<lparr>aoElements = el, aoName = svName service, aoHost = svHost service,
                               aoAddresses = [address], aoPort = uint (svPort service)\<rparr>;
                key = getServiceUniqueKey service;
                a1 = a\<lparr>serviceElements := AList.update key el (serviceElements a),
                       avObservations := AList.update key observation (avObservations a)\<rparr>
            in (None, acall observation (observationAddressesLocked observation a1) False a1)))"

text \<open>\<open>resolved\<close>: what \<open>ResolveService\<close> returns for an added service.\<close>

definition processScopedService ::
  "(int \<Rightarrow> bytes option) \<Rightarrow> avahiService option \<Rightarrow> avahiService \<Rightarrow> bool \<Rightarrow> AvahiProvider \<Rightarrow> avahiError option \<times> AvahiProvider" where
  "processScopedService interfaceName resolved service remove a =
    (if \<not> (ifaceIndexes a = [-1] \<or> svInterface service \<in> set (ifaceIndexes a)) then (Some InterfaceNotAllowed, a)
     else if remove then (None, processRemovedScopedService service a)
     else case resolved of
       None \<Rightarrow> (Some ResolveFailed, a)
     | Some s \<Rightarrow> processAddedScopedService interfaceName s a)"

section \<open>Life cycle\<close>

text \<open>How far the client gets: \<open>Setup\<close>, \<open>GetAPIVersion\<close> and \<open>ServiceBrowserNew\<close>.\<close>

datatype daemonAnswer = SetupFails | NoApiVersion | NoBrowser | BrowserReady

definition avStart :: "bool \<Rightarrow> daemonAnswer \<Rightarrow> AvahiProvider \<Rightarrow> bool \<times> AvahiProvider" where
  "avStart reconnect answer a =
    (let a1 = a\<lparr>autoReconnect := reconnect, manualShutdown := False\<rparr> in
     if answer = SetupFails then (False, a1)
     else
       (let a2 = aemit AvServerStart (a1\<lparr>setupSuccessful := True, avChannels := True\<rparr>) in
        if answer = NoApiVersion \<or> answer = NoBrowser then (False, aemit AvServerShutdown a2)
        else
          (let n = avNext a2;
               a3 = aemit (AvBrowserNew n)
                      (a2\<lparr>avBrowser := Some n, avNext := Suc n,
                          autoReconnect := (if reconnect then autoReconnect a2 else True)\<rparr>)
           in (True, if listenerRunning a3 then a3
                     else a3\<lparr>listenerRunning := True, avListeners := Suc (avListeners a3)\<rparr>))))"

text \<open>The first region of \<open>Shutdown\<close>: \<open>None\<close> when the send on \<open>shutdownChan\<close> has no receiver and blocks
  with \<open>mux\<close> held; the listener that receives it ends. The flag tells whether the call goes on.\<close>

definition shutdownFirst :: "AvahiProvider \<Rightarrow> (bool \<times> AvahiProvider) option" where
  "shutdownFirst a =
    (let a1 = a\<lparr>manualShutdown := True\<rparr> in
     if \<not> setupSuccessful a1 then Some (False, a1)
     else
       (let a2 = a1\<lparr>autoReconnect := False\<rparr>;
            closing = (\<lambda>b. (True, b\<lparr>listenerRunning := False, avChannels := False\<rparr>))
        in case avBrowser a2 of
             None \<Rightarrow> Some (closing a2)
           | Some n \<Rightarrow>
               (let a3 = (aemit (AvBrowserFree n) a2)\<lparr>avBrowser := None\<rparr> in
                if \<not> listenerRunning a3 then Some (closing a3)
                else if avListeners a3 = 0 \<or> \<not> avChannels a3 then None
                else Some (closing (a3\<lparr>avListeners := avListeners a3 - 1\<rparr>)))))"

definition avUnannounce :: "AvahiProvider \<Rightarrow> AvahiProvider" where
  "avUnannounce a =
    (let a1 = a\<lparr>avServiceData := None\<rparr> in
     case avEntryGroup a1 of None \<Rightarrow> a1 | Some g \<Rightarrow> (aemit (AvGroupFree g) a1)\<lparr>avEntryGroup := None\<rparr>)"

definition shutdownLast :: "AvahiProvider \<Rightarrow> AvahiProvider" where
  "shutdownLast a = (aemit AvServerShutdown a)\<lparr>avEntryGroup := None\<rparr>"

text \<open>How far an announcement gets: a new group, all services added, the commit.\<close>

datatype announceAnswer = NoGroup | AddFails | CommitFails | Committed

definition avAnnounce :: "announceAnswer \<Rightarrow> bytes \<Rightarrow> int \<Rightarrow> bytes list \<Rightarrow> AvahiProvider \<Rightarrow> bool \<times> AvahiProvider" where
  "avAnnounce answer name port items a =
    (let a1 = a\<lparr>avServiceData := Some \<lparr>sdName = name, sdPort = port, sdTxt = items\<rparr>\<rparr> in
     if answer = NoGroup then (False, a1)
     else
       (let g = avNext a1; a2 = aemit (AvGroupNew g) (a1\<lparr>avNext := Suc g\<rparr>) in
        if answer = CommitFails \<or> answer = AddFails \<and> ifaceIndexes a2 \<noteq> [] then (False, a2)
        else (True, (aemit (AvGroupCommit g name (port mod 65536) items) a2)\<lparr>avEntryGroup := Some g\<rparr>)))"

text \<open>\<open>avahiCallback\<close>; the goroutine it starts keeps the data of the announced service.\<close>

definition avahiCallback :: "bool \<Rightarrow> AvahiProvider \<Rightarrow> AvahiProvider" where
  "avahiCallback disconnected a =
    (if manualShutdown a \<or> \<not> autoReconnect a \<or> \<not> disconnected then a
     else a\<lparr>avReconnects := (avServiceData a, RcCheck) # avReconnects a\<rparr>)"

text \<open>One region of \<open>attemptReconnect\<close>: the check, the start after the timer, the announcement; the phase
  after it, \<open>None\<close> when the goroutine ends.\<close>

definition reconnectTurn ::
  "daemonAnswer \<Rightarrow> announceAnswer \<Rightarrow> mdnsServiceData option \<times> reconnectPhase \<Rightarrow> AvahiProvider \<Rightarrow> reconnectPhase option \<times> AvahiProvider" where
  "reconnectTurn answer announced t a =
    (case snd t of
       RcCheck \<Rightarrow> (if manualShutdown a then None else Some RcWaiting, a)
     | RcWaiting \<Rightarrow>
         (case avStart True answer a of
            (False, a1) \<Rightarrow> (Some RcCheck, a1)
          | (True, a1) \<Rightarrow> (if fst t = None then None else Some RcAnnounce, a1))
     | RcAnnounce \<Rightarrow>
         (case fst t of
            None \<Rightarrow> (None, a)
          | Some d \<Rightarrow> (None, snd (avAnnounce announced (sdName d) (sdPort d) (sdTxt d) a))))"

section \<open>Interleaving\<close>

text \<open>The listener handles one service at a time; the table is updated under \<open>muxEl\<close> before the callback.\<close>

inductive avahi_step :: "AvahiProvider \<Rightarrow> AvahiProvider \<Rightarrow> bool" where
  as_start: "avahi_step a (snd (avStart reconnect answer a))"
| as_receive: "avListeners a > 0 \<Longrightarrow> avChannels a \<Longrightarrow>
    avahi_step a (snd (processScopedService interfaceName resolved service remove a))"
| as_shutdown: "shutdownFirst a = Some (continues, a') \<Longrightarrow>
    avahi_step a (if continues then a'\<lparr>avShutdowns := SdUnannounce # avShutdowns a'\<rparr> else a')"
| as_shutdown_unannounce: "SdUnannounce \<in> set (avShutdowns a) \<Longrightarrow>
    avahi_step a ((avUnannounce a)\<lparr>avShutdowns := SdFinal # remove1 SdUnannounce (avShutdowns a)\<rparr>)"
| as_shutdown_last: "SdFinal \<in> set (avShutdowns a) \<Longrightarrow>
    avahi_step a ((shutdownLast a)\<lparr>avShutdowns := remove1 SdFinal (avShutdowns a)\<rparr>)"
| as_announce: "avahi_step a (snd (avAnnounce announced name port items a))"
| as_unannounce: "avahi_step a (avUnannounce a)"
| as_callback: "avahi_step a (avahiCallback disconnected a)"
| as_reconnect: "t \<in> set (avReconnects a) \<Longrightarrow> reconnectTurn answer announced t a = (next', a') \<Longrightarrow>
    avahi_step a (a'\<lparr>avReconnects := (case next' of None \<Rightarrow> [] | Some ph \<Rightarrow> [(fst t, ph)]) @ remove1 t (avReconnects a)\<rparr>)"

section \<open>The table and the consumer\<close>

text \<open>The addresses observed for a key: the union over the services that make up the observation.\<close>

definition servicesFor :: "bytes \<Rightarrow> AvahiProvider \<Rightarrow> avahiServiceObservation set" where
  "servicesFor k a = {v \<in> ran (map_of (avObservations a)). observationKeyOf v = k}"

definition avObserved :: "AvahiProvider \<Rightarrow> bytes \<rightharpoonup> Addr set" where
  "avObserved a k = (if servicesFor k a = {} then None else Some (\<Union>v \<in> servicesFor k a. set (aoAddresses v)))"

definition avFresh :: "AvahiProvider \<Rightarrow> bool" where
  "avFresh a = (avObservations a = [] \<and> avCalls a = [])"

definition avTable :: "AvahiProvider \<Rightarrow> bool" where
  "avTable a = distinct (map fst (avObservations a))"

text \<open>A step that does not turn a known service into a different observation.\<close>

definition steadyStep :: "AvahiProvider \<Rightarrow> AvahiProvider \<Rightarrow> bool" where
  "steadyStep a a' =
    (avahi_step a a' \<and> (\<forall>k v w. map_of (avObservations a) k = Some v \<longrightarrow> map_of (avObservations a') k = Some w \<longrightarrow>
       observationKeyOf v = observationKeyOf w))"

lemma servicesFor_list: "avTable a \<Longrightarrow> servicesFor k a = {v \<in> snd ` set (avObservations a). observationKeyOf v = k}"
  by (simp add: servicesFor_def avTable_def ran_distinct)

lemma observationAddresses_set:
  "avTable a \<Longrightarrow> set (observationAddressesLocked r a) = (\<Union>v \<in> servicesFor (observationKeyOf r) a. set (aoAddresses v))"
  by (force simp: observationAddressesLocked_def collect_set servicesFor_list split: if_splits)

lemma surviving_None:
  assumes "avTable a"
  shows "survivingObservationLocked r a = None \<longleftrightarrow> servicesFor (observationKeyOf r) a = {}"
proof -
  let ?xs = "map fst (filter (\<lambda>(k, v). observationKeyOf v = observationKeyOf r) (avObservations a))"
  have e: "servicesFor (observationKeyOf r) a = {} \<longleftrightarrow> ?xs = []"
    by (auto simp: servicesFor_list [OF assms] filter_empty_conv)
  show ?thesis
  proof (cases "sort ?xs")
    case Nil
    then have "set ?xs = {}" using set_sort [of "\<lambda>x. x" ?xs] by simp
    then have "?xs = []" by (simp only: set_empty)
    with Nil show ?thesis unfolding e by (simp add: survivingObservationLocked_def)
  next
    case (Cons k ks)
    then have "k \<in> set ?xs" using set_sort [of "\<lambda>x. x" ?xs] by (metis list.set_intros(1))
    then have "map_of (avObservations a) k \<noteq> None" by (auto simp: map_of_eq_None_iff)
    moreover have "?xs \<noteq> []" using Cons by (metis list.distinct(1) set_empty set_sort)
    ultimately show ?thesis using Cons unfolding e by (auto simp: survivingObservationLocked_def)
  qed
qed

lemma surviving_Some:
  assumes "avTable a" "survivingObservationLocked r a = Some (v, as)"
  shows "v \<in> servicesFor (observationKeyOf r) a" "as = observationAddressesLocked v a"
proof -
  let ?ks = "sort (map fst (filter (\<lambda>(k, v). observationKeyOf v = observationKeyOf r) (avObservations a)))"
  from assms(2) obtain k ks where k: "?ks = k # ks" "map_of (avObservations a) k = Some v" "as = observationAddressesLocked v a"
    by (auto simp: survivingObservationLocked_def split: list.splits option.splits)
  have "k \<in> set ?ks" using k(1) by (metis list.set_intros(1))
  then obtain w where "(k, w) \<in> set (avObservations a)" "observationKeyOf w = observationKeyOf r" by auto
  then have "w = v" using k(2) assms(1) by (auto simp: avTable_def)
  with \<open>observationKeyOf w = observationKeyOf r\<close> k(2) show "v \<in> servicesFor (observationKeyOf r) a"
    by (auto simp: servicesFor_def ranI)
  show "as = observationAddressesLocked v a" by (rule k(3))
qed

lemma ran_upd_filter:
  assumes "\<And>w. m k = Some w \<Longrightarrow> \<not> P w"
  shows "\<not> P v \<Longrightarrow> {x \<in> ran (m(k \<mapsto> v)). P x} = {x \<in> ran m. P x}"
    and "{x \<in> ran (m(k := None)). P x} = {x \<in> ran m. P x}"
proof -
  have k: "a \<noteq> k" if "m a = Some x" "P x" for a x using that assms by auto
  show "\<not> P v \<Longrightarrow> {x \<in> ran (m(k \<mapsto> v)). P x} = {x \<in> ran m. P x}"
    using k by (auto simp: ran_def split: if_splits)
  show "{x \<in> ran (m(k := None)). P x} = {x \<in> ran m. P x}"
    using k by (auto simp: ran_def split: if_splits)
qed

lemma servicesFor_update:
  assumes "\<And>w. map_of (avObservations a) k = Some w \<Longrightarrow> observationKeyOf w = observationKeyOf v"
    and "avObservations a' = AList.update k v (avObservations a)"
  shows "servicesFor K a' = (if K = observationKeyOf v then servicesFor K a' else servicesFor K a)"
  using assms(1) ran_upd_filter(1) [of "map_of (avObservations a)" k "\<lambda>x. observationKeyOf x = K" v]
  by (auto simp: servicesFor_def assms(2) update_conv')

lemma servicesFor_delete:
  assumes "map_of (avObservations a) k = Some v" "avObservations a' = AList.delete k (avObservations a)"
  shows "K \<noteq> observationKeyOf v \<Longrightarrow> servicesFor K a' = servicesFor K a"
  using assms(1) ran_upd_filter(2) [of "map_of (avObservations a)" k "\<lambda>x. observationKeyOf x = K"]
  by (auto simp: servicesFor_def assms(2) delete_conv')

lemma added_consumed:
  assumes "avTable a" "processAddedScopedService names s a = (e, a')"
    and "\<And>v w. map_of (avObservations a) (getServiceUniqueKey s) = Some v \<Longrightarrow>
      map_of (avObservations a') (getServiceUniqueKey s) = Some w \<Longrightarrow> observationKeyOf v = observationKeyOf w"
  shows "a' = a \<or> (\<exists>c. avCalls a' = avCalls a @ [c] \<and> avObserved a' = consume c (avObserved a))"
proof (cases "a' = a")
  case False
  let ?k = "getServiceUniqueKey s"
  from False obtain ob el where a': "a' = acall ob (observationAddressesLocked ob (a\<lparr>serviceElements := el,
      avObservations := AList.update ?k ob (avObservations a)\<rparr>)) False
      (a\<lparr>serviceElements := el, avObservations := AList.update ?k ob (avObservations a)\<rparr>)"
    using assms(2) by (auto simp: processAddedScopedService_def Let_def split: option.splits if_splits)
  let ?a = "a\<lparr>serviceElements := el, avObservations := AList.update ?k ob (avObservations a)\<rparr>"
  let ?c = "\<lparr>clElements = aoElements ob, clName = aoName ob, clHost = aoHost ob,
      clAddresses = observationAddressesLocked ob ?a, clPort = aoPort ob, clRemove = False\<rparr>"
  have t: "avTable ?a" using assms(1) by (simp add: avTable_def distinct_update)
  have o': "avObservations a' = AList.update ?k ob (avObservations a)" by (simp add: a' acall_def)
  then have s: "servicesFor K a' = (if K = observationKeyOf ob then servicesFor K a' else servicesFor K a)" for K
    using assms(3) by (intro servicesFor_update [of a ?k]) (auto simp: update_conv)
  have e: "servicesFor K a' = servicesFor K ?a" for K by (simp add: servicesFor_def o')
  have "ob \<in> servicesFor (observationKeyOf ob) a'" by (auto simp: servicesFor_def o' update_conv ran_def)
  then have "avObserved a' (observationKeyOf ob) = Some (set (observationAddressesLocked ob ?a))"
    by (auto simp: avObserved_def observationAddresses_set [OF t] e)
  moreover have "avObserved a' K = avObserved a K" if "K \<noteq> observationKeyOf ob" for K
    using s [of K] that by (simp add: avObserved_def)
  ultimately have "avObserved a' = consume ?c (avObserved a)"
    by (auto simp: consume_def callKey_def observationKeyOf_def fun_eq_iff)
  moreover have "avCalls a' = avCalls a @ [?c]" by (simp add: a' acall_def)
  ultimately show ?thesis by blast
qed simp

lemma removed_consumed:
  assumes "avTable a" "a' = processRemovedScopedService s a"
  shows "a' = a \<or> (\<exists>c. avCalls a' = avCalls a @ [c] \<and> avObserved a' = consume c (avObserved a))"
proof (cases "map_of (avObservations a) (getServiceUniqueKey s)")
  case None
  then show ?thesis by (simp add: assms(2) processRemovedScopedService_def)
next
  case (Some ob)
  let ?k = "getServiceUniqueKey s"
  let ?a = "a\<lparr>serviceElements := AList.delete ?k (serviceElements a), avObservations := AList.delete ?k (avObservations a)\<rparr>"
  have t: "avTable ?a" using assms(1) by (simp add: avTable_def distinct_delete)
  have d: "servicesFor K ?a = servicesFor K a" if "K \<noteq> observationKeyOf ob" for K
    using servicesFor_delete [OF Some, of ?a] that by simp
  show ?thesis
  proof (cases "survivingObservationLocked ob ?a")
    case None
    then have a': "a' = acall ob [] True ?a" using Some by (simp add: assms(2) processRemovedScopedService_def Let_def)
    have "servicesFor (observationKeyOf ob) ?a = {}" using None surviving_None [OF t] by simp
    then have "avObserved a' = consume \<lparr>clElements = aoElements ob, clName = aoName ob, clHost = aoHost ob,
        clAddresses = [], clPort = aoPort ob, clRemove = True\<rparr> (avObserved a)"
      using d by (auto simp: consume_def callKey_def observationKeyOf_def fun_eq_iff avObserved_def a' acall_def servicesFor_def)
    then show ?thesis by (auto simp: a' acall_def)
  next
    case (Some w)
    then obtain v as where v: "survivingObservationLocked ob ?a = Some (v, as)" by (cases w) auto
    then have a': "a' = acall v as False ?a"
      using \<open>map_of (avObservations a) ?k = Some ob\<close> by (simp add: assms(2) processRemovedScopedService_def Let_def)
    note w = surviving_Some [OF t v]
    have k: "observationKeyOf v = observationKeyOf ob" using w(1) by (simp add: servicesFor_def)
    have e: "servicesFor K a' = servicesFor K ?a" for K by (simp add: servicesFor_def a' acall_def)
    have "avObserved a' (observationKeyOf ob) = Some (set as)"
      using w(1) by (auto simp: avObserved_def e w(2) observationAddresses_set [OF t] k)
    moreover have "avObserved a' K = avObserved a K" if "K \<noteq> observationKeyOf ob" for K
      using d [OF that] by (simp add: avObserved_def e)
    ultimately have "avObserved a' = consume \<lparr>clElements = aoElements v, clName = aoName v, clHost = aoHost v,
        clAddresses = as, clPort = aoPort v, clRemove = False\<rparr> (avObserved a)"
      using k by (auto simp: consume_def callKey_def observationKeyOf_def fun_eq_iff)
    then show ?thesis by (auto simp: a' acall_def)
  qed
qed

lemma process_consumed:
  assumes "avTable a" "a' = snd (processScopedService names resolved s remove a)"
    and "\<And>k v w. map_of (avObservations a) k = Some v \<Longrightarrow> map_of (avObservations a') k = Some w \<Longrightarrow>
      observationKeyOf v = observationKeyOf w"
  shows "a' = a \<or> (\<exists>c. avCalls a' = avCalls a @ [c] \<and> avObserved a' = consume c (avObserved a))"
proof -
  consider "a' = a" | "a' = processRemovedScopedService s a" | r where "resolved = Some r" "a' = snd (processAddedScopedService names r a)"
    using assms(2) by (auto simp: processScopedService_def split: option.splits if_splits)
  then show ?thesis
  proof cases
    case 2
    then show ?thesis by (rule removed_consumed [OF assms(1)])
  next
    case 3
    then show ?thesis using added_consumed [OF assms(1), of names r] assms(3) by (metis prod.collapse)
  qed simp
qed

lemmas av_defs = avStart_def shutdownFirst_def avUnannounce_def shutdownLast_def avAnnounce_def avahiCallback_def
  aemit_def Let_def

lemma avStart_frame [simp]:
  "avCalls (snd (avStart r d a)) = avCalls a" "avObservations (snd (avStart r d a)) = avObservations a"
  "avShutdowns (snd (avStart r d a)) = avShutdowns a"
  by (auto simp: av_defs)

lemma avAnnounce_frame [simp]:
  "avCalls (snd (avAnnounce r n p i a)) = avCalls a" "avObservations (snd (avAnnounce r n p i a)) = avObservations a"
  "avListeners (snd (avAnnounce r n p i a)) = avListeners a" "listenerRunning (snd (avAnnounce r n p i a)) = listenerRunning a"
  "avBrowser (snd (avAnnounce r n p i a)) = avBrowser a" "avChannels (snd (avAnnounce r n p i a)) = avChannels a"
  "setupSuccessful (snd (avAnnounce r n p i a)) = setupSuccessful a"
  by (auto simp: av_defs)

lemma reconnectTurn_cases:
  assumes "reconnectTurn answer announced t a = (next', a')"
  obtains "a' = a" | "a' = snd (avStart True answer a)" | d :: mdnsServiceData where "a' = snd (avAnnounce announced (sdName d) (sdPort d) (sdTxt d) a)"
proof -
  have "a' = a \<or> a' = snd (avStart True answer a) \<or> (\<exists>d :: mdnsServiceData. a' = snd (avAnnounce announced (sdName d) (sdPort d) (sdTxt d) a))"
    using assms
    by (cases "snd t"; cases "fst t"; cases "avStart True answer a")
      (auto simp: reconnectTurn_def split: bool.splits if_splits)
  then show thesis using that by blast
qed

lemma process_frame:
  "avListeners (snd (processScopedService i r s rm a)) = avListeners a \<and> listenerRunning (snd (processScopedService i r s rm a)) = listenerRunning a
   \<and> avBrowser (snd (processScopedService i r s rm a)) = avBrowser a \<and> avChannels (snd (processScopedService i r s rm a)) = avChannels a
   \<and> setupSuccessful (snd (processScopedService i r s rm a)) = setupSuccessful a"
  by (auto simp: processScopedService_def processAddedScopedService_def processRemovedScopedService_def acall_def Let_def
      split: option.splits prod.splits)

text \<open>A step that is not a reception leaves the table and the calls alone.\<close>

lemma avahi_step_table:
  assumes "avahi_step a a'"
  obtains "avCalls a' = avCalls a" "avObservations a' = avObservations a"
  | names resolved s remove where "a' = snd (processScopedService names resolved s remove a)"
  using assms
proof (cases rule: avahi_step.cases)
  case (as_shutdown continues b)
  then show ?thesis by (intro that(1)) (auto simp: av_defs split: option.splits if_splits)
next
  case (as_reconnect t answer announced next' b)
  show ?thesis
    by (cases rule: reconnectTurn_cases [OF as_reconnect(3)]) (auto intro!: that(1) simp: as_reconnect(1))
qed (auto intro!: that(1) intro: that(2) simp: av_defs split: option.splits)

lemma process_table: "avTable a \<Longrightarrow> avTable (snd (processScopedService names resolved s remove a))"
  by (auto simp: avTable_def processScopedService_def processAddedScopedService_def processRemovedScopedService_def
      acall_def Let_def distinct_update distinct_delete split: option.splits prod.splits)

lemma avTable_step: "avahi_step a a' \<Longrightarrow> avTable a \<Longrightarrow> avTable a'"
  by (erule avahi_step_table) (auto simp: process_table, simp add: avTable_def)

interpretation av: observation_source avObserved avCalls steadyStep avFresh avTable
proof
  show "avFresh a \<Longrightarrow> avObserved a = (\<lambda>_. None) \<and> avCalls a = [] \<and> avTable a" for a
    by (simp add: avFresh_def avObserved_def servicesFor_def avTable_def fun_eq_iff)
  show "steadyStep a a' \<Longrightarrow> avTable a \<Longrightarrow> avTable a'" for a a'
    by (auto simp: steadyStep_def intro: avTable_step)
  fix a a'
  assume s: "steadyStep a a'" and t: "avTable a"
  from s have "avahi_step a a'" by (simp add: steadyStep_def)
  show "(avCalls a' = avCalls a \<and> avObserved a' = avObserved a)
      \<or> (\<exists>c. avCalls a' = avCalls a @ [c] \<and> avObserved a' = consume c (avObserved a)) \<or> avFresh a'"
  proof (cases rule: avahi_step_table [OF \<open>avahi_step a a'\<close>])
    case 1
    then show ?thesis by (simp add: avObserved_def servicesFor_def fun_eq_iff)
  next
    case (2 names resolved sv remove)
    then show ?thesis using process_consumed [OF t, of a' names resolved sv remove] s by (auto simp: steadyStep_def)
  qed
qed

text \<open>C13: the Avahi provider implements a set of observations per service and interface. As long as a
  service that is reported again has kept its name, host, port, SKI, identifier and path, what a consumer
  knows from all the calls is exactly the union, for every observation key, of the addresses of the
  services that make it up, through any number of starts, shutdowns and reconnections.\<close>

theorem avahi_view:
  assumes "steadyStep\<^sup>*\<^sup>* (NewAvahiProvider indexes) a"
  shows "consumed (avCalls a) = avObserved a"
proof -
  have "avFresh (NewAvahiProvider indexes)" by (simp add: avFresh_def NewAvahiProvider_def)
  from av.known [OF assms this] show ?thesis by simp
qed

section \<open>The listener and the shutdown\<close>

definition listenerInv :: "AvahiProvider \<Rightarrow> bool" where
  "listenerInv a = (avListeners a = (if listenerRunning a then 1 else 0)
    \<and> (listenerRunning a \<longrightarrow> avBrowser a \<noteq> None \<and> avChannels a \<and> setupSuccessful a))"

lemma listenerInv_start: "listenerInv a \<Longrightarrow> listenerInv (snd (avStart r d a))"
  by (auto simp: listenerInv_def av_defs)

lemma listenerInv_reconnects [simp]: "listenerInv (a\<lparr>avReconnects := r\<rparr>) = listenerInv a"
  by (simp add: listenerInv_def)

lemma listenerInv_step: "avahi_step a a' \<Longrightarrow> listenerInv a \<Longrightarrow> listenerInv a'"
proof (induction rule: avahi_step.induct)
  case (as_start a reconnect answer)
  then show ?case by (rule listenerInv_start)
next
  case (as_receive a names resolved service remove)
  then show ?case using process_frame [of names resolved service remove a] by (simp add: listenerInv_def)
next
  case (as_shutdown a continues a')
  then show ?case by (auto simp: listenerInv_def av_defs split: option.splits if_splits)
next
  case (as_reconnect t a answer announced next' a')
  show ?case
  proof (cases rule: reconnectTurn_cases [OF as_reconnect(2)])
    case 1
    then show ?thesis using as_reconnect(3) by simp
  next
    case 2
    then show ?thesis using listenerInv_start [OF as_reconnect(3)] by simp
  next
    case (3 d)
    then show ?thesis using as_reconnect(3) by (simp add: listenerInv_def)
  qed
qed (auto simp: listenerInv_def av_defs split: option.splits)

lemma listenerInv_reachable: "avahi_step\<^sup>*\<^sup>* a a' \<Longrightarrow> listenerInv a \<Longrightarrow> listenerInv a'"
  by (induction rule: rtranclp_induct) (auto intro: listenerInv_step)

text \<open>C39: a shutdown of the Avahi provider never blocks. In every state the provider can reach, through
  starts, failed starts, disconnections, reconnections and other shutdowns, at most one listener runs;
  a shutdown that has to stop it finds it receiving, and leaves no listener, no browser and no open
  channel behind.\<close>

theorem avahi_shutdown_unblocked:
  assumes "avahi_step\<^sup>*\<^sup>* (NewAvahiProvider indexes) a"
  shows "avListeners a \<le> 1
    \<and> (\<exists>continues a'. shutdownFirst a = Some (continues, a') \<and> avListeners a' = 0 \<and> \<not> listenerRunning a'
         \<and> (continues \<longrightarrow> avBrowser a' = None \<and> \<not> avChannels a' \<and> \<not> autoReconnect a'))"
proof -
  have "listenerInv (NewAvahiProvider indexes)" by (simp add: listenerInv_def NewAvahiProvider_def)
  then have "listenerInv a" by (rule listenerInv_reachable [OF assms])
  then show ?thesis by (auto simp: listenerInv_def av_defs split: option.splits if_splits)
qed

section \<open>Examples\<close>

text \<open>A running provider that announces a service and sees two addresses of a remote one.\<close>

definition avService :: "bytes \<Rightarrow> int \<Rightarrow> bytes \<Rightarrow> avahiService" where
  "avService address iface ski = \<lparr>svInterface = iface, svProtocol = 0, svName = ''n'', svType = ''_ship._tcp'',
     svDomain = ''local'', svHost = ''h'', svAddress = address, svPort = 4711, svTxt = [''ski='' @ ski]\<rparr>"

definition avKey :: "bytes \<Rightarrow> bytes" where
  "avKey ski = mdnsObservationKey ''n'' ''h'' 4711 [(''ski'', ski)]"

definition receives :: "avahiService \<Rightarrow> bool \<Rightarrow> AvahiProvider \<Rightarrow> AvahiProvider" where
  "receives s remove a = snd (processScopedService (\<lambda>_. None) (Some s) s remove a)"

definition avStarted :: AvahiProvider where
  "avStarted = snd (avStart False BrowserReady (NewAvahiProvider [-1]))"

definition avAnnounced :: AvahiProvider where
  "avAnnounced = snd (avAnnounce Committed ''s'' 4711 [''ski=b''] avStarted)"

definition avSeen :: AvahiProvider where
  "avSeen = receives (avService ''10.0.0.1'' 1 ''a'') True
     (receives (avService ''10.0.0.2'' 2 ''a'') False (receives (avService ''10.0.0.1'' 1 ''a'') False avStarted))"

lemma avStarted_reachable: "avahi_step (NewAvahiProvider [-1]) avStarted"
  unfolding avStarted_def by (rule as_start)

lemma avStarted_listens: "avListeners avStarted > 0 \<and> avChannels avStarted"
  by code_simp

lemma receives_listens:
  "avListeners (receives s remove a) = avListeners a \<and> avChannels (receives s remove a) = avChannels a"
  by (simp add: receives_def process_frame)

lemma receives_step: "avListeners a > 0 \<and> avChannels a \<Longrightarrow> avahi_step a (receives s remove a)"
  unfolding receives_def by (rule as_receive) simp_all

theorem avahi_view_witness:
  "consumed (avCalls avSeen) (avKey ''a'') = Some {Addr4 0x0A000002}"
proof -
  let ?a1 = "receives (avService ''10.0.0.1'' 1 ''a'') False avStarted"
  let ?a2 = "receives (avService ''10.0.0.2'' 2 ''a'') False ?a1"
  have o1: "avObservations ?a1 = [(getServiceUniqueKey (avService ''10.0.0.1'' 1 ''a''),
      \<lparr>aoElements = [(''ski'', ''a'')], aoName = ''n'', aoHost = ''h'', aoAddresses = [Addr4 0x0A000001], aoPort = 4711\<rparr>)]"
    by code_simp
  have o2: "avObservations ?a2 = avObservations ?a1 @ [(getServiceUniqueKey (avService ''10.0.0.2'' 2 ''a''),
      \<lparr>aoElements = [(''ski'', ''a'')], aoName = ''n'', aoHost = ''h'', aoAddresses = [Addr4 0x0A000002], aoPort = 4711\<rparr>)]"
    by code_simp
  have o3: "avObservations avSeen = [(getServiceUniqueKey (avService ''10.0.0.2'' 2 ''a''),
      \<lparr>aoElements = [(''ski'', ''a'')], aoName = ''n'', aoHost = ''h'', aoAddresses = [Addr4 0x0A000002], aoPort = 4711\<rparr>)]"
    by code_simp
  have o0: "avObservations avStarted = []" by code_simp
  have k: "observationKeyOf \<lparr>aoElements = [(''ski'', ''a'')], aoName = ''n'', aoHost = ''h'', aoAddresses = x, aoPort = 4711\<rparr> = avKey ''a''" for x
    by (simp add: observationKeyOf_def avKey_def)
  have "steadyStep (NewAvahiProvider [-1]) avStarted"
    by (simp add: steadyStep_def avStarted_reachable) (simp add: NewAvahiProvider_def)
  moreover have "steadyStep avStarted ?a1" using receives_step [OF avStarted_listens] by (simp add: steadyStep_def o0)
  moreover have "steadyStep ?a1 ?a2"
    using receives_step [of ?a1] avStarted_listens
    by (auto simp: steadyStep_def receives_listens o1 o2 k split: if_splits)
  moreover have "steadyStep ?a2 avSeen"
  proof -
    have "avahi_step ?a2 avSeen"
      using receives_step [of ?a2] avStarted_listens unfolding avSeen_def by (simp add: receives_listens)
    then show ?thesis by (auto simp: steadyStep_def o1 o2 o3 k split: if_splits)
  qed
  ultimately have "steadyStep\<^sup>*\<^sup>* (NewAvahiProvider [-1]) avSeen" by (meson converse_rtranclp_into_rtranclp rtranclp.rtrancl_refl)
  from avahi_view [OF this] show ?thesis
    by (auto simp: avObserved_def servicesFor_def o3 k ran_def split: if_splits)
qed

theorem avahi_shutdown_unblocked_witness:
  "avListeners avStarted = 1 \<and> (\<exists>continues a'. shutdownFirst avStarted = Some (continues, a') \<and> avListeners a' = 0)"
proof -
  have "avListeners avStarted = 1" by code_simp
  then show ?thesis using avahi_shutdown_unblocked [OF r_into_rtranclp [where r = avahi_step], OF avStarted_reachable] by blast
qed

section \<open>Where the provider falls short\<close>

text \<open>A disconnection is noticed and its goroutine waits for its timer; the provider is shut down completely.\<close>

definition avStopped :: AvahiProvider where
  "avStopped =
    (let a1 = avAnnounced\<lparr>avReconnects := [(avServiceData avAnnounced, RcWaiting)]\<rparr>;
         a2 = snd (the (shutdownFirst a1));
         a3 = avUnannounce a2
     in (shutdownLast a3)\<lparr>avShutdowns := []\<rparr>)"

definition avRevived :: AvahiProvider where
  "avRevived =
    (let d = \<lparr>sdName = ''s'', sdPort = 4711, sdTxt = [''ski=b'']\<rparr>;
         a1 = snd (reconnectTurn BrowserReady Committed (Some d, RcWaiting) avStopped)\<lparr>avReconnects := [(Some d, RcAnnounce)]\<rparr>
     in snd (reconnectTurn BrowserReady Committed (Some d, RcAnnounce) a1)\<lparr>avReconnects := []\<rparr>)"

lemma avStopped_reachable: "avahi_step\<^sup>*\<^sup>* (NewAvahiProvider [-1]) avStopped"
proof -
  let ?b1 = "avahiCallback True avAnnounced"
  let ?d = "avServiceData avAnnounced"
  let ?b2 = "avAnnounced\<lparr>avReconnects := [(?d, RcWaiting)]\<rparr>"
  have "avahi_step (NewAvahiProvider [-1]) avStarted" by (rule avStarted_reachable)
  moreover have "avahi_step avStarted avAnnounced" unfolding avAnnounced_def by (rule as_announce)
  moreover have "avahi_step avAnnounced ?b1" by (rule as_callback)
  moreover have "avahi_step ?b1 ?b2"
  proof -
    have r: "avReconnects ?b1 = [(?d, RcCheck)]" "avReconnects avAnnounced = []" "\<not> manualShutdown avAnnounced"
      "autoReconnect avAnnounced" by code_simp+
    then have t: "reconnectTurn BrowserReady Committed (?d, RcCheck) ?b1 = (Some RcWaiting, ?b1)"
      by (simp add: reconnectTurn_def avahiCallback_def)
    show ?thesis using as_reconnect [OF _ t] r by (simp add: avahiCallback_def)
  qed
  moreover obtain c where c: "shutdownFirst ?b2 = Some (True, c)" "avStopped = (shutdownLast (avUnannounce c))\<lparr>avShutdowns := []\<rparr>" "avShutdowns c = []"
  proof -
    have "case shutdownFirst ?b2 of Some (b, c) \<Rightarrow> b \<and> avShutdowns c = [] | None \<Rightarrow> False" by code_simp
    then show thesis using that by (auto simp: avStopped_def Let_def split: option.splits)
  qed
  moreover let ?c1 = "c\<lparr>avShutdowns := [SdUnannounce]\<rparr>"
  have "avahi_step ?b2 ?c1" using as_shutdown [OF c(1)] c(3) by simp
  moreover let ?c2 = "(avUnannounce c)\<lparr>avShutdowns := [SdFinal]\<rparr>"
  have "avahi_step ?c1 ?c2"
    using as_shutdown_unannounce [of ?c1] by (simp add: avUnannounce_def aemit_def Let_def split: option.splits)
  moreover have "avahi_step ?c2 avStopped"
    using as_shutdown_last [of ?c2] c(2,3)
    by (simp add: avUnannounce_def shutdownLast_def aemit_def Let_def split: option.splits)
  ultimately show ?thesis by (meson converse_rtranclp_into_rtranclp rtranclp.rtrancl_refl)
qed

text \<open>A reconnection that is waiting for its timer undoes a shutdown. The goroutine tests \<open>manualShutdown\<close>
  before its wait only, and \<open>start\<close> resets the flag: after \<open>Shutdown\<close> has returned, the client is set up
  again, a listener runs and the service is announced, although nobody started the provider.\<close>

theorem reconnect_undoes_shutdown:
  "avahi_step\<^sup>*\<^sup>* (NewAvahiProvider [-1]) avStopped \<and> manualShutdown avStopped \<and> avShutdowns avStopped = []
    \<and> avServiceData avStopped = None
    \<and> avahi_step\<^sup>*\<^sup>* avStopped avRevived
    \<and> drop (length (avTrace avStopped)) (avTrace avRevived)
        = [AvServerStart, AvBrowserNew 2, AvGroupNew 3, AvGroupCommit 3 ''s'' 4711 [''ski=b'']]
    \<and> avListeners avRevived = 1 \<and> \<not> manualShutdown avRevived"
proof -
  let ?d = "\<lparr>sdName = ''s'', sdPort = 4711, sdTxt = [''ski=b'']\<rparr>"
  have r: "avReconnects avStopped = [(Some ?d, RcWaiting)]" by code_simp
  obtain b where b: "reconnectTurn BrowserReady Committed (Some ?d, RcWaiting) avStopped = (Some RcAnnounce, b)"
    by (simp add: reconnectTurn_def avStart_def Let_def)
  obtain e where e: "reconnectTurn BrowserReady Committed (Some ?d, RcAnnounce) (b\<lparr>avReconnects := [(Some ?d, RcAnnounce)]\<rparr>) = (None, e)"
    by (simp add: reconnectTurn_def)
  have "avahi_step avStopped (b\<lparr>avReconnects := [(Some ?d, RcAnnounce)]\<rparr>)"
    using as_reconnect [OF _ b] r by simp
  moreover have "avahi_step (b\<lparr>avReconnects := [(Some ?d, RcAnnounce)]\<rparr>) avRevived"
    using as_reconnect [OF _ e] by (simp add: avRevived_def Let_def b e)
  ultimately have "avahi_step\<^sup>*\<^sup>* avStopped avRevived" by simp
  moreover have "manualShutdown avStopped" "avShutdowns avStopped = []" "avServiceData avStopped = None"
    "drop (length (avTrace avStopped)) (avTrace avRevived)
        = [AvServerStart, AvBrowserNew 2, AvGroupNew 3, AvGroupCommit 3 ''s'' 4711 [''ski=b'']]"
    "avListeners avRevived = 1" "\<not> manualShutdown avRevived" by code_simp+
  ultimately show ?thesis using avStopped_reachable by blast
qed

text \<open>Announcing again, as a change of the \<open>register\<close> element does, leaves the previous entry group
  committed for good: \<open>Unannounce\<close> and \<open>Shutdown\<close> free the last group only.\<close>

theorem reannounce_keeps_group:
  "(let a = shutdownLast (avUnannounce (snd (the (shutdownFirst
       (snd (avAnnounce Committed ''s'' 4711 [''register=true''] avAnnounced))))))
    in AvGroupCommit 1 ''s'' 4711 [''ski=b''] \<in> set (avTrace a) \<and> AvGroupFree 1 \<notin> set (avTrace a)
       \<and> AvGroupFree 2 \<in> set (avTrace a) \<and> avEntryGroup a = None)"
  by code_simp

text \<open>A service that comes back as a different observation without having been removed, as after a restart
  of the daemon, leaves the consumer with the old observation for ever: no later removal withdraws it.\<close>

theorem rekeyed_observation_stays:
  "(let a = receives (avService ''10.0.0.1'' 1 ''c'') True
         (receives (avService ''10.0.0.1'' 1 ''c'') False (receives (avService ''10.0.0.1'' 1 ''a'') False avStarted))
    in avObservations a = [] \<and> consumed (avCalls a) (avKey ''a'') = Some {Addr4 0x0A000001}
       \<and> consumed (avCalls a) (avKey ''c'') = None)"
proof -
  let ?a = "receives (avService ''10.0.0.1'' 1 ''c'') True
         (receives (avService ''10.0.0.1'' 1 ''c'') False (receives (avService ''10.0.0.1'' 1 ''a'') False avStarted))"
  let ?call = "\<lambda>ski as r. \<lparr>clElements = [(''ski'', ski)], clName = ''n'', clHost = ''h'', clAddresses = as, clPort = 4711, clRemove = r\<rparr>"
  have c: "avCalls ?a = [?call ''a'' [Addr4 0x0A000001] False, ?call ''c'' [Addr4 0x0A000001] False, ?call ''c'' [] True]"
    by code_simp
  have "avKey ''a'' \<noteq> avKey ''c''" "avObservations ?a = []" by code_simp+
  then show ?thesis unfolding Let_def c by (simp add: consumed_def consume_def callKey_def avKey_def)
qed

end
