(* ===== verification/Mdns_Pipeline.thy ===== *)
theory Mdns_Pipeline
  imports Mdns_Zeroconf Mdns_Avahi Mdns_Properties
begin

text \<open>
  The providers and the manager together: what the manager's table holds after it has been called by a
  provider, in terms of what the provider observes.
\<close>

definition deliver :: "(bytes \<Rightarrow> bytes) \<Rightarrow> mdnsCall \<Rightarrow> mdnsManager \<Rightarrow> mdnsManager" where
  "deliver mac c m =
    processScopedMdnsEntry mac (clElements c) (clName c) (clHost c) (clAddresses c) (clPort c) (clRemove c) m"

section \<open>Usable addresses\<close>

text \<open>The address the manager keeps for a reported one: unmapped, a zone exactly for IPv6 link-local.\<close>

definition usableAddress :: "Addr \<Rightarrow> Addr option" where
  "usableAddress address =
    (if \<not> addrIsValid address then None
     else
       (let a = addrUnmap address in
        if addrIs6 a \<and> addrIsLinkLocalUnicast a then (if addrZone a = [] then None else Some a)
        else Some (addrWithZone a [])))"

definition usable :: "Addr set \<Rightarrow> Addr set" where
  "usable A = {b. \<exists>a \<in> A. usableAddress a = Some b}"

lemma addrWithZone_zone [simp]: "addrZone a = [] \<Longrightarrow> addrWithZone a [] = a"
  by (cases a) auto

lemma normalizeMdnsAddress_set:
  "normalizeMdnsAddress a st = st' \<Longrightarrow>
    set (fst st') = set (fst st) \<union> (case usableAddress a of None \<Rightarrow> {} | Some b \<Rightarrow> {b})"
  by (cases st) (auto simp: normalizeMdnsAddress_def usableAddress_def Let_def split: if_splits)

lemma normalize_fold_set:
  "set (fst (fold normalizeMdnsAddress as st)) = set (fst st) \<union> usable (set as)"
proof (induction as arbitrary: st)
  case (Cons a as)
  then show ?case
    by (auto simp: normalizeMdnsAddress_set [OF refl] usable_def split: option.splits)
qed (simp add: usable_def)

lemma normalize_set: "set (fst (normalizeMdnsAddresses as)) = usable (set as)"
  by (simp add: normalizeMdnsAddresses_def normalize_fold_set)

section \<open>The manager follows its consumer's view\<close>

definition scopedOf :: "mdnsManager \<Rightarrow> bytes \<rightharpoonup> Addr set" where
  "scopedOf m k = map_option (\<lambda>e. set (meScopedAddresses e)) (map_of (mdnsEntries m) k)"

lemma report_frame [simp]:
  "mdnsEntries (reportEntries es cs b r m) = mdnsEntries m" "mmSki (reportEntries es cs b r m) = mmSki m"
  by (auto simp: reportEntries_def memit_def split: mdnsReporter.split)

lemma nextRef_frame [simp]:
  "mdnsEntries (nextCandidateRefLocked mac k m) = mdnsEntries m" "mmSki (nextCandidateRefLocked mac k m) = mmSki m"
  by (simp_all add: nextCandidateRefLocked_def Let_def)

lemma apply_scoped:
  assumes "applyObservation mac k n remove m = (u, m')"
  shows "scopedOf m' = (scopedOf m)(k := (if remove then None else Some (set (meScopedAddresses n))))" "mmSki m' = mmSki m"
  using assms
  by (auto simp: applyObservation_def scopedOf_def fun_eq_iff Let_def update_conv delete_conv entryChanged_def
      sameScopedIPList_def updateEntry_def split: option.splits if_splits)

lemma deliver_scoped:
  assumes "acceptedElements m (clElements c)"
  shows "scopedOf (deliver mac c m) = (scopedOf m)(callKey c := (if clRemove c then None else Some (usable (set (clAddresses c)))))"
    and "mmSki (deliver mac c m) = mmSki m"
proof -
  let ?n = "newEntry (clElements c) (clName c) (clHost c) (clPort c) (normalizeMdnsAddresses (clAddresses c))"
  obtain u m1 where a: "applyObservation mac (callKey c) ?n (clRemove c) m = (u, m1)" by fastforce
  have n: "set (meScopedAddresses ?n) = usable (set (clAddresses c))"
    by (simp add: newEntry_def normalize_set [symmetric] split: prod.split)
  have d: "mdnsEntries (deliver mac c m) = mdnsEntries m1" "mmSki (deliver mac c m) = mmSki m1"
    using assms a by (simp_all add: deliver_def processScopedMdnsEntry_def callKey_def Let_def split: prod.split if_split)
  show "scopedOf (deliver mac c m) = (scopedOf m)(callKey c := (if clRemove c then None else Some (usable (set (clAddresses c)))))"
    using apply_scoped(1) [OF a] n by (simp add: scopedOf_def d fun_eq_iff)
  show "mmSki (deliver mac c m) = mmSki m" using apply_scoped(2) [OF a] d by simp
qed

lemma delivered_scoped:
  assumes "\<forall>c \<in> set cs. acceptedElements m (clElements c)" "mdnsEntries m = []"
  shows "scopedOf (fold (deliver mac) cs m) k = map_option usable (consumed cs k)
    \<and> mmSki (fold (deliver mac) cs m) = mmSki m"
  using assms(1)
proof (induction cs rule: rev_induct)
  case Nil
  then show ?case using assms(2) by (simp add: scopedOf_def)
next
  case (snoc c cs)
  let ?m = "fold (deliver mac) cs m"
  have s: "scopedOf ?m k = map_option usable (consumed cs k)" "mmSki ?m = mmSki m" using snoc by auto
  then have "acceptedElements ?m (clElements c)" using snoc.prems by (simp add: acceptedElements_def)
  note d = deliver_scoped [OF this, of mac]
  show ?case using s d by (simp add: consume_def)
qed


text \<open>The manager of the examples and a zeroconf provider that sees the other hub on two interfaces.\<close>

definition pipelineService :: "bytes \<Rightarrow> ServiceEntry" where
  "pipelineService ip = \<lparr>seInstance = ''n'', seHostName = ''h'', sePort = 4711, seText = announceTxt exampleRemote,
     seAddrIPv4 = [ip], seAddrIPv6 = [], seExpiry = 10\<rparr>"

definition pipelineBrowsing :: ZeroconfProvider where
  "pipelineBrowsing = startBrowsers 0 (Some []) (snd (zcStart zcExample0))"

definition pipelineZeroconf :: ZeroconfProvider where
  "pipelineZeroconf =
    browserReceives 5 zcWlan (Some (pipelineService (zcIp 2))) False
      (browserReceives 5 zcEth (Some (pipelineService (zcIp 1))) False pipelineBrowsing)"

lemma pipelineZeroconf_reachable: "zc_step\<^sup>*\<^sup>* zcExample0 pipelineZeroconf"
proof -
  let ?z1 = "snd (zcStart zcExample0)"
  let ?z3 = "browserReceives 5 zcEth (Some (pipelineService (zcIp 1))) False pipelineBrowsing"
  have "zc_step zcExample0 ?z1" by (rule zs_start)
  moreover have "zc_step ?z1 pipelineBrowsing" unfolding pipelineBrowsing_def by (rule zs_browse) code_simp+
  moreover have b: "zcBrowsers pipelineBrowsing = [(0, zcEth), (0, zcWlan)]" by code_simp
  then have "zc_step pipelineBrowsing ?z3" by (intro zs_receive [of 0]) simp
  moreover have "zcBrowsers ?z3 = zcBrowsers pipelineBrowsing"
    by (simp add: browserReceives_def processScopedServiceForInterface_def zcall_def Let_def)
  then have "zc_step ?z3 pipelineZeroconf" using b unfolding pipelineZeroconf_def by (intro zs_receive [of 0]) simp
  ultimately show ?thesis by (meson converse_rtranclp_into_rtranclp rtranclp.rtrancl_refl)
qed

definition pipelineKey :: bytes where
  "pipelineKey = callKey (hd (zcCalls pipelineZeroconf))"


end
