(* ===== verification/Spec2Isabelle.thy ===== *)
theory Spec2Isabelle
  imports Ship_Recursion Ship_Phases Hub_Remotes Ws_Properties Mdns_Properties Hub_Callbacks Hub_Listener Mdns_Pipeline
begin

text \<open>A verification library for the SHIP implementation under \<open>src/\<close>.\<close>

end
